theory Spec2Isabelle
  imports Main "HOL-Library.Word"
begin

section \<open>Package metrics: the scope and metric tables\<close>

text \<open>
  The file declares its indices in \<^verbatim>\<open>const\<close> blocks numbered by \<^verbatim>\<open>iota\<close>: the
  \<open>k\<close>-th constant of a block (counting from 0) is the block's first expression with
  \<open>iota = k\<close>. Each constant below is written that way, as \<open>k\<close> or \<open>k + base\<close>.
\<close>

subsection \<open>Types\<close>

type_synonym MetricName = string
type_synonym MetricType = int
type_synonym ServiceIdx = int

record metricDefinition =
  metricType :: MetricType
  metricName :: MetricName
  metricRollupName :: MetricName
  buckets :: "int list option"

record scopeDefinition =
  operation :: string
  tags :: "string \<rightharpoonup> string"

subsection \<open>Metric types and service indices\<close>

definition Counter :: int where
  "Counter = 0"

definition Timer :: int where
  "Timer = 1"

definition Gauge :: int where
  "Gauge = 2"

definition Histogram :: int where
  "Histogram = 3"

definition Common :: int where
  "Common = 0"

definition Frontend :: int where
  "Frontend = 1"

definition History :: int where
  "History = 2"

definition Matching :: int where
  "Matching = 3"

definition Worker :: int where
  "Worker = 4"

definition NumServices :: int where
  "NumServices = 5"

subsection \<open>Tag names, tag values and base metric names\<close>

definition OperationTagName :: string where
  "OperationTagName = ''operation''"

definition CadenceRoleTagName :: string where
  "CadenceRoleTagName = ''cadence_role''"

definition CadenceServiceTagName :: string where
  "CadenceServiceTagName = ''cadence_service''"

definition StatsTypeTagName :: string where
  "StatsTypeTagName = ''stats_type''"

definition CacheTypeTagName :: string where
  "CacheTypeTagName = ''cache_type''"

definition HistoryClientRoleTagValue :: string where
  "HistoryClientRoleTagValue = ''history_client''"

definition MatchingClientRoleTagValue :: string where
  "MatchingClientRoleTagValue = ''matching_client''"

definition FrontendClientRoleTagValue :: string where
  "FrontendClientRoleTagValue = ''frontend_client''"

definition AdminClientRoleTagValue :: string where
  "AdminClientRoleTagValue = ''admin_client''"

definition DCRedirectionRoleTagValue :: string where
  "DCRedirectionRoleTagValue = ''dc_redirection''"

definition BlobstoreRoleTagValue :: string where
  "BlobstoreRoleTagValue = ''blobstore''"

definition SizeStatsTypeTagValue :: string where
  "SizeStatsTypeTagValue = ''size''"

definition CountStatsTypeTagValue :: string where
  "CountStatsTypeTagValue = ''count''"

definition MutableStateCacheTypeTagValue :: string where
  "MutableStateCacheTypeTagValue = ''mutablestate''"

definition EventsCacheTypeTagValue :: string where
  "EventsCacheTypeTagValue = ''events''"

definition RestartCount :: string where
  "RestartCount = ''restarts''"

definition NumGoRoutinesGauge :: string where
  "NumGoRoutinesGauge = ''num_goroutines''"

definition GoMaxProcsGauge :: string where
  "GoMaxProcsGauge = ''gomaxprocs''"

definition MemoryAllocatedGauge :: string where
  "MemoryAllocatedGauge = ''memory_allocated''"

definition MemoryHeapGauge :: string where
  "MemoryHeapGauge = ''memory_heap''"

definition MemoryHeapIdleGauge :: string where
  "MemoryHeapIdleGauge = ''memory_heapidle''"

definition MemoryHeapInuseGauge :: string where
  "MemoryHeapInuseGauge = ''memory_heapinuse''"

definition MemoryStackGauge :: string where
  "MemoryStackGauge = ''memory_stack''"

definition NumGCCounter :: string where
  "NumGCCounter = ''memory_num_gc''"

definition GcPauseMsTimer :: string where
  "GcPauseMsTimer = ''memory_gc_pause_ms''"

definition ServiceMetrics :: "MetricName \<rightharpoonup> MetricType" where
  "ServiceMetrics = map_of [(RestartCount, Counter)]"

definition GoRuntimeMetrics :: "MetricName \<rightharpoonup> MetricType" where
  "GoRuntimeMetrics = map_of [(NumGoRoutinesGauge, Gauge),
     (GoMaxProcsGauge, Gauge),
     (MemoryAllocatedGauge, Gauge),
     (MemoryHeapGauge, Gauge),
     (MemoryHeapIdleGauge, Gauge),
     (MemoryHeapInuseGauge, Gauge),
     (MemoryStackGauge, Gauge),
     (NumGCCounter, Counter),
     (GcPauseMsTimer, Timer)]"

subsection \<open>Scope indices\<close>

subsubsection \<open>Common operation scopes\<close>

definition PersistenceCreateShardScope :: int where
  "PersistenceCreateShardScope = 0"

definition PersistenceGetShardScope :: int where
  "PersistenceGetShardScope = 1"

definition PersistenceUpdateShardScope :: int where
  "PersistenceUpdateShardScope = 2"

definition PersistenceCreateWorkflowExecutionScope :: int where
  "PersistenceCreateWorkflowExecutionScope = 3"

definition PersistenceGetWorkflowExecutionScope :: int where
  "PersistenceGetWorkflowExecutionScope = 4"

definition PersistenceUpdateWorkflowExecutionScope :: int where
  "PersistenceUpdateWorkflowExecutionScope = 5"

definition PersistenceConflictResolveWorkflowExecutionScope :: int where
  "PersistenceConflictResolveWorkflowExecutionScope = 6"

definition PersistenceResetWorkflowExecutionScope :: int where
  "PersistenceResetWorkflowExecutionScope = 7"

definition PersistenceDeleteWorkflowExecutionScope :: int where
  "PersistenceDeleteWorkflowExecutionScope = 8"

definition PersistenceDeleteCurrentWorkflowExecutionScope :: int where
  "PersistenceDeleteCurrentWorkflowExecutionScope = 9"

definition PersistenceGetCurrentExecutionScope :: int where
  "PersistenceGetCurrentExecutionScope = 10"

definition PersistenceIsWorkflowExecutionExistsScope :: int where
  "PersistenceIsWorkflowExecutionExistsScope = 11"

definition PersistenceListCurrentExecutionsScope :: int where
  "PersistenceListCurrentExecutionsScope = 12"

definition PersistenceListConcreteExecutionsScope :: int where
  "PersistenceListConcreteExecutionsScope = 13"

definition PersistenceGetTransferTasksScope :: int where
  "PersistenceGetTransferTasksScope = 14"

definition PersistenceCompleteTransferTaskScope :: int where
  "PersistenceCompleteTransferTaskScope = 15"

definition PersistenceRangeCompleteTransferTaskScope :: int where
  "PersistenceRangeCompleteTransferTaskScope = 16"

definition PersistenceGetCrossClusterTasksScope :: int where
  "PersistenceGetCrossClusterTasksScope = 17"

definition PersistenceCompleteCrossClusterTaskScope :: int where
  "PersistenceCompleteCrossClusterTaskScope = 18"

definition PersistenceRangeCompleteCrossClusterTaskScope :: int where
  "PersistenceRangeCompleteCrossClusterTaskScope = 19"

definition PersistenceGetReplicationTasksScope :: int where
  "PersistenceGetReplicationTasksScope = 20"

definition PersistenceCompleteReplicationTaskScope :: int where
  "PersistenceCompleteReplicationTaskScope = 21"

definition PersistenceRangeCompleteReplicationTaskScope :: int where
  "PersistenceRangeCompleteReplicationTaskScope = 22"

definition PersistencePutReplicationTaskToDLQScope :: int where
  "PersistencePutReplicationTaskToDLQScope = 23"

definition PersistenceGetReplicationTasksFromDLQScope :: int where
  "PersistenceGetReplicationTasksFromDLQScope = 24"

definition PersistenceGetReplicationDLQSizeScope :: int where
  "PersistenceGetReplicationDLQSizeScope = 25"

definition PersistenceDeleteReplicationTaskFromDLQScope :: int where
  "PersistenceDeleteReplicationTaskFromDLQScope = 26"

definition PersistenceRangeDeleteReplicationTaskFromDLQScope :: int where
  "PersistenceRangeDeleteReplicationTaskFromDLQScope = 27"

definition PersistenceCreateFailoverMarkerTasksScope :: int where
  "PersistenceCreateFailoverMarkerTasksScope = 28"

definition PersistenceGetTimerIndexTasksScope :: int where
  "PersistenceGetTimerIndexTasksScope = 29"

definition PersistenceCompleteTimerTaskScope :: int where
  "PersistenceCompleteTimerTaskScope = 30"

definition PersistenceRangeCompleteTimerTaskScope :: int where
  "PersistenceRangeCompleteTimerTaskScope = 31"

definition PersistenceCreateTaskScope :: int where
  "PersistenceCreateTaskScope = 32"

definition PersistenceGetTasksScope :: int where
  "PersistenceGetTasksScope = 33"

definition PersistenceCompleteTaskScope :: int where
  "PersistenceCompleteTaskScope = 34"

definition PersistenceCompleteTasksLessThanScope :: int where
  "PersistenceCompleteTasksLessThanScope = 35"

definition PersistenceGetOrphanTasksScope :: int where
  "PersistenceGetOrphanTasksScope = 36"

definition PersistenceLeaseTaskListScope :: int where
  "PersistenceLeaseTaskListScope = 37"

definition PersistenceUpdateTaskListScope :: int where
  "PersistenceUpdateTaskListScope = 38"

definition PersistenceListTaskListScope :: int where
  "PersistenceListTaskListScope = 39"

definition PersistenceDeleteTaskListScope :: int where
  "PersistenceDeleteTaskListScope = 40"

definition PersistenceAppendHistoryEventsScope :: int where
  "PersistenceAppendHistoryEventsScope = 41"

definition PersistenceGetWorkflowExecutionHistoryScope :: int where
  "PersistenceGetWorkflowExecutionHistoryScope = 42"

definition PersistenceDeleteWorkflowExecutionHistoryScope :: int where
  "PersistenceDeleteWorkflowExecutionHistoryScope = 43"

definition PersistenceCreateDomainScope :: int where
  "PersistenceCreateDomainScope = 44"

definition PersistenceGetDomainScope :: int where
  "PersistenceGetDomainScope = 45"

definition PersistenceUpdateDomainScope :: int where
  "PersistenceUpdateDomainScope = 46"

definition PersistenceDeleteDomainScope :: int where
  "PersistenceDeleteDomainScope = 47"

definition PersistenceDeleteDomainByNameScope :: int where
  "PersistenceDeleteDomainByNameScope = 48"

definition PersistenceListDomainScope :: int where
  "PersistenceListDomainScope = 49"

definition PersistenceGetMetadataScope :: int where
  "PersistenceGetMetadataScope = 50"

definition PersistenceRecordWorkflowExecutionStartedScope :: int where
  "PersistenceRecordWorkflowExecutionStartedScope = 51"

definition PersistenceRecordWorkflowExecutionClosedScope :: int where
  "PersistenceRecordWorkflowExecutionClosedScope = 52"

definition PersistenceRecordWorkflowExecutionUninitializedScope :: int where
  "PersistenceRecordWorkflowExecutionUninitializedScope = 53"

definition PersistenceUpsertWorkflowExecutionScope :: int where
  "PersistenceUpsertWorkflowExecutionScope = 54"

definition PersistenceListOpenWorkflowExecutionsScope :: int where
  "PersistenceListOpenWorkflowExecutionsScope = 55"

definition PersistenceListClosedWorkflowExecutionsScope :: int where
  "PersistenceListClosedWorkflowExecutionsScope = 56"

definition PersistenceListOpenWorkflowExecutionsByTypeScope :: int where
  "PersistenceListOpenWorkflowExecutionsByTypeScope = 57"

definition PersistenceListClosedWorkflowExecutionsByTypeScope :: int where
  "PersistenceListClosedWorkflowExecutionsByTypeScope = 58"

definition PersistenceListOpenWorkflowExecutionsByWorkflowIDScope :: int where
  "PersistenceListOpenWorkflowExecutionsByWorkflowIDScope = 59"

definition PersistenceListClosedWorkflowExecutionsByWorkflowIDScope :: int where
  "PersistenceListClosedWorkflowExecutionsByWorkflowIDScope = 60"

definition PersistenceListClosedWorkflowExecutionsByStatusScope :: int where
  "PersistenceListClosedWorkflowExecutionsByStatusScope = 61"

definition PersistenceGetClosedWorkflowExecutionScope :: int where
  "PersistenceGetClosedWorkflowExecutionScope = 62"

definition PersistenceVisibilityDeleteWorkflowExecutionScope :: int where
  "PersistenceVisibilityDeleteWorkflowExecutionScope = 63"

definition PersistenceListWorkflowExecutionsScope :: int where
  "PersistenceListWorkflowExecutionsScope = 64"

definition PersistenceScanWorkflowExecutionsScope :: int where
  "PersistenceScanWorkflowExecutionsScope = 65"

definition PersistenceCountWorkflowExecutionsScope :: int where
  "PersistenceCountWorkflowExecutionsScope = 66"

definition PersistenceEnqueueMessageScope :: int where
  "PersistenceEnqueueMessageScope = 67"

definition PersistenceEnqueueMessageToDLQScope :: int where
  "PersistenceEnqueueMessageToDLQScope = 68"

definition PersistenceReadQueueMessagesScope :: int where
  "PersistenceReadQueueMessagesScope = 69"

definition PersistenceReadQueueMessagesFromDLQScope :: int where
  "PersistenceReadQueueMessagesFromDLQScope = 70"

definition PersistenceDeleteQueueMessagesScope :: int where
  "PersistenceDeleteQueueMessagesScope = 71"

definition PersistenceDeleteQueueMessageFromDLQScope :: int where
  "PersistenceDeleteQueueMessageFromDLQScope = 72"

definition PersistenceRangeDeleteMessagesFromDLQScope :: int where
  "PersistenceRangeDeleteMessagesFromDLQScope = 73"

definition PersistenceUpdateAckLevelScope :: int where
  "PersistenceUpdateAckLevelScope = 74"

definition PersistenceGetAckLevelScope :: int where
  "PersistenceGetAckLevelScope = 75"

definition PersistenceUpdateDLQAckLevelScope :: int where
  "PersistenceUpdateDLQAckLevelScope = 76"

definition PersistenceGetDLQAckLevelScope :: int where
  "PersistenceGetDLQAckLevelScope = 77"

definition PersistenceGetDLQSizeScope :: int where
  "PersistenceGetDLQSizeScope = 78"

definition PersistenceFetchDynamicConfigScope :: int where
  "PersistenceFetchDynamicConfigScope = 79"

definition PersistenceUpdateDynamicConfigScope :: int where
  "PersistenceUpdateDynamicConfigScope = 80"

definition HistoryClientStartWorkflowExecutionScope :: int where
  "HistoryClientStartWorkflowExecutionScope = 81"

definition HistoryClientDescribeHistoryHostScope :: int where
  "HistoryClientDescribeHistoryHostScope = 82"

definition HistoryClientRemoveTaskScope :: int where
  "HistoryClientRemoveTaskScope = 83"

definition HistoryClientCloseShardScope :: int where
  "HistoryClientCloseShardScope = 84"

definition HistoryClientResetQueueScope :: int where
  "HistoryClientResetQueueScope = 85"

definition HistoryClientDescribeQueueScope :: int where
  "HistoryClientDescribeQueueScope = 86"

definition HistoryClientRecordActivityTaskHeartbeatScope :: int where
  "HistoryClientRecordActivityTaskHeartbeatScope = 87"

definition HistoryClientRespondDecisionTaskCompletedScope :: int where
  "HistoryClientRespondDecisionTaskCompletedScope = 88"

definition HistoryClientRespondDecisionTaskFailedScope :: int where
  "HistoryClientRespondDecisionTaskFailedScope = 89"

definition HistoryClientRespondActivityTaskCompletedScope :: int where
  "HistoryClientRespondActivityTaskCompletedScope = 90"

definition HistoryClientRespondActivityTaskFailedScope :: int where
  "HistoryClientRespondActivityTaskFailedScope = 91"

definition HistoryClientRespondActivityTaskCanceledScope :: int where
  "HistoryClientRespondActivityTaskCanceledScope = 92"

definition HistoryClientDescribeMutableStateScope :: int where
  "HistoryClientDescribeMutableStateScope = 93"

definition HistoryClientGetMutableStateScope :: int where
  "HistoryClientGetMutableStateScope = 94"

definition HistoryClientPollMutableStateScope :: int where
  "HistoryClientPollMutableStateScope = 95"

definition HistoryClientResetStickyTaskListScope :: int where
  "HistoryClientResetStickyTaskListScope = 96"

definition HistoryClientDescribeWorkflowExecutionScope :: int where
  "HistoryClientDescribeWorkflowExecutionScope = 97"

definition HistoryClientRecordDecisionTaskStartedScope :: int where
  "HistoryClientRecordDecisionTaskStartedScope = 98"

definition HistoryClientRecordActivityTaskStartedScope :: int where
  "HistoryClientRecordActivityTaskStartedScope = 99"

definition HistoryClientRequestCancelWorkflowExecutionScope :: int where
  "HistoryClientRequestCancelWorkflowExecutionScope = 100"

definition HistoryClientSignalWorkflowExecutionScope :: int where
  "HistoryClientSignalWorkflowExecutionScope = 101"

definition HistoryClientSignalWithStartWorkflowExecutionScope :: int where
  "HistoryClientSignalWithStartWorkflowExecutionScope = 102"

definition HistoryClientRemoveSignalMutableStateScope :: int where
  "HistoryClientRemoveSignalMutableStateScope = 103"

definition HistoryClientTerminateWorkflowExecutionScope :: int where
  "HistoryClientTerminateWorkflowExecutionScope = 104"

definition HistoryClientResetWorkflowExecutionScope :: int where
  "HistoryClientResetWorkflowExecutionScope = 105"

definition HistoryClientScheduleDecisionTaskScope :: int where
  "HistoryClientScheduleDecisionTaskScope = 106"

definition HistoryClientRecordChildExecutionCompletedScope :: int where
  "HistoryClientRecordChildExecutionCompletedScope = 107"

definition HistoryClientReplicateEventsV2Scope :: int where
  "HistoryClientReplicateEventsV2Scope = 108"

definition HistoryClientSyncShardStatusScope :: int where
  "HistoryClientSyncShardStatusScope = 109"

definition HistoryClientSyncActivityScope :: int where
  "HistoryClientSyncActivityScope = 110"

definition HistoryClientGetReplicationTasksScope :: int where
  "HistoryClientGetReplicationTasksScope = 111"

definition HistoryClientGetDLQReplicationTasksScope :: int where
  "HistoryClientGetDLQReplicationTasksScope = 112"

definition HistoryClientQueryWorkflowScope :: int where
  "HistoryClientQueryWorkflowScope = 113"

definition HistoryClientReapplyEventsScope :: int where
  "HistoryClientReapplyEventsScope = 114"

definition HistoryClientCountDLQMessagesScope :: int where
  "HistoryClientCountDLQMessagesScope = 115"

definition HistoryClientReadDLQMessagesScope :: int where
  "HistoryClientReadDLQMessagesScope = 116"

definition HistoryClientPurgeDLQMessagesScope :: int where
  "HistoryClientPurgeDLQMessagesScope = 117"

definition HistoryClientMergeDLQMessagesScope :: int where
  "HistoryClientMergeDLQMessagesScope = 118"

definition HistoryClientRefreshWorkflowTasksScope :: int where
  "HistoryClientRefreshWorkflowTasksScope = 119"

definition HistoryClientNotifyFailoverMarkersScope :: int where
  "HistoryClientNotifyFailoverMarkersScope = 120"

definition HistoryClientGetCrossClusterTasksScope :: int where
  "HistoryClientGetCrossClusterTasksScope = 121"

definition HistoryClientRespondCrossClusterTasksCompletedScope :: int where
  "HistoryClientRespondCrossClusterTasksCompletedScope = 122"

definition HistoryClientGetFailoverInfoScope :: int where
  "HistoryClientGetFailoverInfoScope = 123"

definition MatchingClientPollForDecisionTaskScope :: int where
  "MatchingClientPollForDecisionTaskScope = 124"

definition MatchingClientPollForActivityTaskScope :: int where
  "MatchingClientPollForActivityTaskScope = 125"

definition MatchingClientAddActivityTaskScope :: int where
  "MatchingClientAddActivityTaskScope = 126"

definition MatchingClientAddDecisionTaskScope :: int where
  "MatchingClientAddDecisionTaskScope = 127"

definition MatchingClientQueryWorkflowScope :: int where
  "MatchingClientQueryWorkflowScope = 128"

definition MatchingClientRespondQueryTaskCompletedScope :: int where
  "MatchingClientRespondQueryTaskCompletedScope = 129"

definition MatchingClientCancelOutstandingPollScope :: int where
  "MatchingClientCancelOutstandingPollScope = 130"

definition MatchingClientDescribeTaskListScope :: int where
  "MatchingClientDescribeTaskListScope = 131"

definition MatchingClientListTaskListPartitionsScope :: int where
  "MatchingClientListTaskListPartitionsScope = 132"

definition MatchingClientGetTaskListsByDomainScope :: int where
  "MatchingClientGetTaskListsByDomainScope = 133"

definition FrontendClientDeprecateDomainScope :: int where
  "FrontendClientDeprecateDomainScope = 134"

definition FrontendClientDescribeDomainScope :: int where
  "FrontendClientDescribeDomainScope = 135"

definition FrontendClientDescribeTaskListScope :: int where
  "FrontendClientDescribeTaskListScope = 136"

definition FrontendClientDescribeWorkflowExecutionScope :: int where
  "FrontendClientDescribeWorkflowExecutionScope = 137"

definition FrontendClientGetWorkflowExecutionHistoryScope :: int where
  "FrontendClientGetWorkflowExecutionHistoryScope = 138"

definition FrontendClientGetWorkflowExecutionRawHistoryScope :: int where
  "FrontendClientGetWorkflowExecutionRawHistoryScope = 139"

definition FrontendClientPollForWorkflowExecutionRawHistoryScope :: int where
  "FrontendClientPollForWorkflowExecutionRawHistoryScope = 140"

definition FrontendClientListArchivedWorkflowExecutionsScope :: int where
  "FrontendClientListArchivedWorkflowExecutionsScope = 141"

definition FrontendClientListClosedWorkflowExecutionsScope :: int where
  "FrontendClientListClosedWorkflowExecutionsScope = 142"

definition FrontendClientListDomainsScope :: int where
  "FrontendClientListDomainsScope = 143"

definition FrontendClientListOpenWorkflowExecutionsScope :: int where
  "FrontendClientListOpenWorkflowExecutionsScope = 144"

definition FrontendClientPollForActivityTaskScope :: int where
  "FrontendClientPollForActivityTaskScope = 145"

definition FrontendClientPollForDecisionTaskScope :: int where
  "FrontendClientPollForDecisionTaskScope = 146"

definition FrontendClientQueryWorkflowScope :: int where
  "FrontendClientQueryWorkflowScope = 147"

definition FrontendClientRecordActivityTaskHeartbeatScope :: int where
  "FrontendClientRecordActivityTaskHeartbeatScope = 148"

definition FrontendClientRecordActivityTaskHeartbeatByIDScope :: int where
  "FrontendClientRecordActivityTaskHeartbeatByIDScope = 149"

definition FrontendClientRegisterDomainScope :: int where
  "FrontendClientRegisterDomainScope = 150"

definition FrontendClientRequestCancelWorkflowExecutionScope :: int where
  "FrontendClientRequestCancelWorkflowExecutionScope = 151"

definition FrontendClientResetStickyTaskListScope :: int where
  "FrontendClientResetStickyTaskListScope = 152"

definition FrontendClientRefreshWorkflowTasksScope :: int where
  "FrontendClientRefreshWorkflowTasksScope = 153"

definition FrontendClientResetWorkflowExecutionScope :: int where
  "FrontendClientResetWorkflowExecutionScope = 154"

definition FrontendClientRespondActivityTaskCanceledScope :: int where
  "FrontendClientRespondActivityTaskCanceledScope = 155"

definition FrontendClientRespondActivityTaskCanceledByIDScope :: int where
  "FrontendClientRespondActivityTaskCanceledByIDScope = 156"

definition FrontendClientRespondActivityTaskCompletedScope :: int where
  "FrontendClientRespondActivityTaskCompletedScope = 157"

definition FrontendClientRespondActivityTaskCompletedByIDScope :: int where
  "FrontendClientRespondActivityTaskCompletedByIDScope = 158"

definition FrontendClientRespondActivityTaskFailedScope :: int where
  "FrontendClientRespondActivityTaskFailedScope = 159"

definition FrontendClientRespondActivityTaskFailedByIDScope :: int where
  "FrontendClientRespondActivityTaskFailedByIDScope = 160"

definition FrontendClientRespondDecisionTaskCompletedScope :: int where
  "FrontendClientRespondDecisionTaskCompletedScope = 161"

definition FrontendClientRespondDecisionTaskFailedScope :: int where
  "FrontendClientRespondDecisionTaskFailedScope = 162"

definition FrontendClientRespondQueryTaskCompletedScope :: int where
  "FrontendClientRespondQueryTaskCompletedScope = 163"

definition FrontendClientSignalWithStartWorkflowExecutionScope :: int where
  "FrontendClientSignalWithStartWorkflowExecutionScope = 164"

definition FrontendClientSignalWorkflowExecutionScope :: int where
  "FrontendClientSignalWorkflowExecutionScope = 165"

definition FrontendClientStartWorkflowExecutionScope :: int where
  "FrontendClientStartWorkflowExecutionScope = 166"

definition FrontendClientTerminateWorkflowExecutionScope :: int where
  "FrontendClientTerminateWorkflowExecutionScope = 167"

definition FrontendClientUpdateDomainScope :: int where
  "FrontendClientUpdateDomainScope = 168"

definition FrontendClientListWorkflowExecutionsScope :: int where
  "FrontendClientListWorkflowExecutionsScope = 169"

definition FrontendClientScanWorkflowExecutionsScope :: int where
  "FrontendClientScanWorkflowExecutionsScope = 170"

definition FrontendClientCountWorkflowExecutionsScope :: int where
  "FrontendClientCountWorkflowExecutionsScope = 171"

definition FrontendClientGetSearchAttributesScope :: int where
  "FrontendClientGetSearchAttributesScope = 172"

definition FrontendClientGetReplicationTasksScope :: int where
  "FrontendClientGetReplicationTasksScope = 173"

definition FrontendClientGetDomainReplicationTasksScope :: int where
  "FrontendClientGetDomainReplicationTasksScope = 174"

definition FrontendClientGetDLQReplicationTasksScope :: int where
  "FrontendClientGetDLQReplicationTasksScope = 175"

definition FrontendClientReapplyEventsScope :: int where
  "FrontendClientReapplyEventsScope = 176"

definition FrontendClientGetClusterInfoScope :: int where
  "FrontendClientGetClusterInfoScope = 177"

definition FrontendClientListTaskListPartitionsScope :: int where
  "FrontendClientListTaskListPartitionsScope = 178"

definition FrontendClientGetTaskListsByDomainScope :: int where
  "FrontendClientGetTaskListsByDomainScope = 179"

definition AdminClientAddSearchAttributeScope :: int where
  "AdminClientAddSearchAttributeScope = 180"

definition AdminClientCloseShardScope :: int where
  "AdminClientCloseShardScope = 181"

definition AdminClientRemoveTaskScope :: int where
  "AdminClientRemoveTaskScope = 182"

definition AdminClientResetQueueScope :: int where
  "AdminClientResetQueueScope = 183"

definition AdminClientDescribeQueueScope :: int where
  "AdminClientDescribeQueueScope = 184"

definition AdminClientDescribeHistoryHostScope :: int where
  "AdminClientDescribeHistoryHostScope = 185"

definition AdminClientDescribeShardDistributionScope :: int where
  "AdminClientDescribeShardDistributionScope = 186"

definition AdminClientDescribeWorkflowExecutionScope :: int where
  "AdminClientDescribeWorkflowExecutionScope = 187"

definition AdminClientGetWorkflowExecutionRawHistoryV2Scope :: int where
  "AdminClientGetWorkflowExecutionRawHistoryV2Scope = 188"

definition AdminClientDescribeClusterScope :: int where
  "AdminClientDescribeClusterScope = 189"

definition AdminClientCountDLQMessagesScope :: int where
  "AdminClientCountDLQMessagesScope = 190"

definition AdminClientReadDLQMessagesScope :: int where
  "AdminClientReadDLQMessagesScope = 191"

definition AdminClientPurgeDLQMessagesScope :: int where
  "AdminClientPurgeDLQMessagesScope = 192"

definition AdminClientMergeDLQMessagesScope :: int where
  "AdminClientMergeDLQMessagesScope = 193"

definition AdminClientRefreshWorkflowTasksScope :: int where
  "AdminClientRefreshWorkflowTasksScope = 194"

definition AdminClientResendReplicationTasksScope :: int where
  "AdminClientResendReplicationTasksScope = 195"

definition AdminClientGetCrossClusterTasksScope :: int where
  "AdminClientGetCrossClusterTasksScope = 196"

definition AdminClientRespondCrossClusterTasksCompletedScope :: int where
  "AdminClientRespondCrossClusterTasksCompletedScope = 197"

definition AdminClientGetDynamicConfigScope :: int where
  "AdminClientGetDynamicConfigScope = 198"

definition AdminClientUpdateDynamicConfigScope :: int where
  "AdminClientUpdateDynamicConfigScope = 199"

definition AdminClientRestoreDynamicConfigScope :: int where
  "AdminClientRestoreDynamicConfigScope = 200"

definition AdminClientListDynamicConfigScope :: int where
  "AdminClientListDynamicConfigScope = 201"

definition DCRedirectionDeprecateDomainScope :: int where
  "DCRedirectionDeprecateDomainScope = 202"

definition DCRedirectionDescribeDomainScope :: int where
  "DCRedirectionDescribeDomainScope = 203"

definition DCRedirectionDescribeTaskListScope :: int where
  "DCRedirectionDescribeTaskListScope = 204"

definition DCRedirectionDescribeWorkflowExecutionScope :: int where
  "DCRedirectionDescribeWorkflowExecutionScope = 205"

definition DCRedirectionGetWorkflowExecutionHistoryScope :: int where
  "DCRedirectionGetWorkflowExecutionHistoryScope = 206"

definition DCRedirectionGetWorkflowExecutionRawHistoryScope :: int where
  "DCRedirectionGetWorkflowExecutionRawHistoryScope = 207"

definition DCRedirectionPollForWorklfowExecutionRawHistoryScope :: int where
  "DCRedirectionPollForWorklfowExecutionRawHistoryScope = 208"

definition DCRedirectionListArchivedWorkflowExecutionsScope :: int where
  "DCRedirectionListArchivedWorkflowExecutionsScope = 209"

definition DCRedirectionListClosedWorkflowExecutionsScope :: int where
  "DCRedirectionListClosedWorkflowExecutionsScope = 210"

definition DCRedirectionListDomainsScope :: int where
  "DCRedirectionListDomainsScope = 211"

definition DCRedirectionListOpenWorkflowExecutionsScope :: int where
  "DCRedirectionListOpenWorkflowExecutionsScope = 212"

definition DCRedirectionListWorkflowExecutionsScope :: int where
  "DCRedirectionListWorkflowExecutionsScope = 213"

definition DCRedirectionScanWorkflowExecutionsScope :: int where
  "DCRedirectionScanWorkflowExecutionsScope = 214"

definition DCRedirectionCountWorkflowExecutionsScope :: int where
  "DCRedirectionCountWorkflowExecutionsScope = 215"

definition DCRedirectionGetSearchAttributesScope :: int where
  "DCRedirectionGetSearchAttributesScope = 216"

definition DCRedirectionPollForActivityTaskScope :: int where
  "DCRedirectionPollForActivityTaskScope = 217"

definition DCRedirectionPollForDecisionTaskScope :: int where
  "DCRedirectionPollForDecisionTaskScope = 218"

definition DCRedirectionQueryWorkflowScope :: int where
  "DCRedirectionQueryWorkflowScope = 219"

definition DCRedirectionRecordActivityTaskHeartbeatScope :: int where
  "DCRedirectionRecordActivityTaskHeartbeatScope = 220"

definition DCRedirectionRecordActivityTaskHeartbeatByIDScope :: int where
  "DCRedirectionRecordActivityTaskHeartbeatByIDScope = 221"

definition DCRedirectionRegisterDomainScope :: int where
  "DCRedirectionRegisterDomainScope = 222"

definition DCRedirectionRequestCancelWorkflowExecutionScope :: int where
  "DCRedirectionRequestCancelWorkflowExecutionScope = 223"

definition DCRedirectionResetStickyTaskListScope :: int where
  "DCRedirectionResetStickyTaskListScope = 224"

definition DCRedirectionResetWorkflowExecutionScope :: int where
  "DCRedirectionResetWorkflowExecutionScope = 225"

definition DCRedirectionRespondActivityTaskCanceledScope :: int where
  "DCRedirectionRespondActivityTaskCanceledScope = 226"

definition DCRedirectionRespondActivityTaskCanceledByIDScope :: int where
  "DCRedirectionRespondActivityTaskCanceledByIDScope = 227"

definition DCRedirectionRespondActivityTaskCompletedScope :: int where
  "DCRedirectionRespondActivityTaskCompletedScope = 228"

definition DCRedirectionRespondActivityTaskCompletedByIDScope :: int where
  "DCRedirectionRespondActivityTaskCompletedByIDScope = 229"

definition DCRedirectionRespondActivityTaskFailedScope :: int where
  "DCRedirectionRespondActivityTaskFailedScope = 230"

definition DCRedirectionRespondActivityTaskFailedByIDScope :: int where
  "DCRedirectionRespondActivityTaskFailedByIDScope = 231"

definition DCRedirectionRespondDecisionTaskCompletedScope :: int where
  "DCRedirectionRespondDecisionTaskCompletedScope = 232"

definition DCRedirectionRespondDecisionTaskFailedScope :: int where
  "DCRedirectionRespondDecisionTaskFailedScope = 233"

definition DCRedirectionRespondQueryTaskCompletedScope :: int where
  "DCRedirectionRespondQueryTaskCompletedScope = 234"

definition DCRedirectionSignalWithStartWorkflowExecutionScope :: int where
  "DCRedirectionSignalWithStartWorkflowExecutionScope = 235"

definition DCRedirectionSignalWorkflowExecutionScope :: int where
  "DCRedirectionSignalWorkflowExecutionScope = 236"

definition DCRedirectionStartWorkflowExecutionScope :: int where
  "DCRedirectionStartWorkflowExecutionScope = 237"

definition DCRedirectionTerminateWorkflowExecutionScope :: int where
  "DCRedirectionTerminateWorkflowExecutionScope = 238"

definition DCRedirectionUpdateDomainScope :: int where
  "DCRedirectionUpdateDomainScope = 239"

definition DCRedirectionListTaskListPartitionsScope :: int where
  "DCRedirectionListTaskListPartitionsScope = 240"

definition DCRedirectionGetTaskListsByDomainScope :: int where
  "DCRedirectionGetTaskListsByDomainScope = 241"

definition DCRedirectionRefreshWorkflowTasksScope :: int where
  "DCRedirectionRefreshWorkflowTasksScope = 242"

definition MessagingClientPublishScope :: int where
  "MessagingClientPublishScope = 243"

definition MessagingClientPublishBatchScope :: int where
  "MessagingClientPublishBatchScope = 244"

definition MessagingClientConsumerScope :: int where
  "MessagingClientConsumerScope = 245"

definition DomainCacheScope :: int where
  "DomainCacheScope = 246"

definition HistoryRereplicationByTransferTaskScope :: int where
  "HistoryRereplicationByTransferTaskScope = 247"

definition HistoryRereplicationByTimerTaskScope :: int where
  "HistoryRereplicationByTimerTaskScope = 248"

definition HistoryRereplicationByHistoryReplicationScope :: int where
  "HistoryRereplicationByHistoryReplicationScope = 249"

definition HistoryRereplicationByHistoryMetadataReplicationScope :: int where
  "HistoryRereplicationByHistoryMetadataReplicationScope = 250"

definition HistoryRereplicationByActivityReplicationScope :: int where
  "HistoryRereplicationByActivityReplicationScope = 251"

definition PersistenceAppendHistoryNodesScope :: int where
  "PersistenceAppendHistoryNodesScope = 252"

definition PersistenceReadHistoryBranchScope :: int where
  "PersistenceReadHistoryBranchScope = 253"

definition PersistenceForkHistoryBranchScope :: int where
  "PersistenceForkHistoryBranchScope = 254"

definition PersistenceDeleteHistoryBranchScope :: int where
  "PersistenceDeleteHistoryBranchScope = 255"

definition PersistenceCompleteForkBranchScope :: int where
  "PersistenceCompleteForkBranchScope = 256"

definition PersistenceGetHistoryTreeScope :: int where
  "PersistenceGetHistoryTreeScope = 257"

definition PersistenceGetAllHistoryTreeBranchesScope :: int where
  "PersistenceGetAllHistoryTreeBranchesScope = 258"

definition ClusterMetadataArchivalConfigScope :: int where
  "ClusterMetadataArchivalConfigScope = 259"

definition ElasticsearchRecordWorkflowExecutionStartedScope :: int where
  "ElasticsearchRecordWorkflowExecutionStartedScope = 260"

definition ElasticsearchRecordWorkflowExecutionClosedScope :: int where
  "ElasticsearchRecordWorkflowExecutionClosedScope = 261"

definition ElasticsearchRecordWorkflowExecutionUninitializedScope :: int where
  "ElasticsearchRecordWorkflowExecutionUninitializedScope = 262"

definition ElasticsearchUpsertWorkflowExecutionScope :: int where
  "ElasticsearchUpsertWorkflowExecutionScope = 263"

definition ElasticsearchListOpenWorkflowExecutionsScope :: int where
  "ElasticsearchListOpenWorkflowExecutionsScope = 264"

definition ElasticsearchListClosedWorkflowExecutionsScope :: int where
  "ElasticsearchListClosedWorkflowExecutionsScope = 265"

definition ElasticsearchListOpenWorkflowExecutionsByTypeScope :: int where
  "ElasticsearchListOpenWorkflowExecutionsByTypeScope = 266"

definition ElasticsearchListClosedWorkflowExecutionsByTypeScope :: int where
  "ElasticsearchListClosedWorkflowExecutionsByTypeScope = 267"

definition ElasticsearchListOpenWorkflowExecutionsByWorkflowIDScope :: int where
  "ElasticsearchListOpenWorkflowExecutionsByWorkflowIDScope = 268"

definition ElasticsearchListClosedWorkflowExecutionsByWorkflowIDScope :: int where
  "ElasticsearchListClosedWorkflowExecutionsByWorkflowIDScope = 269"

definition ElasticsearchListClosedWorkflowExecutionsByStatusScope :: int where
  "ElasticsearchListClosedWorkflowExecutionsByStatusScope = 270"

definition ElasticsearchGetClosedWorkflowExecutionScope :: int where
  "ElasticsearchGetClosedWorkflowExecutionScope = 271"

definition ElasticsearchListWorkflowExecutionsScope :: int where
  "ElasticsearchListWorkflowExecutionsScope = 272"

definition ElasticsearchScanWorkflowExecutionsScope :: int where
  "ElasticsearchScanWorkflowExecutionsScope = 273"

definition ElasticsearchCountWorkflowExecutionsScope :: int where
  "ElasticsearchCountWorkflowExecutionsScope = 274"

definition ElasticsearchDeleteWorkflowExecutionsScope :: int where
  "ElasticsearchDeleteWorkflowExecutionsScope = 275"

definition SequentialTaskProcessingScope :: int where
  "SequentialTaskProcessingScope = 276"

definition ParallelTaskProcessingScope :: int where
  "ParallelTaskProcessingScope = 277"

definition TaskSchedulerScope :: int where
  "TaskSchedulerScope = 278"

definition HistoryArchiverScope :: int where
  "HistoryArchiverScope = 279"

definition VisibilityArchiverScope :: int where
  "VisibilityArchiverScope = 280"

definition BlobstoreClientUploadScope :: int where
  "BlobstoreClientUploadScope = 281"

definition BlobstoreClientDownloadScope :: int where
  "BlobstoreClientDownloadScope = 282"

definition BlobstoreClientGetMetadataScope :: int where
  "BlobstoreClientGetMetadataScope = 283"

definition BlobstoreClientExistsScope :: int where
  "BlobstoreClientExistsScope = 284"

definition BlobstoreClientDeleteScope :: int where
  "BlobstoreClientDeleteScope = 285"

definition BlobstoreClientDirectoryExistsScope :: int where
  "BlobstoreClientDirectoryExistsScope = 286"

definition DomainFailoverScope :: int where
  "DomainFailoverScope = 287"

definition DomainReplicationQueueScope :: int where
  "DomainReplicationQueueScope = 288"

definition NumCommonScopes :: int where
  "NumCommonScopes = 289"

subsubsection \<open>Operation scopes of the Admin service\<close>

definition AdminDescribeHistoryHostScope :: int where
  "AdminDescribeHistoryHostScope = 0 + NumCommonScopes"

definition AdminAddSearchAttributeScope :: int where
  "AdminAddSearchAttributeScope = 1 + NumCommonScopes"

definition AdminDescribeWorkflowExecutionScope :: int where
  "AdminDescribeWorkflowExecutionScope = 2 + NumCommonScopes"

definition AdminGetWorkflowExecutionRawHistoryScope :: int where
  "AdminGetWorkflowExecutionRawHistoryScope = 3 + NumCommonScopes"

definition AdminGetWorkflowExecutionRawHistoryV2Scope :: int where
  "AdminGetWorkflowExecutionRawHistoryV2Scope = 4 + NumCommonScopes"

definition AdminGetReplicationMessagesScope :: int where
  "AdminGetReplicationMessagesScope = 5 + NumCommonScopes"

definition AdminGetDomainReplicationMessagesScope :: int where
  "AdminGetDomainReplicationMessagesScope = 6 + NumCommonScopes"

definition AdminGetDLQReplicationMessagesScope :: int where
  "AdminGetDLQReplicationMessagesScope = 7 + NumCommonScopes"

definition AdminReapplyEventsScope :: int where
  "AdminReapplyEventsScope = 8 + NumCommonScopes"

definition AdminRefreshWorkflowTasksScope :: int where
  "AdminRefreshWorkflowTasksScope = 9 + NumCommonScopes"

definition AdminResendReplicationTasksScope :: int where
  "AdminResendReplicationTasksScope = 10 + NumCommonScopes"

definition AdminRemoveTaskScope :: int where
  "AdminRemoveTaskScope = 11 + NumCommonScopes"

definition AdminCloseShardScope :: int where
  "AdminCloseShardScope = 12 + NumCommonScopes"

definition AdminResetQueueScope :: int where
  "AdminResetQueueScope = 13 + NumCommonScopes"

definition AdminDescribeQueueScope :: int where
  "AdminDescribeQueueScope = 14 + NumCommonScopes"

definition AdminCountDLQMessagesScope :: int where
  "AdminCountDLQMessagesScope = 15 + NumCommonScopes"

definition AdminReadDLQMessagesScope :: int where
  "AdminReadDLQMessagesScope = 16 + NumCommonScopes"

definition AdminPurgeDLQMessagesScope :: int where
  "AdminPurgeDLQMessagesScope = 17 + NumCommonScopes"

definition AdminMergeDLQMessagesScope :: int where
  "AdminMergeDLQMessagesScope = 18 + NumCommonScopes"

definition AdminDescribeShardDistributionScope :: int where
  "AdminDescribeShardDistributionScope = 19 + NumCommonScopes"

definition AdminGetCrossClusterTasksScope :: int where
  "AdminGetCrossClusterTasksScope = 20 + NumCommonScopes"

definition AdminRespondCrossClusterTasksCompletedScope :: int where
  "AdminRespondCrossClusterTasksCompletedScope = 21 + NumCommonScopes"

definition AdminGetDynamicConfigScope :: int where
  "AdminGetDynamicConfigScope = 22 + NumCommonScopes"

definition AdminUpdateDynamicConfigScope :: int where
  "AdminUpdateDynamicConfigScope = 23 + NumCommonScopes"

definition AdminRestoreDynamicConfigScope :: int where
  "AdminRestoreDynamicConfigScope = 24 + NumCommonScopes"

definition AdminListDynamicConfigScope :: int where
  "AdminListDynamicConfigScope = 25 + NumCommonScopes"

definition AdminDeleteWorkflowScope :: int where
  "AdminDeleteWorkflowScope = 26 + NumCommonScopes"

definition MaintainCorruptWorkflowScope :: int where
  "MaintainCorruptWorkflowScope = 27 + NumCommonScopes"

definition NumAdminScopes :: int where
  "NumAdminScopes = 28 + NumCommonScopes"

subsubsection \<open>Operation scopes of the Frontend service\<close>

definition FrontendRestartWorkflowExecutionScope :: int where
  "FrontendRestartWorkflowExecutionScope = 0 + NumAdminScopes"

definition FrontendStartWorkflowExecutionScope :: int where
  "FrontendStartWorkflowExecutionScope = 1 + NumAdminScopes"

definition FrontendPollForDecisionTaskScope :: int where
  "FrontendPollForDecisionTaskScope = 2 + NumAdminScopes"

definition FrontendPollForActivityTaskScope :: int where
  "FrontendPollForActivityTaskScope = 3 + NumAdminScopes"

definition FrontendRecordActivityTaskHeartbeatScope :: int where
  "FrontendRecordActivityTaskHeartbeatScope = 4 + NumAdminScopes"

definition FrontendRecordActivityTaskHeartbeatByIDScope :: int where
  "FrontendRecordActivityTaskHeartbeatByIDScope = 5 + NumAdminScopes"

definition FrontendRespondDecisionTaskCompletedScope :: int where
  "FrontendRespondDecisionTaskCompletedScope = 6 + NumAdminScopes"

definition FrontendRespondDecisionTaskFailedScope :: int where
  "FrontendRespondDecisionTaskFailedScope = 7 + NumAdminScopes"

definition FrontendRespondQueryTaskCompletedScope :: int where
  "FrontendRespondQueryTaskCompletedScope = 8 + NumAdminScopes"

definition FrontendRespondActivityTaskCompletedScope :: int where
  "FrontendRespondActivityTaskCompletedScope = 9 + NumAdminScopes"

definition FrontendRespondActivityTaskFailedScope :: int where
  "FrontendRespondActivityTaskFailedScope = 10 + NumAdminScopes"

definition FrontendRespondActivityTaskCanceledScope :: int where
  "FrontendRespondActivityTaskCanceledScope = 11 + NumAdminScopes"

definition FrontendRespondActivityTaskCompletedByIDScope :: int where
  "FrontendRespondActivityTaskCompletedByIDScope = 12 + NumAdminScopes"

definition FrontendRespondActivityTaskFailedByIDScope :: int where
  "FrontendRespondActivityTaskFailedByIDScope = 13 + NumAdminScopes"

definition FrontendRespondActivityTaskCanceledByIDScope :: int where
  "FrontendRespondActivityTaskCanceledByIDScope = 14 + NumAdminScopes"

definition FrontendGetWorkflowExecutionHistoryScope :: int where
  "FrontendGetWorkflowExecutionHistoryScope = 15 + NumAdminScopes"

definition FrontendGetWorkflowExecutionRawHistoryScope :: int where
  "FrontendGetWorkflowExecutionRawHistoryScope = 16 + NumAdminScopes"

definition FrontendPollForWorklfowExecutionRawHistoryScope :: int where
  "FrontendPollForWorklfowExecutionRawHistoryScope = 17 + NumAdminScopes"

definition FrontendSignalWorkflowExecutionScope :: int where
  "FrontendSignalWorkflowExecutionScope = 18 + NumAdminScopes"

definition FrontendSignalWithStartWorkflowExecutionScope :: int where
  "FrontendSignalWithStartWorkflowExecutionScope = 19 + NumAdminScopes"

definition FrontendTerminateWorkflowExecutionScope :: int where
  "FrontendTerminateWorkflowExecutionScope = 20 + NumAdminScopes"

definition FrontendRequestCancelWorkflowExecutionScope :: int where
  "FrontendRequestCancelWorkflowExecutionScope = 21 + NumAdminScopes"

definition FrontendListArchivedWorkflowExecutionsScope :: int where
  "FrontendListArchivedWorkflowExecutionsScope = 22 + NumAdminScopes"

definition FrontendListOpenWorkflowExecutionsScope :: int where
  "FrontendListOpenWorkflowExecutionsScope = 23 + NumAdminScopes"

definition FrontendListClosedWorkflowExecutionsScope :: int where
  "FrontendListClosedWorkflowExecutionsScope = 24 + NumAdminScopes"

definition FrontendListWorkflowExecutionsScope :: int where
  "FrontendListWorkflowExecutionsScope = 25 + NumAdminScopes"

definition FrontendScanWorkflowExecutionsScope :: int where
  "FrontendScanWorkflowExecutionsScope = 26 + NumAdminScopes"

definition FrontendCountWorkflowExecutionsScope :: int where
  "FrontendCountWorkflowExecutionsScope = 27 + NumAdminScopes"

definition FrontendRegisterDomainScope :: int where
  "FrontendRegisterDomainScope = 28 + NumAdminScopes"

definition FrontendDescribeDomainScope :: int where
  "FrontendDescribeDomainScope = 29 + NumAdminScopes"

definition FrontendUpdateDomainScope :: int where
  "FrontendUpdateDomainScope = 30 + NumAdminScopes"

definition FrontendDeprecateDomainScope :: int where
  "FrontendDeprecateDomainScope = 31 + NumAdminScopes"

definition FrontendQueryWorkflowScope :: int where
  "FrontendQueryWorkflowScope = 32 + NumAdminScopes"

definition FrontendDescribeWorkflowExecutionScope :: int where
  "FrontendDescribeWorkflowExecutionScope = 33 + NumAdminScopes"

definition FrontendDescribeTaskListScope :: int where
  "FrontendDescribeTaskListScope = 34 + NumAdminScopes"

definition FrontendListTaskListPartitionsScope :: int where
  "FrontendListTaskListPartitionsScope = 35 + NumAdminScopes"

definition FrontendGetTaskListsByDomainScope :: int where
  "FrontendGetTaskListsByDomainScope = 36 + NumAdminScopes"

definition FrontendRefreshWorkflowTasksScope :: int where
  "FrontendRefreshWorkflowTasksScope = 37 + NumAdminScopes"

definition FrontendResetStickyTaskListScope :: int where
  "FrontendResetStickyTaskListScope = 38 + NumAdminScopes"

definition FrontendListDomainsScope :: int where
  "FrontendListDomainsScope = 39 + NumAdminScopes"

definition FrontendResetWorkflowExecutionScope :: int where
  "FrontendResetWorkflowExecutionScope = 40 + NumAdminScopes"

definition FrontendGetSearchAttributesScope :: int where
  "FrontendGetSearchAttributesScope = 41 + NumAdminScopes"

definition NumFrontendScopes :: int where
  "NumFrontendScopes = 42 + NumAdminScopes"

subsubsection \<open>Operation scopes of the History service\<close>

definition HistoryStartWorkflowExecutionScope :: int where
  "HistoryStartWorkflowExecutionScope = 0 + NumCommonScopes"

definition HistoryRecordActivityTaskHeartbeatScope :: int where
  "HistoryRecordActivityTaskHeartbeatScope = 1 + NumCommonScopes"

definition HistoryRespondDecisionTaskCompletedScope :: int where
  "HistoryRespondDecisionTaskCompletedScope = 2 + NumCommonScopes"

definition HistoryRespondDecisionTaskFailedScope :: int where
  "HistoryRespondDecisionTaskFailedScope = 3 + NumCommonScopes"

definition HistoryRespondActivityTaskCompletedScope :: int where
  "HistoryRespondActivityTaskCompletedScope = 4 + NumCommonScopes"

definition HistoryRespondActivityTaskFailedScope :: int where
  "HistoryRespondActivityTaskFailedScope = 5 + NumCommonScopes"

definition HistoryRespondActivityTaskCanceledScope :: int where
  "HistoryRespondActivityTaskCanceledScope = 6 + NumCommonScopes"

definition HistoryResetQueueScope :: int where
  "HistoryResetQueueScope = 7 + NumCommonScopes"

definition HistoryDescribeQueueScope :: int where
  "HistoryDescribeQueueScope = 8 + NumCommonScopes"

definition HistoryDescribeMutabelStateScope :: int where
  "HistoryDescribeMutabelStateScope = 9 + NumCommonScopes"

definition HistoryGetMutableStateScope :: int where
  "HistoryGetMutableStateScope = 10 + NumCommonScopes"

definition HistoryPollMutableStateScope :: int where
  "HistoryPollMutableStateScope = 11 + NumCommonScopes"

definition HistoryResetStickyTaskListScope :: int where
  "HistoryResetStickyTaskListScope = 12 + NumCommonScopes"

definition HistoryDescribeWorkflowExecutionScope :: int where
  "HistoryDescribeWorkflowExecutionScope = 13 + NumCommonScopes"

definition HistoryRecordDecisionTaskStartedScope :: int where
  "HistoryRecordDecisionTaskStartedScope = 14 + NumCommonScopes"

definition HistoryRecordActivityTaskStartedScope :: int where
  "HistoryRecordActivityTaskStartedScope = 15 + NumCommonScopes"

definition HistorySignalWorkflowExecutionScope :: int where
  "HistorySignalWorkflowExecutionScope = 16 + NumCommonScopes"

definition HistorySignalWithStartWorkflowExecutionScope :: int where
  "HistorySignalWithStartWorkflowExecutionScope = 17 + NumCommonScopes"

definition HistoryRemoveSignalMutableStateScope :: int where
  "HistoryRemoveSignalMutableStateScope = 18 + NumCommonScopes"

definition HistoryTerminateWorkflowExecutionScope :: int where
  "HistoryTerminateWorkflowExecutionScope = 19 + NumCommonScopes"

definition HistoryScheduleDecisionTaskScope :: int where
  "HistoryScheduleDecisionTaskScope = 20 + NumCommonScopes"

definition HistoryRecordChildExecutionCompletedScope :: int where
  "HistoryRecordChildExecutionCompletedScope = 21 + NumCommonScopes"

definition HistoryRequestCancelWorkflowExecutionScope :: int where
  "HistoryRequestCancelWorkflowExecutionScope = 22 + NumCommonScopes"

definition HistoryReplicateEventsScope :: int where
  "HistoryReplicateEventsScope = 23 + NumCommonScopes"

definition HistoryReplicateRawEventsScope :: int where
  "HistoryReplicateRawEventsScope = 24 + NumCommonScopes"

definition HistoryReplicateEventsV2Scope :: int where
  "HistoryReplicateEventsV2Scope = 25 + NumCommonScopes"

definition HistorySyncShardStatusScope :: int where
  "HistorySyncShardStatusScope = 26 + NumCommonScopes"

definition HistorySyncActivityScope :: int where
  "HistorySyncActivityScope = 27 + NumCommonScopes"

definition HistoryDescribeMutableStateScope :: int where
  "HistoryDescribeMutableStateScope = 28 + NumCommonScopes"

definition HistoryGetReplicationMessagesScope :: int where
  "HistoryGetReplicationMessagesScope = 29 + NumCommonScopes"

definition HistoryGetDLQReplicationMessagesScope :: int where
  "HistoryGetDLQReplicationMessagesScope = 30 + NumCommonScopes"

definition HistoryCountDLQMessagesScope :: int where
  "HistoryCountDLQMessagesScope = 31 + NumCommonScopes"

definition HistoryReadDLQMessagesScope :: int where
  "HistoryReadDLQMessagesScope = 32 + NumCommonScopes"

definition HistoryPurgeDLQMessagesScope :: int where
  "HistoryPurgeDLQMessagesScope = 33 + NumCommonScopes"

definition HistoryMergeDLQMessagesScope :: int where
  "HistoryMergeDLQMessagesScope = 34 + NumCommonScopes"

definition HistoryShardControllerScope :: int where
  "HistoryShardControllerScope = 35 + NumCommonScopes"

definition HistoryReapplyEventsScope :: int where
  "HistoryReapplyEventsScope = 36 + NumCommonScopes"

definition HistoryRefreshWorkflowTasksScope :: int where
  "HistoryRefreshWorkflowTasksScope = 37 + NumCommonScopes"

definition HistoryNotifyFailoverMarkersScope :: int where
  "HistoryNotifyFailoverMarkersScope = 38 + NumCommonScopes"

definition HistoryGetCrossClusterTasksScope :: int where
  "HistoryGetCrossClusterTasksScope = 39 + NumCommonScopes"

definition HistoryRespondCrossClusterTasksCompletedScope :: int where
  "HistoryRespondCrossClusterTasksCompletedScope = 40 + NumCommonScopes"

definition HistoryGetFailoverInfoScope :: int where
  "HistoryGetFailoverInfoScope = 41 + NumCommonScopes"

definition TaskPriorityAssignerScope :: int where
  "TaskPriorityAssignerScope = 42 + NumCommonScopes"

definition TransferQueueProcessorScope :: int where
  "TransferQueueProcessorScope = 43 + NumCommonScopes"

definition TransferActiveQueueProcessorScope :: int where
  "TransferActiveQueueProcessorScope = 44 + NumCommonScopes"

definition TransferStandbyQueueProcessorScope :: int where
  "TransferStandbyQueueProcessorScope = 45 + NumCommonScopes"

definition TransferActiveTaskActivityScope :: int where
  "TransferActiveTaskActivityScope = 46 + NumCommonScopes"

definition TransferActiveTaskDecisionScope :: int where
  "TransferActiveTaskDecisionScope = 47 + NumCommonScopes"

definition TransferActiveTaskCloseExecutionScope :: int where
  "TransferActiveTaskCloseExecutionScope = 48 + NumCommonScopes"

definition TransferActiveTaskCancelExecutionScope :: int where
  "TransferActiveTaskCancelExecutionScope = 49 + NumCommonScopes"

definition TransferActiveTaskSignalExecutionScope :: int where
  "TransferActiveTaskSignalExecutionScope = 50 + NumCommonScopes"

definition TransferActiveTaskStartChildExecutionScope :: int where
  "TransferActiveTaskStartChildExecutionScope = 51 + NumCommonScopes"

definition TransferActiveTaskRecordWorkflowStartedScope :: int where
  "TransferActiveTaskRecordWorkflowStartedScope = 52 + NumCommonScopes"

definition TransferActiveTaskResetWorkflowScope :: int where
  "TransferActiveTaskResetWorkflowScope = 53 + NumCommonScopes"

definition TransferActiveTaskUpsertWorkflowSearchAttributesScope :: int where
  "TransferActiveTaskUpsertWorkflowSearchAttributesScope = 54 + NumCommonScopes"

definition TransferActiveTaskRecordWorkflowClosedScope :: int where
  "TransferActiveTaskRecordWorkflowClosedScope = 55 + NumCommonScopes"

definition TransferActiveTaskRecordChildExecutionCompletedScope :: int where
  "TransferActiveTaskRecordChildExecutionCompletedScope = 56 + NumCommonScopes"

definition TransferActiveTaskApplyParentClosePolicyScope :: int where
  "TransferActiveTaskApplyParentClosePolicyScope = 57 + NumCommonScopes"

definition TransferStandbyTaskResetWorkflowScope :: int where
  "TransferStandbyTaskResetWorkflowScope = 58 + NumCommonScopes"

definition TransferStandbyTaskActivityScope :: int where
  "TransferStandbyTaskActivityScope = 59 + NumCommonScopes"

definition TransferStandbyTaskDecisionScope :: int where
  "TransferStandbyTaskDecisionScope = 60 + NumCommonScopes"

definition TransferStandbyTaskCloseExecutionScope :: int where
  "TransferStandbyTaskCloseExecutionScope = 61 + NumCommonScopes"

definition TransferStandbyTaskCancelExecutionScope :: int where
  "TransferStandbyTaskCancelExecutionScope = 62 + NumCommonScopes"

definition TransferStandbyTaskSignalExecutionScope :: int where
  "TransferStandbyTaskSignalExecutionScope = 63 + NumCommonScopes"

definition TransferStandbyTaskStartChildExecutionScope :: int where
  "TransferStandbyTaskStartChildExecutionScope = 64 + NumCommonScopes"

definition TransferStandbyTaskRecordWorkflowStartedScope :: int where
  "TransferStandbyTaskRecordWorkflowStartedScope = 65 + NumCommonScopes"

definition TransferStandbyTaskUpsertWorkflowSearchAttributesScope :: int where
  "TransferStandbyTaskUpsertWorkflowSearchAttributesScope = 66 + NumCommonScopes"

definition TransferStandbyTaskRecordWorkflowClosedScope :: int where
  "TransferStandbyTaskRecordWorkflowClosedScope = 67 + NumCommonScopes"

definition TransferStandbyTaskRecordChildExecutionCompletedScope :: int where
  "TransferStandbyTaskRecordChildExecutionCompletedScope = 68 + NumCommonScopes"

definition TransferStandbyTaskApplyParentClosePolicyScope :: int where
  "TransferStandbyTaskApplyParentClosePolicyScope = 69 + NumCommonScopes"

definition TimerQueueProcessorScope :: int where
  "TimerQueueProcessorScope = 70 + NumCommonScopes"

definition TimerActiveQueueProcessorScope :: int where
  "TimerActiveQueueProcessorScope = 71 + NumCommonScopes"

definition TimerStandbyQueueProcessorScope :: int where
  "TimerStandbyQueueProcessorScope = 72 + NumCommonScopes"

definition TimerActiveTaskActivityTimeoutScope :: int where
  "TimerActiveTaskActivityTimeoutScope = 73 + NumCommonScopes"

definition TimerActiveTaskDecisionTimeoutScope :: int where
  "TimerActiveTaskDecisionTimeoutScope = 74 + NumCommonScopes"

definition TimerActiveTaskUserTimerScope :: int where
  "TimerActiveTaskUserTimerScope = 75 + NumCommonScopes"

definition TimerActiveTaskWorkflowTimeoutScope :: int where
  "TimerActiveTaskWorkflowTimeoutScope = 76 + NumCommonScopes"

definition TimerActiveTaskActivityRetryTimerScope :: int where
  "TimerActiveTaskActivityRetryTimerScope = 77 + NumCommonScopes"

definition TimerActiveTaskWorkflowBackoffTimerScope :: int where
  "TimerActiveTaskWorkflowBackoffTimerScope = 78 + NumCommonScopes"

definition TimerActiveTaskDeleteHistoryEventScope :: int where
  "TimerActiveTaskDeleteHistoryEventScope = 79 + NumCommonScopes"

definition TimerStandbyTaskActivityTimeoutScope :: int where
  "TimerStandbyTaskActivityTimeoutScope = 80 + NumCommonScopes"

definition TimerStandbyTaskDecisionTimeoutScope :: int where
  "TimerStandbyTaskDecisionTimeoutScope = 81 + NumCommonScopes"

definition TimerStandbyTaskUserTimerScope :: int where
  "TimerStandbyTaskUserTimerScope = 82 + NumCommonScopes"

definition TimerStandbyTaskWorkflowTimeoutScope :: int where
  "TimerStandbyTaskWorkflowTimeoutScope = 83 + NumCommonScopes"

definition TimerStandbyTaskActivityRetryTimerScope :: int where
  "TimerStandbyTaskActivityRetryTimerScope = 84 + NumCommonScopes"

definition TimerStandbyTaskDeleteHistoryEventScope :: int where
  "TimerStandbyTaskDeleteHistoryEventScope = 85 + NumCommonScopes"

definition TimerStandbyTaskWorkflowBackoffTimerScope :: int where
  "TimerStandbyTaskWorkflowBackoffTimerScope = 86 + NumCommonScopes"

definition CrossClusterQueueProcessorScope :: int where
  "CrossClusterQueueProcessorScope = 87 + NumCommonScopes"

definition CrossClusterTaskProcessorScope :: int where
  "CrossClusterTaskProcessorScope = 88 + NumCommonScopes"

definition CrossClusterTaskFetcherScope :: int where
  "CrossClusterTaskFetcherScope = 89 + NumCommonScopes"

definition CrossClusterSourceTaskStartChildExecutionScope :: int where
  "CrossClusterSourceTaskStartChildExecutionScope = 90 + NumCommonScopes"

definition CrossClusterSourceTaskCancelExecutionScope :: int where
  "CrossClusterSourceTaskCancelExecutionScope = 91 + NumCommonScopes"

definition CrossClusterSourceTaskSignalExecutionScope :: int where
  "CrossClusterSourceTaskSignalExecutionScope = 92 + NumCommonScopes"

definition CrossClusterSourceTaskRecordChildWorkflowExecutionCompleteScope :: int where
  "CrossClusterSourceTaskRecordChildWorkflowExecutionCompleteScope = 93 + NumCommonScopes"

definition CrossClusterSourceTaskApplyParentClosePolicyScope :: int where
  "CrossClusterSourceTaskApplyParentClosePolicyScope = 94 + NumCommonScopes"

definition CrossClusterTargetTaskStartChildExecutionScope :: int where
  "CrossClusterTargetTaskStartChildExecutionScope = 95 + NumCommonScopes"

definition CrossClusterTargetTaskCancelExecutionScope :: int where
  "CrossClusterTargetTaskCancelExecutionScope = 96 + NumCommonScopes"

definition CrossClusterTargetTaskSignalExecutionScope :: int where
  "CrossClusterTargetTaskSignalExecutionScope = 97 + NumCommonScopes"

definition CrossClusterTargetTaskRecordChildWorkflowExecutionCompleteScope :: int where
  "CrossClusterTargetTaskRecordChildWorkflowExecutionCompleteScope = 98 + NumCommonScopes"

definition CrossClusterTargetTaskApplyParentClosePolicyScope :: int where
  "CrossClusterTargetTaskApplyParentClosePolicyScope = 99 + NumCommonScopes"

definition HistoryEventNotificationScope :: int where
  "HistoryEventNotificationScope = 100 + NumCommonScopes"

definition ReplicatorQueueProcessorScope :: int where
  "ReplicatorQueueProcessorScope = 101 + NumCommonScopes"

definition ReplicatorCacheManagerScope :: int where
  "ReplicatorCacheManagerScope = 102 + NumCommonScopes"

definition ReplicatorTaskHistoryScope :: int where
  "ReplicatorTaskHistoryScope = 103 + NumCommonScopes"

definition ReplicatorTaskSyncActivityScope :: int where
  "ReplicatorTaskSyncActivityScope = 104 + NumCommonScopes"

definition ReplicateHistoryEventsScope :: int where
  "ReplicateHistoryEventsScope = 105 + NumCommonScopes"

definition ReplicationMetricEmitterScope :: int where
  "ReplicationMetricEmitterScope = 106 + NumCommonScopes"

definition ShardInfoScope :: int where
  "ShardInfoScope = 107 + NumCommonScopes"

definition WorkflowContextScope :: int where
  "WorkflowContextScope = 108 + NumCommonScopes"

definition HistoryCacheGetAndCreateScope :: int where
  "HistoryCacheGetAndCreateScope = 109 + NumCommonScopes"

definition HistoryCacheGetOrCreateScope :: int where
  "HistoryCacheGetOrCreateScope = 110 + NumCommonScopes"

definition HistoryCacheGetOrCreateCurrentScope :: int where
  "HistoryCacheGetOrCreateCurrentScope = 111 + NumCommonScopes"

definition HistoryCacheGetCurrentExecutionScope :: int where
  "HistoryCacheGetCurrentExecutionScope = 112 + NumCommonScopes"

definition EventsCacheGetEventScope :: int where
  "EventsCacheGetEventScope = 113 + NumCommonScopes"

definition EventsCachePutEventScope :: int where
  "EventsCachePutEventScope = 114 + NumCommonScopes"

definition EventsCacheGetFromStoreScope :: int where
  "EventsCacheGetFromStoreScope = 115 + NumCommonScopes"

definition ExecutionSizeStatsScope :: int where
  "ExecutionSizeStatsScope = 116 + NumCommonScopes"

definition ExecutionCountStatsScope :: int where
  "ExecutionCountStatsScope = 117 + NumCommonScopes"

definition SessionSizeStatsScope :: int where
  "SessionSizeStatsScope = 118 + NumCommonScopes"

definition SessionCountStatsScope :: int where
  "SessionCountStatsScope = 119 + NumCommonScopes"

definition HistoryResetWorkflowExecutionScope :: int where
  "HistoryResetWorkflowExecutionScope = 120 + NumCommonScopes"

definition HistoryQueryWorkflowScope :: int where
  "HistoryQueryWorkflowScope = 121 + NumCommonScopes"

definition HistoryProcessDeleteHistoryEventScope :: int where
  "HistoryProcessDeleteHistoryEventScope = 122 + NumCommonScopes"

definition WorkflowCompletionStatsScope :: int where
  "WorkflowCompletionStatsScope = 123 + NumCommonScopes"

definition ArchiverClientScope :: int where
  "ArchiverClientScope = 124 + NumCommonScopes"

definition ReplicationTaskFetcherScope :: int where
  "ReplicationTaskFetcherScope = 125 + NumCommonScopes"

definition ReplicationTaskCleanupScope :: int where
  "ReplicationTaskCleanupScope = 126 + NumCommonScopes"

definition ReplicationDLQStatsScope :: int where
  "ReplicationDLQStatsScope = 127 + NumCommonScopes"

definition FailoverMarkerScope :: int where
  "FailoverMarkerScope = 128 + NumCommonScopes"

definition HistoryReplicationV2TaskScope :: int where
  "HistoryReplicationV2TaskScope = 129 + NumCommonScopes"

definition SyncActivityTaskScope :: int where
  "SyncActivityTaskScope = 130 + NumCommonScopes"

definition NumHistoryScopes :: int where
  "NumHistoryScopes = 131 + NumCommonScopes"

subsubsection \<open>Operation scopes of the Matching service\<close>

definition MatchingPollForDecisionTaskScope :: int where
  "MatchingPollForDecisionTaskScope = 0 + NumCommonScopes"

definition MatchingPollForActivityTaskScope :: int where
  "MatchingPollForActivityTaskScope = 1 + NumCommonScopes"

definition MatchingAddActivityTaskScope :: int where
  "MatchingAddActivityTaskScope = 2 + NumCommonScopes"

definition MatchingAddDecisionTaskScope :: int where
  "MatchingAddDecisionTaskScope = 3 + NumCommonScopes"

definition MatchingTaskListMgrScope :: int where
  "MatchingTaskListMgrScope = 4 + NumCommonScopes"

definition MatchingQueryWorkflowScope :: int where
  "MatchingQueryWorkflowScope = 5 + NumCommonScopes"

definition MatchingRespondQueryTaskCompletedScope :: int where
  "MatchingRespondQueryTaskCompletedScope = 6 + NumCommonScopes"

definition MatchingCancelOutstandingPollScope :: int where
  "MatchingCancelOutstandingPollScope = 7 + NumCommonScopes"

definition MatchingDescribeTaskListScope :: int where
  "MatchingDescribeTaskListScope = 8 + NumCommonScopes"

definition MatchingListTaskListPartitionsScope :: int where
  "MatchingListTaskListPartitionsScope = 9 + NumCommonScopes"

definition MatchingGetTaskListsByDomainScope :: int where
  "MatchingGetTaskListsByDomainScope = 10 + NumCommonScopes"

definition NumMatchingScopes :: int where
  "NumMatchingScopes = 11 + NumCommonScopes"

subsubsection \<open>Operation scopes of the Worker service\<close>

definition ReplicatorScope :: int where
  "ReplicatorScope = 0 + NumCommonScopes"

definition DomainReplicationTaskScope :: int where
  "DomainReplicationTaskScope = 1 + NumCommonScopes"

definition ESProcessorScope :: int where
  "ESProcessorScope = 2 + NumCommonScopes"

definition IndexProcessorScope :: int where
  "IndexProcessorScope = 3 + NumCommonScopes"

definition ArchiverDeleteHistoryActivityScope :: int where
  "ArchiverDeleteHistoryActivityScope = 4 + NumCommonScopes"

definition ArchiverUploadHistoryActivityScope :: int where
  "ArchiverUploadHistoryActivityScope = 5 + NumCommonScopes"

definition ArchiverArchiveVisibilityActivityScope :: int where
  "ArchiverArchiveVisibilityActivityScope = 6 + NumCommonScopes"

definition ArchiverScope :: int where
  "ArchiverScope = 7 + NumCommonScopes"

definition ArchiverPumpScope :: int where
  "ArchiverPumpScope = 8 + NumCommonScopes"

definition ArchiverArchivalWorkflowScope :: int where
  "ArchiverArchivalWorkflowScope = 9 + NumCommonScopes"

definition TaskListScavengerScope :: int where
  "TaskListScavengerScope = 10 + NumCommonScopes"

definition ExecutionsScannerScope :: int where
  "ExecutionsScannerScope = 11 + NumCommonScopes"

definition ExecutionsFixerScope :: int where
  "ExecutionsFixerScope = 12 + NumCommonScopes"

definition BatcherScope :: int where
  "BatcherScope = 13 + NumCommonScopes"

definition HistoryScavengerScope :: int where
  "HistoryScavengerScope = 14 + NumCommonScopes"

definition ParentClosePolicyProcessorScope :: int where
  "ParentClosePolicyProcessorScope = 15 + NumCommonScopes"

definition ShardScannerScope :: int where
  "ShardScannerScope = 16 + NumCommonScopes"

definition CheckDataCorruptionWorkflowScope :: int where
  "CheckDataCorruptionWorkflowScope = 17 + NumCommonScopes"

definition ESAnalyzerScope :: int where
  "ESAnalyzerScope = 18 + NumCommonScopes"

definition WatchDogScope :: int where
  "WatchDogScope = 19 + NumCommonScopes"

definition NumWorkerScopes :: int where
  "NumWorkerScopes = 20 + NumCommonScopes"

subsection \<open>ScopeDefs\<close>

text \<open>
  \<^verbatim>\<open>ScopeDefs\<close> is a map literal from service index to a map literal from scope index to
  \<^verbatim>\<open>scopeDefinition\<close>. Each inner literal is given as the list of its entries in source
  order; Go rejects a map literal with a repeated constant key, so \<open>map_of\<close> of the list is the
  map. An entry without \<^verbatim>\<open>tags\<close> has the nil map.
\<close>

definition ScopeDefs_Common :: "(int \<times> scopeDefinition) list" where
  "ScopeDefs_Common = [
    (PersistenceCreateShardScope, \<lparr>operation = ''CreateShard'', tags = Map.empty\<rparr>),
    (PersistenceGetShardScope, \<lparr>operation = ''GetShard'', tags = Map.empty\<rparr>),
    (PersistenceUpdateShardScope, \<lparr>operation = ''UpdateShard'', tags = Map.empty\<rparr>),
    (PersistenceCreateWorkflowExecutionScope, \<lparr>operation = ''CreateWorkflowExecution'', tags = Map.empty\<rparr>),
    (PersistenceGetWorkflowExecutionScope, \<lparr>operation = ''GetWorkflowExecution'', tags = Map.empty\<rparr>),
    (PersistenceUpdateWorkflowExecutionScope, \<lparr>operation = ''UpdateWorkflowExecution'', tags = Map.empty\<rparr>),
    (PersistenceConflictResolveWorkflowExecutionScope, \<lparr>operation = ''ConflictResolveWorkflowExecution'', tags = Map.empty\<rparr>),
    (PersistenceResetWorkflowExecutionScope, \<lparr>operation = ''ResetWorkflowExecution'', tags = Map.empty\<rparr>),
    (PersistenceDeleteWorkflowExecutionScope, \<lparr>operation = ''DeleteWorkflowExecution'', tags = Map.empty\<rparr>),
    (PersistenceDeleteCurrentWorkflowExecutionScope, \<lparr>operation = ''DeleteCurrentWorkflowExecution'', tags = Map.empty\<rparr>),
    (PersistenceGetCurrentExecutionScope, \<lparr>operation = ''GetCurrentExecution'', tags = Map.empty\<rparr>),
    (PersistenceIsWorkflowExecutionExistsScope, \<lparr>operation = ''IsWorkflowExecutionExists'', tags = Map.empty\<rparr>),
    (PersistenceListCurrentExecutionsScope, \<lparr>operation = ''ListCurrentExecutions'', tags = Map.empty\<rparr>),
    (PersistenceListConcreteExecutionsScope, \<lparr>operation = ''ListConcreteExecutions'', tags = Map.empty\<rparr>),
    (PersistenceGetTransferTasksScope, \<lparr>operation = ''GetTransferTasks'', tags = Map.empty\<rparr>),
    (PersistenceCompleteTransferTaskScope, \<lparr>operation = ''CompleteTransferTask'', tags = Map.empty\<rparr>),
    (PersistenceRangeCompleteTransferTaskScope, \<lparr>operation = ''RangeCompleteTransferTask'', tags = Map.empty\<rparr>),
    (PersistenceGetCrossClusterTasksScope, \<lparr>operation = ''GetCrossClusterTasks'', tags = Map.empty\<rparr>),
    (PersistenceCompleteCrossClusterTaskScope, \<lparr>operation = ''GetCrossClusterTasks'', tags = Map.empty\<rparr>),
    (PersistenceRangeCompleteCrossClusterTaskScope, \<lparr>operation = ''GetCrossClusterTasks'', tags = Map.empty\<rparr>),
    (PersistenceGetReplicationTasksScope, \<lparr>operation = ''GetReplicationTasks'', tags = Map.empty\<rparr>),
    (PersistenceCompleteReplicationTaskScope, \<lparr>operation = ''CompleteReplicationTask'', tags = Map.empty\<rparr>),
    (PersistenceRangeCompleteReplicationTaskScope, \<lparr>operation = ''RangeCompleteReplicationTask'', tags = Map.empty\<rparr>),
    (PersistencePutReplicationTaskToDLQScope, \<lparr>operation = ''PutReplicationTaskToDLQ'', tags = Map.empty\<rparr>),
    (PersistenceGetReplicationTasksFromDLQScope, \<lparr>operation = ''GetReplicationTasksFromDLQ'', tags = Map.empty\<rparr>),
    (PersistenceGetReplicationDLQSizeScope, \<lparr>operation = ''GetReplicationDLQSize'', tags = Map.empty\<rparr>),
    (PersistenceDeleteReplicationTaskFromDLQScope, \<lparr>operation = ''DeleteReplicationTaskFromDLQ'', tags = Map.empty\<rparr>),
    (PersistenceRangeDeleteReplicationTaskFromDLQScope, \<lparr>operation = ''RangeDeleteReplicationTaskFromDLQ'', tags = Map.empty\<rparr>),
    (PersistenceCreateFailoverMarkerTasksScope, \<lparr>operation = ''CreateFailoverMarkerTasks'', tags = Map.empty\<rparr>),
    (PersistenceGetTimerIndexTasksScope, \<lparr>operation = ''GetTimerIndexTasks'', tags = Map.empty\<rparr>),
    (PersistenceCompleteTimerTaskScope, \<lparr>operation = ''CompleteTimerTask'', tags = Map.empty\<rparr>),
    (PersistenceRangeCompleteTimerTaskScope, \<lparr>operation = ''RangeCompleteTimerTask'', tags = Map.empty\<rparr>),
    (PersistenceCreateTaskScope, \<lparr>operation = ''CreateTask'', tags = Map.empty\<rparr>),
    (PersistenceGetTasksScope, \<lparr>operation = ''GetTasks'', tags = Map.empty\<rparr>),
    (PersistenceCompleteTaskScope, \<lparr>operation = ''CompleteTask'', tags = Map.empty\<rparr>),
    (PersistenceCompleteTasksLessThanScope, \<lparr>operation = ''CompleteTasksLessThan'', tags = Map.empty\<rparr>),
    (PersistenceGetOrphanTasksScope, \<lparr>operation = ''GetOrphanTasks'', tags = Map.empty\<rparr>),
    (PersistenceLeaseTaskListScope, \<lparr>operation = ''LeaseTaskList'', tags = Map.empty\<rparr>),
    (PersistenceUpdateTaskListScope, \<lparr>operation = ''UpdateTaskList'', tags = Map.empty\<rparr>),
    (PersistenceListTaskListScope, \<lparr>operation = ''ListTaskList'', tags = Map.empty\<rparr>),
    (PersistenceDeleteTaskListScope, \<lparr>operation = ''DeleteTaskList'', tags = Map.empty\<rparr>),
    (PersistenceAppendHistoryEventsScope, \<lparr>operation = ''AppendHistoryEvents'', tags = Map.empty\<rparr>),
    (PersistenceGetWorkflowExecutionHistoryScope, \<lparr>operation = ''GetWorkflowExecutionHistory'', tags = Map.empty\<rparr>),
    (PersistenceDeleteWorkflowExecutionHistoryScope, \<lparr>operation = ''DeleteWorkflowExecutionHistory'', tags = Map.empty\<rparr>),
    (PersistenceCreateDomainScope, \<lparr>operation = ''CreateDomain'', tags = Map.empty\<rparr>),
    (PersistenceGetDomainScope, \<lparr>operation = ''GetDomain'', tags = Map.empty\<rparr>),
    (PersistenceUpdateDomainScope, \<lparr>operation = ''UpdateDomain'', tags = Map.empty\<rparr>),
    (PersistenceDeleteDomainScope, \<lparr>operation = ''DeleteDomain'', tags = Map.empty\<rparr>),
    (PersistenceDeleteDomainByNameScope, \<lparr>operation = ''DeleteDomainByName'', tags = Map.empty\<rparr>),
    (PersistenceListDomainScope, \<lparr>operation = ''ListDomain'', tags = Map.empty\<rparr>),
    (PersistenceGetMetadataScope, \<lparr>operation = ''GetMetadata'', tags = Map.empty\<rparr>),
    (PersistenceRecordWorkflowExecutionStartedScope, \<lparr>operation = ''RecordWorkflowExecutionStarted'', tags = Map.empty\<rparr>),
    (PersistenceRecordWorkflowExecutionClosedScope, \<lparr>operation = ''RecordWorkflowExecutionClosed'', tags = Map.empty\<rparr>),
    (PersistenceRecordWorkflowExecutionUninitializedScope, \<lparr>operation = ''RecordWorkflowExecutionUninitialized'', tags = Map.empty\<rparr>),
    (PersistenceUpsertWorkflowExecutionScope, \<lparr>operation = ''UpsertWorkflowExecution'', tags = Map.empty\<rparr>),
    (PersistenceListOpenWorkflowExecutionsScope, \<lparr>operation = ''ListOpenWorkflowExecutions'', tags = Map.empty\<rparr>),
    (PersistenceListClosedWorkflowExecutionsScope, \<lparr>operation = ''ListClosedWorkflowExecutions'', tags = Map.empty\<rparr>),
    (PersistenceListOpenWorkflowExecutionsByTypeScope, \<lparr>operation = ''ListOpenWorkflowExecutionsByType'', tags = Map.empty\<rparr>),
    (PersistenceListClosedWorkflowExecutionsByTypeScope, \<lparr>operation = ''ListClosedWorkflowExecutionsByType'', tags = Map.empty\<rparr>),
    (PersistenceListOpenWorkflowExecutionsByWorkflowIDScope, \<lparr>operation = ''ListOpenWorkflowExecutionsByWorkflowID'', tags = Map.empty\<rparr>),
    (PersistenceListClosedWorkflowExecutionsByWorkflowIDScope, \<lparr>operation = ''ListClosedWorkflowExecutionsByWorkflowID'', tags = Map.empty\<rparr>),
    (PersistenceListClosedWorkflowExecutionsByStatusScope, \<lparr>operation = ''ListClosedWorkflowExecutionsByStatus'', tags = Map.empty\<rparr>),
    (PersistenceGetClosedWorkflowExecutionScope, \<lparr>operation = ''GetClosedWorkflowExecution'', tags = Map.empty\<rparr>),
    (PersistenceVisibilityDeleteWorkflowExecutionScope, \<lparr>operation = ''VisibilityDeleteWorkflowExecution'', tags = Map.empty\<rparr>),
    (PersistenceListWorkflowExecutionsScope, \<lparr>operation = ''ListWorkflowExecutions'', tags = Map.empty\<rparr>),
    (PersistenceScanWorkflowExecutionsScope, \<lparr>operation = ''ScanWorkflowExecutions'', tags = Map.empty\<rparr>),
    (PersistenceCountWorkflowExecutionsScope, \<lparr>operation = ''CountWorkflowExecutions'', tags = Map.empty\<rparr>),
    (PersistenceAppendHistoryNodesScope, \<lparr>operation = ''AppendHistoryNodes'', tags = Map.empty\<rparr>),
    (PersistenceReadHistoryBranchScope, \<lparr>operation = ''ReadHistoryBranch'', tags = Map.empty\<rparr>),
    (PersistenceForkHistoryBranchScope, \<lparr>operation = ''ForkHistoryBranch'', tags = Map.empty\<rparr>),
    (PersistenceDeleteHistoryBranchScope, \<lparr>operation = ''DeleteHistoryBranch'', tags = Map.empty\<rparr>),
    (PersistenceCompleteForkBranchScope, \<lparr>operation = ''CompleteForkBranch'', tags = Map.empty\<rparr>),
    (PersistenceGetHistoryTreeScope, \<lparr>operation = ''GetHistoryTree'', tags = Map.empty\<rparr>),
    (PersistenceGetAllHistoryTreeBranchesScope, \<lparr>operation = ''GetAllHistoryTreeBranches'', tags = Map.empty\<rparr>),
    (PersistenceEnqueueMessageScope, \<lparr>operation = ''EnqueueMessage'', tags = Map.empty\<rparr>),
    (PersistenceEnqueueMessageToDLQScope, \<lparr>operation = ''EnqueueMessageToDLQ'', tags = Map.empty\<rparr>),
    (PersistenceReadQueueMessagesScope, \<lparr>operation = ''ReadQueueMessages'', tags = Map.empty\<rparr>),
    (PersistenceReadQueueMessagesFromDLQScope, \<lparr>operation = ''ReadQueueMessagesFromDLQ'', tags = Map.empty\<rparr>),
    (PersistenceDeleteQueueMessagesScope, \<lparr>operation = ''DeleteQueueMessages'', tags = Map.empty\<rparr>),
    (PersistenceDeleteQueueMessageFromDLQScope, \<lparr>operation = ''DeleteQueueMessageFromDLQ'', tags = Map.empty\<rparr>),
    (PersistenceRangeDeleteMessagesFromDLQScope, \<lparr>operation = ''RangeDeleteMessagesFromDLQ'', tags = Map.empty\<rparr>),
    (PersistenceUpdateAckLevelScope, \<lparr>operation = ''UpdateAckLevel'', tags = Map.empty\<rparr>),
    (PersistenceGetAckLevelScope, \<lparr>operation = ''GetAckLevel'', tags = Map.empty\<rparr>),
    (PersistenceUpdateDLQAckLevelScope, \<lparr>operation = ''UpdateDLQAckLevel'', tags = Map.empty\<rparr>),
    (PersistenceGetDLQAckLevelScope, \<lparr>operation = ''GetDLQAckLevel'', tags = Map.empty\<rparr>),
    (PersistenceGetDLQSizeScope, \<lparr>operation = ''GetDLQSize'', tags = Map.empty\<rparr>),
    (PersistenceFetchDynamicConfigScope, \<lparr>operation = ''FetchDynamicConfig'', tags = Map.empty\<rparr>),
    (PersistenceUpdateDynamicConfigScope, \<lparr>operation = ''UpdateDynamicConfig'', tags = Map.empty\<rparr>),
    (ClusterMetadataArchivalConfigScope, \<lparr>operation = ''ArchivalConfig'', tags = Map.empty\<rparr>),
    (HistoryClientStartWorkflowExecutionScope, \<lparr>operation = ''HistoryClientStartWorkflowExecution'', tags = [CadenceRoleTagName \<mapsto> HistoryClientRoleTagValue]\<rparr>),
    (HistoryClientDescribeHistoryHostScope, \<lparr>operation = ''HistoryClientDescribeHistoryHost'', tags = [CadenceRoleTagName \<mapsto> HistoryClientRoleTagValue]\<rparr>),
    (HistoryClientRemoveTaskScope, \<lparr>operation = ''HistoryClientRemoveTask'', tags = [CadenceRoleTagName \<mapsto> HistoryClientRoleTagValue]\<rparr>),
    (HistoryClientCloseShardScope, \<lparr>operation = ''HistoryClientCloseShard'', tags = [CadenceRoleTagName \<mapsto> HistoryClientRoleTagValue]\<rparr>),
    (HistoryClientResetQueueScope, \<lparr>operation = ''HistoryClientResetQueue'', tags = [CadenceRoleTagName \<mapsto> HistoryClientRoleTagValue]\<rparr>),
    (HistoryClientDescribeQueueScope, \<lparr>operation = ''HistoryClientDescribeQueue'', tags = [CadenceRoleTagName \<mapsto> HistoryClientRoleTagValue]\<rparr>),
    (HistoryClientRecordActivityTaskHeartbeatScope, \<lparr>operation = ''HistoryClientRecordActivityTaskHeartbeat'', tags = [CadenceRoleTagName \<mapsto> HistoryClientRoleTagValue]\<rparr>),
    (HistoryClientRespondDecisionTaskCompletedScope, \<lparr>operation = ''HistoryClientRespondDecisionTaskCompleted'', tags = [CadenceRoleTagName \<mapsto> HistoryClientRoleTagValue]\<rparr>),
    (HistoryClientRespondDecisionTaskFailedScope, \<lparr>operation = ''HistoryClientRespondDecisionTaskFailed'', tags = [CadenceRoleTagName \<mapsto> HistoryClientRoleTagValue]\<rparr>),
    (HistoryClientRespondActivityTaskCompletedScope, \<lparr>operation = ''HistoryClientRespondActivityTaskCompleted'', tags = [CadenceRoleTagName \<mapsto> HistoryClientRoleTagValue]\<rparr>),
    (HistoryClientRespondActivityTaskFailedScope, \<lparr>operation = ''HistoryClientRespondActivityTaskFailed'', tags = [CadenceRoleTagName \<mapsto> HistoryClientRoleTagValue]\<rparr>),
    (HistoryClientRespondActivityTaskCanceledScope, \<lparr>operation = ''HistoryClientRespondActivityTaskCanceled'', tags = [CadenceRoleTagName \<mapsto> HistoryClientRoleTagValue]\<rparr>),
    (HistoryClientDescribeMutableStateScope, \<lparr>operation = ''HistoryClientDescribeMutableState'', tags = [CadenceRoleTagName \<mapsto> HistoryClientRoleTagValue]\<rparr>),
    (HistoryClientGetMutableStateScope, \<lparr>operation = ''HistoryClientGetMutableState'', tags = [CadenceRoleTagName \<mapsto> HistoryClientRoleTagValue]\<rparr>),
    (HistoryClientPollMutableStateScope, \<lparr>operation = ''HistoryClientPollMutableState'', tags = [CadenceRoleTagName \<mapsto> HistoryClientRoleTagValue]\<rparr>),
    (HistoryClientResetStickyTaskListScope, \<lparr>operation = ''HistoryClientResetStickyTaskListScope'', tags = [CadenceRoleTagName \<mapsto> HistoryClientRoleTagValue]\<rparr>),
    (HistoryClientDescribeWorkflowExecutionScope, \<lparr>operation = ''HistoryClientDescribeWorkflowExecution'', tags = [CadenceRoleTagName \<mapsto> HistoryClientRoleTagValue]\<rparr>),
    (HistoryClientRecordDecisionTaskStartedScope, \<lparr>operation = ''HistoryClientRecordDecisionTaskStarted'', tags = [CadenceRoleTagName \<mapsto> HistoryClientRoleTagValue]\<rparr>),
    (HistoryClientRecordActivityTaskStartedScope, \<lparr>operation = ''HistoryClientRecordActivityTaskStarted'', tags = [CadenceRoleTagName \<mapsto> HistoryClientRoleTagValue]\<rparr>),
    (HistoryClientRequestCancelWorkflowExecutionScope, \<lparr>operation = ''HistoryClientRequestCancelWorkflowExecution'', tags = [CadenceRoleTagName \<mapsto> HistoryClientRoleTagValue]\<rparr>),
    (HistoryClientSignalWorkflowExecutionScope, \<lparr>operation = ''HistoryClientSignalWorkflowExecution'', tags = [CadenceRoleTagName \<mapsto> HistoryClientRoleTagValue]\<rparr>),
    (HistoryClientSignalWithStartWorkflowExecutionScope, \<lparr>operation = ''HistoryClientSignalWithStartWorkflowExecution'', tags = [CadenceRoleTagName \<mapsto> HistoryClientRoleTagValue]\<rparr>),
    (HistoryClientRemoveSignalMutableStateScope, \<lparr>operation = ''HistoryClientRemoveSignalMutableStateScope'', tags = [CadenceRoleTagName \<mapsto> HistoryClientRoleTagValue]\<rparr>),
    (HistoryClientTerminateWorkflowExecutionScope, \<lparr>operation = ''HistoryClientTerminateWorkflowExecution'', tags = [CadenceRoleTagName \<mapsto> HistoryClientRoleTagValue]\<rparr>),
    (HistoryClientResetWorkflowExecutionScope, \<lparr>operation = ''HistoryClientResetWorkflowExecution'', tags = [CadenceRoleTagName \<mapsto> HistoryClientRoleTagValue]\<rparr>),
    (HistoryClientScheduleDecisionTaskScope, \<lparr>operation = ''HistoryClientScheduleDecisionTask'', tags = [CadenceRoleTagName \<mapsto> HistoryClientRoleTagValue]\<rparr>),
    (HistoryClientRecordChildExecutionCompletedScope, \<lparr>operation = ''HistoryClientRecordChildExecutionCompleted'', tags = [CadenceRoleTagName \<mapsto> HistoryClientRoleTagValue]\<rparr>),
    (HistoryClientReplicateEventsV2Scope, \<lparr>operation = ''HistoryClientReplicateEventsV2'', tags = [CadenceRoleTagName \<mapsto> HistoryClientRoleTagValue]\<rparr>),
    (HistoryClientSyncShardStatusScope, \<lparr>operation = ''HistoryClientSyncShardStatusScope'', tags = [CadenceRoleTagName \<mapsto> HistoryClientRoleTagValue]\<rparr>),
    (HistoryClientSyncActivityScope, \<lparr>operation = ''HistoryClientSyncActivityScope'', tags = [CadenceRoleTagName \<mapsto> HistoryClientRoleTagValue]\<rparr>),
    (HistoryClientGetReplicationTasksScope, \<lparr>operation = ''HistoryClientGetReplicationTasksScope'', tags = [CadenceRoleTagName \<mapsto> HistoryClientRoleTagValue]\<rparr>),
    (HistoryClientGetDLQReplicationTasksScope, \<lparr>operation = ''HistoryClientGetDLQReplicationTasksScope'', tags = [CadenceRoleTagName \<mapsto> HistoryClientRoleTagValue]\<rparr>),
    (HistoryClientQueryWorkflowScope, \<lparr>operation = ''HistoryClientQueryWorkflowScope'', tags = [CadenceRoleTagName \<mapsto> HistoryClientRoleTagValue]\<rparr>),
    (HistoryClientReapplyEventsScope, \<lparr>operation = ''HistoryClientReapplyEventsScope'', tags = [CadenceRoleTagName \<mapsto> HistoryClientRoleTagValue]\<rparr>),
    (HistoryClientCountDLQMessagesScope, \<lparr>operation = ''HistoryClientCountDLQMessagesScope'', tags = [CadenceRoleTagName \<mapsto> HistoryClientRoleTagValue]\<rparr>),
    (HistoryClientReadDLQMessagesScope, \<lparr>operation = ''HistoryClientReadDLQMessagesScope'', tags = [CadenceRoleTagName \<mapsto> HistoryClientRoleTagValue]\<rparr>),
    (HistoryClientPurgeDLQMessagesScope, \<lparr>operation = ''HistoryClientPurgeDLQMessagesScope'', tags = [CadenceRoleTagName \<mapsto> HistoryClientRoleTagValue]\<rparr>),
    (HistoryClientMergeDLQMessagesScope, \<lparr>operation = ''HistoryClientMergeDLQMessagesScope'', tags = [CadenceRoleTagName \<mapsto> HistoryClientRoleTagValue]\<rparr>),
    (HistoryClientRefreshWorkflowTasksScope, \<lparr>operation = ''HistoryClientRefreshWorkflowTasksScope'', tags = [CadenceRoleTagName \<mapsto> HistoryClientRoleTagValue]\<rparr>),
    (HistoryClientNotifyFailoverMarkersScope, \<lparr>operation = ''HistoryClientNotifyFailoverMarkersScope'', tags = [CadenceRoleTagName \<mapsto> HistoryClientRoleTagValue]\<rparr>),
    (HistoryClientGetCrossClusterTasksScope, \<lparr>operation = ''HistoryClientGetCrossClusterTasks'', tags = [CadenceRoleTagName \<mapsto> HistoryClientRoleTagValue]\<rparr>),
    (HistoryClientRespondCrossClusterTasksCompletedScope, \<lparr>operation = ''HistoryClientRespondCrossClusterTasksCompleted'', tags = [CadenceRoleTagName \<mapsto> HistoryClientRoleTagValue]\<rparr>),
    (HistoryClientGetFailoverInfoScope, \<lparr>operation = ''HistoryClientGetFailoverInfo'', tags = [CadenceRoleTagName \<mapsto> HistoryClientRoleTagValue]\<rparr>),
    (MatchingClientPollForDecisionTaskScope, \<lparr>operation = ''MatchingClientPollForDecisionTask'', tags = [CadenceRoleTagName \<mapsto> MatchingClientRoleTagValue]\<rparr>),
    (MatchingClientPollForActivityTaskScope, \<lparr>operation = ''MatchingClientPollForActivityTask'', tags = [CadenceRoleTagName \<mapsto> MatchingClientRoleTagValue]\<rparr>),
    (MatchingClientAddActivityTaskScope, \<lparr>operation = ''MatchingClientAddActivityTask'', tags = [CadenceRoleTagName \<mapsto> MatchingClientRoleTagValue]\<rparr>),
    (MatchingClientAddDecisionTaskScope, \<lparr>operation = ''MatchingClientAddDecisionTask'', tags = [CadenceRoleTagName \<mapsto> MatchingClientRoleTagValue]\<rparr>),
    (MatchingClientQueryWorkflowScope, \<lparr>operation = ''MatchingClientQueryWorkflow'', tags = [CadenceRoleTagName \<mapsto> MatchingClientRoleTagValue]\<rparr>),
    (MatchingClientRespondQueryTaskCompletedScope, \<lparr>operation = ''MatchingClientRespondQueryTaskCompleted'', tags = [CadenceRoleTagName \<mapsto> MatchingClientRoleTagValue]\<rparr>),
    (MatchingClientCancelOutstandingPollScope, \<lparr>operation = ''MatchingClientCancelOutstandingPoll'', tags = [CadenceRoleTagName \<mapsto> MatchingClientRoleTagValue]\<rparr>),
    (MatchingClientDescribeTaskListScope, \<lparr>operation = ''MatchingClientDescribeTaskList'', tags = [CadenceRoleTagName \<mapsto> MatchingClientRoleTagValue]\<rparr>),
    (MatchingClientListTaskListPartitionsScope, \<lparr>operation = ''MatchingClientListTaskListPartitions'', tags = [CadenceRoleTagName \<mapsto> MatchingClientRoleTagValue]\<rparr>),
    (MatchingClientGetTaskListsByDomainScope, \<lparr>operation = ''MatchingClientGetTaskListsByDomain'', tags = [CadenceRoleTagName \<mapsto> MatchingClientRoleTagValue]\<rparr>),
    (FrontendClientDeprecateDomainScope, \<lparr>operation = ''FrontendClientDeprecateDomain'', tags = [CadenceRoleTagName \<mapsto> FrontendClientRoleTagValue]\<rparr>),
    (FrontendClientDescribeDomainScope, \<lparr>operation = ''FrontendClientDescribeDomain'', tags = [CadenceRoleTagName \<mapsto> FrontendClientRoleTagValue]\<rparr>),
    (FrontendClientDescribeTaskListScope, \<lparr>operation = ''FrontendClientDescribeTaskList'', tags = [CadenceRoleTagName \<mapsto> FrontendClientRoleTagValue]\<rparr>),
    (FrontendClientDescribeWorkflowExecutionScope, \<lparr>operation = ''FrontendClientDescribeWorkflowExecution'', tags = [CadenceRoleTagName \<mapsto> FrontendClientRoleTagValue]\<rparr>),
    (FrontendClientGetWorkflowExecutionHistoryScope, \<lparr>operation = ''FrontendClientGetWorkflowExecutionHistory'', tags = [CadenceRoleTagName \<mapsto> FrontendClientRoleTagValue]\<rparr>),
    (FrontendClientGetWorkflowExecutionRawHistoryScope, \<lparr>operation = ''FrontendClientGetWorkflowExecutionRawHistory'', tags = [CadenceRoleTagName \<mapsto> FrontendClientRoleTagValue]\<rparr>),
    (FrontendClientPollForWorkflowExecutionRawHistoryScope, \<lparr>operation = ''FrontendClientPollForWorkflowExecutionRawHistory'', tags = [CadenceRoleTagName \<mapsto> FrontendClientRoleTagValue]\<rparr>),
    (FrontendClientListArchivedWorkflowExecutionsScope, \<lparr>operation = ''FrontendClientListArchivedWorkflowExecutions'', tags = [CadenceRoleTagName \<mapsto> FrontendClientRoleTagValue]\<rparr>),
    (FrontendClientListClosedWorkflowExecutionsScope, \<lparr>operation = ''FrontendClientListClosedWorkflowExecutions'', tags = [CadenceRoleTagName \<mapsto> FrontendClientRoleTagValue]\<rparr>),
    (FrontendClientListDomainsScope, \<lparr>operation = ''FrontendClientListDomains'', tags = [CadenceRoleTagName \<mapsto> FrontendClientRoleTagValue]\<rparr>),
    (FrontendClientListOpenWorkflowExecutionsScope, \<lparr>operation = ''FrontendClientListOpenWorkflowExecutions'', tags = [CadenceRoleTagName \<mapsto> FrontendClientRoleTagValue]\<rparr>),
    (FrontendClientPollForActivityTaskScope, \<lparr>operation = ''FrontendClientPollForActivityTask'', tags = [CadenceRoleTagName \<mapsto> FrontendClientRoleTagValue]\<rparr>),
    (FrontendClientPollForDecisionTaskScope, \<lparr>operation = ''FrontendClientPollForDecisionTask'', tags = [CadenceRoleTagName \<mapsto> FrontendClientRoleTagValue]\<rparr>),
    (FrontendClientQueryWorkflowScope, \<lparr>operation = ''FrontendClientQueryWorkflow'', tags = [CadenceRoleTagName \<mapsto> FrontendClientRoleTagValue]\<rparr>),
    (FrontendClientRecordActivityTaskHeartbeatScope, \<lparr>operation = ''FrontendClientRecordActivityTaskHeartbeat'', tags = [CadenceRoleTagName \<mapsto> FrontendClientRoleTagValue]\<rparr>),
    (FrontendClientRecordActivityTaskHeartbeatByIDScope, \<lparr>operation = ''FrontendClientRecordActivityTaskHeartbeatByID'', tags = [CadenceRoleTagName \<mapsto> FrontendClientRoleTagValue]\<rparr>),
    (FrontendClientRegisterDomainScope, \<lparr>operation = ''FrontendClientRegisterDomain'', tags = [CadenceRoleTagName \<mapsto> FrontendClientRoleTagValue]\<rparr>),
    (FrontendClientRequestCancelWorkflowExecutionScope, \<lparr>operation = ''FrontendClientRequestCancelWorkflowExecution'', tags = [CadenceRoleTagName \<mapsto> FrontendClientRoleTagValue]\<rparr>),
    (FrontendClientResetStickyTaskListScope, \<lparr>operation = ''FrontendClientResetStickyTaskList'', tags = [CadenceRoleTagName \<mapsto> FrontendClientRoleTagValue]\<rparr>),
    (FrontendClientRefreshWorkflowTasksScope, \<lparr>operation = ''FrontendClientRefreshWorkflowTasks'', tags = [CadenceRoleTagName \<mapsto> FrontendClientRoleTagValue]\<rparr>),
    (FrontendClientResetWorkflowExecutionScope, \<lparr>operation = ''FrontendClientResetWorkflowExecution'', tags = [CadenceRoleTagName \<mapsto> FrontendClientRoleTagValue]\<rparr>),
    (FrontendClientRespondActivityTaskCanceledScope, \<lparr>operation = ''FrontendClientRespondActivityTaskCanceled'', tags = [CadenceRoleTagName \<mapsto> FrontendClientRoleTagValue]\<rparr>),
    (FrontendClientRespondActivityTaskCanceledByIDScope, \<lparr>operation = ''FrontendClientRespondActivityTaskCanceledByID'', tags = [CadenceRoleTagName \<mapsto> FrontendClientRoleTagValue]\<rparr>),
    (FrontendClientRespondActivityTaskCompletedScope, \<lparr>operation = ''FrontendClientRespondActivityTaskCompleted'', tags = [CadenceRoleTagName \<mapsto> FrontendClientRoleTagValue]\<rparr>),
    (FrontendClientRespondActivityTaskCompletedByIDScope, \<lparr>operation = ''FrontendClientRespondActivityTaskCompletedByID'', tags = [CadenceRoleTagName \<mapsto> FrontendClientRoleTagValue]\<rparr>),
    (FrontendClientRespondActivityTaskFailedScope, \<lparr>operation = ''FrontendClientRespondActivityTaskFailed'', tags = [CadenceRoleTagName \<mapsto> FrontendClientRoleTagValue]\<rparr>),
    (FrontendClientRespondActivityTaskFailedByIDScope, \<lparr>operation = ''FrontendClientRespondActivityTaskFailedByID'', tags = [CadenceRoleTagName \<mapsto> FrontendClientRoleTagValue]\<rparr>),
    (FrontendClientRespondDecisionTaskCompletedScope, \<lparr>operation = ''FrontendClientRespondDecisionTaskCompleted'', tags = [CadenceRoleTagName \<mapsto> FrontendClientRoleTagValue]\<rparr>),
    (FrontendClientRespondDecisionTaskFailedScope, \<lparr>operation = ''FrontendClientRespondDecisionTaskFailed'', tags = [CadenceRoleTagName \<mapsto> FrontendClientRoleTagValue]\<rparr>),
    (FrontendClientRespondQueryTaskCompletedScope, \<lparr>operation = ''FrontendClientRespondQueryTaskCompleted'', tags = [CadenceRoleTagName \<mapsto> FrontendClientRoleTagValue]\<rparr>),
    (FrontendClientSignalWithStartWorkflowExecutionScope, \<lparr>operation = ''FrontendClientSignalWithStartWorkflowExecution'', tags = [CadenceRoleTagName \<mapsto> FrontendClientRoleTagValue]\<rparr>),
    (FrontendClientSignalWorkflowExecutionScope, \<lparr>operation = ''FrontendClientSignalWorkflowExecution'', tags = [CadenceRoleTagName \<mapsto> FrontendClientRoleTagValue]\<rparr>),
    (FrontendClientStartWorkflowExecutionScope, \<lparr>operation = ''FrontendClientStartWorkflowExecution'', tags = [CadenceRoleTagName \<mapsto> FrontendClientRoleTagValue]\<rparr>),
    (FrontendClientTerminateWorkflowExecutionScope, \<lparr>operation = ''FrontendClientTerminateWorkflowExecution'', tags = [CadenceRoleTagName \<mapsto> FrontendClientRoleTagValue]\<rparr>),
    (FrontendClientUpdateDomainScope, \<lparr>operation = ''FrontendClientUpdateDomain'', tags = [CadenceRoleTagName \<mapsto> FrontendClientRoleTagValue]\<rparr>),
    (FrontendClientListWorkflowExecutionsScope, \<lparr>operation = ''FrontendClientListWorkflowExecutions'', tags = [CadenceRoleTagName \<mapsto> FrontendClientRoleTagValue]\<rparr>),
    (FrontendClientScanWorkflowExecutionsScope, \<lparr>operation = ''FrontendClientScanWorkflowExecutions'', tags = [CadenceRoleTagName \<mapsto> FrontendClientRoleTagValue]\<rparr>),
    (FrontendClientCountWorkflowExecutionsScope, \<lparr>operation = ''FrontendClientCountWorkflowExecutions'', tags = [CadenceRoleTagName \<mapsto> FrontendClientRoleTagValue]\<rparr>),
    (FrontendClientGetSearchAttributesScope, \<lparr>operation = ''FrontendClientGetSearchAttributes'', tags = [CadenceRoleTagName \<mapsto> FrontendClientRoleTagValue]\<rparr>),
    (FrontendClientGetReplicationTasksScope, \<lparr>operation = ''FrontendClientGetReplicationTasksScope'', tags = [CadenceRoleTagName \<mapsto> FrontendClientRoleTagValue]\<rparr>),
    (FrontendClientGetDomainReplicationTasksScope, \<lparr>operation = ''FrontendClientGetDomainReplicationTasksScope'', tags = [CadenceRoleTagName \<mapsto> FrontendClientRoleTagValue]\<rparr>),
    (FrontendClientGetDLQReplicationTasksScope, \<lparr>operation = ''FrontendClientGetDLQReplicationTasksScope'', tags = [CadenceRoleTagName \<mapsto> FrontendClientRoleTagValue]\<rparr>),
    (FrontendClientReapplyEventsScope, \<lparr>operation = ''FrontendClientReapplyEventsScope'', tags = [CadenceRoleTagName \<mapsto> FrontendClientRoleTagValue]\<rparr>),
    (FrontendClientGetClusterInfoScope, \<lparr>operation = ''FrontendClientGetClusterInfoScope'', tags = [CadenceRoleTagName \<mapsto> FrontendClientRoleTagValue]\<rparr>),
    (FrontendClientListTaskListPartitionsScope, \<lparr>operation = ''FrontendClientListTaskListPartitions'', tags = [CadenceRoleTagName \<mapsto> FrontendClientRoleTagValue]\<rparr>),
    (FrontendClientGetTaskListsByDomainScope, \<lparr>operation = ''FrontendClientGetTaskListsByDomain'', tags = [CadenceRoleTagName \<mapsto> FrontendClientRoleTagValue]\<rparr>),
    (AdminClientAddSearchAttributeScope, \<lparr>operation = ''AdminClientAddSearchAttribute'', tags = [CadenceRoleTagName \<mapsto> AdminClientRoleTagValue]\<rparr>),
    (AdminClientDescribeHistoryHostScope, \<lparr>operation = ''AdminClientDescribeHistoryHost'', tags = [CadenceRoleTagName \<mapsto> AdminClientRoleTagValue]\<rparr>),
    (AdminClientDescribeShardDistributionScope, \<lparr>operation = ''AdminClientDescribeShardDistribution'', tags = [CadenceRoleTagName \<mapsto> AdminClientRoleTagValue]\<rparr>),
    (AdminClientDescribeWorkflowExecutionScope, \<lparr>operation = ''AdminClientDescribeWorkflowExecution'', tags = [CadenceRoleTagName \<mapsto> AdminClientRoleTagValue]\<rparr>),
    (AdminClientGetWorkflowExecutionRawHistoryV2Scope, \<lparr>operation = ''AdminClientGetWorkflowExecutionRawHistoryV2'', tags = [CadenceRoleTagName \<mapsto> AdminClientRoleTagValue]\<rparr>),
    (AdminClientDescribeClusterScope, \<lparr>operation = ''AdminClientDescribeCluster'', tags = [CadenceRoleTagName \<mapsto> AdminClientRoleTagValue]\<rparr>),
    (AdminClientRefreshWorkflowTasksScope, \<lparr>operation = ''AdminClientRefreshWorkflowTasks'', tags = [CadenceRoleTagName \<mapsto> AdminClientRoleTagValue]\<rparr>),
    (AdminClientResendReplicationTasksScope, \<lparr>operation = ''AdminClientResendReplicationTasks'', tags = [CadenceRoleTagName \<mapsto> AdminClientRoleTagValue]\<rparr>),
    (AdminClientCloseShardScope, \<lparr>operation = ''AdminClientCloseShard'', tags = [CadenceRoleTagName \<mapsto> AdminClientRoleTagValue]\<rparr>),
    (AdminClientRemoveTaskScope, \<lparr>operation = ''AdminClientRemoveTask'', tags = [CadenceRoleTagName \<mapsto> AdminClientRoleTagValue]\<rparr>),
    (AdminClientResetQueueScope, \<lparr>operation = ''AdminClientResetQueue'', tags = [CadenceRoleTagName \<mapsto> AdminClientRoleTagValue]\<rparr>),
    (AdminClientDescribeQueueScope, \<lparr>operation = ''AdminClientDescribeQueue'', tags = [CadenceRoleTagName \<mapsto> AdminClientRoleTagValue]\<rparr>),
    (AdminClientCountDLQMessagesScope, \<lparr>operation = ''AdminClientCountDLQMessages'', tags = [CadenceRoleTagName \<mapsto> AdminClientRoleTagValue]\<rparr>),
    (AdminClientReadDLQMessagesScope, \<lparr>operation = ''AdminClientReadDLQMessages'', tags = [CadenceRoleTagName \<mapsto> AdminClientRoleTagValue]\<rparr>),
    (AdminClientPurgeDLQMessagesScope, \<lparr>operation = ''AdminClientPurgeDLQMessages'', tags = [CadenceRoleTagName \<mapsto> AdminClientRoleTagValue]\<rparr>),
    (AdminClientMergeDLQMessagesScope, \<lparr>operation = ''AdminClientMergeDLQMessages'', tags = [CadenceRoleTagName \<mapsto> AdminClientRoleTagValue]\<rparr>),
    (AdminClientGetCrossClusterTasksScope, \<lparr>operation = ''AdminClientGetCrossClusterTasks'', tags = [CadenceRoleTagName \<mapsto> AdminClientRoleTagValue]\<rparr>),
    (AdminClientRespondCrossClusterTasksCompletedScope, \<lparr>operation = ''AdminClientRespondCrossClusterTasksCompleted'', tags = [CadenceRoleTagName \<mapsto> AdminClientRoleTagValue]\<rparr>),
    (AdminClientGetDynamicConfigScope, \<lparr>operation = ''AdminClientGetDynamicConfigScope'', tags = [CadenceRoleTagName \<mapsto> AdminClientRoleTagValue]\<rparr>),
    (AdminClientUpdateDynamicConfigScope, \<lparr>operation = ''AdminClientUpdateDynamicConfigScope'', tags = [CadenceRoleTagName \<mapsto> AdminClientRoleTagValue]\<rparr>),
    (AdminClientRestoreDynamicConfigScope, \<lparr>operation = ''AdminClientRestoreDynamicConfigScope'', tags = [CadenceRoleTagName \<mapsto> AdminClientRoleTagValue]\<rparr>),
    (AdminClientListDynamicConfigScope, \<lparr>operation = ''AdminClientListDynamicConfigScope'', tags = [CadenceRoleTagName \<mapsto> AdminClientRoleTagValue]\<rparr>),
    (DCRedirectionDeprecateDomainScope, \<lparr>operation = ''DCRedirectionDeprecateDomain'', tags = [CadenceRoleTagName \<mapsto> DCRedirectionRoleTagValue]\<rparr>),
    (DCRedirectionDescribeDomainScope, \<lparr>operation = ''DCRedirectionDescribeDomain'', tags = [CadenceRoleTagName \<mapsto> DCRedirectionRoleTagValue]\<rparr>),
    (DCRedirectionDescribeTaskListScope, \<lparr>operation = ''DCRedirectionDescribeTaskList'', tags = [CadenceRoleTagName \<mapsto> DCRedirectionRoleTagValue]\<rparr>),
    (DCRedirectionDescribeWorkflowExecutionScope, \<lparr>operation = ''DCRedirectionDescribeWorkflowExecution'', tags = [CadenceRoleTagName \<mapsto> DCRedirectionRoleTagValue]\<rparr>),
    (DCRedirectionGetWorkflowExecutionHistoryScope, \<lparr>operation = ''DCRedirectionGetWorkflowExecutionHistory'', tags = [CadenceRoleTagName \<mapsto> DCRedirectionRoleTagValue]\<rparr>),
    (DCRedirectionGetWorkflowExecutionRawHistoryScope, \<lparr>operation = ''DCRedirectionGetWorkflowExecutionRawHistoryScope'', tags = [CadenceRoleTagName \<mapsto> DCRedirectionRoleTagValue]\<rparr>),
    (DCRedirectionPollForWorklfowExecutionRawHistoryScope, \<lparr>operation = ''DCRedirectionPollForWorklfowExecutionRawHistory'', tags = [CadenceRoleTagName \<mapsto> DCRedirectionRoleTagValue]\<rparr>),
    (DCRedirectionListArchivedWorkflowExecutionsScope, \<lparr>operation = ''DCRedirectionListArchivedWorkflowExecutions'', tags = [CadenceRoleTagName \<mapsto> DCRedirectionRoleTagValue]\<rparr>),
    (DCRedirectionListClosedWorkflowExecutionsScope, \<lparr>operation = ''DCRedirectionListClosedWorkflowExecutions'', tags = [CadenceRoleTagName \<mapsto> DCRedirectionRoleTagValue]\<rparr>),
    (DCRedirectionListDomainsScope, \<lparr>operation = ''DCRedirectionListDomains'', tags = [CadenceRoleTagName \<mapsto> DCRedirectionRoleTagValue]\<rparr>),
    (DCRedirectionListOpenWorkflowExecutionsScope, \<lparr>operation = ''DCRedirectionListOpenWorkflowExecutions'', tags = [CadenceRoleTagName \<mapsto> DCRedirectionRoleTagValue]\<rparr>),
    (DCRedirectionListWorkflowExecutionsScope, \<lparr>operation = ''DCRedirectionListWorkflowExecutions'', tags = [CadenceRoleTagName \<mapsto> DCRedirectionRoleTagValue]\<rparr>),
    (DCRedirectionScanWorkflowExecutionsScope, \<lparr>operation = ''DCRedirectionScanWorkflowExecutions'', tags = [CadenceRoleTagName \<mapsto> DCRedirectionRoleTagValue]\<rparr>),
    (DCRedirectionCountWorkflowExecutionsScope, \<lparr>operation = ''DCRedirectionCountWorkflowExecutions'', tags = [CadenceRoleTagName \<mapsto> DCRedirectionRoleTagValue]\<rparr>),
    (DCRedirectionGetSearchAttributesScope, \<lparr>operation = ''DCRedirectionGetSearchAttributes'', tags = [CadenceRoleTagName \<mapsto> DCRedirectionRoleTagValue]\<rparr>),
    (DCRedirectionPollForActivityTaskScope, \<lparr>operation = ''DCRedirectionPollForActivityTask'', tags = [CadenceRoleTagName \<mapsto> DCRedirectionRoleTagValue]\<rparr>),
    (DCRedirectionPollForDecisionTaskScope, \<lparr>operation = ''DCRedirectionPollForDecisionTask'', tags = [CadenceRoleTagName \<mapsto> DCRedirectionRoleTagValue]\<rparr>),
    (DCRedirectionQueryWorkflowScope, \<lparr>operation = ''DCRedirectionQueryWorkflow'', tags = [CadenceRoleTagName \<mapsto> DCRedirectionRoleTagValue]\<rparr>),
    (DCRedirectionRecordActivityTaskHeartbeatScope, \<lparr>operation = ''DCRedirectionRecordActivityTaskHeartbeat'', tags = [CadenceRoleTagName \<mapsto> DCRedirectionRoleTagValue]\<rparr>),
    (DCRedirectionRecordActivityTaskHeartbeatByIDScope, \<lparr>operation = ''DCRedirectionRecordActivityTaskHeartbeatByID'', tags = [CadenceRoleTagName \<mapsto> DCRedirectionRoleTagValue]\<rparr>),
    (DCRedirectionRegisterDomainScope, \<lparr>operation = ''DCRedirectionRegisterDomain'', tags = [CadenceRoleTagName \<mapsto> DCRedirectionRoleTagValue]\<rparr>),
    (DCRedirectionRequestCancelWorkflowExecutionScope, \<lparr>operation = ''DCRedirectionRequestCancelWorkflowExecution'', tags = [CadenceRoleTagName \<mapsto> DCRedirectionRoleTagValue]\<rparr>),
    (DCRedirectionResetStickyTaskListScope, \<lparr>operation = ''DCRedirectionResetStickyTaskList'', tags = [CadenceRoleTagName \<mapsto> DCRedirectionRoleTagValue]\<rparr>),
    (DCRedirectionResetWorkflowExecutionScope, \<lparr>operation = ''DCRedirectionResetWorkflowExecution'', tags = [CadenceRoleTagName \<mapsto> DCRedirectionRoleTagValue]\<rparr>),
    (DCRedirectionRespondActivityTaskCanceledScope, \<lparr>operation = ''DCRedirectionRespondActivityTaskCanceled'', tags = [CadenceRoleTagName \<mapsto> DCRedirectionRoleTagValue]\<rparr>),
    (DCRedirectionRespondActivityTaskCanceledByIDScope, \<lparr>operation = ''DCRedirectionRespondActivityTaskCanceledByID'', tags = [CadenceRoleTagName \<mapsto> DCRedirectionRoleTagValue]\<rparr>),
    (DCRedirectionRespondActivityTaskCompletedScope, \<lparr>operation = ''DCRedirectionRespondActivityTaskCompleted'', tags = [CadenceRoleTagName \<mapsto> DCRedirectionRoleTagValue]\<rparr>),
    (DCRedirectionRespondActivityTaskCompletedByIDScope, \<lparr>operation = ''DCRedirectionRespondActivityTaskCompletedByID'', tags = [CadenceRoleTagName \<mapsto> DCRedirectionRoleTagValue]\<rparr>),
    (DCRedirectionRespondActivityTaskFailedScope, \<lparr>operation = ''DCRedirectionRespondActivityTaskFailed'', tags = [CadenceRoleTagName \<mapsto> DCRedirectionRoleTagValue]\<rparr>),
    (DCRedirectionRespondActivityTaskFailedByIDScope, \<lparr>operation = ''DCRedirectionRespondActivityTaskFailedByID'', tags = [CadenceRoleTagName \<mapsto> DCRedirectionRoleTagValue]\<rparr>),
    (DCRedirectionRespondDecisionTaskCompletedScope, \<lparr>operation = ''DCRedirectionRespondDecisionTaskCompleted'', tags = [CadenceRoleTagName \<mapsto> DCRedirectionRoleTagValue]\<rparr>),
    (DCRedirectionRespondDecisionTaskFailedScope, \<lparr>operation = ''DCRedirectionRespondDecisionTaskFailed'', tags = [CadenceRoleTagName \<mapsto> DCRedirectionRoleTagValue]\<rparr>),
    (DCRedirectionRespondQueryTaskCompletedScope, \<lparr>operation = ''DCRedirectionRespondQueryTaskCompleted'', tags = [CadenceRoleTagName \<mapsto> DCRedirectionRoleTagValue]\<rparr>),
    (DCRedirectionSignalWithStartWorkflowExecutionScope, \<lparr>operation = ''DCRedirectionSignalWithStartWorkflowExecution'', tags = [CadenceRoleTagName \<mapsto> DCRedirectionRoleTagValue]\<rparr>),
    (DCRedirectionSignalWorkflowExecutionScope, \<lparr>operation = ''DCRedirectionSignalWorkflowExecution'', tags = [CadenceRoleTagName \<mapsto> DCRedirectionRoleTagValue]\<rparr>),
    (DCRedirectionStartWorkflowExecutionScope, \<lparr>operation = ''DCRedirectionStartWorkflowExecution'', tags = [CadenceRoleTagName \<mapsto> DCRedirectionRoleTagValue]\<rparr>),
    (DCRedirectionTerminateWorkflowExecutionScope, \<lparr>operation = ''DCRedirectionTerminateWorkflowExecution'', tags = [CadenceRoleTagName \<mapsto> DCRedirectionRoleTagValue]\<rparr>),
    (DCRedirectionUpdateDomainScope, \<lparr>operation = ''DCRedirectionUpdateDomain'', tags = [CadenceRoleTagName \<mapsto> DCRedirectionRoleTagValue]\<rparr>),
    (DCRedirectionListTaskListPartitionsScope, \<lparr>operation = ''DCRedirectionListTaskListPartitions'', tags = [CadenceRoleTagName \<mapsto> DCRedirectionRoleTagValue]\<rparr>),
    (DCRedirectionGetTaskListsByDomainScope, \<lparr>operation = ''DCRedirectionGetTaskListsByDomain'', tags = [CadenceRoleTagName \<mapsto> DCRedirectionRoleTagValue]\<rparr>),
    (DCRedirectionRefreshWorkflowTasksScope, \<lparr>operation = ''DCRedirectionRefreshWorkflowTasks'', tags = [CadenceRoleTagName \<mapsto> DCRedirectionRoleTagValue]\<rparr>),
    (MessagingClientPublishScope, \<lparr>operation = ''MessagingClientPublish'', tags = Map.empty\<rparr>),
    (MessagingClientPublishBatchScope, \<lparr>operation = ''MessagingClientPublishBatch'', tags = Map.empty\<rparr>),
    (MessagingClientConsumerScope, \<lparr>operation = ''MessagingClientConsumerScope'', tags = Map.empty\<rparr>),
    (DomainCacheScope, \<lparr>operation = ''DomainCache'', tags = Map.empty\<rparr>),
    (HistoryRereplicationByTransferTaskScope, \<lparr>operation = ''HistoryRereplicationByTransferTask'', tags = Map.empty\<rparr>),
    (HistoryRereplicationByTimerTaskScope, \<lparr>operation = ''HistoryRereplicationByTimerTask'', tags = Map.empty\<rparr>),
    (HistoryRereplicationByHistoryReplicationScope, \<lparr>operation = ''HistoryRereplicationByHistoryReplication'', tags = Map.empty\<rparr>),
    (HistoryRereplicationByHistoryMetadataReplicationScope, \<lparr>operation = ''HistoryRereplicationByHistoryMetadataReplication'', tags = Map.empty\<rparr>),
    (HistoryRereplicationByActivityReplicationScope, \<lparr>operation = ''HistoryRereplicationByActivityReplication'', tags = Map.empty\<rparr>),
    (ElasticsearchRecordWorkflowExecutionStartedScope, \<lparr>operation = ''RecordWorkflowExecutionStarted'', tags = Map.empty\<rparr>),
    (ElasticsearchRecordWorkflowExecutionClosedScope, \<lparr>operation = ''RecordWorkflowExecutionClosed'', tags = Map.empty\<rparr>),
    (ElasticsearchRecordWorkflowExecutionUninitializedScope, \<lparr>operation = ''RecordWorkflowExecutionUninitialized'', tags = Map.empty\<rparr>),
    (ElasticsearchUpsertWorkflowExecutionScope, \<lparr>operation = ''UpsertWorkflowExecution'', tags = Map.empty\<rparr>),
    (ElasticsearchListOpenWorkflowExecutionsScope, \<lparr>operation = ''ListOpenWorkflowExecutions'', tags = Map.empty\<rparr>),
    (ElasticsearchListClosedWorkflowExecutionsScope, \<lparr>operation = ''ListClosedWorkflowExecutions'', tags = Map.empty\<rparr>),
    (ElasticsearchListOpenWorkflowExecutionsByTypeScope, \<lparr>operation = ''ListOpenWorkflowExecutionsByType'', tags = Map.empty\<rparr>),
    (ElasticsearchListClosedWorkflowExecutionsByTypeScope, \<lparr>operation = ''ListClosedWorkflowExecutionsByType'', tags = Map.empty\<rparr>),
    (ElasticsearchListOpenWorkflowExecutionsByWorkflowIDScope, \<lparr>operation = ''ListOpenWorkflowExecutionsByWorkflowID'', tags = Map.empty\<rparr>),
    (ElasticsearchListClosedWorkflowExecutionsByWorkflowIDScope, \<lparr>operation = ''ListClosedWorkflowExecutionsByWorkflowID'', tags = Map.empty\<rparr>),
    (ElasticsearchListClosedWorkflowExecutionsByStatusScope, \<lparr>operation = ''ListClosedWorkflowExecutionsByStatus'', tags = Map.empty\<rparr>),
    (ElasticsearchGetClosedWorkflowExecutionScope, \<lparr>operation = ''GetClosedWorkflowExecution'', tags = Map.empty\<rparr>),
    (ElasticsearchListWorkflowExecutionsScope, \<lparr>operation = ''ListWorkflowExecutions'', tags = Map.empty\<rparr>),
    (ElasticsearchScanWorkflowExecutionsScope, \<lparr>operation = ''ScanWorkflowExecutions'', tags = Map.empty\<rparr>),
    (ElasticsearchCountWorkflowExecutionsScope, \<lparr>operation = ''CountWorkflowExecutions'', tags = Map.empty\<rparr>),
    (ElasticsearchDeleteWorkflowExecutionsScope, \<lparr>operation = ''DeleteWorkflowExecution'', tags = Map.empty\<rparr>),
    (SequentialTaskProcessingScope, \<lparr>operation = ''SequentialTaskProcessing'', tags = Map.empty\<rparr>),
    (ParallelTaskProcessingScope, \<lparr>operation = ''ParallelTaskProcessing'', tags = Map.empty\<rparr>),
    (TaskSchedulerScope, \<lparr>operation = ''TaskScheduler'', tags = Map.empty\<rparr>),
    (HistoryArchiverScope, \<lparr>operation = ''HistoryArchiver'', tags = Map.empty\<rparr>),
    (VisibilityArchiverScope, \<lparr>operation = ''VisibilityArchiver'', tags = Map.empty\<rparr>),
    (BlobstoreClientUploadScope, \<lparr>operation = ''BlobstoreClientUpload'', tags = [CadenceRoleTagName \<mapsto> BlobstoreRoleTagValue]\<rparr>),
    (BlobstoreClientDownloadScope, \<lparr>operation = ''BlobstoreClientDownload'', tags = [CadenceRoleTagName \<mapsto> BlobstoreRoleTagValue]\<rparr>),
    (BlobstoreClientGetMetadataScope, \<lparr>operation = ''BlobstoreClientGetMetadata'', tags = [CadenceRoleTagName \<mapsto> BlobstoreRoleTagValue]\<rparr>),
    (BlobstoreClientExistsScope, \<lparr>operation = ''BlobstoreClientExists'', tags = [CadenceRoleTagName \<mapsto> BlobstoreRoleTagValue]\<rparr>),
    (BlobstoreClientDeleteScope, \<lparr>operation = ''BlobstoreClientDelete'', tags = [CadenceRoleTagName \<mapsto> BlobstoreRoleTagValue]\<rparr>),
    (BlobstoreClientDirectoryExistsScope, \<lparr>operation = ''BlobstoreClientDirectoryExists'', tags = [CadenceRoleTagName \<mapsto> BlobstoreRoleTagValue]\<rparr>),
    (DomainFailoverScope, \<lparr>operation = ''DomainFailover'', tags = Map.empty\<rparr>),
    (DomainReplicationQueueScope, \<lparr>operation = ''DomainReplicationQueue'', tags = Map.empty\<rparr>)
  ]"

definition ScopeDefs_Frontend :: "(int \<times> scopeDefinition) list" where
  "ScopeDefs_Frontend = [
    (AdminRemoveTaskScope, \<lparr>operation = ''AdminRemoveTask'', tags = Map.empty\<rparr>),
    (AdminCloseShardScope, \<lparr>operation = ''AdminCloseShard'', tags = Map.empty\<rparr>),
    (AdminResetQueueScope, \<lparr>operation = ''AdminResetQueue'', tags = Map.empty\<rparr>),
    (AdminDescribeQueueScope, \<lparr>operation = ''AdminDescribeQueue'', tags = Map.empty\<rparr>),
    (AdminCountDLQMessagesScope, \<lparr>operation = ''AdminCountDLQMessages'', tags = Map.empty\<rparr>),
    (AdminReadDLQMessagesScope, \<lparr>operation = ''AdminReadDLQMessages'', tags = Map.empty\<rparr>),
    (AdminPurgeDLQMessagesScope, \<lparr>operation = ''AdminPurgeDLQMessages'', tags = Map.empty\<rparr>),
    (AdminMergeDLQMessagesScope, \<lparr>operation = ''AdminMergeDLQMessages'', tags = Map.empty\<rparr>),
    (AdminDescribeHistoryHostScope, \<lparr>operation = ''DescribeHistoryHost'', tags = Map.empty\<rparr>),
    (AdminDescribeShardDistributionScope, \<lparr>operation = ''AdminShardList'', tags = Map.empty\<rparr>),
    (AdminAddSearchAttributeScope, \<lparr>operation = ''AddSearchAttribute'', tags = Map.empty\<rparr>),
    (AdminDescribeWorkflowExecutionScope, \<lparr>operation = ''DescribeWorkflowExecution'', tags = Map.empty\<rparr>),
    (AdminGetWorkflowExecutionRawHistoryScope, \<lparr>operation = ''GetWorkflowExecutionRawHistory'', tags = Map.empty\<rparr>),
    (AdminGetWorkflowExecutionRawHistoryV2Scope, \<lparr>operation = ''GetWorkflowExecutionRawHistoryV2'', tags = Map.empty\<rparr>),
    (AdminGetReplicationMessagesScope, \<lparr>operation = ''GetReplicationMessages'', tags = Map.empty\<rparr>),
    (AdminGetDomainReplicationMessagesScope, \<lparr>operation = ''GetDomainReplicationMessages'', tags = Map.empty\<rparr>),
    (AdminGetDLQReplicationMessagesScope, \<lparr>operation = ''AdminGetDLQReplicationMessages'', tags = Map.empty\<rparr>),
    (AdminReapplyEventsScope, \<lparr>operation = ''ReapplyEvents'', tags = Map.empty\<rparr>),
    (AdminRefreshWorkflowTasksScope, \<lparr>operation = ''RefreshWorkflowTasks'', tags = Map.empty\<rparr>),
    (AdminResendReplicationTasksScope, \<lparr>operation = ''ResendReplicationTasks'', tags = Map.empty\<rparr>),
    (AdminGetCrossClusterTasksScope, \<lparr>operation = ''AdminGetCrossClusterTasks'', tags = Map.empty\<rparr>),
    (AdminRespondCrossClusterTasksCompletedScope, \<lparr>operation = ''AdminRespondCrossClusterTasksCompleted'', tags = Map.empty\<rparr>),
    (AdminGetDynamicConfigScope, \<lparr>operation = ''AdminGetDynamicConfig'', tags = Map.empty\<rparr>),
    (AdminUpdateDynamicConfigScope, \<lparr>operation = ''AdminUpdateDynamicConfig'', tags = Map.empty\<rparr>),
    (AdminRestoreDynamicConfigScope, \<lparr>operation = ''AdminRestoreDynamicConfig'', tags = Map.empty\<rparr>),
    (AdminListDynamicConfigScope, \<lparr>operation = ''AdminListDynamicConfig'', tags = Map.empty\<rparr>),
    (AdminDeleteWorkflowScope, \<lparr>operation = ''AdminDeleteWorkflow'', tags = Map.empty\<rparr>),
    (MaintainCorruptWorkflowScope, \<lparr>operation = ''MaintainCorruptWorkflow'', tags = Map.empty\<rparr>),
    (FrontendRestartWorkflowExecutionScope, \<lparr>operation = ''RestartWorkflowExecution'', tags = Map.empty\<rparr>),
    (FrontendStartWorkflowExecutionScope, \<lparr>operation = ''StartWorkflowExecution'', tags = Map.empty\<rparr>),
    (FrontendPollForDecisionTaskScope, \<lparr>operation = ''PollForDecisionTask'', tags = Map.empty\<rparr>),
    (FrontendPollForActivityTaskScope, \<lparr>operation = ''PollForActivityTask'', tags = Map.empty\<rparr>),
    (FrontendRecordActivityTaskHeartbeatScope, \<lparr>operation = ''RecordActivityTaskHeartbeat'', tags = Map.empty\<rparr>),
    (FrontendRecordActivityTaskHeartbeatByIDScope, \<lparr>operation = ''RecordActivityTaskHeartbeatByID'', tags = Map.empty\<rparr>),
    (FrontendRespondDecisionTaskCompletedScope, \<lparr>operation = ''RespondDecisionTaskCompleted'', tags = Map.empty\<rparr>),
    (FrontendRespondDecisionTaskFailedScope, \<lparr>operation = ''RespondDecisionTaskFailed'', tags = Map.empty\<rparr>),
    (FrontendRespondQueryTaskCompletedScope, \<lparr>operation = ''RespondQueryTaskCompleted'', tags = Map.empty\<rparr>),
    (FrontendRespondActivityTaskCompletedScope, \<lparr>operation = ''RespondActivityTaskCompleted'', tags = Map.empty\<rparr>),
    (FrontendRespondActivityTaskFailedScope, \<lparr>operation = ''RespondActivityTaskFailed'', tags = Map.empty\<rparr>),
    (FrontendRespondActivityTaskCanceledScope, \<lparr>operation = ''RespondActivityTaskCanceled'', tags = Map.empty\<rparr>),
    (FrontendRespondActivityTaskCompletedByIDScope, \<lparr>operation = ''RespondActivityTaskCompletedByID'', tags = Map.empty\<rparr>),
    (FrontendRespondActivityTaskFailedByIDScope, \<lparr>operation = ''RespondActivityTaskFailedByID'', tags = Map.empty\<rparr>),
    (FrontendRespondActivityTaskCanceledByIDScope, \<lparr>operation = ''RespondActivityTaskCanceledByID'', tags = Map.empty\<rparr>),
    (FrontendGetWorkflowExecutionHistoryScope, \<lparr>operation = ''GetWorkflowExecutionHistory'', tags = Map.empty\<rparr>),
    (FrontendGetWorkflowExecutionRawHistoryScope, \<lparr>operation = ''GetWorkflowExecutionRawHistory'', tags = Map.empty\<rparr>),
    (FrontendPollForWorklfowExecutionRawHistoryScope, \<lparr>operation = ''PollForWorklfowExecutionRawHistory'', tags = Map.empty\<rparr>),
    (FrontendSignalWorkflowExecutionScope, \<lparr>operation = ''SignalWorkflowExecution'', tags = Map.empty\<rparr>),
    (FrontendSignalWithStartWorkflowExecutionScope, \<lparr>operation = ''SignalWithStartWorkflowExecution'', tags = Map.empty\<rparr>),
    (FrontendTerminateWorkflowExecutionScope, \<lparr>operation = ''TerminateWorkflowExecution'', tags = Map.empty\<rparr>),
    (FrontendResetWorkflowExecutionScope, \<lparr>operation = ''ResetWorkflowExecution'', tags = Map.empty\<rparr>),
    (FrontendRequestCancelWorkflowExecutionScope, \<lparr>operation = ''RequestCancelWorkflowExecution'', tags = Map.empty\<rparr>),
    (FrontendListArchivedWorkflowExecutionsScope, \<lparr>operation = ''ListArchivedWorkflowExecutions'', tags = Map.empty\<rparr>),
    (FrontendListOpenWorkflowExecutionsScope, \<lparr>operation = ''ListOpenWorkflowExecutions'', tags = Map.empty\<rparr>),
    (FrontendListClosedWorkflowExecutionsScope, \<lparr>operation = ''ListClosedWorkflowExecutions'', tags = Map.empty\<rparr>),
    (FrontendListWorkflowExecutionsScope, \<lparr>operation = ''ListWorkflowExecutions'', tags = Map.empty\<rparr>),
    (FrontendScanWorkflowExecutionsScope, \<lparr>operation = ''ScanWorkflowExecutions'', tags = Map.empty\<rparr>),
    (FrontendCountWorkflowExecutionsScope, \<lparr>operation = ''CountWorkflowExecutions'', tags = Map.empty\<rparr>),
    (FrontendRegisterDomainScope, \<lparr>operation = ''RegisterDomain'', tags = Map.empty\<rparr>),
    (FrontendDescribeDomainScope, \<lparr>operation = ''DescribeDomain'', tags = Map.empty\<rparr>),
    (FrontendListDomainsScope, \<lparr>operation = ''ListDomain'', tags = Map.empty\<rparr>),
    (FrontendUpdateDomainScope, \<lparr>operation = ''UpdateDomain'', tags = Map.empty\<rparr>),
    (FrontendDeprecateDomainScope, \<lparr>operation = ''DeprecateDomain'', tags = Map.empty\<rparr>),
    (FrontendQueryWorkflowScope, \<lparr>operation = ''QueryWorkflow'', tags = Map.empty\<rparr>),
    (FrontendDescribeWorkflowExecutionScope, \<lparr>operation = ''DescribeWorkflowExecution'', tags = Map.empty\<rparr>),
    (FrontendListTaskListPartitionsScope, \<lparr>operation = ''FrontendListTaskListPartitions'', tags = Map.empty\<rparr>),
    (FrontendGetTaskListsByDomainScope, \<lparr>operation = ''FrontendGetTaskListsByDomain'', tags = Map.empty\<rparr>),
    (FrontendRefreshWorkflowTasksScope, \<lparr>operation = ''FrontendRefreshWorkflowTasks'', tags = Map.empty\<rparr>),
    (FrontendDescribeTaskListScope, \<lparr>operation = ''DescribeTaskList'', tags = Map.empty\<rparr>),
    (FrontendResetStickyTaskListScope, \<lparr>operation = ''ResetStickyTaskList'', tags = Map.empty\<rparr>),
    (FrontendGetSearchAttributesScope, \<lparr>operation = ''GetSearchAttributes'', tags = Map.empty\<rparr>)
  ]"

definition ScopeDefs_History :: "(int \<times> scopeDefinition) list" where
  "ScopeDefs_History = [
    (HistoryStartWorkflowExecutionScope, \<lparr>operation = ''StartWorkflowExecution'', tags = Map.empty\<rparr>),
    (HistoryRecordActivityTaskHeartbeatScope, \<lparr>operation = ''RecordActivityTaskHeartbeat'', tags = Map.empty\<rparr>),
    (HistoryRespondDecisionTaskCompletedScope, \<lparr>operation = ''RespondDecisionTaskCompleted'', tags = Map.empty\<rparr>),
    (HistoryRespondDecisionTaskFailedScope, \<lparr>operation = ''RespondDecisionTaskFailed'', tags = Map.empty\<rparr>),
    (HistoryRespondActivityTaskCompletedScope, \<lparr>operation = ''RespondActivityTaskCompleted'', tags = Map.empty\<rparr>),
    (HistoryRespondActivityTaskFailedScope, \<lparr>operation = ''RespondActivityTaskFailed'', tags = Map.empty\<rparr>),
    (HistoryRespondActivityTaskCanceledScope, \<lparr>operation = ''RespondActivityTaskCanceled'', tags = Map.empty\<rparr>),
    (HistoryResetQueueScope, \<lparr>operation = ''ResetQueue'', tags = Map.empty\<rparr>),
    (HistoryDescribeQueueScope, \<lparr>operation = ''DescribeQueue'', tags = Map.empty\<rparr>),
    (HistoryDescribeMutabelStateScope, \<lparr>operation = ''DescribeMutableState'', tags = Map.empty\<rparr>),
    (HistoryGetMutableStateScope, \<lparr>operation = ''GetMutableState'', tags = Map.empty\<rparr>),
    (HistoryPollMutableStateScope, \<lparr>operation = ''PollMutableState'', tags = Map.empty\<rparr>),
    (HistoryResetStickyTaskListScope, \<lparr>operation = ''ResetStickyTaskListScope'', tags = Map.empty\<rparr>),
    (HistoryDescribeWorkflowExecutionScope, \<lparr>operation = ''DescribeWorkflowExecution'', tags = Map.empty\<rparr>),
    (HistoryRecordDecisionTaskStartedScope, \<lparr>operation = ''RecordDecisionTaskStarted'', tags = Map.empty\<rparr>),
    (HistoryRecordActivityTaskStartedScope, \<lparr>operation = ''RecordActivityTaskStarted'', tags = Map.empty\<rparr>),
    (HistorySignalWorkflowExecutionScope, \<lparr>operation = ''SignalWorkflowExecution'', tags = Map.empty\<rparr>),
    (HistorySignalWithStartWorkflowExecutionScope, \<lparr>operation = ''SignalWithStartWorkflowExecution'', tags = Map.empty\<rparr>),
    (HistoryRemoveSignalMutableStateScope, \<lparr>operation = ''RemoveSignalMutableState'', tags = Map.empty\<rparr>),
    (HistoryTerminateWorkflowExecutionScope, \<lparr>operation = ''TerminateWorkflowExecution'', tags = Map.empty\<rparr>),
    (HistoryResetWorkflowExecutionScope, \<lparr>operation = ''ResetWorkflowExecution'', tags = Map.empty\<rparr>),
    (HistoryQueryWorkflowScope, \<lparr>operation = ''QueryWorkflow'', tags = Map.empty\<rparr>),
    (HistoryProcessDeleteHistoryEventScope, \<lparr>operation = ''ProcessDeleteHistoryEvent'', tags = Map.empty\<rparr>),
    (HistoryScheduleDecisionTaskScope, \<lparr>operation = ''ScheduleDecisionTask'', tags = Map.empty\<rparr>),
    (HistoryRecordChildExecutionCompletedScope, \<lparr>operation = ''RecordChildExecutionCompleted'', tags = Map.empty\<rparr>),
    (HistoryRequestCancelWorkflowExecutionScope, \<lparr>operation = ''RequestCancelWorkflowExecution'', tags = Map.empty\<rparr>),
    (HistoryReplicateEventsScope, \<lparr>operation = ''ReplicateEvents'', tags = Map.empty\<rparr>),
    (HistoryReplicateRawEventsScope, \<lparr>operation = ''ReplicateRawEvents'', tags = Map.empty\<rparr>),
    (HistoryReplicateEventsV2Scope, \<lparr>operation = ''ReplicateEventsV2'', tags = Map.empty\<rparr>),
    (HistorySyncShardStatusScope, \<lparr>operation = ''SyncShardStatus'', tags = Map.empty\<rparr>),
    (HistorySyncActivityScope, \<lparr>operation = ''SyncActivity'', tags = Map.empty\<rparr>),
    (HistoryDescribeMutableStateScope, \<lparr>operation = ''DescribeMutableState'', tags = Map.empty\<rparr>),
    (HistoryGetReplicationMessagesScope, \<lparr>operation = ''GetReplicationMessages'', tags = Map.empty\<rparr>),
    (HistoryGetDLQReplicationMessagesScope, \<lparr>operation = ''GetDLQReplicationMessages'', tags = Map.empty\<rparr>),
    (HistoryCountDLQMessagesScope, \<lparr>operation = ''CountDLQMessages'', tags = Map.empty\<rparr>),
    (HistoryReadDLQMessagesScope, \<lparr>operation = ''ReadDLQMessages'', tags = Map.empty\<rparr>),
    (HistoryPurgeDLQMessagesScope, \<lparr>operation = ''PurgeDLQMessages'', tags = Map.empty\<rparr>),
    (HistoryMergeDLQMessagesScope, \<lparr>operation = ''MergeDLQMessages'', tags = Map.empty\<rparr>),
    (HistoryShardControllerScope, \<lparr>operation = ''ShardController'', tags = Map.empty\<rparr>),
    (HistoryReapplyEventsScope, \<lparr>operation = ''EventReapplication'', tags = Map.empty\<rparr>),
    (HistoryRefreshWorkflowTasksScope, \<lparr>operation = ''RefreshWorkflowTasks'', tags = Map.empty\<rparr>),
    (HistoryNotifyFailoverMarkersScope, \<lparr>operation = ''NotifyFailoverMarkers'', tags = Map.empty\<rparr>),
    (HistoryGetCrossClusterTasksScope, \<lparr>operation = ''GetCrossClusterTasks'', tags = Map.empty\<rparr>),
    (HistoryRespondCrossClusterTasksCompletedScope, \<lparr>operation = ''RespondCrossClusterTasksCompleted'', tags = Map.empty\<rparr>),
    (HistoryGetFailoverInfoScope, \<lparr>operation = ''GetFailoverInfo'', tags = Map.empty\<rparr>),
    (TaskPriorityAssignerScope, \<lparr>operation = ''TaskPriorityAssigner'', tags = Map.empty\<rparr>),
    (TransferQueueProcessorScope, \<lparr>operation = ''TransferQueueProcessor'', tags = Map.empty\<rparr>),
    (TransferActiveQueueProcessorScope, \<lparr>operation = ''TransferActiveQueueProcessor'', tags = Map.empty\<rparr>),
    (TransferStandbyQueueProcessorScope, \<lparr>operation = ''TransferStandbyQueueProcessor'', tags = Map.empty\<rparr>),
    (TransferActiveTaskActivityScope, \<lparr>operation = ''TransferActiveTaskActivity'', tags = Map.empty\<rparr>),
    (TransferActiveTaskDecisionScope, \<lparr>operation = ''TransferActiveTaskDecision'', tags = Map.empty\<rparr>),
    (TransferActiveTaskCloseExecutionScope, \<lparr>operation = ''TransferActiveTaskCloseExecution'', tags = Map.empty\<rparr>),
    (TransferActiveTaskCancelExecutionScope, \<lparr>operation = ''TransferActiveTaskCancelExecution'', tags = Map.empty\<rparr>),
    (TransferActiveTaskSignalExecutionScope, \<lparr>operation = ''TransferActiveTaskSignalExecution'', tags = Map.empty\<rparr>),
    (TransferActiveTaskStartChildExecutionScope, \<lparr>operation = ''TransferActiveTaskStartChildExecution'', tags = Map.empty\<rparr>),
    (TransferActiveTaskRecordWorkflowStartedScope, \<lparr>operation = ''TransferActiveTaskRecordWorkflowStarted'', tags = Map.empty\<rparr>),
    (TransferActiveTaskResetWorkflowScope, \<lparr>operation = ''TransferActiveTaskResetWorkflow'', tags = Map.empty\<rparr>),
    (TransferActiveTaskUpsertWorkflowSearchAttributesScope, \<lparr>operation = ''TransferActiveTaskUpsertWorkflowSearchAttributes'', tags = Map.empty\<rparr>),
    (TransferActiveTaskRecordWorkflowClosedScope, \<lparr>operation = ''TransferActiveTaskRecordWorkflowClosed'', tags = Map.empty\<rparr>),
    (TransferActiveTaskRecordChildExecutionCompletedScope, \<lparr>operation = ''TransferActiveTaskRecordChildExecutionCompleted'', tags = Map.empty\<rparr>),
    (TransferActiveTaskApplyParentClosePolicyScope, \<lparr>operation = ''TransferActiveTaskApplyParentClosePolicy'', tags = Map.empty\<rparr>),
    (TransferStandbyTaskActivityScope, \<lparr>operation = ''TransferStandbyTaskActivity'', tags = Map.empty\<rparr>),
    (TransferStandbyTaskDecisionScope, \<lparr>operation = ''TransferStandbyTaskDecision'', tags = Map.empty\<rparr>),
    (TransferStandbyTaskCloseExecutionScope, \<lparr>operation = ''TransferStandbyTaskCloseExecution'', tags = Map.empty\<rparr>),
    (TransferStandbyTaskCancelExecutionScope, \<lparr>operation = ''TransferStandbyTaskCancelExecution'', tags = Map.empty\<rparr>),
    (TransferStandbyTaskSignalExecutionScope, \<lparr>operation = ''TransferStandbyTaskSignalExecution'', tags = Map.empty\<rparr>),
    (TransferStandbyTaskStartChildExecutionScope, \<lparr>operation = ''TransferStandbyTaskStartChildExecution'', tags = Map.empty\<rparr>),
    (TransferStandbyTaskRecordWorkflowStartedScope, \<lparr>operation = ''TransferStandbyTaskRecordWorkflowStarted'', tags = Map.empty\<rparr>),
    (TransferStandbyTaskResetWorkflowScope, \<lparr>operation = ''TransferStandbyTaskResetWorkflow'', tags = Map.empty\<rparr>),
    (TransferStandbyTaskUpsertWorkflowSearchAttributesScope, \<lparr>operation = ''TransferStandbyTaskUpsertWorkflowSearchAttributes'', tags = Map.empty\<rparr>),
    (TransferStandbyTaskRecordWorkflowClosedScope, \<lparr>operation = ''TransferStandbyTaskRecordWorkflowClosed'', tags = Map.empty\<rparr>),
    (TransferStandbyTaskRecordChildExecutionCompletedScope, \<lparr>operation = ''TransferStandbyTaskRecordChildExecutionCompleted'', tags = Map.empty\<rparr>),
    (TransferStandbyTaskApplyParentClosePolicyScope, \<lparr>operation = ''TransferStandbyTaskApplyParentClosePolicy'', tags = Map.empty\<rparr>),
    (TimerQueueProcessorScope, \<lparr>operation = ''TimerQueueProcessor'', tags = Map.empty\<rparr>),
    (TimerActiveQueueProcessorScope, \<lparr>operation = ''TimerActiveQueueProcessor'', tags = Map.empty\<rparr>),
    (TimerStandbyQueueProcessorScope, \<lparr>operation = ''TimerStandbyQueueProcessor'', tags = Map.empty\<rparr>),
    (TimerActiveTaskActivityTimeoutScope, \<lparr>operation = ''TimerActiveTaskActivityTimeout'', tags = Map.empty\<rparr>),
    (TimerActiveTaskDecisionTimeoutScope, \<lparr>operation = ''TimerActiveTaskDecisionTimeout'', tags = Map.empty\<rparr>),
    (TimerActiveTaskUserTimerScope, \<lparr>operation = ''TimerActiveTaskUserTimer'', tags = Map.empty\<rparr>),
    (TimerActiveTaskWorkflowTimeoutScope, \<lparr>operation = ''TimerActiveTaskWorkflowTimeout'', tags = Map.empty\<rparr>),
    (TimerActiveTaskActivityRetryTimerScope, \<lparr>operation = ''TimerActiveTaskActivityRetryTimer'', tags = Map.empty\<rparr>),
    (TimerActiveTaskWorkflowBackoffTimerScope, \<lparr>operation = ''TimerActiveTaskWorkflowBackoffTimer'', tags = Map.empty\<rparr>),
    (TimerActiveTaskDeleteHistoryEventScope, \<lparr>operation = ''TimerActiveTaskDeleteHistoryEvent'', tags = Map.empty\<rparr>),
    (TimerStandbyTaskActivityTimeoutScope, \<lparr>operation = ''TimerStandbyTaskActivityTimeout'', tags = Map.empty\<rparr>),
    (TimerStandbyTaskDecisionTimeoutScope, \<lparr>operation = ''TimerStandbyTaskDecisionTimeout'', tags = Map.empty\<rparr>),
    (TimerStandbyTaskUserTimerScope, \<lparr>operation = ''TimerStandbyTaskUserTimer'', tags = Map.empty\<rparr>),
    (TimerStandbyTaskWorkflowTimeoutScope, \<lparr>operation = ''TimerStandbyTaskWorkflowTimeout'', tags = Map.empty\<rparr>),
    (TimerStandbyTaskActivityRetryTimerScope, \<lparr>operation = ''TimerStandbyTaskActivityRetryTimer'', tags = Map.empty\<rparr>),
    (TimerStandbyTaskWorkflowBackoffTimerScope, \<lparr>operation = ''TimerStandbyTaskWorkflowBackoffTimer'', tags = Map.empty\<rparr>),
    (TimerStandbyTaskDeleteHistoryEventScope, \<lparr>operation = ''TimerStandbyTaskDeleteHistoryEvent'', tags = Map.empty\<rparr>),
    (CrossClusterQueueProcessorScope, \<lparr>operation = ''CrossClusterQueueProcessor'', tags = Map.empty\<rparr>),
    (CrossClusterTaskProcessorScope, \<lparr>operation = ''CrossClusterTaskProcessor'', tags = Map.empty\<rparr>),
    (CrossClusterTaskFetcherScope, \<lparr>operation = ''CrossClusterTaskFetcher'', tags = Map.empty\<rparr>),
    (CrossClusterSourceTaskStartChildExecutionScope, \<lparr>operation = ''CrossClusterSourceTaskStartChildExecution'', tags = Map.empty\<rparr>),
    (CrossClusterSourceTaskCancelExecutionScope, \<lparr>operation = ''CrossClusterSourceTaskCancelExecution'', tags = Map.empty\<rparr>),
    (CrossClusterSourceTaskSignalExecutionScope, \<lparr>operation = ''CrossClusterSourceTaskSignalExecution'', tags = Map.empty\<rparr>),
    (CrossClusterSourceTaskRecordChildWorkflowExecutionCompleteScope, \<lparr>operation = ''CrossClusterSourceTaskTypeRecordChildWorkflowExecutionComplete'', tags = Map.empty\<rparr>),
    (CrossClusterSourceTaskApplyParentClosePolicyScope, \<lparr>operation = ''CrossClusterSourceTaskTypeApplyParentClosePolicy'', tags = Map.empty\<rparr>),
    (CrossClusterTargetTaskStartChildExecutionScope, \<lparr>operation = ''CrossClusterTargetTaskStartChildExecution'', tags = Map.empty\<rparr>),
    (CrossClusterTargetTaskCancelExecutionScope, \<lparr>operation = ''CrossClusterTargetTaskCancelExecution'', tags = Map.empty\<rparr>),
    (CrossClusterTargetTaskSignalExecutionScope, \<lparr>operation = ''CrossClusterTargetTaskSignalExecution'', tags = Map.empty\<rparr>),
    (CrossClusterTargetTaskRecordChildWorkflowExecutionCompleteScope, \<lparr>operation = ''CrossClusterTargetTaskTypeRecordChildWorkflowExecutionComplete'', tags = Map.empty\<rparr>),
    (CrossClusterTargetTaskApplyParentClosePolicyScope, \<lparr>operation = ''CrossClusterTargetTaskTypeApplyParentClosePolicy'', tags = Map.empty\<rparr>),
    (HistoryEventNotificationScope, \<lparr>operation = ''HistoryEventNotification'', tags = Map.empty\<rparr>),
    (ReplicatorQueueProcessorScope, \<lparr>operation = ''ReplicatorQueueProcessor'', tags = Map.empty\<rparr>),
    (ReplicatorCacheManagerScope, \<lparr>operation = ''ReplicatorCacheManager'', tags = Map.empty\<rparr>),
    (ReplicatorTaskHistoryScope, \<lparr>operation = ''ReplicatorTaskHistory'', tags = Map.empty\<rparr>),
    (ReplicatorTaskSyncActivityScope, \<lparr>operation = ''ReplicatorTaskSyncActivity'', tags = Map.empty\<rparr>),
    (ReplicateHistoryEventsScope, \<lparr>operation = ''ReplicateHistoryEvents'', tags = Map.empty\<rparr>),
    (ReplicationMetricEmitterScope, \<lparr>operation = ''ReplicationMetricEmitter'', tags = Map.empty\<rparr>),
    (ShardInfoScope, \<lparr>operation = ''ShardInfo'', tags = Map.empty\<rparr>),
    (WorkflowContextScope, \<lparr>operation = ''WorkflowContext'', tags = Map.empty\<rparr>),
    (HistoryCacheGetAndCreateScope, \<lparr>operation = ''HistoryCacheGetAndCreate'', tags = [CacheTypeTagName \<mapsto> MutableStateCacheTypeTagValue]\<rparr>),
    (HistoryCacheGetOrCreateScope, \<lparr>operation = ''HistoryCacheGetOrCreate'', tags = [CacheTypeTagName \<mapsto> MutableStateCacheTypeTagValue]\<rparr>),
    (HistoryCacheGetOrCreateCurrentScope, \<lparr>operation = ''HistoryCacheGetOrCreateCurrent'', tags = [CacheTypeTagName \<mapsto> MutableStateCacheTypeTagValue]\<rparr>),
    (HistoryCacheGetCurrentExecutionScope, \<lparr>operation = ''HistoryCacheGetCurrentExecution'', tags = [CacheTypeTagName \<mapsto> MutableStateCacheTypeTagValue]\<rparr>),
    (EventsCacheGetEventScope, \<lparr>operation = ''EventsCacheGetEvent'', tags = [CacheTypeTagName \<mapsto> EventsCacheTypeTagValue]\<rparr>),
    (EventsCachePutEventScope, \<lparr>operation = ''EventsCachePutEvent'', tags = [CacheTypeTagName \<mapsto> EventsCacheTypeTagValue]\<rparr>),
    (EventsCacheGetFromStoreScope, \<lparr>operation = ''EventsCacheGetFromStore'', tags = [CacheTypeTagName \<mapsto> EventsCacheTypeTagValue]\<rparr>),
    (ExecutionSizeStatsScope, \<lparr>operation = ''ExecutionStats'', tags = [StatsTypeTagName \<mapsto> SizeStatsTypeTagValue]\<rparr>),
    (ExecutionCountStatsScope, \<lparr>operation = ''ExecutionStats'', tags = [StatsTypeTagName \<mapsto> CountStatsTypeTagValue]\<rparr>),
    (SessionSizeStatsScope, \<lparr>operation = ''SessionStats'', tags = [StatsTypeTagName \<mapsto> SizeStatsTypeTagValue]\<rparr>),
    (SessionCountStatsScope, \<lparr>operation = ''SessionStats'', tags = [StatsTypeTagName \<mapsto> CountStatsTypeTagValue]\<rparr>),
    (WorkflowCompletionStatsScope, \<lparr>operation = ''CompletionStats'', tags = [StatsTypeTagName \<mapsto> CountStatsTypeTagValue]\<rparr>),
    (ArchiverClientScope, \<lparr>operation = ''ArchiverClient'', tags = Map.empty\<rparr>),
    (ReplicationTaskFetcherScope, \<lparr>operation = ''ReplicationTaskFetcher'', tags = Map.empty\<rparr>),
    (ReplicationTaskCleanupScope, \<lparr>operation = ''ReplicationTaskCleanup'', tags = Map.empty\<rparr>),
    (ReplicationDLQStatsScope, \<lparr>operation = ''ReplicationDLQStats'', tags = Map.empty\<rparr>),
    (FailoverMarkerScope, \<lparr>operation = ''FailoverMarker'', tags = Map.empty\<rparr>),
    (HistoryReplicationV2TaskScope, \<lparr>operation = ''HistoryReplicationV2Task'', tags = Map.empty\<rparr>),
    (SyncActivityTaskScope, \<lparr>operation = ''SyncActivityTask'', tags = Map.empty\<rparr>)
  ]"

definition ScopeDefs_Matching :: "(int \<times> scopeDefinition) list" where
  "ScopeDefs_Matching = [
    (MatchingPollForDecisionTaskScope, \<lparr>operation = ''PollForDecisionTask'', tags = Map.empty\<rparr>),
    (MatchingPollForActivityTaskScope, \<lparr>operation = ''PollForActivityTask'', tags = Map.empty\<rparr>),
    (MatchingAddActivityTaskScope, \<lparr>operation = ''AddActivityTask'', tags = Map.empty\<rparr>),
    (MatchingAddDecisionTaskScope, \<lparr>operation = ''AddDecisionTask'', tags = Map.empty\<rparr>),
    (MatchingTaskListMgrScope, \<lparr>operation = ''TaskListMgr'', tags = Map.empty\<rparr>),
    (MatchingQueryWorkflowScope, \<lparr>operation = ''QueryWorkflow'', tags = Map.empty\<rparr>),
    (MatchingRespondQueryTaskCompletedScope, \<lparr>operation = ''RespondQueryTaskCompleted'', tags = Map.empty\<rparr>),
    (MatchingCancelOutstandingPollScope, \<lparr>operation = ''CancelOutstandingPoll'', tags = Map.empty\<rparr>),
    (MatchingDescribeTaskListScope, \<lparr>operation = ''DescribeTaskList'', tags = Map.empty\<rparr>),
    (MatchingListTaskListPartitionsScope, \<lparr>operation = ''ListTaskListPartitions'', tags = Map.empty\<rparr>),
    (MatchingGetTaskListsByDomainScope, \<lparr>operation = ''GetTaskListsByDomain'', tags = Map.empty\<rparr>)
  ]"

definition ScopeDefs_Worker :: "(int \<times> scopeDefinition) list" where
  "ScopeDefs_Worker = [
    (ReplicatorScope, \<lparr>operation = ''Replicator'', tags = Map.empty\<rparr>),
    (DomainReplicationTaskScope, \<lparr>operation = ''DomainReplicationTask'', tags = Map.empty\<rparr>),
    (ESProcessorScope, \<lparr>operation = ''ESProcessor'', tags = Map.empty\<rparr>),
    (IndexProcessorScope, \<lparr>operation = ''IndexProcessor'', tags = Map.empty\<rparr>),
    (ArchiverDeleteHistoryActivityScope, \<lparr>operation = ''ArchiverDeleteHistoryActivity'', tags = Map.empty\<rparr>),
    (ArchiverUploadHistoryActivityScope, \<lparr>operation = ''ArchiverUploadHistoryActivity'', tags = Map.empty\<rparr>),
    (ArchiverArchiveVisibilityActivityScope, \<lparr>operation = ''ArchiverArchiveVisibilityActivity'', tags = Map.empty\<rparr>),
    (ArchiverScope, \<lparr>operation = ''Archiver'', tags = Map.empty\<rparr>),
    (ArchiverPumpScope, \<lparr>operation = ''ArchiverPump'', tags = Map.empty\<rparr>),
    (ArchiverArchivalWorkflowScope, \<lparr>operation = ''ArchiverArchivalWorkflow'', tags = Map.empty\<rparr>),
    (TaskListScavengerScope, \<lparr>operation = ''tasklistscavenger'', tags = Map.empty\<rparr>),
    (ExecutionsScannerScope, \<lparr>operation = ''ExecutionsScanner'', tags = Map.empty\<rparr>),
    (ShardScannerScope, \<lparr>operation = ''ShardScanner'', tags = Map.empty\<rparr>),
    (CheckDataCorruptionWorkflowScope, \<lparr>operation = ''CheckDataCorruptionWorkflow'', tags = Map.empty\<rparr>),
    (ExecutionsFixerScope, \<lparr>operation = ''ExecutionsFixer'', tags = Map.empty\<rparr>),
    (HistoryScavengerScope, \<lparr>operation = ''historyscavenger'', tags = Map.empty\<rparr>),
    (BatcherScope, \<lparr>operation = ''batcher'', tags = Map.empty\<rparr>),
    (ParentClosePolicyProcessorScope, \<lparr>operation = ''ParentClosePolicyProcessor'', tags = Map.empty\<rparr>),
    (ESAnalyzerScope, \<lparr>operation = ''ESAnalyzer'', tags = Map.empty\<rparr>),
    (WatchDogScope, \<lparr>operation = ''WatchDog'', tags = Map.empty\<rparr>)
  ]"

definition ScopeDefs :: "ServiceIdx \<rightharpoonup> (int \<rightharpoonup> scopeDefinition)" where
  "ScopeDefs = map_of [
     (Common, map_of ScopeDefs_Common),
     (Frontend, map_of ScopeDefs_Frontend),
     (History, map_of ScopeDefs_History),
     (Matching, map_of ScopeDefs_Matching),
     (Worker, map_of ScopeDefs_Worker)]"

subsection \<open>Metric indices\<close>

subsubsection \<open>Common metrics\<close>

definition CadenceRequests :: int where
  "CadenceRequests = 0"

definition CadenceFailures :: int where
  "CadenceFailures = 1"

definition CadenceCriticalFailures :: int where
  "CadenceCriticalFailures = 2"

definition CadenceLatency :: int where
  "CadenceLatency = 3"

definition CadenceErrBadRequestCounter :: int where
  "CadenceErrBadRequestCounter = 4"

definition CadenceErrDomainNotActiveCounter :: int where
  "CadenceErrDomainNotActiveCounter = 5"

definition CadenceErrServiceBusyCounter :: int where
  "CadenceErrServiceBusyCounter = 6"

definition CadenceErrEntityNotExistsCounter :: int where
  "CadenceErrEntityNotExistsCounter = 7"

definition CadenceErrWorkflowExecutionAlreadyCompletedCounter :: int where
  "CadenceErrWorkflowExecutionAlreadyCompletedCounter = 8"

definition CadenceErrExecutionAlreadyStartedCounter :: int where
  "CadenceErrExecutionAlreadyStartedCounter = 9"

definition CadenceErrDomainAlreadyExistsCounter :: int where
  "CadenceErrDomainAlreadyExistsCounter = 10"

definition CadenceErrCancellationAlreadyRequestedCounter :: int where
  "CadenceErrCancellationAlreadyRequestedCounter = 11"

definition CadenceErrQueryFailedCounter :: int where
  "CadenceErrQueryFailedCounter = 12"

definition CadenceErrLimitExceededCounter :: int where
  "CadenceErrLimitExceededCounter = 13"

definition CadenceErrContextTimeoutCounter :: int where
  "CadenceErrContextTimeoutCounter = 14"

definition CadenceErrRetryTaskCounter :: int where
  "CadenceErrRetryTaskCounter = 15"

definition CadenceErrBadBinaryCounter :: int where
  "CadenceErrBadBinaryCounter = 16"

definition CadenceErrClientVersionNotSupportedCounter :: int where
  "CadenceErrClientVersionNotSupportedCounter = 17"

definition CadenceErrIncompleteHistoryCounter :: int where
  "CadenceErrIncompleteHistoryCounter = 18"

definition CadenceErrNonDeterministicCounter :: int where
  "CadenceErrNonDeterministicCounter = 19"

definition CadenceErrUnauthorizedCounter :: int where
  "CadenceErrUnauthorizedCounter = 20"

definition CadenceErrAuthorizeFailedCounter :: int where
  "CadenceErrAuthorizeFailedCounter = 21"

definition CadenceErrRemoteSyncMatchFailedCounter :: int where
  "CadenceErrRemoteSyncMatchFailedCounter = 22"

definition CadenceErrDomainNameExceededWarnLimit :: int where
  "CadenceErrDomainNameExceededWarnLimit = 23"

definition CadenceErrIdentityExceededWarnLimit :: int where
  "CadenceErrIdentityExceededWarnLimit = 24"

definition CadenceErrWorkflowIDExceededWarnLimit :: int where
  "CadenceErrWorkflowIDExceededWarnLimit = 25"

definition CadenceErrSignalNameExceededWarnLimit :: int where
  "CadenceErrSignalNameExceededWarnLimit = 26"

definition CadenceErrWorkflowTypeExceededWarnLimit :: int where
  "CadenceErrWorkflowTypeExceededWarnLimit = 27"

definition CadenceErrRequestIDExceededWarnLimit :: int where
  "CadenceErrRequestIDExceededWarnLimit = 28"

definition CadenceErrTaskListNameExceededWarnLimit :: int where
  "CadenceErrTaskListNameExceededWarnLimit = 29"

definition CadenceErrActivityIDExceededWarnLimit :: int where
  "CadenceErrActivityIDExceededWarnLimit = 30"

definition CadenceErrActivityTypeExceededWarnLimit :: int where
  "CadenceErrActivityTypeExceededWarnLimit = 31"

definition CadenceErrMarkerNameExceededWarnLimit :: int where
  "CadenceErrMarkerNameExceededWarnLimit = 32"

definition CadenceErrTimerIDExceededWarnLimit :: int where
  "CadenceErrTimerIDExceededWarnLimit = 33"

definition PersistenceRequests :: int where
  "PersistenceRequests = 34"

definition PersistenceFailures :: int where
  "PersistenceFailures = 35"

definition PersistenceLatency :: int where
  "PersistenceLatency = 36"

definition PersistenceLatencyHistogram :: int where
  "PersistenceLatencyHistogram = 37"

definition PersistenceErrShardExistsCounter :: int where
  "PersistenceErrShardExistsCounter = 38"

definition PersistenceErrShardOwnershipLostCounter :: int where
  "PersistenceErrShardOwnershipLostCounter = 39"

definition PersistenceErrConditionFailedCounter :: int where
  "PersistenceErrConditionFailedCounter = 40"

definition PersistenceErrCurrentWorkflowConditionFailedCounter :: int where
  "PersistenceErrCurrentWorkflowConditionFailedCounter = 41"

definition PersistenceErrTimeoutCounter :: int where
  "PersistenceErrTimeoutCounter = 42"

definition PersistenceErrBusyCounter :: int where
  "PersistenceErrBusyCounter = 43"

definition PersistenceErrEntityNotExistsCounter :: int where
  "PersistenceErrEntityNotExistsCounter = 44"

definition PersistenceErrExecutionAlreadyStartedCounter :: int where
  "PersistenceErrExecutionAlreadyStartedCounter = 45"

definition PersistenceErrDomainAlreadyExistsCounter :: int where
  "PersistenceErrDomainAlreadyExistsCounter = 46"

definition PersistenceErrBadRequestCounter :: int where
  "PersistenceErrBadRequestCounter = 47"

definition PersistenceErrDBUnavailableCounter :: int where
  "PersistenceErrDBUnavailableCounter = 48"

definition PersistenceSampledCounter :: int where
  "PersistenceSampledCounter = 49"

definition PersistenceEmptyResponseCounter :: int where
  "PersistenceEmptyResponseCounter = 50"

definition CadenceClientRequests :: int where
  "CadenceClientRequests = 51"

definition CadenceClientFailures :: int where
  "CadenceClientFailures = 52"

definition CadenceClientLatency :: int where
  "CadenceClientLatency = 53"

definition CadenceDcRedirectionClientRequests :: int where
  "CadenceDcRedirectionClientRequests = 54"

definition CadenceDcRedirectionClientFailures :: int where
  "CadenceDcRedirectionClientFailures = 55"

definition CadenceDcRedirectionClientLatency :: int where
  "CadenceDcRedirectionClientLatency = 56"

definition CadenceAuthorizationLatency :: int where
  "CadenceAuthorizationLatency = 57"

definition DomainCachePrepareCallbacksLatency :: int where
  "DomainCachePrepareCallbacksLatency = 58"

definition DomainCacheCallbacksLatency :: int where
  "DomainCacheCallbacksLatency = 59"

definition DomainCacheCallbacksCount :: int where
  "DomainCacheCallbacksCount = 60"

definition HistorySize :: int where
  "HistorySize = 61"

definition HistoryCount :: int where
  "HistoryCount = 62"

definition EventBlobSize :: int where
  "EventBlobSize = 63"

definition DecisionResultCount :: int where
  "DecisionResultCount = 64"

definition ArchivalConfigFailures :: int where
  "ArchivalConfigFailures = 65"

definition ActiveClusterGauge :: int where
  "ActiveClusterGauge = 66"

definition ElasticsearchRequests :: int where
  "ElasticsearchRequests = 67"

definition ElasticsearchFailures :: int where
  "ElasticsearchFailures = 68"

definition ElasticsearchLatency :: int where
  "ElasticsearchLatency = 69"

definition ElasticsearchErrBadRequestCounter :: int where
  "ElasticsearchErrBadRequestCounter = 70"

definition ElasticsearchErrBusyCounter :: int where
  "ElasticsearchErrBusyCounter = 71"

definition SequentialTaskSubmitRequest :: int where
  "SequentialTaskSubmitRequest = 72"

definition SequentialTaskSubmitRequestTaskQueueExist :: int where
  "SequentialTaskSubmitRequestTaskQueueExist = 73"

definition SequentialTaskSubmitRequestTaskQueueMissing :: int where
  "SequentialTaskSubmitRequestTaskQueueMissing = 74"

definition SequentialTaskSubmitLatency :: int where
  "SequentialTaskSubmitLatency = 75"

definition SequentialTaskQueueSize :: int where
  "SequentialTaskQueueSize = 76"

definition SequentialTaskQueueProcessingLatency :: int where
  "SequentialTaskQueueProcessingLatency = 77"

definition SequentialTaskTaskProcessingLatency :: int where
  "SequentialTaskTaskProcessingLatency = 78"

definition ParallelTaskSubmitRequest :: int where
  "ParallelTaskSubmitRequest = 79"

definition ParallelTaskSubmitLatency :: int where
  "ParallelTaskSubmitLatency = 80"

definition ParallelTaskTaskProcessingLatency :: int where
  "ParallelTaskTaskProcessingLatency = 81"

definition PriorityTaskSubmitRequest :: int where
  "PriorityTaskSubmitRequest = 82"

definition PriorityTaskSubmitLatency :: int where
  "PriorityTaskSubmitLatency = 83"

definition KafkaConsumerMessageIn :: int where
  "KafkaConsumerMessageIn = 84"

definition KafkaConsumerMessageAck :: int where
  "KafkaConsumerMessageAck = 85"

definition KafkaConsumerMessageNack :: int where
  "KafkaConsumerMessageNack = 86"

definition KafkaConsumerMessageNackDlqErr :: int where
  "KafkaConsumerMessageNackDlqErr = 87"

definition KafkaConsumerSessionStart :: int where
  "KafkaConsumerSessionStart = 88"

definition GracefulFailoverLatency :: int where
  "GracefulFailoverLatency = 89"

definition GracefulFailoverFailure :: int where
  "GracefulFailoverFailure = 90"

definition HistoryArchiverArchiveNonRetryableErrorCount :: int where
  "HistoryArchiverArchiveNonRetryableErrorCount = 91"

definition HistoryArchiverArchiveTransientErrorCount :: int where
  "HistoryArchiverArchiveTransientErrorCount = 92"

definition HistoryArchiverArchiveSuccessCount :: int where
  "HistoryArchiverArchiveSuccessCount = 93"

definition HistoryArchiverHistoryMutatedCount :: int where
  "HistoryArchiverHistoryMutatedCount = 94"

definition HistoryArchiverTotalUploadSize :: int where
  "HistoryArchiverTotalUploadSize = 95"

definition HistoryArchiverHistorySize :: int where
  "HistoryArchiverHistorySize = 96"

definition HistoryArchiverDuplicateArchivalsCount :: int where
  "HistoryArchiverDuplicateArchivalsCount = 97"

definition HistoryArchiverBlobExistsCount :: int where
  "HistoryArchiverBlobExistsCount = 98"

definition HistoryArchiverBlobSize :: int where
  "HistoryArchiverBlobSize = 99"

definition HistoryArchiverRunningDeterministicConstructionCheckCount :: int where
  "HistoryArchiverRunningDeterministicConstructionCheckCount = 100"

definition HistoryArchiverDeterministicConstructionCheckFailedCount :: int where
  "HistoryArchiverDeterministicConstructionCheckFailedCount = 101"

definition HistoryArchiverRunningBlobIntegrityCheckCount :: int where
  "HistoryArchiverRunningBlobIntegrityCheckCount = 102"

definition HistoryArchiverBlobIntegrityCheckFailedCount :: int where
  "HistoryArchiverBlobIntegrityCheckFailedCount = 103"

definition VisibilityArchiverArchiveNonRetryableErrorCount :: int where
  "VisibilityArchiverArchiveNonRetryableErrorCount = 104"

definition VisibilityArchiverArchiveTransientErrorCount :: int where
  "VisibilityArchiverArchiveTransientErrorCount = 105"

definition VisibilityArchiveSuccessCount :: int where
  "VisibilityArchiveSuccessCount = 106"

definition MatchingClientForwardedCounter :: int where
  "MatchingClientForwardedCounter = 107"

definition MatchingClientInvalidTaskListName :: int where
  "MatchingClientInvalidTaskListName = 108"

definition CadenceRequestsPerTaskList :: int where
  "CadenceRequestsPerTaskList = 109"

definition CadenceFailuresPerTaskList :: int where
  "CadenceFailuresPerTaskList = 110"

definition CadenceLatencyPerTaskList :: int where
  "CadenceLatencyPerTaskList = 111"

definition CadenceErrBadRequestPerTaskListCounter :: int where
  "CadenceErrBadRequestPerTaskListCounter = 112"

definition CadenceErrDomainNotActivePerTaskListCounter :: int where
  "CadenceErrDomainNotActivePerTaskListCounter = 113"

definition CadenceErrServiceBusyPerTaskListCounter :: int where
  "CadenceErrServiceBusyPerTaskListCounter = 114"

definition CadenceErrEntityNotExistsPerTaskListCounter :: int where
  "CadenceErrEntityNotExistsPerTaskListCounter = 115"

definition CadenceErrExecutionAlreadyStartedPerTaskListCounter :: int where
  "CadenceErrExecutionAlreadyStartedPerTaskListCounter = 116"

definition CadenceErrDomainAlreadyExistsPerTaskListCounter :: int where
  "CadenceErrDomainAlreadyExistsPerTaskListCounter = 117"

definition CadenceErrCancellationAlreadyRequestedPerTaskListCounter :: int where
  "CadenceErrCancellationAlreadyRequestedPerTaskListCounter = 118"

definition CadenceErrQueryFailedPerTaskListCounter :: int where
  "CadenceErrQueryFailedPerTaskListCounter = 119"

definition CadenceErrLimitExceededPerTaskListCounter :: int where
  "CadenceErrLimitExceededPerTaskListCounter = 120"

definition CadenceErrContextTimeoutPerTaskListCounter :: int where
  "CadenceErrContextTimeoutPerTaskListCounter = 121"

definition CadenceErrRetryTaskPerTaskListCounter :: int where
  "CadenceErrRetryTaskPerTaskListCounter = 122"

definition CadenceErrBadBinaryPerTaskListCounter :: int where
  "CadenceErrBadBinaryPerTaskListCounter = 123"

definition CadenceErrClientVersionNotSupportedPerTaskListCounter :: int where
  "CadenceErrClientVersionNotSupportedPerTaskListCounter = 124"

definition CadenceErrIncompleteHistoryPerTaskListCounter :: int where
  "CadenceErrIncompleteHistoryPerTaskListCounter = 125"

definition CadenceErrNonDeterministicPerTaskListCounter :: int where
  "CadenceErrNonDeterministicPerTaskListCounter = 126"

definition CadenceErrUnauthorizedPerTaskListCounter :: int where
  "CadenceErrUnauthorizedPerTaskListCounter = 127"

definition CadenceErrAuthorizeFailedPerTaskListCounter :: int where
  "CadenceErrAuthorizeFailedPerTaskListCounter = 128"

definition CadenceErrRemoteSyncMatchFailedPerTaskListCounter :: int where
  "CadenceErrRemoteSyncMatchFailedPerTaskListCounter = 129"

definition CadenceErrStickyWorkerUnavailablePerTaskListCounter :: int where
  "CadenceErrStickyWorkerUnavailablePerTaskListCounter = 130"

definition CadenceShardSuccessGauge :: int where
  "CadenceShardSuccessGauge = 131"

definition CadenceShardFailureGauge :: int where
  "CadenceShardFailureGauge = 132"

definition DomainReplicationQueueSizeGauge :: int where
  "DomainReplicationQueueSizeGauge = 133"

definition DomainReplicationQueueSizeErrorCount :: int where
  "DomainReplicationQueueSizeErrorCount = 134"

definition ParentClosePolicyProcessorSuccess :: int where
  "ParentClosePolicyProcessorSuccess = 135"

definition ParentClosePolicyProcessorFailures :: int where
  "ParentClosePolicyProcessorFailures = 136"

definition NumCommonMetrics :: int where
  "NumCommonMetrics = 137"

subsubsection \<open>History metrics\<close>

definition TaskRequests :: int where
  "TaskRequests = 0 + NumCommonMetrics"

definition TaskLatency :: int where
  "TaskLatency = 1 + NumCommonMetrics"

definition TaskFailures :: int where
  "TaskFailures = 2 + NumCommonMetrics"

definition TaskDiscarded :: int where
  "TaskDiscarded = 3 + NumCommonMetrics"

definition TaskAttemptTimer :: int where
  "TaskAttemptTimer = 4 + NumCommonMetrics"

definition TaskStandbyRetryCounter :: int where
  "TaskStandbyRetryCounter = 5 + NumCommonMetrics"

definition TaskNotActiveCounter :: int where
  "TaskNotActiveCounter = 6 + NumCommonMetrics"

definition TaskLimitExceededCounter :: int where
  "TaskLimitExceededCounter = 7 + NumCommonMetrics"

definition TaskBatchCompleteCounter :: int where
  "TaskBatchCompleteCounter = 8 + NumCommonMetrics"

definition TaskBatchCompleteFailure :: int where
  "TaskBatchCompleteFailure = 9 + NumCommonMetrics"

definition TaskProcessingLatency :: int where
  "TaskProcessingLatency = 10 + NumCommonMetrics"

definition TaskQueueLatency :: int where
  "TaskQueueLatency = 11 + NumCommonMetrics"

definition TaskRequestsPerDomain :: int where
  "TaskRequestsPerDomain = 12 + NumCommonMetrics"

definition TaskLatencyPerDomain :: int where
  "TaskLatencyPerDomain = 13 + NumCommonMetrics"

definition TaskFailuresPerDomain :: int where
  "TaskFailuresPerDomain = 14 + NumCommonMetrics"

definition TaskWorkflowBusyPerDomain :: int where
  "TaskWorkflowBusyPerDomain = 15 + NumCommonMetrics"

definition TaskDiscardedPerDomain :: int where
  "TaskDiscardedPerDomain = 16 + NumCommonMetrics"

definition TaskUnsupportedPerDomain :: int where
  "TaskUnsupportedPerDomain = 17 + NumCommonMetrics"

definition TaskAttemptTimerPerDomain :: int where
  "TaskAttemptTimerPerDomain = 18 + NumCommonMetrics"

definition TaskStandbyRetryCounterPerDomain :: int where
  "TaskStandbyRetryCounterPerDomain = 19 + NumCommonMetrics"

definition TaskPendingActiveCounterPerDomain :: int where
  "TaskPendingActiveCounterPerDomain = 20 + NumCommonMetrics"

definition TaskNotActiveCounterPerDomain :: int where
  "TaskNotActiveCounterPerDomain = 21 + NumCommonMetrics"

definition TaskTargetNotActiveCounterPerDomain :: int where
  "TaskTargetNotActiveCounterPerDomain = 22 + NumCommonMetrics"

definition TaskLimitExceededCounterPerDomain :: int where
  "TaskLimitExceededCounterPerDomain = 23 + NumCommonMetrics"

definition TaskProcessingLatencyPerDomain :: int where
  "TaskProcessingLatencyPerDomain = 24 + NumCommonMetrics"

definition TaskQueueLatencyPerDomain :: int where
  "TaskQueueLatencyPerDomain = 25 + NumCommonMetrics"

definition TransferTaskMissingEventCounterPerDomain :: int where
  "TransferTaskMissingEventCounterPerDomain = 26 + NumCommonMetrics"

definition ReplicationTasksAppliedPerDomain :: int where
  "ReplicationTasksAppliedPerDomain = 27 + NumCommonMetrics"

definition TaskRedispatchQueuePendingTasksTimer :: int where
  "TaskRedispatchQueuePendingTasksTimer = 28 + NumCommonMetrics"

definition TransferTaskThrottledCounter :: int where
  "TransferTaskThrottledCounter = 29 + NumCommonMetrics"

definition TimerTaskThrottledCounter :: int where
  "TimerTaskThrottledCounter = 30 + NumCommonMetrics"

definition CrossClusterTaskThrottledCounter :: int where
  "CrossClusterTaskThrottledCounter = 31 + NumCommonMetrics"

definition TransferTaskMissingEventCounter :: int where
  "TransferTaskMissingEventCounter = 32 + NumCommonMetrics"

definition ProcessingQueueNumTimer :: int where
  "ProcessingQueueNumTimer = 33 + NumCommonMetrics"

definition ProcessingQueueMaxLevelTimer :: int where
  "ProcessingQueueMaxLevelTimer = 34 + NumCommonMetrics"

definition ProcessingQueuePendingTaskSplitCounter :: int where
  "ProcessingQueuePendingTaskSplitCounter = 35 + NumCommonMetrics"

definition ProcessingQueueStuckTaskSplitCounter :: int where
  "ProcessingQueueStuckTaskSplitCounter = 36 + NumCommonMetrics"

definition ProcessingQueueSelectedDomainSplitCounter :: int where
  "ProcessingQueueSelectedDomainSplitCounter = 37 + NumCommonMetrics"

definition ProcessingQueueRandomSplitCounter :: int where
  "ProcessingQueueRandomSplitCounter = 38 + NumCommonMetrics"

definition ProcessingQueueThrottledCounter :: int where
  "ProcessingQueueThrottledCounter = 39 + NumCommonMetrics"

definition QueueValidatorLostTaskCounter :: int where
  "QueueValidatorLostTaskCounter = 40 + NumCommonMetrics"

definition QueueValidatorDropTaskCounter :: int where
  "QueueValidatorDropTaskCounter = 41 + NumCommonMetrics"

definition QueueValidatorInvalidLoadCounter :: int where
  "QueueValidatorInvalidLoadCounter = 42 + NumCommonMetrics"

definition QueueValidatorValidationCounter :: int where
  "QueueValidatorValidationCounter = 43 + NumCommonMetrics"

definition QueueValidatorValidationFailure :: int where
  "QueueValidatorValidationFailure = 44 + NumCommonMetrics"

definition CrossClusterFetchLatency :: int where
  "CrossClusterFetchLatency = 45 + NumCommonMetrics"

definition CrossClusterFetchRequests :: int where
  "CrossClusterFetchRequests = 46 + NumCommonMetrics"

definition CrossClusterFetchFailures :: int where
  "CrossClusterFetchFailures = 47 + NumCommonMetrics"

definition CrossClusterFetchServiceBusyFailures :: int where
  "CrossClusterFetchServiceBusyFailures = 48 + NumCommonMetrics"

definition CrossClusterTaskRespondLatency :: int where
  "CrossClusterTaskRespondLatency = 49 + NumCommonMetrics"

definition CrossClusterTaskRespondRequests :: int where
  "CrossClusterTaskRespondRequests = 50 + NumCommonMetrics"

definition CrossClusterTaskRespondFailures :: int where
  "CrossClusterTaskRespondFailures = 51 + NumCommonMetrics"

definition CrossClusterTaskFetchedTimer :: int where
  "CrossClusterTaskFetchedTimer = 52 + NumCommonMetrics"

definition CrossClusterTaskPendingTimer :: int where
  "CrossClusterTaskPendingTimer = 53 + NumCommonMetrics"

definition ActivityE2ELatency :: int where
  "ActivityE2ELatency = 54 + NumCommonMetrics"

definition ActivityLostCounter :: int where
  "ActivityLostCounter = 55 + NumCommonMetrics"

definition AckLevelUpdateCounter :: int where
  "AckLevelUpdateCounter = 56 + NumCommonMetrics"

definition AckLevelUpdateFailedCounter :: int where
  "AckLevelUpdateFailedCounter = 57 + NumCommonMetrics"

definition DecisionTypeScheduleActivityCounter :: int where
  "DecisionTypeScheduleActivityCounter = 58 + NumCommonMetrics"

definition DecisionTypeScheduleActivityDispatchSucceedCounter :: int where
  "DecisionTypeScheduleActivityDispatchSucceedCounter = 59 + NumCommonMetrics"

definition DecisionTypeScheduleActivityDispatchCounter :: int where
  "DecisionTypeScheduleActivityDispatchCounter = 60 + NumCommonMetrics"

definition DecisionTypeCompleteWorkflowCounter :: int where
  "DecisionTypeCompleteWorkflowCounter = 61 + NumCommonMetrics"

definition DecisionTypeFailWorkflowCounter :: int where
  "DecisionTypeFailWorkflowCounter = 62 + NumCommonMetrics"

definition DecisionTypeCancelWorkflowCounter :: int where
  "DecisionTypeCancelWorkflowCounter = 63 + NumCommonMetrics"

definition DecisionTypeStartTimerCounter :: int where
  "DecisionTypeStartTimerCounter = 64 + NumCommonMetrics"

definition DecisionTypeCancelActivityCounter :: int where
  "DecisionTypeCancelActivityCounter = 65 + NumCommonMetrics"

definition DecisionTypeCancelTimerCounter :: int where
  "DecisionTypeCancelTimerCounter = 66 + NumCommonMetrics"

definition DecisionTypeRecordMarkerCounter :: int where
  "DecisionTypeRecordMarkerCounter = 67 + NumCommonMetrics"

definition DecisionTypeCancelExternalWorkflowCounter :: int where
  "DecisionTypeCancelExternalWorkflowCounter = 68 + NumCommonMetrics"

definition DecisionTypeChildWorkflowCounter :: int where
  "DecisionTypeChildWorkflowCounter = 69 + NumCommonMetrics"

definition DecisionTypeContinueAsNewCounter :: int where
  "DecisionTypeContinueAsNewCounter = 70 + NumCommonMetrics"

definition DecisionTypeSignalExternalWorkflowCounter :: int where
  "DecisionTypeSignalExternalWorkflowCounter = 71 + NumCommonMetrics"

definition DecisionTypeUpsertWorkflowSearchAttributesCounter :: int where
  "DecisionTypeUpsertWorkflowSearchAttributesCounter = 72 + NumCommonMetrics"

definition EmptyCompletionDecisionsCounter :: int where
  "EmptyCompletionDecisionsCounter = 73 + NumCommonMetrics"

definition MultipleCompletionDecisionsCounter :: int where
  "MultipleCompletionDecisionsCounter = 74 + NumCommonMetrics"

definition FailedDecisionsCounter :: int where
  "FailedDecisionsCounter = 75 + NumCommonMetrics"

definition DecisionAttemptTimer :: int where
  "DecisionAttemptTimer = 76 + NumCommonMetrics"

definition DecisionRetriesExceededCounter :: int where
  "DecisionRetriesExceededCounter = 77 + NumCommonMetrics"

definition StaleMutableStateCounter :: int where
  "StaleMutableStateCounter = 78 + NumCommonMetrics"

definition DataInconsistentCounter :: int where
  "DataInconsistentCounter = 79 + NumCommonMetrics"

definition TimerResurrectionCounter :: int where
  "TimerResurrectionCounter = 80 + NumCommonMetrics"

definition ActivityResurrectionCounter :: int where
  "ActivityResurrectionCounter = 81 + NumCommonMetrics"

definition AutoResetPointsLimitExceededCounter :: int where
  "AutoResetPointsLimitExceededCounter = 82 + NumCommonMetrics"

definition AutoResetPointCorruptionCounter :: int where
  "AutoResetPointCorruptionCounter = 83 + NumCommonMetrics"

definition ConcurrencyUpdateFailureCounter :: int where
  "ConcurrencyUpdateFailureCounter = 84 + NumCommonMetrics"

definition CadenceErrEventAlreadyStartedCounter :: int where
  "CadenceErrEventAlreadyStartedCounter = 85 + NumCommonMetrics"

definition CadenceErrShardOwnershipLostCounter :: int where
  "CadenceErrShardOwnershipLostCounter = 86 + NumCommonMetrics"

definition HeartbeatTimeoutCounter :: int where
  "HeartbeatTimeoutCounter = 87 + NumCommonMetrics"

definition ScheduleToStartTimeoutCounter :: int where
  "ScheduleToStartTimeoutCounter = 88 + NumCommonMetrics"

definition StartToCloseTimeoutCounter :: int where
  "StartToCloseTimeoutCounter = 89 + NumCommonMetrics"

definition ScheduleToCloseTimeoutCounter :: int where
  "ScheduleToCloseTimeoutCounter = 90 + NumCommonMetrics"

definition NewTimerCounter :: int where
  "NewTimerCounter = 91 + NumCommonMetrics"

definition NewTimerNotifyCounter :: int where
  "NewTimerNotifyCounter = 92 + NumCommonMetrics"

definition AcquireShardsCounter :: int where
  "AcquireShardsCounter = 93 + NumCommonMetrics"

definition AcquireShardsLatency :: int where
  "AcquireShardsLatency = 94 + NumCommonMetrics"

definition ShardClosedCounter :: int where
  "ShardClosedCounter = 95 + NumCommonMetrics"

definition ShardItemCreatedCounter :: int where
  "ShardItemCreatedCounter = 96 + NumCommonMetrics"

definition ShardItemRemovedCounter :: int where
  "ShardItemRemovedCounter = 97 + NumCommonMetrics"

definition ShardItemAcquisitionLatency :: int where
  "ShardItemAcquisitionLatency = 98 + NumCommonMetrics"

definition ShardInfoReplicationPendingTasksTimer :: int where
  "ShardInfoReplicationPendingTasksTimer = 99 + NumCommonMetrics"

definition ShardInfoTransferActivePendingTasksTimer :: int where
  "ShardInfoTransferActivePendingTasksTimer = 100 + NumCommonMetrics"

definition ShardInfoTransferStandbyPendingTasksTimer :: int where
  "ShardInfoTransferStandbyPendingTasksTimer = 101 + NumCommonMetrics"

definition ShardInfoTimerActivePendingTasksTimer :: int where
  "ShardInfoTimerActivePendingTasksTimer = 102 + NumCommonMetrics"

definition ShardInfoTimerStandbyPendingTasksTimer :: int where
  "ShardInfoTimerStandbyPendingTasksTimer = 103 + NumCommonMetrics"

definition ShardInfoCrossClusterPendingTasksTimer :: int where
  "ShardInfoCrossClusterPendingTasksTimer = 104 + NumCommonMetrics"

definition ShardInfoReplicationLagTimer :: int where
  "ShardInfoReplicationLagTimer = 105 + NumCommonMetrics"

definition ShardInfoTransferLagTimer :: int where
  "ShardInfoTransferLagTimer = 106 + NumCommonMetrics"

definition ShardInfoTimerLagTimer :: int where
  "ShardInfoTimerLagTimer = 107 + NumCommonMetrics"

definition ShardInfoCrossClusterLagTimer :: int where
  "ShardInfoCrossClusterLagTimer = 108 + NumCommonMetrics"

definition ShardInfoTransferDiffTimer :: int where
  "ShardInfoTransferDiffTimer = 109 + NumCommonMetrics"

definition ShardInfoTimerDiffTimer :: int where
  "ShardInfoTimerDiffTimer = 110 + NumCommonMetrics"

definition ShardInfoTransferFailoverInProgressTimer :: int where
  "ShardInfoTransferFailoverInProgressTimer = 111 + NumCommonMetrics"

definition ShardInfoTimerFailoverInProgressTimer :: int where
  "ShardInfoTimerFailoverInProgressTimer = 112 + NumCommonMetrics"

definition ShardInfoTransferFailoverLatencyTimer :: int where
  "ShardInfoTransferFailoverLatencyTimer = 113 + NumCommonMetrics"

definition ShardInfoTimerFailoverLatencyTimer :: int where
  "ShardInfoTimerFailoverLatencyTimer = 114 + NumCommonMetrics"

definition SyncShardFromRemoteCounter :: int where
  "SyncShardFromRemoteCounter = 115 + NumCommonMetrics"

definition SyncShardFromRemoteFailure :: int where
  "SyncShardFromRemoteFailure = 116 + NumCommonMetrics"

definition MembershipChangedCounter :: int where
  "MembershipChangedCounter = 117 + NumCommonMetrics"

definition NumShardsGauge :: int where
  "NumShardsGauge = 118 + NumCommonMetrics"

definition GetEngineForShardErrorCounter :: int where
  "GetEngineForShardErrorCounter = 119 + NumCommonMetrics"

definition GetEngineForShardLatency :: int where
  "GetEngineForShardLatency = 120 + NumCommonMetrics"

definition RemoveEngineForShardLatency :: int where
  "RemoveEngineForShardLatency = 121 + NumCommonMetrics"

definition CompleteDecisionWithStickyEnabledCounter :: int where
  "CompleteDecisionWithStickyEnabledCounter = 122 + NumCommonMetrics"

definition CompleteDecisionWithStickyDisabledCounter :: int where
  "CompleteDecisionWithStickyDisabledCounter = 123 + NumCommonMetrics"

definition DecisionHeartbeatTimeoutCounter :: int where
  "DecisionHeartbeatTimeoutCounter = 124 + NumCommonMetrics"

definition HistoryEventNotificationQueueingLatency :: int where
  "HistoryEventNotificationQueueingLatency = 125 + NumCommonMetrics"

definition HistoryEventNotificationFanoutLatency :: int where
  "HistoryEventNotificationFanoutLatency = 126 + NumCommonMetrics"

definition HistoryEventNotificationInFlightMessageGauge :: int where
  "HistoryEventNotificationInFlightMessageGauge = 127 + NumCommonMetrics"

definition HistoryEventNotificationFailDeliveryCount :: int where
  "HistoryEventNotificationFailDeliveryCount = 128 + NumCommonMetrics"

definition EmptyReplicationEventsCounter :: int where
  "EmptyReplicationEventsCounter = 129 + NumCommonMetrics"

definition DuplicateReplicationEventsCounter :: int where
  "DuplicateReplicationEventsCounter = 130 + NumCommonMetrics"

definition StaleReplicationEventsCounter :: int where
  "StaleReplicationEventsCounter = 131 + NumCommonMetrics"

definition ReplicationEventsSizeTimer :: int where
  "ReplicationEventsSizeTimer = 132 + NumCommonMetrics"

definition BufferReplicationTaskTimer :: int where
  "BufferReplicationTaskTimer = 133 + NumCommonMetrics"

definition UnbufferReplicationTaskTimer :: int where
  "UnbufferReplicationTaskTimer = 134 + NumCommonMetrics"

definition HistoryConflictsCounter :: int where
  "HistoryConflictsCounter = 135 + NumCommonMetrics"

definition CompleteTaskFailedCounter :: int where
  "CompleteTaskFailedCounter = 136 + NumCommonMetrics"

definition CacheSize :: int where
  "CacheSize = 137 + NumCommonMetrics"

definition CacheRequests :: int where
  "CacheRequests = 138 + NumCommonMetrics"

definition CacheFailures :: int where
  "CacheFailures = 139 + NumCommonMetrics"

definition CacheLatency :: int where
  "CacheLatency = 140 + NumCommonMetrics"

definition CacheHitCounter :: int where
  "CacheHitCounter = 141 + NumCommonMetrics"

definition CacheMissCounter :: int where
  "CacheMissCounter = 142 + NumCommonMetrics"

definition CacheFullCounter :: int where
  "CacheFullCounter = 143 + NumCommonMetrics"

definition AcquireLockFailedCounter :: int where
  "AcquireLockFailedCounter = 144 + NumCommonMetrics"

definition WorkflowContextCleared :: int where
  "WorkflowContextCleared = 145 + NumCommonMetrics"

definition MutableStateSize :: int where
  "MutableStateSize = 146 + NumCommonMetrics"

definition ExecutionInfoSize :: int where
  "ExecutionInfoSize = 147 + NumCommonMetrics"

definition ActivityInfoSize :: int where
  "ActivityInfoSize = 148 + NumCommonMetrics"

definition TimerInfoSize :: int where
  "TimerInfoSize = 149 + NumCommonMetrics"

definition ChildInfoSize :: int where
  "ChildInfoSize = 150 + NumCommonMetrics"

definition SignalInfoSize :: int where
  "SignalInfoSize = 151 + NumCommonMetrics"

definition BufferedEventsSize :: int where
  "BufferedEventsSize = 152 + NumCommonMetrics"

definition ActivityInfoCount :: int where
  "ActivityInfoCount = 153 + NumCommonMetrics"

definition TimerInfoCount :: int where
  "TimerInfoCount = 154 + NumCommonMetrics"

definition ChildInfoCount :: int where
  "ChildInfoCount = 155 + NumCommonMetrics"

definition SignalInfoCount :: int where
  "SignalInfoCount = 156 + NumCommonMetrics"

definition RequestCancelInfoCount :: int where
  "RequestCancelInfoCount = 157 + NumCommonMetrics"

definition BufferedEventsCount :: int where
  "BufferedEventsCount = 158 + NumCommonMetrics"

definition TransferTasksCount :: int where
  "TransferTasksCount = 159 + NumCommonMetrics"

definition TimerTasksCount :: int where
  "TimerTasksCount = 160 + NumCommonMetrics"

definition CrossClusterTasksCount :: int where
  "CrossClusterTasksCount = 161 + NumCommonMetrics"

definition ReplicationTasksCount :: int where
  "ReplicationTasksCount = 162 + NumCommonMetrics"

definition DeleteActivityInfoCount :: int where
  "DeleteActivityInfoCount = 163 + NumCommonMetrics"

definition DeleteTimerInfoCount :: int where
  "DeleteTimerInfoCount = 164 + NumCommonMetrics"

definition DeleteChildInfoCount :: int where
  "DeleteChildInfoCount = 165 + NumCommonMetrics"

definition DeleteSignalInfoCount :: int where
  "DeleteSignalInfoCount = 166 + NumCommonMetrics"

definition DeleteRequestCancelInfoCount :: int where
  "DeleteRequestCancelInfoCount = 167 + NumCommonMetrics"

definition WorkflowRetryBackoffTimerCount :: int where
  "WorkflowRetryBackoffTimerCount = 168 + NumCommonMetrics"

definition WorkflowCronBackoffTimerCount :: int where
  "WorkflowCronBackoffTimerCount = 169 + NumCommonMetrics"

definition WorkflowCleanupDeleteCount :: int where
  "WorkflowCleanupDeleteCount = 170 + NumCommonMetrics"

definition WorkflowCleanupArchiveCount :: int where
  "WorkflowCleanupArchiveCount = 171 + NumCommonMetrics"

definition WorkflowCleanupNopCount :: int where
  "WorkflowCleanupNopCount = 172 + NumCommonMetrics"

definition WorkflowCleanupDeleteHistoryInlineCount :: int where
  "WorkflowCleanupDeleteHistoryInlineCount = 173 + NumCommonMetrics"

definition WorkflowSuccessCount :: int where
  "WorkflowSuccessCount = 174 + NumCommonMetrics"

definition WorkflowCancelCount :: int where
  "WorkflowCancelCount = 175 + NumCommonMetrics"

definition WorkflowFailedCount :: int where
  "WorkflowFailedCount = 176 + NumCommonMetrics"

definition WorkflowTimeoutCount :: int where
  "WorkflowTimeoutCount = 177 + NumCommonMetrics"

definition WorkflowTerminateCount :: int where
  "WorkflowTerminateCount = 178 + NumCommonMetrics"

definition WorkflowContinuedAsNew :: int where
  "WorkflowContinuedAsNew = 179 + NumCommonMetrics"

definition WorkflowCompletedUnknownType :: int where
  "WorkflowCompletedUnknownType = 180 + NumCommonMetrics"

definition ArchiverClientSendSignalCount :: int where
  "ArchiverClientSendSignalCount = 181 + NumCommonMetrics"

definition ArchiverClientSendSignalFailureCount :: int where
  "ArchiverClientSendSignalFailureCount = 182 + NumCommonMetrics"

definition ArchiverClientHistoryRequestCount :: int where
  "ArchiverClientHistoryRequestCount = 183 + NumCommonMetrics"

definition ArchiverClientHistoryInlineArchiveAttemptCount :: int where
  "ArchiverClientHistoryInlineArchiveAttemptCount = 184 + NumCommonMetrics"

definition ArchiverClientHistoryInlineArchiveFailureCount :: int where
  "ArchiverClientHistoryInlineArchiveFailureCount = 185 + NumCommonMetrics"

definition ArchiverClientHistoryInlineArchiveThrottledCount :: int where
  "ArchiverClientHistoryInlineArchiveThrottledCount = 186 + NumCommonMetrics"

definition ArchiverClientVisibilityRequestCount :: int where
  "ArchiverClientVisibilityRequestCount = 187 + NumCommonMetrics"

definition ArchiverClientVisibilityInlineArchiveAttemptCount :: int where
  "ArchiverClientVisibilityInlineArchiveAttemptCount = 188 + NumCommonMetrics"

definition ArchiverClientVisibilityInlineArchiveFailureCount :: int where
  "ArchiverClientVisibilityInlineArchiveFailureCount = 189 + NumCommonMetrics"

definition ArchiverClientVisibilityInlineArchiveThrottledCount :: int where
  "ArchiverClientVisibilityInlineArchiveThrottledCount = 190 + NumCommonMetrics"

definition LastRetrievedMessageID :: int where
  "LastRetrievedMessageID = 191 + NumCommonMetrics"

definition LastProcessedMessageID :: int where
  "LastProcessedMessageID = 192 + NumCommonMetrics"

definition ReplicationLatency :: int where
  "ReplicationLatency = 193 + NumCommonMetrics"

definition ReplicationTasksApplied :: int where
  "ReplicationTasksApplied = 194 + NumCommonMetrics"

definition ReplicationTasksFailed :: int where
  "ReplicationTasksFailed = 195 + NumCommonMetrics"

definition ReplicationTasksLag :: int where
  "ReplicationTasksLag = 196 + NumCommonMetrics"

definition ReplicationTasksFetched :: int where
  "ReplicationTasksFetched = 197 + NumCommonMetrics"

definition ReplicationTasksReturned :: int where
  "ReplicationTasksReturned = 198 + NumCommonMetrics"

definition ReplicationTasksReturnedDiff :: int where
  "ReplicationTasksReturnedDiff = 199 + NumCommonMetrics"

definition ReplicationTasksAppliedLatency :: int where
  "ReplicationTasksAppliedLatency = 200 + NumCommonMetrics"

definition ReplicationDLQFailed :: int where
  "ReplicationDLQFailed = 201 + NumCommonMetrics"

definition ReplicationDLQMaxLevelGauge :: int where
  "ReplicationDLQMaxLevelGauge = 202 + NumCommonMetrics"

definition ReplicationDLQAckLevelGauge :: int where
  "ReplicationDLQAckLevelGauge = 203 + NumCommonMetrics"

definition ReplicationDLQProbeFailed :: int where
  "ReplicationDLQProbeFailed = 204 + NumCommonMetrics"

definition ReplicationDLQSize :: int where
  "ReplicationDLQSize = 205 + NumCommonMetrics"

definition ReplicationDLQValidationFailed :: int where
  "ReplicationDLQValidationFailed = 206 + NumCommonMetrics"

definition GetReplicationMessagesForShardLatency :: int where
  "GetReplicationMessagesForShardLatency = 207 + NumCommonMetrics"

definition GetDLQReplicationMessagesLatency :: int where
  "GetDLQReplicationMessagesLatency = 208 + NumCommonMetrics"

definition EventReapplySkippedCount :: int where
  "EventReapplySkippedCount = 209 + NumCommonMetrics"

definition DirectQueryDispatchLatency :: int where
  "DirectQueryDispatchLatency = 210 + NumCommonMetrics"

definition DirectQueryDispatchStickyLatency :: int where
  "DirectQueryDispatchStickyLatency = 211 + NumCommonMetrics"

definition DirectQueryDispatchNonStickyLatency :: int where
  "DirectQueryDispatchNonStickyLatency = 212 + NumCommonMetrics"

definition DirectQueryDispatchStickySuccessCount :: int where
  "DirectQueryDispatchStickySuccessCount = 213 + NumCommonMetrics"

definition DirectQueryDispatchNonStickySuccessCount :: int where
  "DirectQueryDispatchNonStickySuccessCount = 214 + NumCommonMetrics"

definition DirectQueryDispatchClearStickinessLatency :: int where
  "DirectQueryDispatchClearStickinessLatency = 215 + NumCommonMetrics"

definition DirectQueryDispatchClearStickinessSuccessCount :: int where
  "DirectQueryDispatchClearStickinessSuccessCount = 216 + NumCommonMetrics"

definition DirectQueryDispatchTimeoutBeforeNonStickyCount :: int where
  "DirectQueryDispatchTimeoutBeforeNonStickyCount = 217 + NumCommonMetrics"

definition DecisionTaskQueryLatency :: int where
  "DecisionTaskQueryLatency = 218 + NumCommonMetrics"

definition ConsistentQueryTimeoutCount :: int where
  "ConsistentQueryTimeoutCount = 219 + NumCommonMetrics"

definition QueryBeforeFirstDecisionCount :: int where
  "QueryBeforeFirstDecisionCount = 220 + NumCommonMetrics"

definition QueryBufferExceededCount :: int where
  "QueryBufferExceededCount = 221 + NumCommonMetrics"

definition QueryRegistryInvalidStateCount :: int where
  "QueryRegistryInvalidStateCount = 222 + NumCommonMetrics"

definition WorkerNotSupportsConsistentQueryCount :: int where
  "WorkerNotSupportsConsistentQueryCount = 223 + NumCommonMetrics"

definition DecisionStartToCloseTimeoutOverrideCount :: int where
  "DecisionStartToCloseTimeoutOverrideCount = 224 + NumCommonMetrics"

definition ReplicationTaskCleanupCount :: int where
  "ReplicationTaskCleanupCount = 225 + NumCommonMetrics"

definition ReplicationTaskCleanupFailure :: int where
  "ReplicationTaskCleanupFailure = 226 + NumCommonMetrics"

definition ReplicationTaskLatency :: int where
  "ReplicationTaskLatency = 227 + NumCommonMetrics"

definition MutableStateChecksumMismatch :: int where
  "MutableStateChecksumMismatch = 228 + NumCommonMetrics"

definition MutableStateChecksumInvalidated :: int where
  "MutableStateChecksumInvalidated = 229 + NumCommonMetrics"

definition FailoverMarkerCount :: int where
  "FailoverMarkerCount = 230 + NumCommonMetrics"

definition FailoverMarkerReplicationLatency :: int where
  "FailoverMarkerReplicationLatency = 231 + NumCommonMetrics"

definition FailoverMarkerInsertFailure :: int where
  "FailoverMarkerInsertFailure = 232 + NumCommonMetrics"

definition FailoverMarkerNotificationFailure :: int where
  "FailoverMarkerNotificationFailure = 233 + NumCommonMetrics"

definition FailoverMarkerUpdateShardFailure :: int where
  "FailoverMarkerUpdateShardFailure = 234 + NumCommonMetrics"

definition FailoverMarkerCallbackCount :: int where
  "FailoverMarkerCallbackCount = 235 + NumCommonMetrics"

definition HistoryFailoverCallbackCount :: int where
  "HistoryFailoverCallbackCount = 236 + NumCommonMetrics"

definition NumHistoryMetrics :: int where
  "NumHistoryMetrics = 237 + NumCommonMetrics"

subsubsection \<open>Matching metrics\<close>

definition PollSuccessPerTaskListCounter :: int where
  "PollSuccessPerTaskListCounter = 0 + NumCommonMetrics"

definition PollTimeoutPerTaskListCounter :: int where
  "PollTimeoutPerTaskListCounter = 1 + NumCommonMetrics"

definition PollSuccessWithSyncPerTaskListCounter :: int where
  "PollSuccessWithSyncPerTaskListCounter = 2 + NumCommonMetrics"

definition LeaseRequestPerTaskListCounter :: int where
  "LeaseRequestPerTaskListCounter = 3 + NumCommonMetrics"

definition LeaseFailurePerTaskListCounter :: int where
  "LeaseFailurePerTaskListCounter = 4 + NumCommonMetrics"

definition ConditionFailedErrorPerTaskListCounter :: int where
  "ConditionFailedErrorPerTaskListCounter = 5 + NumCommonMetrics"

definition RespondQueryTaskFailedPerTaskListCounter :: int where
  "RespondQueryTaskFailedPerTaskListCounter = 6 + NumCommonMetrics"

definition SyncThrottlePerTaskListCounter :: int where
  "SyncThrottlePerTaskListCounter = 7 + NumCommonMetrics"

definition BufferThrottlePerTaskListCounter :: int where
  "BufferThrottlePerTaskListCounter = 8 + NumCommonMetrics"

definition SyncMatchLatencyPerTaskList :: int where
  "SyncMatchLatencyPerTaskList = 9 + NumCommonMetrics"

definition AsyncMatchLatencyPerTaskList :: int where
  "AsyncMatchLatencyPerTaskList = 10 + NumCommonMetrics"

definition ExpiredTasksPerTaskListCounter :: int where
  "ExpiredTasksPerTaskListCounter = 11 + NumCommonMetrics"

definition ForwardedPerTaskListCounter :: int where
  "ForwardedPerTaskListCounter = 12 + NumCommonMetrics"

definition ForwardTaskCallsPerTaskList :: int where
  "ForwardTaskCallsPerTaskList = 13 + NumCommonMetrics"

definition ForwardTaskErrorsPerTaskList :: int where
  "ForwardTaskErrorsPerTaskList = 14 + NumCommonMetrics"

definition ForwardTaskLatencyPerTaskList :: int where
  "ForwardTaskLatencyPerTaskList = 15 + NumCommonMetrics"

definition ForwardQueryCallsPerTaskList :: int where
  "ForwardQueryCallsPerTaskList = 16 + NumCommonMetrics"

definition ForwardQueryErrorsPerTaskList :: int where
  "ForwardQueryErrorsPerTaskList = 17 + NumCommonMetrics"

definition ForwardQueryLatencyPerTaskList :: int where
  "ForwardQueryLatencyPerTaskList = 18 + NumCommonMetrics"

definition ForwardPollCallsPerTaskList :: int where
  "ForwardPollCallsPerTaskList = 19 + NumCommonMetrics"

definition ForwardPollErrorsPerTaskList :: int where
  "ForwardPollErrorsPerTaskList = 20 + NumCommonMetrics"

definition ForwardPollLatencyPerTaskList :: int where
  "ForwardPollLatencyPerTaskList = 21 + NumCommonMetrics"

definition LocalToLocalMatchPerTaskListCounter :: int where
  "LocalToLocalMatchPerTaskListCounter = 22 + NumCommonMetrics"

definition LocalToRemoteMatchPerTaskListCounter :: int where
  "LocalToRemoteMatchPerTaskListCounter = 23 + NumCommonMetrics"

definition RemoteToLocalMatchPerTaskListCounter :: int where
  "RemoteToLocalMatchPerTaskListCounter = 24 + NumCommonMetrics"

definition RemoteToRemoteMatchPerTaskListCounter :: int where
  "RemoteToRemoteMatchPerTaskListCounter = 25 + NumCommonMetrics"

definition PollerPerTaskListCounter :: int where
  "PollerPerTaskListCounter = 26 + NumCommonMetrics"

definition TaskListManagersGauge :: int where
  "TaskListManagersGauge = 27 + NumCommonMetrics"

definition TaskLagPerTaskListGauge :: int where
  "TaskLagPerTaskListGauge = 28 + NumCommonMetrics"

definition TaskBacklogPerTaskListGauge :: int where
  "TaskBacklogPerTaskListGauge = 29 + NumCommonMetrics"

definition NumMatchingMetrics :: int where
  "NumMatchingMetrics = 30 + NumCommonMetrics"

subsubsection \<open>Worker metrics\<close>

definition ReplicatorMessages :: int where
  "ReplicatorMessages = 0 + NumCommonMetrics"

definition ReplicatorFailures :: int where
  "ReplicatorFailures = 1 + NumCommonMetrics"

definition ReplicatorMessagesDropped :: int where
  "ReplicatorMessagesDropped = 2 + NumCommonMetrics"

definition ReplicatorLatency :: int where
  "ReplicatorLatency = 3 + NumCommonMetrics"

definition ReplicatorDLQFailures :: int where
  "ReplicatorDLQFailures = 4 + NumCommonMetrics"

definition ESProcessorRequests :: int where
  "ESProcessorRequests = 5 + NumCommonMetrics"

definition ESProcessorRetries :: int where
  "ESProcessorRetries = 6 + NumCommonMetrics"

definition ESProcessorFailures :: int where
  "ESProcessorFailures = 7 + NumCommonMetrics"

definition ESProcessorCorruptedData :: int where
  "ESProcessorCorruptedData = 8 + NumCommonMetrics"

definition ESProcessorProcessMsgLatency :: int where
  "ESProcessorProcessMsgLatency = 9 + NumCommonMetrics"

definition IndexProcessorCorruptedData :: int where
  "IndexProcessorCorruptedData = 10 + NumCommonMetrics"

definition IndexProcessorProcessMsgLatency :: int where
  "IndexProcessorProcessMsgLatency = 11 + NumCommonMetrics"

definition ArchiverNonRetryableErrorCount :: int where
  "ArchiverNonRetryableErrorCount = 12 + NumCommonMetrics"

definition ArchiverStartedCount :: int where
  "ArchiverStartedCount = 13 + NumCommonMetrics"

definition ArchiverStoppedCount :: int where
  "ArchiverStoppedCount = 14 + NumCommonMetrics"

definition ArchiverCoroutineStartedCount :: int where
  "ArchiverCoroutineStartedCount = 15 + NumCommonMetrics"

definition ArchiverCoroutineStoppedCount :: int where
  "ArchiverCoroutineStoppedCount = 16 + NumCommonMetrics"

definition ArchiverHandleHistoryRequestLatency :: int where
  "ArchiverHandleHistoryRequestLatency = 17 + NumCommonMetrics"

definition ArchiverHandleVisibilityRequestLatency :: int where
  "ArchiverHandleVisibilityRequestLatency = 18 + NumCommonMetrics"

definition ArchiverUploadWithRetriesLatency :: int where
  "ArchiverUploadWithRetriesLatency = 19 + NumCommonMetrics"

definition ArchiverDeleteWithRetriesLatency :: int where
  "ArchiverDeleteWithRetriesLatency = 20 + NumCommonMetrics"

definition ArchiverUploadFailedAllRetriesCount :: int where
  "ArchiverUploadFailedAllRetriesCount = 21 + NumCommonMetrics"

definition ArchiverUploadSuccessCount :: int where
  "ArchiverUploadSuccessCount = 22 + NumCommonMetrics"

definition ArchiverDeleteFailedAllRetriesCount :: int where
  "ArchiverDeleteFailedAllRetriesCount = 23 + NumCommonMetrics"

definition ArchiverDeleteSuccessCount :: int where
  "ArchiverDeleteSuccessCount = 24 + NumCommonMetrics"

definition ArchiverHandleVisibilityFailedAllRetiresCount :: int where
  "ArchiverHandleVisibilityFailedAllRetiresCount = 25 + NumCommonMetrics"

definition ArchiverHandleVisibilitySuccessCount :: int where
  "ArchiverHandleVisibilitySuccessCount = 26 + NumCommonMetrics"

definition ArchiverBacklogSizeGauge :: int where
  "ArchiverBacklogSizeGauge = 27 + NumCommonMetrics"

definition ArchiverPumpTimeoutCount :: int where
  "ArchiverPumpTimeoutCount = 28 + NumCommonMetrics"

definition ArchiverPumpSignalThresholdCount :: int where
  "ArchiverPumpSignalThresholdCount = 29 + NumCommonMetrics"

definition ArchiverPumpTimeoutWithoutSignalsCount :: int where
  "ArchiverPumpTimeoutWithoutSignalsCount = 30 + NumCommonMetrics"

definition ArchiverPumpSignalChannelClosedCount :: int where
  "ArchiverPumpSignalChannelClosedCount = 31 + NumCommonMetrics"

definition ArchiverWorkflowStartedCount :: int where
  "ArchiverWorkflowStartedCount = 32 + NumCommonMetrics"

definition ArchiverNumPumpedRequestsCount :: int where
  "ArchiverNumPumpedRequestsCount = 33 + NumCommonMetrics"

definition ArchiverNumHandledRequestsCount :: int where
  "ArchiverNumHandledRequestsCount = 34 + NumCommonMetrics"

definition ArchiverPumpedNotEqualHandledCount :: int where
  "ArchiverPumpedNotEqualHandledCount = 35 + NumCommonMetrics"

definition ArchiverHandleAllRequestsLatency :: int where
  "ArchiverHandleAllRequestsLatency = 36 + NumCommonMetrics"

definition ArchiverWorkflowStoppingCount :: int where
  "ArchiverWorkflowStoppingCount = 37 + NumCommonMetrics"

definition TaskProcessedCount :: int where
  "TaskProcessedCount = 38 + NumCommonMetrics"

definition TaskDeletedCount :: int where
  "TaskDeletedCount = 39 + NumCommonMetrics"

definition TaskListProcessedCount :: int where
  "TaskListProcessedCount = 40 + NumCommonMetrics"

definition TaskListDeletedCount :: int where
  "TaskListDeletedCount = 41 + NumCommonMetrics"

definition TaskListOutstandingCount :: int where
  "TaskListOutstandingCount = 42 + NumCommonMetrics"

definition ExecutionsOutstandingCount :: int where
  "ExecutionsOutstandingCount = 43 + NumCommonMetrics"

definition StartedCount :: int where
  "StartedCount = 44 + NumCommonMetrics"

definition StoppedCount :: int where
  "StoppedCount = 45 + NumCommonMetrics"

definition ExecutorTasksDeferredCount :: int where
  "ExecutorTasksDeferredCount = 46 + NumCommonMetrics"

definition ExecutorTasksDroppedCount :: int where
  "ExecutorTasksDroppedCount = 47 + NumCommonMetrics"

definition BatcherProcessorSuccess :: int where
  "BatcherProcessorSuccess = 48 + NumCommonMetrics"

definition BatcherProcessorFailures :: int where
  "BatcherProcessorFailures = 49 + NumCommonMetrics"

definition HistoryScavengerSuccessCount :: int where
  "HistoryScavengerSuccessCount = 50 + NumCommonMetrics"

definition HistoryScavengerErrorCount :: int where
  "HistoryScavengerErrorCount = 51 + NumCommonMetrics"

definition HistoryScavengerSkipCount :: int where
  "HistoryScavengerSkipCount = 52 + NumCommonMetrics"

definition DomainReplicationEnqueueDLQCount :: int where
  "DomainReplicationEnqueueDLQCount = 53 + NumCommonMetrics"

definition ScannerExecutionsGauge :: int where
  "ScannerExecutionsGauge = 54 + NumCommonMetrics"

definition ScannerCorruptedGauge :: int where
  "ScannerCorruptedGauge = 55 + NumCommonMetrics"

definition ScannerCheckFailedGauge :: int where
  "ScannerCheckFailedGauge = 56 + NumCommonMetrics"

definition ScannerCorruptionByTypeGauge :: int where
  "ScannerCorruptionByTypeGauge = 57 + NumCommonMetrics"

definition ScannerCorruptedOpenExecutionGauge :: int where
  "ScannerCorruptedOpenExecutionGauge = 58 + NumCommonMetrics"

definition ScannerShardSizeMaxGauge :: int where
  "ScannerShardSizeMaxGauge = 59 + NumCommonMetrics"

definition ScannerShardSizeMedianGauge :: int where
  "ScannerShardSizeMedianGauge = 60 + NumCommonMetrics"

definition ScannerShardSizeMinGauge :: int where
  "ScannerShardSizeMinGauge = 61 + NumCommonMetrics"

definition ScannerShardSizeNinetyGauge :: int where
  "ScannerShardSizeNinetyGauge = 62 + NumCommonMetrics"

definition ScannerShardSizeSeventyFiveGauge :: int where
  "ScannerShardSizeSeventyFiveGauge = 63 + NumCommonMetrics"

definition ScannerShardSizeTwentyFiveGauge :: int where
  "ScannerShardSizeTwentyFiveGauge = 64 + NumCommonMetrics"

definition ScannerShardSizeTenGauge :: int where
  "ScannerShardSizeTenGauge = 65 + NumCommonMetrics"

definition ShardScannerScan :: int where
  "ShardScannerScan = 66 + NumCommonMetrics"

definition ShardScannerFix :: int where
  "ShardScannerFix = 67 + NumCommonMetrics"

definition DataCorruptionWorkflowCount :: int where
  "DataCorruptionWorkflowCount = 68 + NumCommonMetrics"

definition DataCorruptionWorkflowFailure :: int where
  "DataCorruptionWorkflowFailure = 69 + NumCommonMetrics"

definition DataCorruptionWorkflowSuccessCount :: int where
  "DataCorruptionWorkflowSuccessCount = 70 + NumCommonMetrics"

definition DataCorruptionWorkflowSkipCount :: int where
  "DataCorruptionWorkflowSkipCount = 71 + NumCommonMetrics"

definition ESAnalyzerNumStuckWorkflowsDiscovered :: int where
  "ESAnalyzerNumStuckWorkflowsDiscovered = 72 + NumCommonMetrics"

definition ESAnalyzerNumStuckWorkflowsRefreshed :: int where
  "ESAnalyzerNumStuckWorkflowsRefreshed = 73 + NumCommonMetrics"

definition ESAnalyzerNumStuckWorkflowsFailedToRefresh :: int where
  "ESAnalyzerNumStuckWorkflowsFailedToRefresh = 74 + NumCommonMetrics"

definition ESAnalyzerNumLongRunningWorkflows :: int where
  "ESAnalyzerNumLongRunningWorkflows = 75 + NumCommonMetrics"

definition WatchDogNumDeletedCorruptWorkflows :: int where
  "WatchDogNumDeletedCorruptWorkflows = 76 + NumCommonMetrics"

definition WatchDogNumFailedToDeleteCorruptWorkflows :: int where
  "WatchDogNumFailedToDeleteCorruptWorkflows = 77 + NumCommonMetrics"

definition WatchDogNumCorruptWorkflowProcessed :: int where
  "WatchDogNumCorruptWorkflowProcessed = 78 + NumCommonMetrics"

definition NumWorkerMetrics :: int where
  "NumWorkerMetrics = 79 + NumCommonMetrics"

subsection \<open>Latency buckets\<close>

text \<open>A \<^verbatim>\<open>time.Duration\<close> is a count of nanoseconds.\<close>

definition Millisecond :: int where
  "Millisecond = 1000000"

definition Second :: int where
  "Second = 1000000000"

definition PersistenceLatencyBuckets :: "int list" where
  "PersistenceLatencyBuckets = [
     1 * Millisecond, 2 * Millisecond, 3 * Millisecond, 4 * Millisecond,
     5 * Millisecond, 6 * Millisecond, 7 * Millisecond, 8 * Millisecond,
     9 * Millisecond, 10 * Millisecond, 12 * Millisecond, 15 * Millisecond,
     17 * Millisecond, 20 * Millisecond, 25 * Millisecond, 30 * Millisecond,
     35 * Millisecond, 40 * Millisecond, 50 * Millisecond, 60 * Millisecond,
     70 * Millisecond, 80 * Millisecond, 90 * Millisecond, 100 * Millisecond,
     120 * Millisecond, 150 * Millisecond, 170 * Millisecond, 200 * Millisecond,
     250 * Millisecond, 300 * Millisecond, 400 * Millisecond, 500 * Millisecond,
     600 * Millisecond, 700 * Millisecond, 800 * Millisecond, 900 * Millisecond,
     1 * Second, 2 * Second, 3 * Second, 4 * Second,
     5 * Second, 6 * Second, 7 * Second, 8 * Second,
     9 * Second, 10 * Second, 12 * Second, 15 * Second,
     20 * Second, 25 * Second, 30 * Second, 35 * Second,
     40 * Second, 50 * Second, 60 * Second
  ]"

subsection \<open>MetricDefs\<close>

definition MetricDefs_Common :: "(int \<times> metricDefinition) list" where
  "MetricDefs_Common = [
    (CadenceRequests, \<lparr>metricType = Counter, metricName = ''cadence_requests'', metricRollupName = '''', buckets = None\<rparr>),
    (CadenceFailures, \<lparr>metricType = Counter, metricName = ''cadence_errors'', metricRollupName = '''', buckets = None\<rparr>),
    (CadenceCriticalFailures, \<lparr>metricType = Counter, metricName = ''cadence_errors_critical'', metricRollupName = '''', buckets = None\<rparr>),
    (CadenceLatency, \<lparr>metricType = Timer, metricName = ''cadence_latency'', metricRollupName = '''', buckets = None\<rparr>),
    (CadenceErrBadRequestCounter, \<lparr>metricType = Counter, metricName = ''cadence_errors_bad_request'', metricRollupName = '''', buckets = None\<rparr>),
    (CadenceErrDomainNotActiveCounter, \<lparr>metricType = Counter, metricName = ''cadence_errors_domain_not_active'', metricRollupName = '''', buckets = None\<rparr>),
    (CadenceErrServiceBusyCounter, \<lparr>metricType = Counter, metricName = ''cadence_errors_service_busy'', metricRollupName = '''', buckets = None\<rparr>),
    (CadenceErrEntityNotExistsCounter, \<lparr>metricType = Counter, metricName = ''cadence_errors_entity_not_exists'', metricRollupName = '''', buckets = None\<rparr>),
    (CadenceErrWorkflowExecutionAlreadyCompletedCounter, \<lparr>metricType = Counter, metricName = ''cadence_errors_workflow_execution_already_completed'', metricRollupName = '''', buckets = None\<rparr>),
    (CadenceErrExecutionAlreadyStartedCounter, \<lparr>metricType = Counter, metricName = ''cadence_errors_execution_already_started'', metricRollupName = '''', buckets = None\<rparr>),
    (CadenceErrDomainAlreadyExistsCounter, \<lparr>metricType = Counter, metricName = ''cadence_errors_domain_already_exists'', metricRollupName = '''', buckets = None\<rparr>),
    (CadenceErrCancellationAlreadyRequestedCounter, \<lparr>metricType = Counter, metricName = ''cadence_errors_cancellation_already_requested'', metricRollupName = '''', buckets = None\<rparr>),
    (CadenceErrQueryFailedCounter, \<lparr>metricType = Counter, metricName = ''cadence_errors_query_failed'', metricRollupName = '''', buckets = None\<rparr>),
    (CadenceErrLimitExceededCounter, \<lparr>metricType = Counter, metricName = ''cadence_errors_limit_exceeded'', metricRollupName = '''', buckets = None\<rparr>),
    (CadenceErrContextTimeoutCounter, \<lparr>metricType = Counter, metricName = ''cadence_errors_context_timeout'', metricRollupName = '''', buckets = None\<rparr>),
    (CadenceErrRetryTaskCounter, \<lparr>metricType = Counter, metricName = ''cadence_errors_retry_task'', metricRollupName = '''', buckets = None\<rparr>),
    (CadenceErrBadBinaryCounter, \<lparr>metricType = Counter, metricName = ''cadence_errors_bad_binary'', metricRollupName = '''', buckets = None\<rparr>),
    (CadenceErrClientVersionNotSupportedCounter, \<lparr>metricType = Counter, metricName = ''cadence_errors_client_version_not_supported'', metricRollupName = '''', buckets = None\<rparr>),
    (CadenceErrIncompleteHistoryCounter, \<lparr>metricType = Counter, metricName = ''cadence_errors_incomplete_history'', metricRollupName = '''', buckets = None\<rparr>),
    (CadenceErrNonDeterministicCounter, \<lparr>metricType = Counter, metricName = ''cadence_errors_nondeterministic'', metricRollupName = '''', buckets = None\<rparr>),
    (CadenceErrUnauthorizedCounter, \<lparr>metricType = Counter, metricName = ''cadence_errors_unauthorized'', metricRollupName = '''', buckets = None\<rparr>),
    (CadenceErrAuthorizeFailedCounter, \<lparr>metricType = Counter, metricName = ''cadence_errors_authorize_failed'', metricRollupName = '''', buckets = None\<rparr>),
    (CadenceErrRemoteSyncMatchFailedCounter, \<lparr>metricType = Counter, metricName = ''cadence_errors_remote_syncmatch_failed'', metricRollupName = '''', buckets = None\<rparr>),
    (CadenceErrDomainNameExceededWarnLimit, \<lparr>metricType = Counter, metricName = ''cadence_errors_domain_name_exceeded_warn_limit'', metricRollupName = '''', buckets = None\<rparr>),
    (CadenceErrIdentityExceededWarnLimit, \<lparr>metricType = Counter, metricName = ''cadence_errors_identity_exceeded_warn_limit'', metricRollupName = '''', buckets = None\<rparr>),
    (CadenceErrWorkflowIDExceededWarnLimit, \<lparr>metricType = Counter, metricName = ''cadence_errors_workflow_id_exceeded_warn_limit'', metricRollupName = '''', buckets = None\<rparr>),
    (CadenceErrSignalNameExceededWarnLimit, \<lparr>metricType = Counter, metricName = ''cadence_errors_signal_name_exceeded_warn_limit'', metricRollupName = '''', buckets = None\<rparr>),
    (CadenceErrWorkflowTypeExceededWarnLimit, \<lparr>metricType = Counter, metricName = ''cadence_errors_workflow_type_exceeded_warn_limit'', metricRollupName = '''', buckets = None\<rparr>),
    (CadenceErrRequestIDExceededWarnLimit, \<lparr>metricType = Counter, metricName = ''cadence_errors_request_id_exceeded_warn_limit'', metricRollupName = '''', buckets = None\<rparr>),
    (CadenceErrTaskListNameExceededWarnLimit, \<lparr>metricType = Counter, metricName = ''cadence_errors_task_list_name_exceeded_warn_limit'', metricRollupName = '''', buckets = None\<rparr>),
    (CadenceErrActivityIDExceededWarnLimit, \<lparr>metricType = Counter, metricName = ''cadence_errors_activity_id_exceeded_warn_limit'', metricRollupName = '''', buckets = None\<rparr>),
    (CadenceErrActivityTypeExceededWarnLimit, \<lparr>metricType = Counter, metricName = ''cadence_errors_activity_type_exceeded_warn_limit'', metricRollupName = '''', buckets = None\<rparr>),
    (CadenceErrMarkerNameExceededWarnLimit, \<lparr>metricType = Counter, metricName = ''cadence_errors_marker_name_exceeded_warn_limit'', metricRollupName = '''', buckets = None\<rparr>),
    (CadenceErrTimerIDExceededWarnLimit, \<lparr>metricType = Counter, metricName = ''cadence_errors_timer_id_exceeded_warn_limit'', metricRollupName = '''', buckets = None\<rparr>),
    (PersistenceRequests, \<lparr>metricType = Counter, metricName = ''persistence_requests'', metricRollupName = '''', buckets = None\<rparr>),
    (PersistenceFailures, \<lparr>metricType = Counter, metricName = ''persistence_errors'', metricRollupName = '''', buckets = None\<rparr>),
    (PersistenceLatency, \<lparr>metricType = Timer, metricName = ''persistence_latency'', metricRollupName = '''', buckets = None\<rparr>),
    (PersistenceLatencyHistogram, \<lparr>metricType = Histogram, metricName = ''persistence_latency_histogram'', metricRollupName = '''', buckets = Some PersistenceLatencyBuckets\<rparr>),
    (PersistenceErrShardExistsCounter, \<lparr>metricType = Counter, metricName = ''persistence_errors_shard_exists'', metricRollupName = '''', buckets = None\<rparr>),
    (PersistenceErrShardOwnershipLostCounter, \<lparr>metricType = Counter, metricName = ''persistence_errors_shard_ownership_lost'', metricRollupName = '''', buckets = None\<rparr>),
    (PersistenceErrConditionFailedCounter, \<lparr>metricType = Counter, metricName = ''persistence_errors_condition_failed'', metricRollupName = '''', buckets = None\<rparr>),
    (PersistenceErrCurrentWorkflowConditionFailedCounter, \<lparr>metricType = Counter, metricName = ''persistence_errors_current_workflow_condition_failed'', metricRollupName = '''', buckets = None\<rparr>),
    (PersistenceErrTimeoutCounter, \<lparr>metricType = Counter, metricName = ''persistence_errors_timeout'', metricRollupName = '''', buckets = None\<rparr>),
    (PersistenceErrBusyCounter, \<lparr>metricType = Counter, metricName = ''persistence_errors_busy'', metricRollupName = '''', buckets = None\<rparr>),
    (PersistenceErrEntityNotExistsCounter, \<lparr>metricType = Counter, metricName = ''persistence_errors_entity_not_exists'', metricRollupName = '''', buckets = None\<rparr>),
    (PersistenceErrExecutionAlreadyStartedCounter, \<lparr>metricType = Counter, metricName = ''persistence_errors_execution_already_started'', metricRollupName = '''', buckets = None\<rparr>),
    (PersistenceErrDomainAlreadyExistsCounter, \<lparr>metricType = Counter, metricName = ''persistence_errors_domain_already_exists'', metricRollupName = '''', buckets = None\<rparr>),
    (PersistenceErrBadRequestCounter, \<lparr>metricType = Counter, metricName = ''persistence_errors_bad_request'', metricRollupName = '''', buckets = None\<rparr>),
    (PersistenceErrDBUnavailableCounter, \<lparr>metricType = Counter, metricName = ''persistence_errors_db_unavailable'', metricRollupName = '''', buckets = None\<rparr>),
    (PersistenceSampledCounter, \<lparr>metricType = Counter, metricName = ''persistence_sampled'', metricRollupName = '''', buckets = None\<rparr>),
    (PersistenceEmptyResponseCounter, \<lparr>metricType = Counter, metricName = ''persistence_empty_response'', metricRollupName = '''', buckets = None\<rparr>),
    (CadenceClientRequests, \<lparr>metricType = Counter, metricName = ''cadence_client_requests'', metricRollupName = '''', buckets = None\<rparr>),
    (CadenceClientFailures, \<lparr>metricType = Counter, metricName = ''cadence_client_errors'', metricRollupName = '''', buckets = None\<rparr>),
    (CadenceClientLatency, \<lparr>metricType = Timer, metricName = ''cadence_client_latency'', metricRollupName = '''', buckets = None\<rparr>),
    (CadenceDcRedirectionClientRequests, \<lparr>metricType = Counter, metricName = ''cadence_client_requests_redirection'', metricRollupName = '''', buckets = None\<rparr>),
    (CadenceDcRedirectionClientFailures, \<lparr>metricType = Counter, metricName = ''cadence_client_errors_redirection'', metricRollupName = '''', buckets = None\<rparr>),
    (CadenceDcRedirectionClientLatency, \<lparr>metricType = Timer, metricName = ''cadence_client_latency_redirection'', metricRollupName = '''', buckets = None\<rparr>),
    (CadenceAuthorizationLatency, \<lparr>metricType = Timer, metricName = ''cadence_authorization_latency'', metricRollupName = '''', buckets = None\<rparr>),
    (DomainCachePrepareCallbacksLatency, \<lparr>metricType = Timer, metricName = ''domain_cache_prepare_callbacks_latency'', metricRollupName = '''', buckets = None\<rparr>),
    (DomainCacheCallbacksLatency, \<lparr>metricType = Timer, metricName = ''domain_cache_callbacks_latency'', metricRollupName = '''', buckets = None\<rparr>),
    (DomainCacheCallbacksCount, \<lparr>metricType = Counter, metricName = ''domain_cache_callbacks_count'', metricRollupName = '''', buckets = None\<rparr>),
    (HistorySize, \<lparr>metricType = Timer, metricName = ''history_size'', metricRollupName = '''', buckets = None\<rparr>),
    (HistoryCount, \<lparr>metricType = Timer, metricName = ''history_count'', metricRollupName = '''', buckets = None\<rparr>),
    (EventBlobSize, \<lparr>metricType = Timer, metricName = ''event_blob_size'', metricRollupName = '''', buckets = None\<rparr>),
    (DecisionResultCount, \<lparr>metricType = Timer, metricName = ''decision_result_count'', metricRollupName = '''', buckets = None\<rparr>),
    (ArchivalConfigFailures, \<lparr>metricType = Counter, metricName = ''archivalconfig_failures'', metricRollupName = '''', buckets = None\<rparr>),
    (ActiveClusterGauge, \<lparr>metricType = Gauge, metricName = ''active_cluster'', metricRollupName = '''', buckets = None\<rparr>),
    (ElasticsearchRequests, \<lparr>metricType = Counter, metricName = ''elasticsearch_requests'', metricRollupName = '''', buckets = None\<rparr>),
    (ElasticsearchFailures, \<lparr>metricType = Counter, metricName = ''elasticsearch_errors'', metricRollupName = '''', buckets = None\<rparr>),
    (ElasticsearchLatency, \<lparr>metricType = Timer, metricName = ''elasticsearch_latency'', metricRollupName = '''', buckets = None\<rparr>),
    (ElasticsearchErrBadRequestCounter, \<lparr>metricType = Counter, metricName = ''elasticsearch_errors_bad_request'', metricRollupName = '''', buckets = None\<rparr>),
    (ElasticsearchErrBusyCounter, \<lparr>metricType = Counter, metricName = ''elasticsearch_errors_busy'', metricRollupName = '''', buckets = None\<rparr>),
    (SequentialTaskSubmitRequest, \<lparr>metricType = Counter, metricName = ''sequentialtask_submit_request'', metricRollupName = '''', buckets = None\<rparr>),
    (SequentialTaskSubmitRequestTaskQueueExist, \<lparr>metricType = Counter, metricName = ''sequentialtask_submit_request_taskqueue_exist'', metricRollupName = '''', buckets = None\<rparr>),
    (SequentialTaskSubmitRequestTaskQueueMissing, \<lparr>metricType = Counter, metricName = ''sequentialtask_submit_request_taskqueue_missing'', metricRollupName = '''', buckets = None\<rparr>),
    (SequentialTaskSubmitLatency, \<lparr>metricType = Timer, metricName = ''sequentialtask_submit_latency'', metricRollupName = '''', buckets = None\<rparr>),
    (SequentialTaskQueueSize, \<lparr>metricType = Timer, metricName = ''sequentialtask_queue_size'', metricRollupName = '''', buckets = None\<rparr>),
    (SequentialTaskQueueProcessingLatency, \<lparr>metricType = Timer, metricName = ''sequentialtask_queue_processing_latency'', metricRollupName = '''', buckets = None\<rparr>),
    (SequentialTaskTaskProcessingLatency, \<lparr>metricType = Timer, metricName = ''sequentialtask_task_processing_latency'', metricRollupName = '''', buckets = None\<rparr>),
    (ParallelTaskSubmitRequest, \<lparr>metricType = Counter, metricName = ''paralleltask_submit_request'', metricRollupName = '''', buckets = None\<rparr>),
    (ParallelTaskSubmitLatency, \<lparr>metricType = Timer, metricName = ''paralleltask_submit_latency'', metricRollupName = '''', buckets = None\<rparr>),
    (ParallelTaskTaskProcessingLatency, \<lparr>metricType = Timer, metricName = ''paralleltask_task_processing_latency'', metricRollupName = '''', buckets = None\<rparr>),
    (PriorityTaskSubmitRequest, \<lparr>metricType = Counter, metricName = ''prioritytask_submit_request'', metricRollupName = '''', buckets = None\<rparr>),
    (PriorityTaskSubmitLatency, \<lparr>metricType = Timer, metricName = ''prioritytask_submit_latency'', metricRollupName = '''', buckets = None\<rparr>),
    (KafkaConsumerMessageIn, \<lparr>metricType = Counter, metricName = ''kafka_consumer_message_in'', metricRollupName = '''', buckets = None\<rparr>),
    (KafkaConsumerMessageAck, \<lparr>metricType = Counter, metricName = ''kafka_consumer_message_ack'', metricRollupName = '''', buckets = None\<rparr>),
    (KafkaConsumerMessageNack, \<lparr>metricType = Counter, metricName = ''kafka_consumer_message_nack'', metricRollupName = '''', buckets = None\<rparr>),
    (KafkaConsumerMessageNackDlqErr, \<lparr>metricType = Counter, metricName = ''kafka_consumer_message_nack_dlq_err'', metricRollupName = '''', buckets = None\<rparr>),
    (KafkaConsumerSessionStart, \<lparr>metricType = Counter, metricName = ''kafka_consumer_session_start'', metricRollupName = '''', buckets = None\<rparr>),
    (GracefulFailoverLatency, \<lparr>metricType = Timer, metricName = ''graceful_failover_latency'', metricRollupName = '''', buckets = None\<rparr>),
    (GracefulFailoverFailure, \<lparr>metricType = Counter, metricName = ''graceful_failover_failures'', metricRollupName = '''', buckets = None\<rparr>),
    (HistoryArchiverArchiveNonRetryableErrorCount, \<lparr>metricType = Counter, metricName = ''history_archiver_archive_non_retryable_error'', metricRollupName = '''', buckets = None\<rparr>),
    (HistoryArchiverArchiveTransientErrorCount, \<lparr>metricType = Counter, metricName = ''history_archiver_archive_transient_error'', metricRollupName = '''', buckets = None\<rparr>),
    (HistoryArchiverArchiveSuccessCount, \<lparr>metricType = Counter, metricName = ''history_archiver_archive_success'', metricRollupName = '''', buckets = None\<rparr>),
    (HistoryArchiverHistoryMutatedCount, \<lparr>metricType = Counter, metricName = ''history_archiver_history_mutated'', metricRollupName = '''', buckets = None\<rparr>),
    (HistoryArchiverTotalUploadSize, \<lparr>metricType = Timer, metricName = ''history_archiver_total_upload_size'', metricRollupName = '''', buckets = None\<rparr>),
    (HistoryArchiverHistorySize, \<lparr>metricType = Timer, metricName = ''history_archiver_history_size'', metricRollupName = '''', buckets = None\<rparr>),
    (HistoryArchiverDuplicateArchivalsCount, \<lparr>metricType = Counter, metricName = ''history_archiver_duplicate_archivals'', metricRollupName = '''', buckets = None\<rparr>),
    (HistoryArchiverBlobExistsCount, \<lparr>metricType = Counter, metricName = ''history_archiver_blob_exists'', metricRollupName = '''', buckets = None\<rparr>),
    (HistoryArchiverBlobSize, \<lparr>metricType = Timer, metricName = ''history_archiver_blob_size'', metricRollupName = '''', buckets = None\<rparr>),
    (HistoryArchiverRunningDeterministicConstructionCheckCount, \<lparr>metricType = Counter, metricName = ''history_archiver_running_deterministic_construction_check'', metricRollupName = '''', buckets = None\<rparr>),
    (HistoryArchiverDeterministicConstructionCheckFailedCount, \<lparr>metricType = Counter, metricName = ''history_archiver_deterministic_construction_check_failed'', metricRollupName = '''', buckets = None\<rparr>),
    (HistoryArchiverRunningBlobIntegrityCheckCount, \<lparr>metricType = Counter, metricName = ''history_archiver_running_blob_integrity_check'', metricRollupName = '''', buckets = None\<rparr>),
    (HistoryArchiverBlobIntegrityCheckFailedCount, \<lparr>metricType = Counter, metricName = ''history_archiver_blob_integrity_check_failed'', metricRollupName = '''', buckets = None\<rparr>),
    (VisibilityArchiverArchiveNonRetryableErrorCount, \<lparr>metricType = Counter, metricName = ''visibility_archiver_archive_non_retryable_error'', metricRollupName = '''', buckets = None\<rparr>),
    (VisibilityArchiverArchiveTransientErrorCount, \<lparr>metricType = Counter, metricName = ''visibility_archiver_archive_transient_error'', metricRollupName = '''', buckets = None\<rparr>),
    (VisibilityArchiveSuccessCount, \<lparr>metricType = Counter, metricName = ''visibility_archiver_archive_success'', metricRollupName = '''', buckets = None\<rparr>),
    (MatchingClientForwardedCounter, \<lparr>metricType = Counter, metricName = ''forwarded'', metricRollupName = '''', buckets = None\<rparr>),
    (MatchingClientInvalidTaskListName, \<lparr>metricType = Counter, metricName = ''invalid_task_list_name'', metricRollupName = '''', buckets = None\<rparr>),
    (CadenceRequestsPerTaskList, \<lparr>metricType = Counter, metricName = ''cadence_requests_per_tl'', metricRollupName = ''cadence_requests'', buckets = None\<rparr>),
    (CadenceFailuresPerTaskList, \<lparr>metricType = Counter, metricName = ''cadence_errors_per_tl'', metricRollupName = ''cadence_errors'', buckets = None\<rparr>),
    (CadenceLatencyPerTaskList, \<lparr>metricType = Timer, metricName = ''cadence_latency_per_tl'', metricRollupName = ''cadence_latency'', buckets = None\<rparr>),
    (CadenceErrBadRequestPerTaskListCounter, \<lparr>metricType = Counter, metricName = ''cadence_errors_bad_request_per_tl'', metricRollupName = ''cadence_errors_bad_request'', buckets = None\<rparr>),
    (CadenceErrDomainNotActivePerTaskListCounter, \<lparr>metricType = Counter, metricName = ''cadence_errors_domain_not_active_per_tl'', metricRollupName = ''cadence_errors_domain_not_active'', buckets = None\<rparr>),
    (CadenceErrServiceBusyPerTaskListCounter, \<lparr>metricType = Counter, metricName = ''cadence_errors_service_busy_per_tl'', metricRollupName = ''cadence_errors_service_busy'', buckets = None\<rparr>),
    (CadenceErrEntityNotExistsPerTaskListCounter, \<lparr>metricType = Counter, metricName = ''cadence_errors_entity_not_exists_per_tl'', metricRollupName = ''cadence_errors_entity_not_exists'', buckets = None\<rparr>),
    (CadenceErrExecutionAlreadyStartedPerTaskListCounter, \<lparr>metricType = Counter, metricName = ''cadence_errors_execution_already_started_per_tl'', metricRollupName = ''cadence_errors_execution_already_started'', buckets = None\<rparr>),
    (CadenceErrDomainAlreadyExistsPerTaskListCounter, \<lparr>metricType = Counter, metricName = ''cadence_errors_domain_already_exists_per_tl'', metricRollupName = ''cadence_errors_domain_already_exists'', buckets = None\<rparr>),
    (CadenceErrCancellationAlreadyRequestedPerTaskListCounter, \<lparr>metricType = Counter, metricName = ''cadence_errors_cancellation_already_requested_per_tl'', metricRollupName = ''cadence_errors_cancellation_already_requested'', buckets = None\<rparr>),
    (CadenceErrQueryFailedPerTaskListCounter, \<lparr>metricType = Counter, metricName = ''cadence_errors_query_failed_per_tl'', metricRollupName = ''cadence_errors_query_failed'', buckets = None\<rparr>),
    (CadenceErrLimitExceededPerTaskListCounter, \<lparr>metricType = Counter, metricName = ''cadence_errors_limit_exceeded_per_tl'', metricRollupName = ''cadence_errors_limit_exceeded'', buckets = None\<rparr>),
    (CadenceErrContextTimeoutPerTaskListCounter, \<lparr>metricType = Counter, metricName = ''cadence_errors_context_timeout_per_tl'', metricRollupName = ''cadence_errors_context_timeout'', buckets = None\<rparr>),
    (CadenceErrRetryTaskPerTaskListCounter, \<lparr>metricType = Counter, metricName = ''cadence_errors_retry_task_per_tl'', metricRollupName = ''cadence_errors_retry_task'', buckets = None\<rparr>),
    (CadenceErrBadBinaryPerTaskListCounter, \<lparr>metricType = Counter, metricName = ''cadence_errors_bad_binary_per_tl'', metricRollupName = ''cadence_errors_bad_binary'', buckets = None\<rparr>),
    (CadenceErrClientVersionNotSupportedPerTaskListCounter, \<lparr>metricType = Counter, metricName = ''cadence_errors_client_version_not_supported_per_tl'', metricRollupName = ''cadence_errors_client_version_not_supported'', buckets = None\<rparr>),
    (CadenceErrIncompleteHistoryPerTaskListCounter, \<lparr>metricType = Counter, metricName = ''cadence_errors_incomplete_history_per_tl'', metricRollupName = ''cadence_errors_incomplete_history'', buckets = None\<rparr>),
    (CadenceErrNonDeterministicPerTaskListCounter, \<lparr>metricType = Counter, metricName = ''cadence_errors_nondeterministic_per_tl'', metricRollupName = ''cadence_errors_nondeterministic'', buckets = None\<rparr>),
    (CadenceErrUnauthorizedPerTaskListCounter, \<lparr>metricType = Counter, metricName = ''cadence_errors_unauthorized_per_tl'', metricRollupName = ''cadence_errors_unauthorized'', buckets = None\<rparr>),
    (CadenceErrAuthorizeFailedPerTaskListCounter, \<lparr>metricType = Counter, metricName = ''cadence_errors_authorize_failed_per_tl'', metricRollupName = ''cadence_errors_authorize_failed'', buckets = None\<rparr>),
    (CadenceErrRemoteSyncMatchFailedPerTaskListCounter, \<lparr>metricType = Counter, metricName = ''cadence_errors_remote_syncmatch_failed_per_tl'', metricRollupName = ''cadence_errors_remote_syncmatch_failed'', buckets = None\<rparr>),
    (CadenceErrStickyWorkerUnavailablePerTaskListCounter, \<lparr>metricType = Counter, metricName = ''cadence_errors_sticky_worker_unavailable_per_tl'', metricRollupName = ''cadence_errors_sticky_worker_unavailable_per_tl'', buckets = None\<rparr>),
    (CadenceShardSuccessGauge, \<lparr>metricType = Gauge, metricName = ''cadence_shard_success'', metricRollupName = '''', buckets = None\<rparr>),
    (CadenceShardFailureGauge, \<lparr>metricType = Gauge, metricName = ''cadence_shard_failure'', metricRollupName = '''', buckets = None\<rparr>),
    (DomainReplicationQueueSizeGauge, \<lparr>metricType = Gauge, metricName = ''domain_replication_queue_size'', metricRollupName = '''', buckets = None\<rparr>),
    (DomainReplicationQueueSizeErrorCount, \<lparr>metricType = Counter, metricName = ''domain_replication_queue_failed'', metricRollupName = '''', buckets = None\<rparr>),
    (ParentClosePolicyProcessorSuccess, \<lparr>metricType = Counter, metricName = ''parent_close_policy_processor_requests'', metricRollupName = '''', buckets = None\<rparr>),
    (ParentClosePolicyProcessorFailures, \<lparr>metricType = Counter, metricName = ''parent_close_policy_processor_errors'', metricRollupName = '''', buckets = None\<rparr>)
  ]"

definition MetricDefs_History :: "(int \<times> metricDefinition) list" where
  "MetricDefs_History = [
    (TaskRequests, \<lparr>metricType = Counter, metricName = ''task_requests'', metricRollupName = '''', buckets = None\<rparr>),
    (TaskLatency, \<lparr>metricType = Timer, metricName = ''task_latency'', metricRollupName = '''', buckets = None\<rparr>),
    (TaskAttemptTimer, \<lparr>metricType = Timer, metricName = ''task_attempt'', metricRollupName = '''', buckets = None\<rparr>),
    (TaskFailures, \<lparr>metricType = Counter, metricName = ''task_errors'', metricRollupName = '''', buckets = None\<rparr>),
    (TaskDiscarded, \<lparr>metricType = Counter, metricName = ''task_errors_discarded'', metricRollupName = '''', buckets = None\<rparr>),
    (TaskStandbyRetryCounter, \<lparr>metricType = Counter, metricName = ''task_errors_standby_retry_counter'', metricRollupName = '''', buckets = None\<rparr>),
    (TaskNotActiveCounter, \<lparr>metricType = Counter, metricName = ''task_errors_not_active_counter'', metricRollupName = '''', buckets = None\<rparr>),
    (TaskLimitExceededCounter, \<lparr>metricType = Counter, metricName = ''task_errors_limit_exceeded_counter'', metricRollupName = '''', buckets = None\<rparr>),
    (TaskProcessingLatency, \<lparr>metricType = Timer, metricName = ''task_latency_processing'', metricRollupName = '''', buckets = None\<rparr>),
    (TaskQueueLatency, \<lparr>metricType = Timer, metricName = ''task_latency_queue'', metricRollupName = '''', buckets = None\<rparr>),
    (TaskRequestsPerDomain, \<lparr>metricType = Counter, metricName = ''task_requests_per_domain'', metricRollupName = ''task_requests'', buckets = None\<rparr>),
    (TaskLatencyPerDomain, \<lparr>metricType = Timer, metricName = ''task_latency_per_domain'', metricRollupName = ''task_latency'', buckets = None\<rparr>),
    (TaskAttemptTimerPerDomain, \<lparr>metricType = Timer, metricName = ''task_attempt_per_domain'', metricRollupName = ''task_attempt'', buckets = None\<rparr>),
    (TaskFailuresPerDomain, \<lparr>metricType = Counter, metricName = ''task_errors_per_domain'', metricRollupName = ''task_errors'', buckets = None\<rparr>),
    (TaskWorkflowBusyPerDomain, \<lparr>metricType = Counter, metricName = ''task_errors_workflow_busy_per_domain'', metricRollupName = ''task_errors_workflow_busy'', buckets = None\<rparr>),
    (TaskDiscardedPerDomain, \<lparr>metricType = Counter, metricName = ''task_errors_discarded_per_domain'', metricRollupName = ''task_errors_discarded'', buckets = None\<rparr>),
    (TaskUnsupportedPerDomain, \<lparr>metricType = Counter, metricName = ''task_errors_unsupported_per_domain'', metricRollupName = ''task_errors_discarded'', buckets = None\<rparr>),
    (TaskStandbyRetryCounterPerDomain, \<lparr>metricType = Counter, metricName = ''task_errors_standby_retry_counter_per_domain'', metricRollupName = ''task_errors_standby_retry_counter'', buckets = None\<rparr>),
    (TaskPendingActiveCounterPerDomain, \<lparr>metricType = Counter, metricName = ''task_errors_pending_active_counter_per_domain'', metricRollupName = ''task_errors_pending_active_counter'', buckets = None\<rparr>),
    (TaskNotActiveCounterPerDomain, \<lparr>metricType = Counter, metricName = ''task_errors_not_active_counter_per_domain'', metricRollupName = ''task_errors_not_active_counter'', buckets = None\<rparr>),
    (TaskTargetNotActiveCounterPerDomain, \<lparr>metricType = Counter, metricName = ''task_errors_target_not_active_counter_per_domain'', metricRollupName = ''task_errors_target_not_active_counter'', buckets = None\<rparr>),
    (TaskLimitExceededCounterPerDomain, \<lparr>metricType = Counter, metricName = ''task_errors_limit_exceeded_counter_per_domain'', metricRollupName = ''task_errors_limit_exceeded_counter'', buckets = None\<rparr>),
    (TaskProcessingLatencyPerDomain, \<lparr>metricType = Timer, metricName = ''task_latency_processing_per_domain'', metricRollupName = ''task_latency_processing'', buckets = None\<rparr>),
    (TaskQueueLatencyPerDomain, \<lparr>metricType = Timer, metricName = ''task_latency_queue_per_domain'', metricRollupName = ''task_latency_queue'', buckets = None\<rparr>),
    (TransferTaskMissingEventCounterPerDomain, \<lparr>metricType = Counter, metricName = ''transfer_task_missing_event_counter_per_domain'', metricRollupName = ''transfer_task_missing_event_counter'', buckets = None\<rparr>),
    (ReplicationTasksAppliedPerDomain, \<lparr>metricType = Counter, metricName = ''replication_tasks_applied_per_domain'', metricRollupName = ''replication_tasks_applied'', buckets = None\<rparr>),
    (TaskBatchCompleteCounter, \<lparr>metricType = Counter, metricName = ''task_batch_complete_counter'', metricRollupName = '''', buckets = None\<rparr>),
    (TaskBatchCompleteFailure, \<lparr>metricType = Counter, metricName = ''task_batch_complete_error'', metricRollupName = '''', buckets = None\<rparr>),
    (TaskRedispatchQueuePendingTasksTimer, \<lparr>metricType = Timer, metricName = ''task_redispatch_queue_pending_tasks'', metricRollupName = '''', buckets = None\<rparr>),
    (TransferTaskThrottledCounter, \<lparr>metricType = Counter, metricName = ''transfer_task_throttled_counter'', metricRollupName = '''', buckets = None\<rparr>),
    (TimerTaskThrottledCounter, \<lparr>metricType = Counter, metricName = ''timer_task_throttled_counter'', metricRollupName = '''', buckets = None\<rparr>),
    (CrossClusterTaskThrottledCounter, \<lparr>metricType = Counter, metricName = ''cross_cluster_task_throttled_counter'', metricRollupName = '''', buckets = None\<rparr>),
    (TransferTaskMissingEventCounter, \<lparr>metricType = Counter, metricName = ''transfer_task_missing_event_counter'', metricRollupName = '''', buckets = None\<rparr>),
    (ProcessingQueueNumTimer, \<lparr>metricType = Timer, metricName = ''processing_queue_num'', metricRollupName = '''', buckets = None\<rparr>),
    (ProcessingQueueMaxLevelTimer, \<lparr>metricType = Timer, metricName = ''processing_queue_max_level'', metricRollupName = '''', buckets = None\<rparr>),
    (ProcessingQueuePendingTaskSplitCounter, \<lparr>metricType = Counter, metricName = ''processing_queue_pending_task_split_counter'', metricRollupName = '''', buckets = None\<rparr>),
    (ProcessingQueueStuckTaskSplitCounter, \<lparr>metricType = Counter, metricName = ''processing_queue_stuck_task_split_counter'', metricRollupName = '''', buckets = None\<rparr>),
    (ProcessingQueueSelectedDomainSplitCounter, \<lparr>metricType = Counter, metricName = ''processing_queue_selected_domain_split_counter'', metricRollupName = '''', buckets = None\<rparr>),
    (ProcessingQueueRandomSplitCounter, \<lparr>metricType = Counter, metricName = ''processing_queue_random_split_counter'', metricRollupName = '''', buckets = None\<rparr>),
    (ProcessingQueueThrottledCounter, \<lparr>metricType = Counter, metricName = ''processing_queue_throttled_counter'', metricRollupName = '''', buckets = None\<rparr>),
    (QueueValidatorLostTaskCounter, \<lparr>metricType = Counter, metricName = ''queue_validator_lost_task_counter'', metricRollupName = '''', buckets = None\<rparr>),
    (QueueValidatorDropTaskCounter, \<lparr>metricType = Counter, metricName = ''queue_validator_drop_task_counter'', metricRollupName = '''', buckets = None\<rparr>),
    (QueueValidatorInvalidLoadCounter, \<lparr>metricType = Counter, metricName = ''queue_validator_invalid_load_counter'', metricRollupName = '''', buckets = None\<rparr>),
    (QueueValidatorValidationCounter, \<lparr>metricType = Counter, metricName = ''queue_validator_validation_counter'', metricRollupName = '''', buckets = None\<rparr>),
    (QueueValidatorValidationFailure, \<lparr>metricType = Counter, metricName = ''queue_validator_validation_error'', metricRollupName = '''', buckets = None\<rparr>),
    (CrossClusterFetchLatency, \<lparr>metricType = Timer, metricName = ''cross_cluster_fetch_latency'', metricRollupName = '''', buckets = None\<rparr>),
    (CrossClusterFetchRequests, \<lparr>metricType = Counter, metricName = ''cross_cluster_fetch_requests'', metricRollupName = '''', buckets = None\<rparr>),
    (CrossClusterFetchFailures, \<lparr>metricType = Counter, metricName = ''cross_cluster_fetch_errors'', metricRollupName = '''', buckets = None\<rparr>),
    (CrossClusterFetchServiceBusyFailures, \<lparr>metricType = Counter, metricName = ''cross_cluster_fetch_errors_service_busy'', metricRollupName = '''', buckets = None\<rparr>),
    (CrossClusterTaskRespondLatency, \<lparr>metricType = Timer, metricName = ''cross_cluster_respond_latency'', metricRollupName = '''', buckets = None\<rparr>),
    (CrossClusterTaskRespondRequests, \<lparr>metricType = Counter, metricName = ''cross_cluster_respond_requests'', metricRollupName = '''', buckets = None\<rparr>),
    (CrossClusterTaskRespondFailures, \<lparr>metricType = Counter, metricName = ''cross_cluster_fetch_errors'', metricRollupName = '''', buckets = None\<rparr>),
    (CrossClusterTaskFetchedTimer, \<lparr>metricType = Timer, metricName = ''cross_cluster_task_fetched'', metricRollupName = '''', buckets = None\<rparr>),
    (CrossClusterTaskPendingTimer, \<lparr>metricType = Timer, metricName = ''cross_cluster_task_pending'', metricRollupName = '''', buckets = None\<rparr>),
    (ActivityE2ELatency, \<lparr>metricType = Timer, metricName = ''activity_end_to_end_latency'', metricRollupName = '''', buckets = None\<rparr>),
    (ActivityLostCounter, \<lparr>metricType = Counter, metricName = ''activity_lost'', metricRollupName = '''', buckets = None\<rparr>),
    (AckLevelUpdateCounter, \<lparr>metricType = Counter, metricName = ''ack_level_update'', metricRollupName = '''', buckets = None\<rparr>),
    (AckLevelUpdateFailedCounter, \<lparr>metricType = Counter, metricName = ''ack_level_update_failed'', metricRollupName = '''', buckets = None\<rparr>),
    (DecisionTypeScheduleActivityCounter, \<lparr>metricType = Counter, metricName = ''schedule_activity_decision'', metricRollupName = '''', buckets = None\<rparr>),
    (DecisionTypeScheduleActivityDispatchSucceedCounter, \<lparr>metricType = Counter, metricName = ''schedule_activity_decision_sync_match_succeed'', metricRollupName = '''', buckets = None\<rparr>),
    (DecisionTypeScheduleActivityDispatchCounter, \<lparr>metricType = Counter, metricName = ''schedule_activity_decision_try_sync_match'', metricRollupName = '''', buckets = None\<rparr>),
    (DecisionTypeCompleteWorkflowCounter, \<lparr>metricType = Counter, metricName = ''complete_workflow_decision'', metricRollupName = '''', buckets = None\<rparr>),
    (DecisionTypeFailWorkflowCounter, \<lparr>metricType = Counter, metricName = ''fail_workflow_decision'', metricRollupName = '''', buckets = None\<rparr>),
    (DecisionTypeCancelWorkflowCounter, \<lparr>metricType = Counter, metricName = ''cancel_workflow_decision'', metricRollupName = '''', buckets = None\<rparr>),
    (DecisionTypeStartTimerCounter, \<lparr>metricType = Counter, metricName = ''start_timer_decision'', metricRollupName = '''', buckets = None\<rparr>),
    (DecisionTypeCancelActivityCounter, \<lparr>metricType = Counter, metricName = ''cancel_activity_decision'', metricRollupName = '''', buckets = None\<rparr>),
    (DecisionTypeCancelTimerCounter, \<lparr>metricType = Counter, metricName = ''cancel_timer_decision'', metricRollupName = '''', buckets = None\<rparr>),
    (DecisionTypeRecordMarkerCounter, \<lparr>metricType = Counter, metricName = ''record_marker_decision'', metricRollupName = '''', buckets = None\<rparr>),
    (DecisionTypeCancelExternalWorkflowCounter, \<lparr>metricType = Counter, metricName = ''cancel_external_workflow_decision'', metricRollupName = '''', buckets = None\<rparr>),
    (DecisionTypeContinueAsNewCounter, \<lparr>metricType = Counter, metricName = ''continue_as_new_decision'', metricRollupName = '''', buckets = None\<rparr>),
    (DecisionTypeSignalExternalWorkflowCounter, \<lparr>metricType = Counter, metricName = ''signal_external_workflow_decision'', metricRollupName = '''', buckets = None\<rparr>),
    (DecisionTypeUpsertWorkflowSearchAttributesCounter, \<lparr>metricType = Counter, metricName = ''upsert_workflow_search_attributes_decision'', metricRollupName = '''', buckets = None\<rparr>),
    (DecisionTypeChildWorkflowCounter, \<lparr>metricType = Counter, metricName = ''child_workflow_decision'', metricRollupName = '''', buckets = None\<rparr>),
    (EmptyCompletionDecisionsCounter, \<lparr>metricType = Counter, metricName = ''empty_completion_decisions'', metricRollupName = '''', buckets = None\<rparr>),
    (MultipleCompletionDecisionsCounter, \<lparr>metricType = Counter, metricName = ''multiple_completion_decisions'', metricRollupName = '''', buckets = None\<rparr>),
    (FailedDecisionsCounter, \<lparr>metricType = Counter, metricName = ''failed_decisions'', metricRollupName = '''', buckets = None\<rparr>),
    (DecisionAttemptTimer, \<lparr>metricType = Timer, metricName = ''decision_attempt'', metricRollupName = '''', buckets = None\<rparr>),
    (DecisionRetriesExceededCounter, \<lparr>metricType = Counter, metricName = ''decision_retries_exceeded'', metricRollupName = '''', buckets = None\<rparr>),
    (StaleMutableStateCounter, \<lparr>metricType = Counter, metricName = ''stale_mutable_state'', metricRollupName = '''', buckets = None\<rparr>),
    (DataInconsistentCounter, \<lparr>metricType = Counter, metricName = ''data_inconsistent'', metricRollupName = '''', buckets = None\<rparr>),
    (TimerResurrectionCounter, \<lparr>metricType = Counter, metricName = ''timer_resurrection'', metricRollupName = '''', buckets = None\<rparr>),
    (ActivityResurrectionCounter, \<lparr>metricType = Counter, metricName = ''activity_resurrection'', metricRollupName = '''', buckets = None\<rparr>),
    (AutoResetPointsLimitExceededCounter, \<lparr>metricType = Counter, metricName = ''auto_reset_points_exceed_limit'', metricRollupName = '''', buckets = None\<rparr>),
    (AutoResetPointCorruptionCounter, \<lparr>metricType = Counter, metricName = ''auto_reset_point_corruption'', metricRollupName = '''', buckets = None\<rparr>),
    (ConcurrencyUpdateFailureCounter, \<lparr>metricType = Counter, metricName = ''concurrency_update_failure'', metricRollupName = '''', buckets = None\<rparr>),
    (CadenceErrShardOwnershipLostCounter, \<lparr>metricType = Counter, metricName = ''cadence_errors_shard_ownership_lost'', metricRollupName = '''', buckets = None\<rparr>),
    (CadenceErrEventAlreadyStartedCounter, \<lparr>metricType = Counter, metricName = ''cadence_errors_event_already_started'', metricRollupName = '''', buckets = None\<rparr>),
    (HeartbeatTimeoutCounter, \<lparr>metricType = Counter, metricName = ''heartbeat_timeout'', metricRollupName = '''', buckets = None\<rparr>),
    (ScheduleToStartTimeoutCounter, \<lparr>metricType = Counter, metricName = ''schedule_to_start_timeout'', metricRollupName = '''', buckets = None\<rparr>),
    (StartToCloseTimeoutCounter, \<lparr>metricType = Counter, metricName = ''start_to_close_timeout'', metricRollupName = '''', buckets = None\<rparr>),
    (ScheduleToCloseTimeoutCounter, \<lparr>metricType = Counter, metricName = ''schedule_to_close_timeout'', metricRollupName = '''', buckets = None\<rparr>),
    (NewTimerCounter, \<lparr>metricType = Counter, metricName = ''new_timer'', metricRollupName = '''', buckets = None\<rparr>),
    (NewTimerNotifyCounter, \<lparr>metricType = Counter, metricName = ''new_timer_notifications'', metricRollupName = '''', buckets = None\<rparr>),
    (AcquireShardsCounter, \<lparr>metricType = Counter, metricName = ''acquire_shards_count'', metricRollupName = '''', buckets = None\<rparr>),
    (AcquireShardsLatency, \<lparr>metricType = Timer, metricName = ''acquire_shards_latency'', metricRollupName = '''', buckets = None\<rparr>),
    (ShardClosedCounter, \<lparr>metricType = Counter, metricName = ''shard_closed_count'', metricRollupName = '''', buckets = None\<rparr>),
    (ShardItemCreatedCounter, \<lparr>metricType = Counter, metricName = ''sharditem_created_count'', metricRollupName = '''', buckets = None\<rparr>),
    (ShardItemRemovedCounter, \<lparr>metricType = Counter, metricName = ''sharditem_removed_count'', metricRollupName = '''', buckets = None\<rparr>),
    (ShardItemAcquisitionLatency, \<lparr>metricType = Timer, metricName = ''sharditem_acquisition_latency'', metricRollupName = '''', buckets = None\<rparr>),
    (ShardInfoReplicationPendingTasksTimer, \<lparr>metricType = Timer, metricName = ''shardinfo_replication_pending_task'', metricRollupName = '''', buckets = None\<rparr>),
    (ShardInfoTransferActivePendingTasksTimer, \<lparr>metricType = Timer, metricName = ''shardinfo_transfer_active_pending_task'', metricRollupName = '''', buckets = None\<rparr>),
    (ShardInfoTransferStandbyPendingTasksTimer, \<lparr>metricType = Timer, metricName = ''shardinfo_transfer_standby_pending_task'', metricRollupName = '''', buckets = None\<rparr>),
    (ShardInfoTimerActivePendingTasksTimer, \<lparr>metricType = Timer, metricName = ''shardinfo_timer_active_pending_task'', metricRollupName = '''', buckets = None\<rparr>),
    (ShardInfoTimerStandbyPendingTasksTimer, \<lparr>metricType = Timer, metricName = ''shardinfo_timer_standby_pending_task'', metricRollupName = '''', buckets = None\<rparr>),
    (ShardInfoCrossClusterPendingTasksTimer, \<lparr>metricType = Timer, metricName = ''shardinfo_cross_cluster_pending_task'', metricRollupName = '''', buckets = None\<rparr>),
    (ShardInfoReplicationLagTimer, \<lparr>metricType = Timer, metricName = ''shardinfo_replication_lag'', metricRollupName = '''', buckets = None\<rparr>),
    (ShardInfoTransferLagTimer, \<lparr>metricType = Timer, metricName = ''shardinfo_transfer_lag'', metricRollupName = '''', buckets = None\<rparr>),
    (ShardInfoTimerLagTimer, \<lparr>metricType = Timer, metricName = ''shardinfo_timer_lag'', metricRollupName = '''', buckets = None\<rparr>),
    (ShardInfoCrossClusterLagTimer, \<lparr>metricType = Timer, metricName = ''shardinfo_cross_cluster_lag'', metricRollupName = '''', buckets = None\<rparr>),
    (ShardInfoTransferDiffTimer, \<lparr>metricType = Timer, metricName = ''shardinfo_transfer_diff'', metricRollupName = '''', buckets = None\<rparr>),
    (ShardInfoTimerDiffTimer, \<lparr>metricType = Timer, metricName = ''shardinfo_timer_diff'', metricRollupName = '''', buckets = None\<rparr>),
    (ShardInfoTransferFailoverInProgressTimer, \<lparr>metricType = Timer, metricName = ''shardinfo_transfer_failover_in_progress'', metricRollupName = '''', buckets = None\<rparr>),
    (ShardInfoTimerFailoverInProgressTimer, \<lparr>metricType = Timer, metricName = ''shardinfo_timer_failover_in_progress'', metricRollupName = '''', buckets = None\<rparr>),
    (ShardInfoTransferFailoverLatencyTimer, \<lparr>metricType = Timer, metricName = ''shardinfo_transfer_failover_latency'', metricRollupName = '''', buckets = None\<rparr>),
    (ShardInfoTimerFailoverLatencyTimer, \<lparr>metricType = Timer, metricName = ''shardinfo_timer_failover_latency'', metricRollupName = '''', buckets = None\<rparr>),
    (SyncShardFromRemoteCounter, \<lparr>metricType = Counter, metricName = ''syncshard_remote_count'', metricRollupName = '''', buckets = None\<rparr>),
    (SyncShardFromRemoteFailure, \<lparr>metricType = Counter, metricName = ''syncshard_remote_failed'', metricRollupName = '''', buckets = None\<rparr>),
    (MembershipChangedCounter, \<lparr>metricType = Counter, metricName = ''membership_changed_count'', metricRollupName = '''', buckets = None\<rparr>),
    (NumShardsGauge, \<lparr>metricType = Gauge, metricName = ''numshards_gauge'', metricRollupName = '''', buckets = None\<rparr>),
    (GetEngineForShardErrorCounter, \<lparr>metricType = Counter, metricName = ''get_engine_for_shard_errors'', metricRollupName = '''', buckets = None\<rparr>),
    (GetEngineForShardLatency, \<lparr>metricType = Timer, metricName = ''get_engine_for_shard_latency'', metricRollupName = '''', buckets = None\<rparr>),
    (RemoveEngineForShardLatency, \<lparr>metricType = Timer, metricName = ''remove_engine_for_shard_latency'', metricRollupName = '''', buckets = None\<rparr>),
    (CompleteDecisionWithStickyEnabledCounter, \<lparr>metricType = Counter, metricName = ''complete_decision_sticky_enabled_count'', metricRollupName = '''', buckets = None\<rparr>),
    (CompleteDecisionWithStickyDisabledCounter, \<lparr>metricType = Counter, metricName = ''complete_decision_sticky_disabled_count'', metricRollupName = '''', buckets = None\<rparr>),
    (DecisionHeartbeatTimeoutCounter, \<lparr>metricType = Counter, metricName = ''decision_heartbeat_timeout_count'', metricRollupName = '''', buckets = None\<rparr>),
    (HistoryEventNotificationQueueingLatency, \<lparr>metricType = Timer, metricName = ''history_event_notification_queueing_latency'', metricRollupName = '''', buckets = None\<rparr>),
    (HistoryEventNotificationFanoutLatency, \<lparr>metricType = Timer, metricName = ''history_event_notification_fanout_latency'', metricRollupName = '''', buckets = None\<rparr>),
    (HistoryEventNotificationInFlightMessageGauge, \<lparr>metricType = Gauge, metricName = ''history_event_notification_inflight_message_gauge'', metricRollupName = '''', buckets = None\<rparr>),
    (HistoryEventNotificationFailDeliveryCount, \<lparr>metricType = Counter, metricName = ''history_event_notification_fail_delivery_count'', metricRollupName = '''', buckets = None\<rparr>),
    (EmptyReplicationEventsCounter, \<lparr>metricType = Counter, metricName = ''empty_replication_events'', metricRollupName = '''', buckets = None\<rparr>),
    (DuplicateReplicationEventsCounter, \<lparr>metricType = Counter, metricName = ''duplicate_replication_events'', metricRollupName = '''', buckets = None\<rparr>),
    (StaleReplicationEventsCounter, \<lparr>metricType = Counter, metricName = ''stale_replication_events'', metricRollupName = '''', buckets = None\<rparr>),
    (ReplicationEventsSizeTimer, \<lparr>metricType = Timer, metricName = ''replication_events_size'', metricRollupName = '''', buckets = None\<rparr>),
    (BufferReplicationTaskTimer, \<lparr>metricType = Timer, metricName = ''buffer_replication_tasks'', metricRollupName = '''', buckets = None\<rparr>),
    (UnbufferReplicationTaskTimer, \<lparr>metricType = Timer, metricName = ''unbuffer_replication_tasks'', metricRollupName = '''', buckets = None\<rparr>),
    (HistoryConflictsCounter, \<lparr>metricType = Counter, metricName = ''history_conflicts'', metricRollupName = '''', buckets = None\<rparr>),
    (CompleteTaskFailedCounter, \<lparr>metricType = Counter, metricName = ''complete_task_fail_count'', metricRollupName = '''', buckets = None\<rparr>),
    (CacheSize, \<lparr>metricType = Timer, metricName = ''cache_size'', metricRollupName = '''', buckets = None\<rparr>),
    (CacheRequests, \<lparr>metricType = Counter, metricName = ''cache_requests'', metricRollupName = '''', buckets = None\<rparr>),
    (CacheFailures, \<lparr>metricType = Counter, metricName = ''cache_errors'', metricRollupName = '''', buckets = None\<rparr>),
    (CacheLatency, \<lparr>metricType = Timer, metricName = ''cache_latency'', metricRollupName = '''', buckets = None\<rparr>),
    (CacheHitCounter, \<lparr>metricType = Counter, metricName = ''cache_hit'', metricRollupName = '''', buckets = None\<rparr>),
    (CacheMissCounter, \<lparr>metricType = Counter, metricName = ''cache_miss'', metricRollupName = '''', buckets = None\<rparr>),
    (CacheFullCounter, \<lparr>metricType = Counter, metricName = ''cache_full'', metricRollupName = '''', buckets = None\<rparr>),
    (AcquireLockFailedCounter, \<lparr>metricType = Counter, metricName = ''acquire_lock_failed'', metricRollupName = '''', buckets = None\<rparr>),
    (WorkflowContextCleared, \<lparr>metricType = Counter, metricName = ''workflow_context_cleared'', metricRollupName = '''', buckets = None\<rparr>),
    (MutableStateSize, \<lparr>metricType = Timer, metricName = ''mutable_state_size'', metricRollupName = '''', buckets = None\<rparr>),
    (ExecutionInfoSize, \<lparr>metricType = Timer, metricName = ''execution_info_size'', metricRollupName = '''', buckets = None\<rparr>),
    (ActivityInfoSize, \<lparr>metricType = Timer, metricName = ''activity_info_size'', metricRollupName = '''', buckets = None\<rparr>),
    (TimerInfoSize, \<lparr>metricType = Timer, metricName = ''timer_info_size'', metricRollupName = '''', buckets = None\<rparr>),
    (ChildInfoSize, \<lparr>metricType = Timer, metricName = ''child_info_size'', metricRollupName = '''', buckets = None\<rparr>),
    (SignalInfoSize, \<lparr>metricType = Timer, metricName = ''signal_info_size'', metricRollupName = '''', buckets = None\<rparr>),
    (BufferedEventsSize, \<lparr>metricType = Timer, metricName = ''buffered_events_size'', metricRollupName = '''', buckets = None\<rparr>),
    (ActivityInfoCount, \<lparr>metricType = Timer, metricName = ''activity_info_count'', metricRollupName = '''', buckets = None\<rparr>),
    (TimerInfoCount, \<lparr>metricType = Timer, metricName = ''timer_info_count'', metricRollupName = '''', buckets = None\<rparr>),
    (ChildInfoCount, \<lparr>metricType = Timer, metricName = ''child_info_count'', metricRollupName = '''', buckets = None\<rparr>),
    (SignalInfoCount, \<lparr>metricType = Timer, metricName = ''signal_info_count'', metricRollupName = '''', buckets = None\<rparr>),
    (RequestCancelInfoCount, \<lparr>metricType = Timer, metricName = ''request_cancel_info_count'', metricRollupName = '''', buckets = None\<rparr>),
    (BufferedEventsCount, \<lparr>metricType = Timer, metricName = ''buffered_events_count'', metricRollupName = '''', buckets = None\<rparr>),
    (DeleteActivityInfoCount, \<lparr>metricType = Timer, metricName = ''delete_activity_info'', metricRollupName = '''', buckets = None\<rparr>),
    (DeleteTimerInfoCount, \<lparr>metricType = Timer, metricName = ''delete_timer_info'', metricRollupName = '''', buckets = None\<rparr>),
    (DeleteChildInfoCount, \<lparr>metricType = Timer, metricName = ''delete_child_info'', metricRollupName = '''', buckets = None\<rparr>),
    (DeleteSignalInfoCount, \<lparr>metricType = Timer, metricName = ''delete_signal_info'', metricRollupName = '''', buckets = None\<rparr>),
    (DeleteRequestCancelInfoCount, \<lparr>metricType = Timer, metricName = ''delete_request_cancel_info'', metricRollupName = '''', buckets = None\<rparr>),
    (WorkflowRetryBackoffTimerCount, \<lparr>metricType = Counter, metricName = ''workflow_retry_backoff_timer'', metricRollupName = '''', buckets = None\<rparr>),
    (WorkflowCronBackoffTimerCount, \<lparr>metricType = Counter, metricName = ''workflow_cron_backoff_timer'', metricRollupName = '''', buckets = None\<rparr>),
    (WorkflowCleanupDeleteCount, \<lparr>metricType = Counter, metricName = ''workflow_cleanup_delete'', metricRollupName = '''', buckets = None\<rparr>),
    (WorkflowCleanupArchiveCount, \<lparr>metricType = Counter, metricName = ''workflow_cleanup_archive'', metricRollupName = '''', buckets = None\<rparr>),
    (WorkflowCleanupNopCount, \<lparr>metricType = Counter, metricName = ''workflow_cleanup_nop'', metricRollupName = '''', buckets = None\<rparr>),
    (WorkflowCleanupDeleteHistoryInlineCount, \<lparr>metricType = Counter, metricName = ''workflow_cleanup_delete_history_inline'', metricRollupName = '''', buckets = None\<rparr>),
    (WorkflowSuccessCount, \<lparr>metricType = Counter, metricName = ''workflow_success'', metricRollupName = '''', buckets = None\<rparr>),
    (WorkflowCancelCount, \<lparr>metricType = Counter, metricName = ''workflow_cancel'', metricRollupName = '''', buckets = None\<rparr>),
    (WorkflowFailedCount, \<lparr>metricType = Counter, metricName = ''workflow_failed'', metricRollupName = '''', buckets = None\<rparr>),
    (WorkflowTimeoutCount, \<lparr>metricType = Counter, metricName = ''workflow_timeout'', metricRollupName = '''', buckets = None\<rparr>),
    (WorkflowTerminateCount, \<lparr>metricType = Counter, metricName = ''workflow_terminate'', metricRollupName = '''', buckets = None\<rparr>),
    (WorkflowContinuedAsNew, \<lparr>metricType = Counter, metricName = ''workflow_continued_as_new'', metricRollupName = '''', buckets = None\<rparr>),
    (WorkflowCompletedUnknownType, \<lparr>metricType = Counter, metricName = ''workflow_completed_unknown_type'', metricRollupName = '''', buckets = None\<rparr>),
    (ArchiverClientSendSignalCount, \<lparr>metricType = Counter, metricName = ''archiver_client_sent_signal'', metricRollupName = '''', buckets = None\<rparr>),
    (ArchiverClientSendSignalFailureCount, \<lparr>metricType = Counter, metricName = ''archiver_client_send_signal_error'', metricRollupName = '''', buckets = None\<rparr>),
    (ArchiverClientHistoryRequestCount, \<lparr>metricType = Counter, metricName = ''archiver_client_history_request'', metricRollupName = '''', buckets = None\<rparr>),
    (ArchiverClientHistoryInlineArchiveAttemptCount, \<lparr>metricType = Counter, metricName = ''archiver_client_history_inline_archive_attempt'', metricRollupName = '''', buckets = None\<rparr>),
    (ArchiverClientHistoryInlineArchiveFailureCount, \<lparr>metricType = Counter, metricName = ''archiver_client_history_inline_archive_failure'', metricRollupName = '''', buckets = None\<rparr>),
    (ArchiverClientHistoryInlineArchiveThrottledCount, \<lparr>metricType = Counter, metricName = ''archiver_client_history_inline_archive_throttled'', metricRollupName = '''', buckets = None\<rparr>),
    (ArchiverClientVisibilityRequestCount, \<lparr>metricType = Counter, metricName = ''archiver_client_visibility_request'', metricRollupName = '''', buckets = None\<rparr>),
    (ArchiverClientVisibilityInlineArchiveAttemptCount, \<lparr>metricType = Counter, metricName = ''archiver_client_visibility_inline_archive_attempt'', metricRollupName = '''', buckets = None\<rparr>),
    (ArchiverClientVisibilityInlineArchiveFailureCount, \<lparr>metricType = Counter, metricName = ''archiver_client_visibility_inline_archive_failure'', metricRollupName = '''', buckets = None\<rparr>),
    (ArchiverClientVisibilityInlineArchiveThrottledCount, \<lparr>metricType = Counter, metricName = ''archiver_client_visibility_inline_archive_throttled'', metricRollupName = '''', buckets = None\<rparr>),
    (LastRetrievedMessageID, \<lparr>metricType = Gauge, metricName = ''last_retrieved_message_id'', metricRollupName = '''', buckets = None\<rparr>),
    (LastProcessedMessageID, \<lparr>metricType = Gauge, metricName = ''last_processed_message_id'', metricRollupName = '''', buckets = None\<rparr>),
    (ReplicationLatency, \<lparr>metricType = Gauge, metricName = ''replication_latency'', metricRollupName = '''', buckets = None\<rparr>),
    (ReplicationTasksApplied, \<lparr>metricType = Counter, metricName = ''replication_tasks_applied'', metricRollupName = '''', buckets = None\<rparr>),
    (ReplicationTasksFailed, \<lparr>metricType = Counter, metricName = ''replication_tasks_failed'', metricRollupName = '''', buckets = None\<rparr>),
    (ReplicationTasksLag, \<lparr>metricType = Timer, metricName = ''replication_tasks_lag'', metricRollupName = '''', buckets = None\<rparr>),
    (ReplicationTasksFetched, \<lparr>metricType = Timer, metricName = ''replication_tasks_fetched'', metricRollupName = '''', buckets = None\<rparr>),
    (ReplicationTasksReturned, \<lparr>metricType = Timer, metricName = ''replication_tasks_returned'', metricRollupName = '''', buckets = None\<rparr>),
    (ReplicationTasksReturnedDiff, \<lparr>metricType = Timer, metricName = ''replication_tasks_returned_diff'', metricRollupName = '''', buckets = None\<rparr>),
    (ReplicationTasksAppliedLatency, \<lparr>metricType = Timer, metricName = ''replication_tasks_applied_latency'', metricRollupName = '''', buckets = None\<rparr>),
    (ReplicationDLQFailed, \<lparr>metricType = Counter, metricName = ''replication_dlq_enqueue_failed'', metricRollupName = '''', buckets = None\<rparr>),
    (ReplicationDLQMaxLevelGauge, \<lparr>metricType = Gauge, metricName = ''replication_dlq_max_level'', metricRollupName = '''', buckets = None\<rparr>),
    (ReplicationDLQAckLevelGauge, \<lparr>metricType = Gauge, metricName = ''replication_dlq_ack_level'', metricRollupName = '''', buckets = None\<rparr>),
    (ReplicationDLQProbeFailed, \<lparr>metricType = Counter, metricName = ''replication_dlq_probe_failed'', metricRollupName = '''', buckets = None\<rparr>),
    (ReplicationDLQSize, \<lparr>metricType = Gauge, metricName = ''replication_dlq_size'', metricRollupName = '''', buckets = None\<rparr>),
    (ReplicationDLQValidationFailed, \<lparr>metricType = Counter, metricName = ''replication_dlq_validation_failed'', metricRollupName = '''', buckets = None\<rparr>),
    (GetReplicationMessagesForShardLatency, \<lparr>metricType = Timer, metricName = ''get_replication_messages_for_shard'', metricRollupName = '''', buckets = None\<rparr>),
    (GetDLQReplicationMessagesLatency, \<lparr>metricType = Timer, metricName = ''get_dlq_replication_messages'', metricRollupName = '''', buckets = None\<rparr>),
    (EventReapplySkippedCount, \<lparr>metricType = Counter, metricName = ''event_reapply_skipped_count'', metricRollupName = '''', buckets = None\<rparr>),
    (DirectQueryDispatchLatency, \<lparr>metricType = Timer, metricName = ''direct_query_dispatch_latency'', metricRollupName = '''', buckets = None\<rparr>),
    (DirectQueryDispatchStickyLatency, \<lparr>metricType = Timer, metricName = ''direct_query_dispatch_sticky_latency'', metricRollupName = '''', buckets = None\<rparr>),
    (DirectQueryDispatchNonStickyLatency, \<lparr>metricType = Timer, metricName = ''direct_query_dispatch_non_sticky_latency'', metricRollupName = '''', buckets = None\<rparr>),
    (DirectQueryDispatchStickySuccessCount, \<lparr>metricType = Counter, metricName = ''direct_query_dispatch_sticky_success'', metricRollupName = '''', buckets = None\<rparr>),
    (DirectQueryDispatchNonStickySuccessCount, \<lparr>metricType = Counter, metricName = ''direct_query_dispatch_non_sticky_success'', metricRollupName = '''', buckets = None\<rparr>),
    (DirectQueryDispatchClearStickinessLatency, \<lparr>metricType = Timer, metricName = ''direct_query_dispatch_clear_stickiness_latency'', metricRollupName = '''', buckets = None\<rparr>),
    (DirectQueryDispatchClearStickinessSuccessCount, \<lparr>metricType = Counter, metricName = ''direct_query_dispatch_clear_stickiness_success'', metricRollupName = '''', buckets = None\<rparr>),
    (DirectQueryDispatchTimeoutBeforeNonStickyCount, \<lparr>metricType = Counter, metricName = ''direct_query_dispatch_timeout_before_non_sticky'', metricRollupName = '''', buckets = None\<rparr>),
    (DecisionTaskQueryLatency, \<lparr>metricType = Timer, metricName = ''decision_task_query_latency'', metricRollupName = '''', buckets = None\<rparr>),
    (ConsistentQueryTimeoutCount, \<lparr>metricType = Counter, metricName = ''consistent_query_timeout'', metricRollupName = '''', buckets = None\<rparr>),
    (QueryBeforeFirstDecisionCount, \<lparr>metricType = Counter, metricName = ''query_before_first_decision'', metricRollupName = '''', buckets = None\<rparr>),
    (QueryBufferExceededCount, \<lparr>metricType = Counter, metricName = ''query_buffer_exceeded'', metricRollupName = '''', buckets = None\<rparr>),
    (QueryRegistryInvalidStateCount, \<lparr>metricType = Counter, metricName = ''query_registry_invalid_state'', metricRollupName = '''', buckets = None\<rparr>),
    (WorkerNotSupportsConsistentQueryCount, \<lparr>metricType = Counter, metricName = ''worker_not_supports_consistent_query'', metricRollupName = '''', buckets = None\<rparr>),
    (DecisionStartToCloseTimeoutOverrideCount, \<lparr>metricType = Counter, metricName = ''decision_start_to_close_timeout_overrides'', metricRollupName = '''', buckets = None\<rparr>),
    (ReplicationTaskCleanupCount, \<lparr>metricType = Counter, metricName = ''replication_task_cleanup_count'', metricRollupName = '''', buckets = None\<rparr>),
    (ReplicationTaskCleanupFailure, \<lparr>metricType = Counter, metricName = ''replication_task_cleanup_failed'', metricRollupName = '''', buckets = None\<rparr>),
    (ReplicationTaskLatency, \<lparr>metricType = Timer, metricName = ''replication_task_latency'', metricRollupName = '''', buckets = None\<rparr>),
    (MutableStateChecksumMismatch, \<lparr>metricType = Counter, metricName = ''mutable_state_checksum_mismatch'', metricRollupName = '''', buckets = None\<rparr>),
    (MutableStateChecksumInvalidated, \<lparr>metricType = Counter, metricName = ''mutable_state_checksum_invalidated'', metricRollupName = '''', buckets = None\<rparr>),
    (FailoverMarkerCount, \<lparr>metricType = Counter, metricName = ''failover_marker_count'', metricRollupName = '''', buckets = None\<rparr>),
    (FailoverMarkerReplicationLatency, \<lparr>metricType = Timer, metricName = ''failover_marker_replication_latency'', metricRollupName = '''', buckets = None\<rparr>),
    (FailoverMarkerInsertFailure, \<lparr>metricType = Counter, metricName = ''failover_marker_insert_failures'', metricRollupName = '''', buckets = None\<rparr>),
    (FailoverMarkerNotificationFailure, \<lparr>metricType = Counter, metricName = ''failover_marker_notification_failures'', metricRollupName = '''', buckets = None\<rparr>),
    (FailoverMarkerUpdateShardFailure, \<lparr>metricType = Counter, metricName = ''failover_marker_update_shard_failures'', metricRollupName = '''', buckets = None\<rparr>),
    (FailoverMarkerCallbackCount, \<lparr>metricType = Counter, metricName = ''failover_marker_callback_count'', metricRollupName = '''', buckets = None\<rparr>),
    (HistoryFailoverCallbackCount, \<lparr>metricType = Counter, metricName = ''failover_callback_handler_count'', metricRollupName = '''', buckets = None\<rparr>),
    (TransferTasksCount, \<lparr>metricType = Timer, metricName = ''transfer_tasks_count'', metricRollupName = '''', buckets = None\<rparr>),
    (TimerTasksCount, \<lparr>metricType = Timer, metricName = ''timer_tasks_count'', metricRollupName = '''', buckets = None\<rparr>),
    (CrossClusterTasksCount, \<lparr>metricType = Timer, metricName = ''cross_cluster_tasks_count'', metricRollupName = '''', buckets = None\<rparr>),
    (ReplicationTasksCount, \<lparr>metricType = Timer, metricName = ''replication_tasks_count'', metricRollupName = '''', buckets = None\<rparr>)
  ]"

definition MetricDefs_Matching :: "(int \<times> metricDefinition) list" where
  "MetricDefs_Matching = [
    (PollSuccessPerTaskListCounter, \<lparr>metricType = 0, metricName = ''poll_success_per_tl'', metricRollupName = ''poll_success'', buckets = None\<rparr>),
    (PollTimeoutPerTaskListCounter, \<lparr>metricType = 0, metricName = ''poll_timeouts_per_tl'', metricRollupName = ''poll_timeouts'', buckets = None\<rparr>),
    (PollSuccessWithSyncPerTaskListCounter, \<lparr>metricType = 0, metricName = ''poll_success_sync_per_tl'', metricRollupName = ''poll_success_sync'', buckets = None\<rparr>),
    (LeaseRequestPerTaskListCounter, \<lparr>metricType = 0, metricName = ''lease_requests_per_tl'', metricRollupName = ''lease_requests'', buckets = None\<rparr>),
    (LeaseFailurePerTaskListCounter, \<lparr>metricType = 0, metricName = ''lease_failures_per_tl'', metricRollupName = ''lease_failures'', buckets = None\<rparr>),
    (ConditionFailedErrorPerTaskListCounter, \<lparr>metricType = 0, metricName = ''condition_failed_errors_per_tl'', metricRollupName = ''condition_failed_errors'', buckets = None\<rparr>),
    (RespondQueryTaskFailedPerTaskListCounter, \<lparr>metricType = 0, metricName = ''respond_query_failed_per_tl'', metricRollupName = ''respond_query_failed'', buckets = None\<rparr>),
    (SyncThrottlePerTaskListCounter, \<lparr>metricType = 0, metricName = ''sync_throttle_count_per_tl'', metricRollupName = ''sync_throttle_count'', buckets = None\<rparr>),
    (BufferThrottlePerTaskListCounter, \<lparr>metricType = 0, metricName = ''buffer_throttle_count_per_tl'', metricRollupName = ''buffer_throttle_count'', buckets = None\<rparr>),
    (ExpiredTasksPerTaskListCounter, \<lparr>metricType = 0, metricName = ''tasks_expired_per_tl'', metricRollupName = ''tasks_expired'', buckets = None\<rparr>),
    (ForwardedPerTaskListCounter, \<lparr>metricType = 0, metricName = ''forwarded_per_tl'', metricRollupName = ''forwarded'', buckets = None\<rparr>),
    (ForwardTaskCallsPerTaskList, \<lparr>metricType = 0, metricName = ''forward_task_calls_per_tl'', metricRollupName = ''forward_task_calls'', buckets = None\<rparr>),
    (ForwardTaskErrorsPerTaskList, \<lparr>metricType = 0, metricName = ''forward_task_errors_per_tl'', metricRollupName = ''forward_task_errors'', buckets = None\<rparr>),
    (ForwardQueryCallsPerTaskList, \<lparr>metricType = 0, metricName = ''forward_query_calls_per_tl'', metricRollupName = ''forward_query_calls'', buckets = None\<rparr>),
    (ForwardQueryErrorsPerTaskList, \<lparr>metricType = 0, metricName = ''forward_query_errors_per_tl'', metricRollupName = ''forward_query_errors'', buckets = None\<rparr>),
    (ForwardPollCallsPerTaskList, \<lparr>metricType = 0, metricName = ''forward_poll_calls_per_tl'', metricRollupName = ''forward_poll_calls'', buckets = None\<rparr>),
    (ForwardPollErrorsPerTaskList, \<lparr>metricType = 0, metricName = ''forward_poll_errors_per_tl'', metricRollupName = ''forward_poll_errors'', buckets = None\<rparr>),
    (SyncMatchLatencyPerTaskList, \<lparr>metricType = Timer, metricName = ''syncmatch_latency_per_tl'', metricRollupName = ''syncmatch_latency'', buckets = None\<rparr>),
    (AsyncMatchLatencyPerTaskList, \<lparr>metricType = Timer, metricName = ''asyncmatch_latency_per_tl'', metricRollupName = ''asyncmatch_latency'', buckets = None\<rparr>),
    (ForwardTaskLatencyPerTaskList, \<lparr>metricType = 0, metricName = ''forward_task_latency_per_tl'', metricRollupName = ''forward_task_latency'', buckets = None\<rparr>),
    (ForwardQueryLatencyPerTaskList, \<lparr>metricType = 0, metricName = ''forward_query_latency_per_tl'', metricRollupName = ''forward_query_latency'', buckets = None\<rparr>),
    (ForwardPollLatencyPerTaskList, \<lparr>metricType = 0, metricName = ''forward_poll_latency_per_tl'', metricRollupName = ''forward_poll_latency'', buckets = None\<rparr>),
    (LocalToLocalMatchPerTaskListCounter, \<lparr>metricType = 0, metricName = ''local_to_local_matches_per_tl'', metricRollupName = ''local_to_local_matches'', buckets = None\<rparr>),
    (LocalToRemoteMatchPerTaskListCounter, \<lparr>metricType = 0, metricName = ''local_to_remote_matches_per_tl'', metricRollupName = ''local_to_remote_matches'', buckets = None\<rparr>),
    (RemoteToLocalMatchPerTaskListCounter, \<lparr>metricType = 0, metricName = ''remote_to_local_matches_per_tl'', metricRollupName = ''remote_to_local_matches'', buckets = None\<rparr>),
    (RemoteToRemoteMatchPerTaskListCounter, \<lparr>metricType = 0, metricName = ''remote_to_remote_matches_per_tl'', metricRollupName = ''remote_to_remote_matches'', buckets = None\<rparr>),
    (PollerPerTaskListCounter, \<lparr>metricType = 0, metricName = ''poller_count_per_tl'', metricRollupName = ''poller_count'', buckets = None\<rparr>),
    (TaskListManagersGauge, \<lparr>metricType = Gauge, metricName = ''tasklist_managers'', metricRollupName = '''', buckets = None\<rparr>),
    (TaskLagPerTaskListGauge, \<lparr>metricType = Gauge, metricName = ''task_lag_per_tl'', metricRollupName = '''', buckets = None\<rparr>),
    (TaskBacklogPerTaskListGauge, \<lparr>metricType = Gauge, metricName = ''task_backlog_per_tl'', metricRollupName = '''', buckets = None\<rparr>)
  ]"

definition MetricDefs_Worker :: "(int \<times> metricDefinition) list" where
  "MetricDefs_Worker = [
    (ReplicatorMessages, \<lparr>metricType = 0, metricName = ''replicator_messages'', metricRollupName = '''', buckets = None\<rparr>),
    (ReplicatorFailures, \<lparr>metricType = 0, metricName = ''replicator_errors'', metricRollupName = '''', buckets = None\<rparr>),
    (ReplicatorMessagesDropped, \<lparr>metricType = 0, metricName = ''replicator_messages_dropped'', metricRollupName = '''', buckets = None\<rparr>),
    (ReplicatorLatency, \<lparr>metricType = 0, metricName = ''replicator_latency'', metricRollupName = '''', buckets = None\<rparr>),
    (ReplicatorDLQFailures, \<lparr>metricType = Counter, metricName = ''replicator_dlq_enqueue_fails'', metricRollupName = '''', buckets = None\<rparr>),
    (ESProcessorRequests, \<lparr>metricType = 0, metricName = ''es_processor_requests'', metricRollupName = '''', buckets = None\<rparr>),
    (ESProcessorRetries, \<lparr>metricType = 0, metricName = ''es_processor_retries'', metricRollupName = '''', buckets = None\<rparr>),
    (ESProcessorFailures, \<lparr>metricType = 0, metricName = ''es_processor_errors'', metricRollupName = '''', buckets = None\<rparr>),
    (ESProcessorCorruptedData, \<lparr>metricType = 0, metricName = ''es_processor_corrupted_data'', metricRollupName = '''', buckets = None\<rparr>),
    (ESProcessorProcessMsgLatency, \<lparr>metricType = Timer, metricName = ''es_processor_process_msg_latency'', metricRollupName = '''', buckets = None\<rparr>),
    (IndexProcessorCorruptedData, \<lparr>metricType = 0, metricName = ''index_processor_corrupted_data'', metricRollupName = '''', buckets = None\<rparr>),
    (IndexProcessorProcessMsgLatency, \<lparr>metricType = Timer, metricName = ''index_processor_process_msg_latency'', metricRollupName = '''', buckets = None\<rparr>),
    (ArchiverNonRetryableErrorCount, \<lparr>metricType = 0, metricName = ''archiver_non_retryable_error'', metricRollupName = '''', buckets = None\<rparr>),
    (ArchiverStartedCount, \<lparr>metricType = 0, metricName = ''archiver_started'', metricRollupName = '''', buckets = None\<rparr>),
    (ArchiverStoppedCount, \<lparr>metricType = 0, metricName = ''archiver_stopped'', metricRollupName = '''', buckets = None\<rparr>),
    (ArchiverCoroutineStartedCount, \<lparr>metricType = 0, metricName = ''archiver_coroutine_started'', metricRollupName = '''', buckets = None\<rparr>),
    (ArchiverCoroutineStoppedCount, \<lparr>metricType = 0, metricName = ''archiver_coroutine_stopped'', metricRollupName = '''', buckets = None\<rparr>),
    (ArchiverHandleHistoryRequestLatency, \<lparr>metricType = 0, metricName = ''archiver_handle_history_request_latency'', metricRollupName = '''', buckets = None\<rparr>),
    (ArchiverHandleVisibilityRequestLatency, \<lparr>metricType = 0, metricName = ''archiver_handle_visibility_request_latency'', metricRollupName = '''', buckets = None\<rparr>),
    (ArchiverUploadWithRetriesLatency, \<lparr>metricType = 0, metricName = ''archiver_upload_with_retries_latency'', metricRollupName = '''', buckets = None\<rparr>),
    (ArchiverDeleteWithRetriesLatency, \<lparr>metricType = 0, metricName = ''archiver_delete_with_retries_latency'', metricRollupName = '''', buckets = None\<rparr>),
    (ArchiverUploadFailedAllRetriesCount, \<lparr>metricType = 0, metricName = ''archiver_upload_failed_all_retries'', metricRollupName = '''', buckets = None\<rparr>),
    (ArchiverUploadSuccessCount, \<lparr>metricType = 0, metricName = ''archiver_upload_success'', metricRollupName = '''', buckets = None\<rparr>),
    (ArchiverDeleteFailedAllRetriesCount, \<lparr>metricType = 0, metricName = ''archiver_delete_failed_all_retries'', metricRollupName = '''', buckets = None\<rparr>),
    (ArchiverDeleteSuccessCount, \<lparr>metricType = 0, metricName = ''archiver_delete_success'', metricRollupName = '''', buckets = None\<rparr>),
    (ArchiverHandleVisibilityFailedAllRetiresCount, \<lparr>metricType = 0, metricName = ''archiver_handle_visibility_failed_all_retries'', metricRollupName = '''', buckets = None\<rparr>),
    (ArchiverHandleVisibilitySuccessCount, \<lparr>metricType = 0, metricName = ''archiver_handle_visibility_success'', metricRollupName = '''', buckets = None\<rparr>),
    (ArchiverBacklogSizeGauge, \<lparr>metricType = 0, metricName = ''archiver_backlog_size'', metricRollupName = '''', buckets = None\<rparr>),
    (ArchiverPumpTimeoutCount, \<lparr>metricType = 0, metricName = ''archiver_pump_timeout'', metricRollupName = '''', buckets = None\<rparr>),
    (ArchiverPumpSignalThresholdCount, \<lparr>metricType = 0, metricName = ''archiver_pump_signal_threshold'', metricRollupName = '''', buckets = None\<rparr>),
    (ArchiverPumpTimeoutWithoutSignalsCount, \<lparr>metricType = 0, metricName = ''archiver_pump_timeout_without_signals'', metricRollupName = '''', buckets = None\<rparr>),
    (ArchiverPumpSignalChannelClosedCount, \<lparr>metricType = 0, metricName = ''archiver_pump_signal_channel_closed'', metricRollupName = '''', buckets = None\<rparr>),
    (ArchiverWorkflowStartedCount, \<lparr>metricType = 0, metricName = ''archiver_workflow_started'', metricRollupName = '''', buckets = None\<rparr>),
    (ArchiverNumPumpedRequestsCount, \<lparr>metricType = 0, metricName = ''archiver_num_pumped_requests'', metricRollupName = '''', buckets = None\<rparr>),
    (ArchiverNumHandledRequestsCount, \<lparr>metricType = 0, metricName = ''archiver_num_handled_requests'', metricRollupName = '''', buckets = None\<rparr>),
    (ArchiverPumpedNotEqualHandledCount, \<lparr>metricType = 0, metricName = ''archiver_pumped_not_equal_handled'', metricRollupName = '''', buckets = None\<rparr>),
    (ArchiverHandleAllRequestsLatency, \<lparr>metricType = 0, metricName = ''archiver_handle_all_requests_latency'', metricRollupName = '''', buckets = None\<rparr>),
    (ArchiverWorkflowStoppingCount, \<lparr>metricType = 0, metricName = ''archiver_workflow_stopping'', metricRollupName = '''', buckets = None\<rparr>),
    (TaskProcessedCount, \<lparr>metricType = Gauge, metricName = ''task_processed'', metricRollupName = '''', buckets = None\<rparr>),
    (TaskDeletedCount, \<lparr>metricType = Gauge, metricName = ''task_deleted'', metricRollupName = '''', buckets = None\<rparr>),
    (TaskListProcessedCount, \<lparr>metricType = Gauge, metricName = ''tasklist_processed'', metricRollupName = '''', buckets = None\<rparr>),
    (TaskListDeletedCount, \<lparr>metricType = Gauge, metricName = ''tasklist_deleted'', metricRollupName = '''', buckets = None\<rparr>),
    (TaskListOutstandingCount, \<lparr>metricType = Gauge, metricName = ''tasklist_outstanding'', metricRollupName = '''', buckets = None\<rparr>),
    (ExecutionsOutstandingCount, \<lparr>metricType = Gauge, metricName = ''executions_outstanding'', metricRollupName = '''', buckets = None\<rparr>),
    (StartedCount, \<lparr>metricType = Counter, metricName = ''started'', metricRollupName = '''', buckets = None\<rparr>),
    (StoppedCount, \<lparr>metricType = Counter, metricName = ''stopped'', metricRollupName = '''', buckets = None\<rparr>),
    (ExecutorTasksDeferredCount, \<lparr>metricType = Counter, metricName = ''executor_deferred'', metricRollupName = '''', buckets = None\<rparr>),
    (ExecutorTasksDroppedCount, \<lparr>metricType = Counter, metricName = ''executor_dropped'', metricRollupName = '''', buckets = None\<rparr>),
    (BatcherProcessorSuccess, \<lparr>metricType = Counter, metricName = ''batcher_processor_requests'', metricRollupName = '''', buckets = None\<rparr>),
    (BatcherProcessorFailures, \<lparr>metricType = Counter, metricName = ''batcher_processor_errors'', metricRollupName = '''', buckets = None\<rparr>),
    (HistoryScavengerSuccessCount, \<lparr>metricType = Counter, metricName = ''scavenger_success'', metricRollupName = '''', buckets = None\<rparr>),
    (HistoryScavengerErrorCount, \<lparr>metricType = Counter, metricName = ''scavenger_errors'', metricRollupName = '''', buckets = None\<rparr>),
    (HistoryScavengerSkipCount, \<lparr>metricType = Counter, metricName = ''scavenger_skips'', metricRollupName = '''', buckets = None\<rparr>),
    (DomainReplicationEnqueueDLQCount, \<lparr>metricType = Counter, metricName = ''domain_replication_dlq_enqueue_requests'', metricRollupName = '''', buckets = None\<rparr>),
    (ScannerExecutionsGauge, \<lparr>metricType = Gauge, metricName = ''scanner_executions'', metricRollupName = '''', buckets = None\<rparr>),
    (ScannerCorruptedGauge, \<lparr>metricType = Gauge, metricName = ''scanner_corrupted'', metricRollupName = '''', buckets = None\<rparr>),
    (ScannerCheckFailedGauge, \<lparr>metricType = Gauge, metricName = ''scanner_check_failed'', metricRollupName = '''', buckets = None\<rparr>),
    (ScannerCorruptionByTypeGauge, \<lparr>metricType = Gauge, metricName = ''scanner_corruption_by_type'', metricRollupName = '''', buckets = None\<rparr>),
    (ScannerCorruptedOpenExecutionGauge, \<lparr>metricType = Gauge, metricName = ''scanner_corrupted_open_execution'', metricRollupName = '''', buckets = None\<rparr>),
    (ScannerShardSizeMaxGauge, \<lparr>metricType = Gauge, metricName = ''scanner_shard_size_max'', metricRollupName = '''', buckets = None\<rparr>),
    (ScannerShardSizeMedianGauge, \<lparr>metricType = Gauge, metricName = ''scanner_shard_size_median'', metricRollupName = '''', buckets = None\<rparr>),
    (ScannerShardSizeMinGauge, \<lparr>metricType = Gauge, metricName = ''scanner_shard_size_min'', metricRollupName = '''', buckets = None\<rparr>),
    (ScannerShardSizeNinetyGauge, \<lparr>metricType = Gauge, metricName = ''scanner_shard_size_ninety'', metricRollupName = '''', buckets = None\<rparr>),
    (ScannerShardSizeSeventyFiveGauge, \<lparr>metricType = Gauge, metricName = ''scanner_shard_size_seventy_five'', metricRollupName = '''', buckets = None\<rparr>),
    (ScannerShardSizeTwentyFiveGauge, \<lparr>metricType = Gauge, metricName = ''scanner_shard_size_twenty_five'', metricRollupName = '''', buckets = None\<rparr>),
    (ScannerShardSizeTenGauge, \<lparr>metricType = Gauge, metricName = ''scanner_shard_size_ten'', metricRollupName = '''', buckets = None\<rparr>),
    (ShardScannerScan, \<lparr>metricType = Counter, metricName = ''shardscanner_scan'', metricRollupName = '''', buckets = None\<rparr>),
    (ShardScannerFix, \<lparr>metricType = Counter, metricName = ''shardscanner_fix'', metricRollupName = '''', buckets = None\<rparr>),
    (DataCorruptionWorkflowFailure, \<lparr>metricType = Counter, metricName = ''data_corruption_workflow_failure'', metricRollupName = '''', buckets = None\<rparr>),
    (DataCorruptionWorkflowSuccessCount, \<lparr>metricType = Counter, metricName = ''data_corruption_workflow_success'', metricRollupName = '''', buckets = None\<rparr>),
    (DataCorruptionWorkflowCount, \<lparr>metricType = Counter, metricName = ''data_corruption_workflow_count'', metricRollupName = '''', buckets = None\<rparr>),
    (DataCorruptionWorkflowSkipCount, \<lparr>metricType = Counter, metricName = ''data_corruption_workflow_skips'', metricRollupName = '''', buckets = None\<rparr>),
    (ESAnalyzerNumStuckWorkflowsDiscovered, \<lparr>metricType = Counter, metricName = ''es_analyzer_num_stuck_workflows_discovered'', metricRollupName = '''', buckets = None\<rparr>),
    (ESAnalyzerNumStuckWorkflowsRefreshed, \<lparr>metricType = Counter, metricName = ''es_analyzer_num_stuck_workflows_refreshed'', metricRollupName = '''', buckets = None\<rparr>),
    (ESAnalyzerNumStuckWorkflowsFailedToRefresh, \<lparr>metricType = Counter, metricName = ''es_analyzer_num_stuck_workflows_failed_to_refresh'', metricRollupName = '''', buckets = None\<rparr>),
    (ESAnalyzerNumLongRunningWorkflows, \<lparr>metricType = Counter, metricName = ''es_analyzer_num_long_running_workflows'', metricRollupName = '''', buckets = None\<rparr>),
    (WatchDogNumDeletedCorruptWorkflows, \<lparr>metricType = Counter, metricName = ''watchdog_num_deleted_corrupt_workflows'', metricRollupName = '''', buckets = None\<rparr>),
    (WatchDogNumFailedToDeleteCorruptWorkflows, \<lparr>metricType = Counter, metricName = ''watchdog_num_failed_to_delete_corrupt_workflows'', metricRollupName = '''', buckets = None\<rparr>),
    (WatchDogNumCorruptWorkflowProcessed, \<lparr>metricType = Counter, metricName = ''watchdog_num_corrupt_workflows_processed'', metricRollupName = '''', buckets = None\<rparr>)
  ]"

definition MetricDefs :: "ServiceIdx \<rightharpoonup> (int \<rightharpoonup> metricDefinition)" where
  "MetricDefs = map_of [
     (Common, map_of MetricDefs_Common),
     (History, map_of MetricDefs_History),
     (Matching, map_of MetricDefs_Matching),
     (Worker, map_of MetricDefs_Worker)]"

subsection \<open>Error classes and the methods of MetricName\<close>

definition NoError :: "8 word" where
  "NoError = 0"

definition UserError :: "8 word" where
  "UserError = 1"

definition InternalError :: "8 word" where
  "InternalError = 2"

definition Empty :: "MetricName \<Rightarrow> bool" where
  "Empty mn = (mn = [])"

definition String :: "MetricName \<Rightarrow> string" where
  "String mn = mn"

section \<open>Package resource: the resource container\<close>

subsection \<open>Collaborators\<close>

text \<open>
  The container holds handles of other packages. Those whose answers decide what
  \<^verbatim>\<open>New\<close>, \<^verbatim>\<open>Start\<close> and \<^verbatim>\<open>Stop\<close> do are parameters of the model; the calls made on them
  are recorded in a trace of effects. A Go \<^verbatim>\<open>error\<close> is its message.
\<close>

type_synonym error = string

text \<open>
  Modelled from the spec: the lifecycle constant \<^verbatim>\<open>DaemonStatusInitialized\<close> of package
  \<^verbatim>\<open>common\<close>, whose declaration is not among the sources. The spec names Initialized,
  Started and Stopped as the three values of the \<^verbatim>\<open>int32\<close> status field; they are three
  different values, numbered in that order.
\<close>

definition DaemonStatusInitialized :: "32 word" where
  "DaemonStatusInitialized = 0"

text \<open>
  Modelled from the spec: the lifecycle constant \<^verbatim>\<open>DaemonStatusStarted\<close> of package
  \<^verbatim>\<open>common\<close>, the second of the three.
\<close>

definition DaemonStatusStarted :: "32 word" where
  "DaemonStatusStarted = 1"

text \<open>
  Modelled from the spec: the lifecycle constant \<^verbatim>\<open>DaemonStatusStopped\<close> of package
  \<^verbatim>\<open>common\<close>, the third of the three.
\<close>

definition DaemonStatusStopped :: "32 word" where
  "DaemonStatusStopped = 2"

text \<open>
  \<^verbatim>\<open>atomic.CompareAndSwapInt32(addr, old, new)\<close>: the new content of the cell and whether the
  swap happened.
\<close>

definition CompareAndSwapInt32 :: "32 word \<Rightarrow> 32 word \<Rightarrow> 32 word \<Rightarrow> 32 word \<times> bool" where
  "CompareAndSwapInt32 cell old new = (if cell = old then (new, True) else (cell, False))"

text \<open>
  Modelled from the spec: the retry policies of package \<^verbatim>\<open>common\<close>, which is not among the
  sources (section 9: ``a retry policy object (max attempts, backoff, retryable-error
  predicate) supplied at construction''). Each policy is named after the function of
  \<^verbatim>\<open>common\<close> that \<^verbatim>\<open>New\<close> calls to get it.
\<close>

datatype RetryPolicy =
  CreateFrontendServiceRetryPolicy
| CreateMatchingServiceRetryPolicy
| CreateHistoryServiceRetryPolicy

text \<open>
  Modelled from the spec: the retryable-error predicate of package \<^verbatim>\<open>common\<close>, which is not
  among the sources (section 6: ``transient-error-aware''), named as \<^verbatim>\<open>New\<close> names it.
\<close>

datatype IsRetryable = IsServiceTransientError

text \<open>
  Modelled from the spec: the peer-service clients of the packages \<^verbatim>\<open>frontend\<close>,
  \<^verbatim>\<open>matching\<close> and \<^verbatim>\<open>history\<close>, which are not among the sources (section 9: a
  ``decorator adding backoff/retry policy over a raw client''). A client is either one
  handed out by the client bean (\<open>'c\<close> is whatever the bean builds) or the decorator that
  \<^verbatim>\<open>NewRetryableClient\<close> puts around a client, with its policy and its predicate.
\<close>

datatype 'c Client =
  BeanClient 'c
| NewRetryableClient "'c Client" RetryPolicy IsRetryable

text \<open>
  The client bean of package \<^verbatim>\<open>client\<close>, as far as \<^verbatim>\<open>New\<close> asks it: what
  \<^verbatim>\<open>GetFrontendClient\<close>, \<^verbatim>\<open>GetMatchingClient\<close> and \<^verbatim>\<open>GetHistoryClient\<close> return.
\<close>

record 'c ClientBean =
  beanFrontendClient :: "'c Client"
  beanMatchingClient :: "error + 'c Client"
  beanHistoryClient :: "'c Client"

text \<open>
  The fields of \<^verbatim>\<open>Params\<close> that reach the modelled fields of the container:
  \<^verbatim>\<open>params.Name\<close> and \<^verbatim>\<open>params.PersistenceConfig.NumHistoryShards\<close>.
\<close>

record Params =
  Name :: string
  NumHistoryShards :: int

text \<open>
  What the fallible constructor calls inside \<^verbatim>\<open>New\<close> return: \<^verbatim>\<open>client.NewClientBean\<close>,
  \<^verbatim>\<open>persistenceClient.NewBeanFromFactory\<close> and
  \<^verbatim>\<open>params.ArchiverProvider.RegisterBootstrapContainer\<close>.
\<close>

record 'c NewEnv =
  newClientBean :: "error + 'c ClientBean"
  newBeanFromFactory :: "error option"
  registerBootstrapContainer :: "error option"

subsection \<open>The container\<close>

text \<open>
  \<^verbatim>\<open>Impl\<close> with its status, static infos and service clients. \<open>'h\<close> is
  \<^verbatim>\<open>membership.HostInfo\<close>, a struct declared outside the sources; its Go zero value is
  written \<open>0\<close>. The remaining fields are collaborator handles copied from the parameters;
  the calls made through them appear as effects.
\<close>

record ('c, 'h) Impl =
  status :: "32 word"
  numShards :: int
  serviceName :: string
  hostInfo :: 'h
  frontendRawClient :: "'c Client"
  frontendClient :: "'c Client"
  matchingRawClient :: "'c Client"
  matchingClient :: "'c Client"
  historyRawClient :: "'c Client"
  historyClient :: "'c Client"
  clientBean :: "'c ClientBean"

text \<open>
  \<^verbatim>\<open>New\<close>: every \<^verbatim>\<open>return nil, err\<close> is an \<open>Inl\<close>. The struct literal names no
  \<^verbatim>\<open>hostInfo\<close>, so the field has its zero value; \<^verbatim>\<open>serviceName\<close> is set from
  \<^verbatim>\<open>params.Name\<close>, not from the argument of that name.
\<close>

definition New :: "Params \<Rightarrow> string \<Rightarrow> 'c NewEnv \<Rightarrow> error + ('c, 'h::zero) Impl" where
  "New params serviceNameArg env =
    (case newClientBean env of
       Inl err \<Rightarrow> Inl err
     | Inr bean \<Rightarrow>
    (case newBeanFromFactory env of
       Some err \<Rightarrow> Inl err
     | None \<Rightarrow>
       let frontendRaw = beanFrontendClient bean;
           frontendCl = NewRetryableClient frontendRaw
                          CreateFrontendServiceRetryPolicy IsServiceTransientError
       in
    (case beanMatchingClient bean of
       Inl err \<Rightarrow> Inl err
     | Inr matchingRaw \<Rightarrow>
       let matchingCl = NewRetryableClient matchingRaw
                          CreateMatchingServiceRetryPolicy IsServiceTransientError;
           historyRaw = beanHistoryClient bean;
           historyCl = NewRetryableClient historyRaw
                          CreateHistoryServiceRetryPolicy IsServiceTransientError
       in
    (case registerBootstrapContainer env of
       Some err \<Rightarrow> Inl err
     | None \<Rightarrow>
       Inr \<lparr>status = DaemonStatusInitialized,
            numShards = NumHistoryShards params,
            serviceName = Name params,
            hostInfo = 0,
            frontendRawClient = frontendRaw,
            frontendClient = frontendCl,
            matchingRawClient = matchingRaw,
            matchingClient = matchingCl,
            historyRawClient = historyRaw,
            historyClient = historyCl,
            clientBean = bean\<rparr>))))"

subsection \<open>Start and Stop\<close>

text \<open>
  The calls \<^verbatim>\<open>Start\<close> and \<^verbatim>\<open>Stop\<close> make on collaborators, in the order made.
\<close>

datatype Effect =
  CounterInc string int
| RuntimeMetricsReporterStart
| PProfInitializerStart
| DispatcherStart
| MembershipResolverStart
| DomainCacheStart
| DomainMetricsScopeCacheStart
| MembershipResolverWhoAmI
| LoggerInfo string
| LoggerError string
| LoggerFatal string
| RandSeed
| DomainCacheStop
| DomainMetricsScopeCacheStop
| MembershipResolverStop
| DispatcherStop
| RuntimeMetricsReporterStop
| PersistenceBeanClose

text \<open>
  What the collaborators answer during one \<^verbatim>\<open>Start\<close>: the errors of
  \<^verbatim>\<open>pprofInitializer.Start\<close> and \<^verbatim>\<open>dispatcher.Start\<close>, the pair \<^verbatim>\<open>(hostInfo, err)\<close> of
  \<^verbatim>\<open>membershipResolver.WhoAmI\<close>, and whether \<^verbatim>\<open>Fatal\<close> of the injected logger returns to
  its caller (a logger that only records) or ends the process (one that exits).
\<close>

record 'h StartEnv =
  pprofInitializerStart :: "error option"
  dispatcherStart :: "error option"
  whoAmI :: "'h \<times> error option"
  fatalReturns :: bool

record StopEnv =
  dispatcherStop :: "error option"

text \<open>
  \<^verbatim>\<open>if err != nil { logger.Fatal(msg) }\<close> on a trace: nothing without an error; with one
  the call is recorded, and the trace goes on (\<open>Inr\<close>) when \<^verbatim>\<open>Fatal\<close> returns and is final
  (\<open>Inl\<close>) when it ends the process. The source has no \<^verbatim>\<open>return\<close> after \<^verbatim>\<open>Fatal\<close>.
\<close>

definition fatalIf ::
  "error option \<Rightarrow> bool \<Rightarrow> string \<Rightarrow> Effect list \<Rightarrow> Effect list + Effect list"
where
  "fatalIf err returns msg tr =
     (case err of
        None \<Rightarrow> Inr tr
      | Some e \<Rightarrow> if returns then Inr (tr @ [LoggerFatal msg]) else Inl (tr @ [LoggerFatal msg]))"

text \<open>
  The world is the container and the trace so far. A \<^verbatim>\<open>Start\<close> during which the process
  ends is \<open>Inl\<close> of the final trace. The host info \<^verbatim>\<open>WhoAmI\<close> returned is stored after the
  error check, whatever the error was.
\<close>

type_synonym ('c, 'h) World = "('c, 'h) Impl \<times> Effect list"

definition Start :: "'h StartEnv \<Rightarrow> ('c, 'h) World \<Rightarrow> Effect list + ('c, 'h) World" where
  "Start env w =
    (case w of (h, tr) \<Rightarrow>
     (case CompareAndSwapInt32 (status h) DaemonStatusInitialized DaemonStatusStarted of
        (cell, swapped) \<Rightarrow>
        if \<not> swapped then Inr (h, tr)
        else
          let h1 = h\<lparr>status := cell\<rparr>;
              tr1 = tr @ [CounterInc RestartCount 1, RuntimeMetricsReporterStart,
                          PProfInitializerStart]
          in
          (case fatalIf (pprofInitializerStart env) (fatalReturns env)
                  ''fail to start PProf'' tr1 of
             Inl final \<Rightarrow> Inl final
           | Inr tr2 \<Rightarrow>
          (case fatalIf (dispatcherStart env) (fatalReturns env)
                  ''fail to start dispatcher'' (tr2 @ [DispatcherStart]) of
             Inl final \<Rightarrow> Inl final
           | Inr tr3 \<Rightarrow>
          (case fatalIf (snd (whoAmI env)) (fatalReturns env)
                  ''fail to get host info from membership monitor''
                  (tr3 @ [MembershipResolverStart, DomainCacheStart,
                          DomainMetricsScopeCacheStart, MembershipResolverWhoAmI]) of
             Inl final \<Rightarrow> Inl final
           | Inr tr4 \<Rightarrow>
               Inr (h1\<lparr>hostInfo := fst (whoAmI env)\<rparr>,
                    tr4 @ [LoggerInfo ''service started'', RandSeed]))))))"

definition Stop :: "StopEnv \<Rightarrow> ('c, 'h) World \<Rightarrow> ('c, 'h) World" where
  "Stop env w =
    (case w of (h, tr) \<Rightarrow>
     (case CompareAndSwapInt32 (status h) DaemonStatusStarted DaemonStatusStopped of
        (cell, swapped) \<Rightarrow>
        if \<not> swapped then (h, tr)
        else
          (h\<lparr>status := cell\<rparr>,
           tr @ [DomainCacheStop, DomainMetricsScopeCacheStop, MembershipResolverStop,
                 DispatcherStop]
              @ (case dispatcherStop env of
                   Some err \<Rightarrow> [LoggerError ''failed to stop dispatcher'']
                 | None \<Rightarrow> [])
              @ [RuntimeMetricsReporterStop, PersistenceBeanClose])))"

text \<open>A caller's sequence of lifecycle calls; nothing runs after the process has ended.\<close>

datatype 'h Call = CallStart "'h StartEnv" | CallStop StopEnv

fun run :: "'h Call list \<Rightarrow> ('c, 'h) World \<Rightarrow> Effect list + ('c, 'h) World" where
  "run [] w = Inr w"
| "run (CallStart env # cs) w =
     (case Start env w of Inl tr \<Rightarrow> Inl tr | Inr w' \<Rightarrow> run cs w')"
| "run (CallStop env # cs) w = run cs (Stop env w)"

subsection \<open>Getters\<close>

definition GetServiceName :: "('c, 'h) Impl \<Rightarrow> string" where
  "GetServiceName h = serviceName h"

definition GetHostInfo :: "('c, 'h) Impl \<Rightarrow> 'h" where
  "GetHostInfo h = hostInfo h"

definition GetFrontendRawClient :: "('c, 'h) Impl \<Rightarrow> 'c Client" where
  "GetFrontendRawClient h = frontendRawClient h"

definition GetFrontendClient :: "('c, 'h) Impl \<Rightarrow> 'c Client" where
  "GetFrontendClient h = frontendClient h"

definition GetMatchingRawClient :: "('c, 'h) Impl \<Rightarrow> 'c Client" where
  "GetMatchingRawClient h = matchingRawClient h"

definition GetMatchingClient :: "('c, 'h) Impl \<Rightarrow> 'c Client" where
  "GetMatchingClient h = matchingClient h"

definition GetHistoryRawClient :: "('c, 'h) Impl \<Rightarrow> 'c Client" where
  "GetHistoryRawClient h = historyRawClient h"

definition GetHistoryClient :: "('c, 'h) Impl \<Rightarrow> 'c Client" where
  "GetHistoryClient h = historyClient h"

definition GetClientBean :: "('c, 'h) Impl \<Rightarrow> 'c ClientBean" where
  "GetClientBean h = clientBean h"

section \<open>The package-level variables under the operations of the sources\<close>

text \<open>
  The metrics file declares five package-level variables with \<^verbatim>\<open>var\<close>; each gets its value
  once, when the package is initialised. Go has no read-only map, so whether a table stays
  as declared depends on what the functions do. The functions of the two source files are
  given here as operations on the package variables: each returns its result and the
  variables as it leaves them. No function body of the sources assigns to a package
  variable or to an element of one, so each operation hands the variables on as it got them.
\<close>

record PackageVars =
  varServiceMetrics :: "MetricName \<rightharpoonup> MetricType"
  varGoRuntimeMetrics :: "MetricName \<rightharpoonup> MetricType"
  varScopeDefs :: "ServiceIdx \<rightharpoonup> (int \<rightharpoonup> scopeDefinition)"
  varMetricDefs :: "ServiceIdx \<rightharpoonup> (int \<rightharpoonup> metricDefinition)"
  varPersistenceLatencyBuckets :: "int list"

text \<open>Package initialisation: the five \<^verbatim>\<open>var\<close> declarations, each run once.\<close>

definition initPackage :: PackageVars where
  "initPackage =
     \<lparr>varServiceMetrics = ServiceMetrics,
      varGoRuntimeMetrics = GoRuntimeMetrics,
      varScopeDefs = ScopeDefs,
      varMetricDefs = MetricDefs,
      varPersistenceLatencyBuckets = PersistenceLatencyBuckets\<rparr>"

text \<open>
  A call of a function of the sources with its arguments: the two methods of
  \<^verbatim>\<open>MetricName\<close>, and \<^verbatim>\<open>New\<close>, \<^verbatim>\<open>Start\<close> and \<^verbatim>\<open>Stop\<close> of the resource container (the
  getters of the container only read a field of it).
\<close>

datatype ('c, 'h) Invocation =
  InvokeEmpty MetricName
| InvokeString MetricName
| InvokeNew Params string "'c NewEnv"
| InvokeStart "'h StartEnv" "('c, 'h) World"
| InvokeStop StopEnv "('c, 'h) World"

datatype ('c, 'h) Returned =
  ReturnedBool bool
| ReturnedString string
| ReturnedNew "error + ('c, 'h) Impl"
| ReturnedStart "Effect list + ('c, 'h) World"
| ReturnedStop "('c, 'h) World"

fun invoke ::
  "('c, 'h::zero) Invocation \<Rightarrow> PackageVars \<Rightarrow> ('c, 'h) Returned \<times> PackageVars"
where
  "invoke (InvokeEmpty mn) vars = (ReturnedBool (Empty mn), vars)"
| "invoke (InvokeString mn) vars = (ReturnedString (String mn), vars)"
| "invoke (InvokeNew params name env) vars = (ReturnedNew (New params name env), vars)"
| "invoke (InvokeStart env w) vars = (ReturnedStart (Start env w), vars)"
| "invoke (InvokeStop env w) vars = (ReturnedStop (Stop env w), vars)"

text \<open>The package variables after a sequence of calls.\<close>

fun invokeAll :: "('c, 'h::zero) Invocation list \<Rightarrow> PackageVars \<Rightarrow> PackageVars" where
  "invokeAll [] vars = vars"
| "invokeAll (c # cs) vars = invokeAll cs (snd (invoke c vars))"

section \<open>The task-processing core, from the spec\<close>

text \<open>
  The processing queue, the task scheduler, the DLQ manager and the shard controller belong
  to this repository but are not among the sources. Each definition of this section is
  written from the sentences of the spec it quotes.
\<close>

subsection \<open>Tasks and domain filters\<close>

text \<open>
  Modelled from the spec: the task categories of the missing task package, section 3,
  ``\<^verbatim>\<open>category\<close> (transfer | timer | cross-cluster | replication)''.
\<close>

datatype Category = TransferTask | TimerTask | CrossClusterTask | ReplicationTask

text \<open>
  Modelled from the spec: the missing \<^verbatim>\<open>Task\<close> type, section 3, with the attributes the
  queue, the scheduler and the DLQ read: category, domain, task ID and attempt (retry count).
\<close>

record Task =
  category :: Category
  domainID :: string
  taskID :: int
  attempt :: nat

text \<open>
  Modelled from the spec: the missing domain filter, section 3, ``inclusion/exclusion set
  restricting which domains this queue instance handles''.
\<close>

datatype DomainFilter = Include "string set" | Exclude "string set"

text \<open>
  Modelled from the spec: the domains a filter of the missing queue package lets through.
\<close>

fun domains :: "DomainFilter \<Rightarrow> string set" where
  "domains (Include S) = S"
| "domains (Exclude S) = - S"

text \<open>
  Modelled from the spec: the missing \<^verbatim>\<open>ProcessingQueueState\<close>, section 3: the acknowledged
  level, the farthest level observed, and the domain filter.
\<close>

record ProcessingQueueState =
  ackLevel :: int
  maxLevel :: int
  domainFilter :: DomainFilter

subsection \<open>Ack level of a processing queue\<close>

text \<open>
  Modelled from the spec: the missing \<^verbatim>\<open>ProcessingQueue\<close>, section 4.2: its state and the
  in-memory ack tracking of section 4.3, the tasks it has fetched with whether each has
  completed.
\<close>

record ProcessingQueue =
  queueState :: ProcessingQueueState
  outstanding :: "(int \<times> bool) list"

text \<open>
  Modelled from the spec: what the missing \<^verbatim>\<open>GetTasks\<close> leaves in the queue, section 4.2:
  the fetched tasks ``bounded by \<^verbatim>\<open>[ackLevel, maxLevel]\<close> and \<^verbatim>\<open>domainFilter\<close>'', tracked as
  not completed. A task at or below the ack level is acknowledged already, and a task
  tracked before the fetch is not added again.
\<close>

definition AddTasks :: "Task list \<Rightarrow> ProcessingQueue \<Rightarrow> ProcessingQueue" where
  "AddTasks ts q =
     q\<lparr>outstanding := outstanding q @
          map (\<lambda>t. (taskID t, False))
            (filter (\<lambda>t. domainID t \<in> domains (domainFilter (queueState q))
                          \<and> ackLevel (queueState q) < taskID t
                          \<and> taskID t \<le> maxLevel (queueState q)
                          \<and> taskID t \<notin> fst ` set (outstanding q))
               ts)\<rparr>"

text \<open>
  Modelled from the spec: the test behind the missing \<^verbatim>\<open>UpdateAckLevel\<close>, section 4.2:
  ``all tasks with smaller IDs in this queue's filter have completed (no gaps)'', the task
  itself included.
\<close>

definition completedUpTo :: "(int \<times> bool) list \<Rightarrow> int \<Rightarrow> bool" where
  "completedUpTo ts t = list_all (\<lambda>e. fst e \<le> t \<longrightarrow> snd e) ts"

text \<open>
  Modelled from the spec: the completion of a task recorded in the tracking of the missing
  queue, section 4.3: ``on completion, update in-memory ack tracking''.
\<close>

definition markCompleted :: "int \<Rightarrow> (int \<times> bool) list \<Rightarrow> (int \<times> bool) list" where
  "markCompleted tid ts = map (\<lambda>e. (fst e, snd e \<or> fst e = tid)) ts"

text \<open>
  Modelled from the spec: the level the missing \<^verbatim>\<open>UpdateAckLevel\<close> moves to, section 4.2:
  the ``ack level only advances to the highest \<^verbatim>\<open>taskID\<close> such that all tasks with smaller
  IDs in this queue's filter have completed'', and stays where it is when there is none
  above it.
\<close>

definition nextAckLevel :: "int \<Rightarrow> (int \<times> bool) list \<Rightarrow> int" where
  "nextAckLevel level ts = fold max (filter (completedUpTo ts) (map fst ts)) level"

text \<open>
  Modelled from the spec: the missing \<^verbatim>\<open>UpdateAckLevel(taskID)\<close>, section 4.2: the task is
  recorded as completed and the ack level advances. Tasks at or below the new level leave
  the tracking (glossary: they ``may be deleted'').
\<close>

definition UpdateAckLevel :: "int \<Rightarrow> ProcessingQueue \<Rightarrow> ProcessingQueue" where
  "UpdateAckLevel tid q =
     (let ts = markCompleted tid (outstanding q);
          level = nextAckLevel (ackLevel (queueState q)) ts
      in q\<lparr>queueState := (queueState q)\<lparr>ackLevel := level\<rparr>,
            outstanding := filter (\<lambda>e. level < fst e) ts\<rparr>)"

text \<open>
  Modelled from the spec: a freshly loaded queue of the missing queue processor, with
  nothing fetched yet.
\<close>

definition newQueue :: "ProcessingQueueState \<Rightarrow> ProcessingQueue" where
  "newQueue s = \<lparr>queueState = s, outstanding = []\<rparr>"

text \<open>
  Modelled from the spec: the missing \<^verbatim>\<open>GetTasks(batchSize) -> []Task\<close>, section 4.2,
  ``bounded by \<^verbatim>\<open>[ackLevel, maxLevel]\<close> and \<^verbatim>\<open>domainFilter\<close>'': of the tasks in persistence,
  those of the filter above the ack level and up to the max level, in the order of their
  IDs (section 3: the task ID is ``the ordering key within a shard''), the first
  \<open>batchSize\<close> of them.
\<close>

definition GetTasks :: "nat \<Rightarrow> Task list \<Rightarrow> ProcessingQueue \<Rightarrow> Task list" where
  "GetTasks batchSize stored q =
     take batchSize
       (sort_key taskID
          (filter (\<lambda>t. domainID t \<in> domains (domainFilter (queueState q))
                        \<and> ackLevel (queueState q) < taskID t
                        \<and> taskID t \<le> maxLevel (queueState q))
             stored))"

text \<open>
  Modelled from the spec: the missing queue processor of one shard, category and role with
  what it works on, sections 3 and 4.3: the tasks in persistence, its processing queue,
  and the IDs of the tasks whose completion has been reported to it.
\<close>

record QueueProcessor =
  persisted :: "Task list"
  procQueue :: ProcessingQueue
  completions :: "int list"

text \<open>
  Modelled from the spec: what happens around the missing queue processor, sections 3 and
  4.3: the shard creates a task, the queue observes a farther level, the processor fetches
  a batch, or a task completes.
\<close>

datatype ProcessorStep = Created Task | Observed int | Fetch nat | TaskCompleted int

text \<open>
  Modelled from the spec: one step of the missing queue processor. Task IDs are ``monotonic
  per shard+category'' (section 3), so a new task gets an ID beyond those of the tasks in
  persistence and beyond the farthest level the queue has observed; a task with another ID
  is not created. A fetch tracks the tasks \<^verbatim>\<open>GetTasks\<close> returns. Only a task handed to the
  scheduler, that is a tracked one, completes (section 4.3: ``on completion, update
  in-memory ack tracking'').
\<close>

fun processorStep :: "ProcessorStep \<Rightarrow> QueueProcessor \<Rightarrow> QueueProcessor" where
  "processorStep (Created t) s =
     (if list_all (\<lambda>u. taskID u < taskID t) (persisted s)
         \<and> maxLevel (queueState (procQueue s)) < taskID t
      then s\<lparr>persisted := persisted s @ [t]\<rparr> else s)"
| "processorStep (Observed level) s =
     s\<lparr>procQueue := (procQueue s)
          \<lparr>queueState := (queueState (procQueue s))
             \<lparr>maxLevel := max (maxLevel (queueState (procQueue s))) level\<rparr>\<rparr>\<rparr>"
| "processorStep (Fetch batchSize) s =
     s\<lparr>procQueue := AddTasks (GetTasks batchSize (persisted s) (procQueue s)) (procQueue s)\<rparr>"
| "processorStep (TaskCompleted tid) s =
     (if tid \<in> fst ` set (outstanding (procQueue s))
      then s\<lparr>procQueue := UpdateAckLevel tid (procQueue s),
             completions := tid # completions s\<rparr>
      else s)"

text \<open>
  Modelled from the spec: the missing queue processor over a sequence of steps.
\<close>

fun process :: "ProcessorStep list \<Rightarrow> QueueProcessor \<Rightarrow> QueueProcessor" where
  "process [] s = s"
| "process (step # steps) s = process steps (processorStep step s)"

text \<open>
  Modelled from the spec: the ``no gaps'' invariant of section 8 on the missing queue
  processor: the ack level ``never exceeds the ID of an uncompleted task within its
  filter'', that is, it is below the ID of every task in persistence that is in the filter
  and has not completed.
\<close>

definition noGaps :: "QueueProcessor \<Rightarrow> bool" where
  "noGaps s =
     (\<forall>t \<in> set (persisted s).
        domainID t \<in> domains (domainFilter (queueState (procQueue s)))
        \<and> taskID t \<notin> set (completions s)
        \<longrightarrow> ackLevel (queueState (procQueue s)) < taskID t)"

text \<open>
  Modelled from the spec: what the missing queue processor keeps true of its bookkeeping,
  sections 3 and 4.2: the ack level is at most the max level; every tracked task lies
  above the ack level and within the max level, and is recorded as completed only when its
  completion was reported; every task in persistence that is in the filter and has not
  completed lies above the ack level, and is tracked as soon as a task with its ID or a
  greater one is; a task whose completion was reported is at or below the ack level or
  still tracked.
\<close>

definition consistent :: "QueueProcessor \<Rightarrow> bool" where
  "consistent s =
     (ackLevel (queueState (procQueue s)) \<le> maxLevel (queueState (procQueue s))
      \<and> (\<forall>e \<in> set (outstanding (procQueue s)).
            ackLevel (queueState (procQueue s)) < fst e
            \<and> fst e \<le> maxLevel (queueState (procQueue s))
            \<and> (snd e \<longrightarrow> fst e \<in> set (completions s)))
      \<and> (\<forall>t \<in> set (persisted s).
            domainID t \<in> domains (domainFilter (queueState (procQueue s)))
            \<and> taskID t \<notin> set (completions s)
            \<longrightarrow> ackLevel (queueState (procQueue s)) < taskID t
                \<and> ((\<exists>e \<in> set (outstanding (procQueue s)). taskID t \<le> fst e)
                     \<longrightarrow> taskID t \<in> fst ` set (outstanding (procQueue s))))
      \<and> (\<forall>c \<in> set (completions s).
            c \<le> ackLevel (queueState (procQueue s))
            \<or> c \<in> fst ` set (outstanding (procQueue s))))"

subsection \<open>Splitting and merging queues\<close>

text \<open>
  Modelled from the spec: the filters of the missing split policies, section 4.2, which
  ``isolate'' some domains ``into their own queue'': the part of filter \<open>F\<close> inside the
  isolated domains \<open>D\<close>, and the rest of \<open>F\<close>.
\<close>

fun splitFilter :: "DomainFilter \<Rightarrow> string set \<Rightarrow> DomainFilter \<times> DomainFilter" where
  "splitFilter (Include S) D = (Include (S \<inter> D), Include (S - D))"
| "splitFilter (Exclude S) D = (Include (D - S), Exclude (S \<union> D))"

text \<open>
  Modelled from the spec: the missing split of a queue, section 4.2: the queue of the
  isolated domains and the queue of the rest, both at the levels of the original.
\<close>

definition Split :: "ProcessingQueueState \<Rightarrow> string set \<Rightarrow> ProcessingQueueState list" where
  "Split q D = [q\<lparr>domainFilter := fst (splitFilter (domainFilter q) D)\<rparr>,
                q\<lparr>domainFilter := snd (splitFilter (domainFilter q) D)\<rparr>]"

text \<open>
  Modelled from the spec: a missing split into ``two or more queues'', section 4.2: one
  queue per isolated set of domains, in turn, and the queue of the rest.
\<close>

fun SplitMany :: "ProcessingQueueState \<Rightarrow> string set list \<Rightarrow> ProcessingQueueState list" where
  "SplitMany q [] = [q]"
| "SplitMany q (D # Ds) =
     q\<lparr>domainFilter := fst (splitFilter (domainFilter q) D)\<rparr>
     # SplitMany (q\<lparr>domainFilter := snd (splitFilter (domainFilter q) D)\<rparr>) Ds"

text \<open>
  Modelled from the spec: the filter of a missing merged queue, the domains of either
  filter.
\<close>

fun unionFilter :: "DomainFilter \<Rightarrow> DomainFilter \<Rightarrow> DomainFilter" where
  "unionFilter (Include A) (Include B) = Include (A \<union> B)"
| "unionFilter (Include A) (Exclude B) = Exclude (B - A)"
| "unionFilter (Exclude A) (Include B) = Exclude (A - B)"
| "unionFilter (Exclude A) (Exclude B) = Exclude (A \<inter> B)"

text \<open>
  Modelled from the spec: the missing merge, section 4.2: ``queues may later be merged if
  their filters become trivially combinable and their ack levels coincide''. Inclusion and
  exclusion sets always combine into one filter, \<open>unionFilter\<close>, which leaves the ack
  levels to decide.
\<close>

definition Merge :: "ProcessingQueueState \<Rightarrow> ProcessingQueueState \<Rightarrow> ProcessingQueueState option" where
  "Merge a b =
     (if ackLevel a = ackLevel b
      then Some \<lparr>ackLevel = ackLevel a, maxLevel = max (maxLevel a) (maxLevel b),
                 domainFilter = unionFilter (domainFilter a) (domainFilter b)\<rparr>
      else None)"

text \<open>
  Modelled from the spec: the changes the missing queue processor makes to its set of live
  queues, section 4.2: split the queue at a position around some domains, or merge the
  queues at two positions.
\<close>

datatype Resize = SplitAt nat "string set" | MergeAt nat nat

text \<open>
  Modelled from the spec: one change of the live queues of the missing queue processor. A
  position outside the list, a merge of a queue with itself and a merge that is not
  allowed leave the queues as they are.
\<close>

fun resize :: "Resize \<Rightarrow> ProcessingQueueState list \<Rightarrow> ProcessingQueueState list" where
  "resize (SplitAt i D) qs =
     (if i < length qs then take i qs @ Split (qs ! i) D @ drop (Suc i) qs else qs)"
| "resize (MergeAt i j) qs =
     (if i < j \<and> j < length qs then
        (case Merge (qs ! i) (qs ! j) of
           None \<Rightarrow> qs
         | Some m \<Rightarrow> take i qs @ m # take (j - Suc i) (drop (Suc i) qs) @ drop (Suc j) qs)
      else qs)"

text \<open>
  Modelled from the spec: the live queues of the missing queue processor after a sequence
  of changes.
\<close>

fun resizes :: "Resize list \<Rightarrow> ProcessingQueueState list \<Rightarrow> ProcessingQueueState list" where
  "resizes [] qs = qs"
| "resizes (r # rs) qs = resizes rs (resize r qs)"

text \<open>
  Modelled from the spec: the partition invariant of section 3 on the missing queues: the
  filters are pairwise disjoint.
\<close>

fun disjointFilters :: "ProcessingQueueState list \<Rightarrow> bool" where
  "disjointFilters [] = True"
| "disjointFilters (q # qs) =
     ((\<forall>r \<in> set qs. domains (domainFilter q) \<inter> domains (domainFilter r) = {})
      \<and> disjointFilters qs)"

text \<open>
  Modelled from the spec: the domains covered by a list of the missing queues, the union of
  their filters.
\<close>

definition covered :: "ProcessingQueueState list \<Rightarrow> string set" where
  "covered qs = \<Union> (set (map (\<lambda>q. domains (domainFilter q)) qs))"

subsection \<open>Retry in the task scheduler and the DLQ\<close>

text \<open>
  Modelled from the spec: the configuration of the missing task scheduler, section 4.1:
  base delay, cap of the delay and attempt ceiling.
\<close>

record SchedulerConfig =
  baseDelay :: nat
  maxDelay :: nat
  maxAttempts :: nat

text \<open>
  Modelled from the spec: how an execution in the missing scheduler ends, section 4.1: no
  error, ``a retryable execution error'' or ``a non-retryable error''.
\<close>

datatype ExecResult = Succeeded | RetryableError | NonRetryableError

text \<open>
  Modelled from the spec: what the missing scheduler reports to its caller, section 4.1:
  completion, or ``reported failed to the caller''.
\<close>

datatype Outcome = Completed | Failed

text \<open>
  Modelled from the spec: the exponential part of the missing scheduler's backoff,
  section 4.1, ``base delay \<times> 2^attempt, capped''.
\<close>

definition backoffBase :: "SchedulerConfig \<Rightarrow> nat \<Rightarrow> nat" where
  "backoffBase cfg n = min (baseDelay cfg * 2 ^ n) (maxDelay cfg)"

text \<open>
  Modelled from the spec: the jitter drawn by the missing scheduler for an attempt,
  section 4.1 (``plus jitter''): the draws are a parameter, a list by attempt, and 0 beyond
  the list.
\<close>

definition jitterAt :: "nat list \<Rightarrow> nat \<Rightarrow> nat" where
  "jitterAt js n = (if n < length js then js ! n else 0)"

text \<open>
  Modelled from the spec: the backoff delay of the missing scheduler, section 4.1,
  ``base delay \<times> 2^attempt, capped, plus jitter'', read together with section 8, which
  asks that the ``backoff delay'' be ``nondecreasing'': the jitter drawn adds to the
  exponential term, counts up to that term, and the cap applies to the sum, so that no
  delay exceeds the cap and no draw makes a later delay shorter.
\<close>

definition backoffDelay :: "SchedulerConfig \<Rightarrow> nat list \<Rightarrow> nat \<Rightarrow> nat" where
  "backoffDelay cfg js n =
     min (baseDelay cfg * 2 ^ n + min (jitterAt js n) (baseDelay cfg * 2 ^ n))
         (maxDelay cfg)"

text \<open>
  Modelled from the spec: the retry loop of the missing scheduler, section 4.1: ``on a
  retryable execution error the item is re-submitted with \<^verbatim>\<open>attempt+1\<close> and exponential
  backoff; on a non-retryable error or \<^verbatim>\<open>attempt\<close> ceiling exceeded, the item is reported
  failed to the caller''. The result is the report and the re-submissions made, each with
  its attempt number and its delay. The execution of attempt \<open>n\<close> ends as \<open>exec n\<close>.
\<close>

function executeWithRetry ::
  "SchedulerConfig \<Rightarrow> (nat \<Rightarrow> ExecResult) \<Rightarrow> nat list \<Rightarrow> nat \<Rightarrow> Outcome \<times> (nat \<times> nat) list"
where
  "executeWithRetry cfg exec js n =
     (case exec n of
        Succeeded \<Rightarrow> (Completed, [])
      | NonRetryableError \<Rightarrow> (Failed, [])
      | RetryableError \<Rightarrow>
          if maxAttempts cfg < n + 1 then (Failed, [])
          else (fst (executeWithRetry cfg exec js (n + 1)),
                (n + 1, backoffDelay cfg js n) # snd (executeWithRetry cfg exec js (n + 1))))"
  by pat_completeness auto
termination
  by (relation "measure (\<lambda>(cfg, exec, js, n). maxAttempts cfg + 1 - n)") auto

declare executeWithRetry.simps [simp del]

text \<open>
  Modelled from the spec: the missing \<^verbatim>\<open>Submit\<close>, section 4.1, followed to the report: the
  item starts at the attempt its task carries.
\<close>

definition Submit ::
  "SchedulerConfig \<Rightarrow> (nat \<Rightarrow> ExecResult) \<Rightarrow> nat list \<Rightarrow> Task \<Rightarrow> Outcome \<times> (nat \<times> nat) list"
where
  "Submit cfg exec js t = executeWithRetry cfg exec js (attempt t)"

text \<open>
  Modelled from the spec: an execution of the missing scheduler that ``always fails
  retryably'', section 8.
\<close>

definition alwaysRetryable :: "nat \<Rightarrow> ExecResult" where
  "alwaysRetryable n = RetryableError"

text \<open>
  Modelled from the spec: the missing DLQ entry, section 3: ``a Task plus
  \<^verbatim>\<open>failureReason\<close> and \<^verbatim>\<open>firstFailedAt\<close>''.
\<close>

record DLQEntry =
  dlqTask :: Task
  failureReason :: string
  firstFailedAt :: nat

text \<open>
  Modelled from the spec: the missing \<^verbatim>\<open>Enqueue(task, reason)\<close> of the DLQ manager,
  section 4.6, at a time \<open>now\<close>.
\<close>

definition Enqueue :: "Task \<Rightarrow> string \<Rightarrow> nat \<Rightarrow> DLQEntry list \<Rightarrow> DLQEntry list" where
  "Enqueue t reason now dlq =
     dlq @ [\<lparr>dlqTask = t, failureReason = reason, firstFailedAt = now\<rparr>]"

text \<open>
  Modelled from the spec: the deduplication of the missing DLQ manager's read, section 4.6:
  ``deduplicated on read by taskID''; the first entry of a task is kept.
\<close>

fun dedupByTaskID :: "DLQEntry list \<Rightarrow> DLQEntry list" where
  "dedupByTaskID [] = []"
| "dedupByTaskID (e # es) =
     e # dedupByTaskID (filter (\<lambda>x. taskID (dlqTask x) \<noteq> taskID (dlqTask e)) es)"

text \<open>
  Modelled from the spec: the missing \<^verbatim>\<open>Read(category, pageToken)\<close> of the DLQ manager,
  section 4.6, over all pages.
\<close>

definition Read :: "Category \<Rightarrow> DLQEntry list \<Rightarrow> DLQEntry list" where
  "Read c dlq = dedupByTaskID (filter (\<lambda>e. category (dlqTask e) = c) dlq)"

text \<open>
  Modelled from the spec: the terminal failure path of the missing queue processor,
  section 4.6: a task reported failed is enqueued, ``effectively at-least-once'', that is
  once and then once more for each of \<open>again\<close> repeated deliveries.
\<close>

fun routeToDLQ :: "Task \<Rightarrow> string \<Rightarrow> nat \<Rightarrow> nat \<Rightarrow> DLQEntry list \<Rightarrow> DLQEntry list" where
  "routeToDLQ t reason now 0 dlq = Enqueue t reason now dlq"
| "routeToDLQ t reason now (Suc again) dlq =
     routeToDLQ t reason (now + 1) again (Enqueue t reason now dlq)"

text \<open>
  Modelled from the spec: the missing queue processor handling one task, sections 4.1 and
  4.3: submit it, and route it to the DLQ when the scheduler reports it failed.
\<close>

definition processTask ::
  "SchedulerConfig \<Rightarrow> (nat \<Rightarrow> ExecResult) \<Rightarrow> nat list \<Rightarrow> nat \<Rightarrow> Task \<Rightarrow> DLQEntry list
     \<Rightarrow> DLQEntry list"
where
  "processTask cfg exec js again t dlq =
     (case fst (Submit cfg exec js t) of
        Completed \<Rightarrow> dlq
      | Failed \<Rightarrow> routeToDLQ t ''reported failed'' 0 again dlq)"

subsection \<open>Shard ownership and fencing\<close>

text \<open>
  Modelled from the spec: the missing \<^verbatim>\<open>ShardInfo\<close>, section 3: shard, owner (host
  identity) and \<^verbatim>\<open>rangeID\<close>, the fencing token.
\<close>

record ShardInfo =
  shardID :: int
  owner :: string
  rangeID :: int

text \<open>
  Modelled from the spec: the errors of the missing persistence collaborator, sections 6
  and 7: a fencing mismatch (stale \<^verbatim>\<open>rangeID\<close>), or no such shard.
\<close>

datatype PersistenceError = ShardOwnershipLost | ShardNotFound

text \<open>
  Modelled from the spec: the missing \<^verbatim>\<open>GetShardInfo\<close> of the persistence collaborator,
  section 6, on a store of shard infos by shard ID.
\<close>

definition GetShardInfo :: "(int \<rightharpoonup> ShardInfo) \<Rightarrow> int \<Rightarrow> PersistenceError + ShardInfo" where
  "GetShardInfo store sid = (case store sid of None \<Rightarrow> Inl ShardNotFound | Some i \<Rightarrow> Inr i)"

text \<open>
  Modelled from the spec: the missing \<^verbatim>\<open>UpdateShardInfo(shardInfo, expectedRangeID)\<close>,
  section 6: ``conditional write, fails on fencing mismatch''.
\<close>

definition UpdateShardInfo ::
  "(int \<rightharpoonup> ShardInfo) \<Rightarrow> ShardInfo \<Rightarrow> int \<Rightarrow> PersistenceError + (int \<rightharpoonup> ShardInfo)"
where
  "UpdateShardInfo store info expectedRangeID =
     (case store (shardID info) of
        None \<Rightarrow> Inl ShardNotFound
      | Some cur \<Rightarrow>
          if rangeID cur = expectedRangeID then Inr (store(shardID info \<mapsto> info))
          else Inl ShardOwnershipLost)"

text \<open>
  Modelled from the spec: the write of the missing \<^verbatim>\<open>AcquireShard\<close>, section 4.4, by a host
  holding the fencing token it read: ``increment \<^verbatim>\<open>rangeID\<close>, conditionally write it back''.
\<close>

definition acquireWithToken ::
  "(int \<rightharpoonup> ShardInfo) \<Rightarrow> string \<Rightarrow> int \<Rightarrow> int \<Rightarrow> PersistenceError + (int \<rightharpoonup> ShardInfo)"
where
  "acquireWithToken store host sid token =
     UpdateShardInfo store \<lparr>shardID = sid, owner = host, rangeID = token + 1\<rparr> token"

text \<open>
  Modelled from the spec: the missing \<^verbatim>\<open>AcquireShard(shardID)\<close>, section 4.4, run without
  interruption: ``read current ShardInfo, increment \<^verbatim>\<open>rangeID\<close>, conditionally write it
  back''.
\<close>

definition AcquireShard ::
  "(int \<rightharpoonup> ShardInfo) \<Rightarrow> string \<Rightarrow> int \<Rightarrow> PersistenceError + (int \<rightharpoonup> ShardInfo)"
where
  "AcquireShard store host sid =
     (case GetShardInfo store sid of
        Inl err \<Rightarrow> Inl err
      | Inr cur \<Rightarrow> acquireWithToken store host sid (rangeID cur))"

text \<open>
  Modelled from the spec: the two persistence calls of the missing \<^verbatim>\<open>AcquireShard\<close> as
  separate steps of a host, so that the calls of several hosts can interleave (section 6:
  the calls are ``linearizable per shard'').
\<close>

datatype AcquireStep = ReadToken string | WriteBack string

text \<open>
  Modelled from the spec: a shard as hosts of the missing shard controller compete for it:
  the persistence store, the shard, the token each host has read, and the grants made so
  far, newest first, each the host and the \<^verbatim>\<open>rangeID\<close> it now owns the shard under.
\<close>

record Contest =
  store :: "int \<rightharpoonup> ShardInfo"
  shard :: int
  tokens :: "string \<rightharpoonup> int"
  grants :: "(string \<times> int) list"

text \<open>
  Modelled from the spec: one step of a host of the missing shard controller on the shard.
  A host that writes back without having read writes nothing; a write back uses up the
  token, and a successful one is a grant.
\<close>

fun acquireStep :: "AcquireStep \<Rightarrow> Contest \<Rightarrow> Contest" where
  "acquireStep (ReadToken host) c =
     (case GetShardInfo (store c) (shard c) of
        Inl err \<Rightarrow> c
      | Inr cur \<Rightarrow> c\<lparr>tokens := (tokens c)(host \<mapsto> rangeID cur)\<rparr>)"
| "acquireStep (WriteBack host) c =
     (case tokens c host of
        None \<Rightarrow> c
      | Some token \<Rightarrow>
          (case acquireWithToken (store c) host (shard c) token of
             Inl err \<Rightarrow> c\<lparr>tokens := (tokens c)(host := None)\<rparr>
           | Inr store' \<Rightarrow>
               c\<lparr>store := store',
                  tokens := (tokens c)(host := None),
                  grants := (host, token + 1) # grants c\<rparr>))"

text \<open>
  Modelled from the spec: an interleaving of the steps of the hosts of the missing shard
  controller.
\<close>

fun contest :: "AcquireStep list \<Rightarrow> Contest \<Rightarrow> Contest" where
  "contest [] c = c"
| "contest (s # ss) c = contest ss (acquireStep s c)"

section \<open>Properties of the scope and metric tables\<close>

text \<open>The defining equations of each block of constants, collected.\<close>

lemmas CommonScope_defs =
  PersistenceCreateShardScope_def PersistenceGetShardScope_def PersistenceUpdateShardScope_def
  PersistenceCreateWorkflowExecutionScope_def PersistenceGetWorkflowExecutionScope_def
  PersistenceUpdateWorkflowExecutionScope_def
  PersistenceConflictResolveWorkflowExecutionScope_def
  PersistenceResetWorkflowExecutionScope_def PersistenceDeleteWorkflowExecutionScope_def
  PersistenceDeleteCurrentWorkflowExecutionScope_def PersistenceGetCurrentExecutionScope_def
  PersistenceIsWorkflowExecutionExistsScope_def PersistenceListCurrentExecutionsScope_def
  PersistenceListConcreteExecutionsScope_def PersistenceGetTransferTasksScope_def
  PersistenceCompleteTransferTaskScope_def PersistenceRangeCompleteTransferTaskScope_def
  PersistenceGetCrossClusterTasksScope_def PersistenceCompleteCrossClusterTaskScope_def
  PersistenceRangeCompleteCrossClusterTaskScope_def PersistenceGetReplicationTasksScope_def
  PersistenceCompleteReplicationTaskScope_def PersistenceRangeCompleteReplicationTaskScope_def
  PersistencePutReplicationTaskToDLQScope_def PersistenceGetReplicationTasksFromDLQScope_def
  PersistenceGetReplicationDLQSizeScope_def PersistenceDeleteReplicationTaskFromDLQScope_def
  PersistenceRangeDeleteReplicationTaskFromDLQScope_def
  PersistenceCreateFailoverMarkerTasksScope_def PersistenceGetTimerIndexTasksScope_def
  PersistenceCompleteTimerTaskScope_def PersistenceRangeCompleteTimerTaskScope_def
  PersistenceCreateTaskScope_def PersistenceGetTasksScope_def PersistenceCompleteTaskScope_def
  PersistenceCompleteTasksLessThanScope_def PersistenceGetOrphanTasksScope_def
  PersistenceLeaseTaskListScope_def PersistenceUpdateTaskListScope_def
  PersistenceListTaskListScope_def PersistenceDeleteTaskListScope_def
  PersistenceAppendHistoryEventsScope_def PersistenceGetWorkflowExecutionHistoryScope_def
  PersistenceDeleteWorkflowExecutionHistoryScope_def PersistenceCreateDomainScope_def
  PersistenceGetDomainScope_def PersistenceUpdateDomainScope_def
  PersistenceDeleteDomainScope_def PersistenceDeleteDomainByNameScope_def
  PersistenceListDomainScope_def PersistenceGetMetadataScope_def
  PersistenceRecordWorkflowExecutionStartedScope_def
  PersistenceRecordWorkflowExecutionClosedScope_def
  PersistenceRecordWorkflowExecutionUninitializedScope_def
  PersistenceUpsertWorkflowExecutionScope_def PersistenceListOpenWorkflowExecutionsScope_def
  PersistenceListClosedWorkflowExecutionsScope_def
  PersistenceListOpenWorkflowExecutionsByTypeScope_def
  PersistenceListClosedWorkflowExecutionsByTypeScope_def
  PersistenceListOpenWorkflowExecutionsByWorkflowIDScope_def
  PersistenceListClosedWorkflowExecutionsByWorkflowIDScope_def
  PersistenceListClosedWorkflowExecutionsByStatusScope_def
  PersistenceGetClosedWorkflowExecutionScope_def
  PersistenceVisibilityDeleteWorkflowExecutionScope_def
  PersistenceListWorkflowExecutionsScope_def PersistenceScanWorkflowExecutionsScope_def
  PersistenceCountWorkflowExecutionsScope_def PersistenceEnqueueMessageScope_def
  PersistenceEnqueueMessageToDLQScope_def PersistenceReadQueueMessagesScope_def
  PersistenceReadQueueMessagesFromDLQScope_def PersistenceDeleteQueueMessagesScope_def
  PersistenceDeleteQueueMessageFromDLQScope_def PersistenceRangeDeleteMessagesFromDLQScope_def
  PersistenceUpdateAckLevelScope_def PersistenceGetAckLevelScope_def
  PersistenceUpdateDLQAckLevelScope_def PersistenceGetDLQAckLevelScope_def
  PersistenceGetDLQSizeScope_def PersistenceFetchDynamicConfigScope_def
  PersistenceUpdateDynamicConfigScope_def HistoryClientStartWorkflowExecutionScope_def
  HistoryClientDescribeHistoryHostScope_def HistoryClientRemoveTaskScope_def
  HistoryClientCloseShardScope_def HistoryClientResetQueueScope_def
  HistoryClientDescribeQueueScope_def HistoryClientRecordActivityTaskHeartbeatScope_def
  HistoryClientRespondDecisionTaskCompletedScope_def
  HistoryClientRespondDecisionTaskFailedScope_def
  HistoryClientRespondActivityTaskCompletedScope_def
  HistoryClientRespondActivityTaskFailedScope_def
  HistoryClientRespondActivityTaskCanceledScope_def HistoryClientDescribeMutableStateScope_def
  HistoryClientGetMutableStateScope_def HistoryClientPollMutableStateScope_def
  HistoryClientResetStickyTaskListScope_def HistoryClientDescribeWorkflowExecutionScope_def
  HistoryClientRecordDecisionTaskStartedScope_def
  HistoryClientRecordActivityTaskStartedScope_def
  HistoryClientRequestCancelWorkflowExecutionScope_def
  HistoryClientSignalWorkflowExecutionScope_def
  HistoryClientSignalWithStartWorkflowExecutionScope_def
  HistoryClientRemoveSignalMutableStateScope_def
  HistoryClientTerminateWorkflowExecutionScope_def
  HistoryClientResetWorkflowExecutionScope_def HistoryClientScheduleDecisionTaskScope_def
  HistoryClientRecordChildExecutionCompletedScope_def HistoryClientReplicateEventsV2Scope_def
  HistoryClientSyncShardStatusScope_def HistoryClientSyncActivityScope_def
  HistoryClientGetReplicationTasksScope_def HistoryClientGetDLQReplicationTasksScope_def
  HistoryClientQueryWorkflowScope_def HistoryClientReapplyEventsScope_def
  HistoryClientCountDLQMessagesScope_def HistoryClientReadDLQMessagesScope_def
  HistoryClientPurgeDLQMessagesScope_def HistoryClientMergeDLQMessagesScope_def
  HistoryClientRefreshWorkflowTasksScope_def HistoryClientNotifyFailoverMarkersScope_def
  HistoryClientGetCrossClusterTasksScope_def
  HistoryClientRespondCrossClusterTasksCompletedScope_def
  HistoryClientGetFailoverInfoScope_def MatchingClientPollForDecisionTaskScope_def
  MatchingClientPollForActivityTaskScope_def MatchingClientAddActivityTaskScope_def
  MatchingClientAddDecisionTaskScope_def MatchingClientQueryWorkflowScope_def
  MatchingClientRespondQueryTaskCompletedScope_def
  MatchingClientCancelOutstandingPollScope_def MatchingClientDescribeTaskListScope_def
  MatchingClientListTaskListPartitionsScope_def MatchingClientGetTaskListsByDomainScope_def
  FrontendClientDeprecateDomainScope_def FrontendClientDescribeDomainScope_def
  FrontendClientDescribeTaskListScope_def FrontendClientDescribeWorkflowExecutionScope_def
  FrontendClientGetWorkflowExecutionHistoryScope_def
  FrontendClientGetWorkflowExecutionRawHistoryScope_def
  FrontendClientPollForWorkflowExecutionRawHistoryScope_def
  FrontendClientListArchivedWorkflowExecutionsScope_def
  FrontendClientListClosedWorkflowExecutionsScope_def FrontendClientListDomainsScope_def
  FrontendClientListOpenWorkflowExecutionsScope_def FrontendClientPollForActivityTaskScope_def
  FrontendClientPollForDecisionTaskScope_def FrontendClientQueryWorkflowScope_def
  FrontendClientRecordActivityTaskHeartbeatScope_def
  FrontendClientRecordActivityTaskHeartbeatByIDScope_def FrontendClientRegisterDomainScope_def
  FrontendClientRequestCancelWorkflowExecutionScope_def
  FrontendClientResetStickyTaskListScope_def FrontendClientRefreshWorkflowTasksScope_def
  FrontendClientResetWorkflowExecutionScope_def
  FrontendClientRespondActivityTaskCanceledScope_def
  FrontendClientRespondActivityTaskCanceledByIDScope_def
  FrontendClientRespondActivityTaskCompletedScope_def
  FrontendClientRespondActivityTaskCompletedByIDScope_def
  FrontendClientRespondActivityTaskFailedScope_def
  FrontendClientRespondActivityTaskFailedByIDScope_def
  FrontendClientRespondDecisionTaskCompletedScope_def
  FrontendClientRespondDecisionTaskFailedScope_def
  FrontendClientRespondQueryTaskCompletedScope_def
  FrontendClientSignalWithStartWorkflowExecutionScope_def
  FrontendClientSignalWorkflowExecutionScope_def FrontendClientStartWorkflowExecutionScope_def
  FrontendClientTerminateWorkflowExecutionScope_def FrontendClientUpdateDomainScope_def
  FrontendClientListWorkflowExecutionsScope_def FrontendClientScanWorkflowExecutionsScope_def
  FrontendClientCountWorkflowExecutionsScope_def FrontendClientGetSearchAttributesScope_def
  FrontendClientGetReplicationTasksScope_def FrontendClientGetDomainReplicationTasksScope_def
  FrontendClientGetDLQReplicationTasksScope_def FrontendClientReapplyEventsScope_def
  FrontendClientGetClusterInfoScope_def FrontendClientListTaskListPartitionsScope_def
  FrontendClientGetTaskListsByDomainScope_def AdminClientAddSearchAttributeScope_def
  AdminClientCloseShardScope_def AdminClientRemoveTaskScope_def AdminClientResetQueueScope_def
  AdminClientDescribeQueueScope_def AdminClientDescribeHistoryHostScope_def
  AdminClientDescribeShardDistributionScope_def AdminClientDescribeWorkflowExecutionScope_def
  AdminClientGetWorkflowExecutionRawHistoryV2Scope_def AdminClientDescribeClusterScope_def
  AdminClientCountDLQMessagesScope_def AdminClientReadDLQMessagesScope_def
  AdminClientPurgeDLQMessagesScope_def AdminClientMergeDLQMessagesScope_def
  AdminClientRefreshWorkflowTasksScope_def AdminClientResendReplicationTasksScope_def
  AdminClientGetCrossClusterTasksScope_def
  AdminClientRespondCrossClusterTasksCompletedScope_def AdminClientGetDynamicConfigScope_def
  AdminClientUpdateDynamicConfigScope_def AdminClientRestoreDynamicConfigScope_def
  AdminClientListDynamicConfigScope_def DCRedirectionDeprecateDomainScope_def
  DCRedirectionDescribeDomainScope_def DCRedirectionDescribeTaskListScope_def
  DCRedirectionDescribeWorkflowExecutionScope_def
  DCRedirectionGetWorkflowExecutionHistoryScope_def
  DCRedirectionGetWorkflowExecutionRawHistoryScope_def
  DCRedirectionPollForWorklfowExecutionRawHistoryScope_def
  DCRedirectionListArchivedWorkflowExecutionsScope_def
  DCRedirectionListClosedWorkflowExecutionsScope_def DCRedirectionListDomainsScope_def
  DCRedirectionListOpenWorkflowExecutionsScope_def
  DCRedirectionListWorkflowExecutionsScope_def DCRedirectionScanWorkflowExecutionsScope_def
  DCRedirectionCountWorkflowExecutionsScope_def DCRedirectionGetSearchAttributesScope_def
  DCRedirectionPollForActivityTaskScope_def DCRedirectionPollForDecisionTaskScope_def
  DCRedirectionQueryWorkflowScope_def DCRedirectionRecordActivityTaskHeartbeatScope_def
  DCRedirectionRecordActivityTaskHeartbeatByIDScope_def DCRedirectionRegisterDomainScope_def
  DCRedirectionRequestCancelWorkflowExecutionScope_def
  DCRedirectionResetStickyTaskListScope_def DCRedirectionResetWorkflowExecutionScope_def
  DCRedirectionRespondActivityTaskCanceledScope_def
  DCRedirectionRespondActivityTaskCanceledByIDScope_def
  DCRedirectionRespondActivityTaskCompletedScope_def
  DCRedirectionRespondActivityTaskCompletedByIDScope_def
  DCRedirectionRespondActivityTaskFailedScope_def
  DCRedirectionRespondActivityTaskFailedByIDScope_def
  DCRedirectionRespondDecisionTaskCompletedScope_def
  DCRedirectionRespondDecisionTaskFailedScope_def
  DCRedirectionRespondQueryTaskCompletedScope_def
  DCRedirectionSignalWithStartWorkflowExecutionScope_def
  DCRedirectionSignalWorkflowExecutionScope_def DCRedirectionStartWorkflowExecutionScope_def
  DCRedirectionTerminateWorkflowExecutionScope_def DCRedirectionUpdateDomainScope_def
  DCRedirectionListTaskListPartitionsScope_def DCRedirectionGetTaskListsByDomainScope_def
  DCRedirectionRefreshWorkflowTasksScope_def MessagingClientPublishScope_def
  MessagingClientPublishBatchScope_def MessagingClientConsumerScope_def DomainCacheScope_def
  HistoryRereplicationByTransferTaskScope_def HistoryRereplicationByTimerTaskScope_def
  HistoryRereplicationByHistoryReplicationScope_def
  HistoryRereplicationByHistoryMetadataReplicationScope_def
  HistoryRereplicationByActivityReplicationScope_def PersistenceAppendHistoryNodesScope_def
  PersistenceReadHistoryBranchScope_def PersistenceForkHistoryBranchScope_def
  PersistenceDeleteHistoryBranchScope_def PersistenceCompleteForkBranchScope_def
  PersistenceGetHistoryTreeScope_def PersistenceGetAllHistoryTreeBranchesScope_def
  ClusterMetadataArchivalConfigScope_def ElasticsearchRecordWorkflowExecutionStartedScope_def
  ElasticsearchRecordWorkflowExecutionClosedScope_def
  ElasticsearchRecordWorkflowExecutionUninitializedScope_def
  ElasticsearchUpsertWorkflowExecutionScope_def
  ElasticsearchListOpenWorkflowExecutionsScope_def
  ElasticsearchListClosedWorkflowExecutionsScope_def
  ElasticsearchListOpenWorkflowExecutionsByTypeScope_def
  ElasticsearchListClosedWorkflowExecutionsByTypeScope_def
  ElasticsearchListOpenWorkflowExecutionsByWorkflowIDScope_def
  ElasticsearchListClosedWorkflowExecutionsByWorkflowIDScope_def
  ElasticsearchListClosedWorkflowExecutionsByStatusScope_def
  ElasticsearchGetClosedWorkflowExecutionScope_def
  ElasticsearchListWorkflowExecutionsScope_def ElasticsearchScanWorkflowExecutionsScope_def
  ElasticsearchCountWorkflowExecutionsScope_def ElasticsearchDeleteWorkflowExecutionsScope_def
  SequentialTaskProcessingScope_def ParallelTaskProcessingScope_def TaskSchedulerScope_def
  HistoryArchiverScope_def VisibilityArchiverScope_def BlobstoreClientUploadScope_def
  BlobstoreClientDownloadScope_def BlobstoreClientGetMetadataScope_def
  BlobstoreClientExistsScope_def BlobstoreClientDeleteScope_def
  BlobstoreClientDirectoryExistsScope_def DomainFailoverScope_def
  DomainReplicationQueueScope_def NumCommonScopes_def

lemmas AdminScope_defs =
  AdminDescribeHistoryHostScope_def AdminAddSearchAttributeScope_def
  AdminDescribeWorkflowExecutionScope_def AdminGetWorkflowExecutionRawHistoryScope_def
  AdminGetWorkflowExecutionRawHistoryV2Scope_def AdminGetReplicationMessagesScope_def
  AdminGetDomainReplicationMessagesScope_def AdminGetDLQReplicationMessagesScope_def
  AdminReapplyEventsScope_def AdminRefreshWorkflowTasksScope_def
  AdminResendReplicationTasksScope_def AdminRemoveTaskScope_def AdminCloseShardScope_def
  AdminResetQueueScope_def AdminDescribeQueueScope_def AdminCountDLQMessagesScope_def
  AdminReadDLQMessagesScope_def AdminPurgeDLQMessagesScope_def AdminMergeDLQMessagesScope_def
  AdminDescribeShardDistributionScope_def AdminGetCrossClusterTasksScope_def
  AdminRespondCrossClusterTasksCompletedScope_def AdminGetDynamicConfigScope_def
  AdminUpdateDynamicConfigScope_def AdminRestoreDynamicConfigScope_def
  AdminListDynamicConfigScope_def AdminDeleteWorkflowScope_def
  MaintainCorruptWorkflowScope_def NumAdminScopes_def

lemmas FrontendScope_defs =
  FrontendRestartWorkflowExecutionScope_def FrontendStartWorkflowExecutionScope_def
  FrontendPollForDecisionTaskScope_def FrontendPollForActivityTaskScope_def
  FrontendRecordActivityTaskHeartbeatScope_def
  FrontendRecordActivityTaskHeartbeatByIDScope_def
  FrontendRespondDecisionTaskCompletedScope_def FrontendRespondDecisionTaskFailedScope_def
  FrontendRespondQueryTaskCompletedScope_def FrontendRespondActivityTaskCompletedScope_def
  FrontendRespondActivityTaskFailedScope_def FrontendRespondActivityTaskCanceledScope_def
  FrontendRespondActivityTaskCompletedByIDScope_def
  FrontendRespondActivityTaskFailedByIDScope_def
  FrontendRespondActivityTaskCanceledByIDScope_def
  FrontendGetWorkflowExecutionHistoryScope_def FrontendGetWorkflowExecutionRawHistoryScope_def
  FrontendPollForWorklfowExecutionRawHistoryScope_def FrontendSignalWorkflowExecutionScope_def
  FrontendSignalWithStartWorkflowExecutionScope_def
  FrontendTerminateWorkflowExecutionScope_def FrontendRequestCancelWorkflowExecutionScope_def
  FrontendListArchivedWorkflowExecutionsScope_def FrontendListOpenWorkflowExecutionsScope_def
  FrontendListClosedWorkflowExecutionsScope_def FrontendListWorkflowExecutionsScope_def
  FrontendScanWorkflowExecutionsScope_def FrontendCountWorkflowExecutionsScope_def
  FrontendRegisterDomainScope_def FrontendDescribeDomainScope_def
  FrontendUpdateDomainScope_def FrontendDeprecateDomainScope_def
  FrontendQueryWorkflowScope_def FrontendDescribeWorkflowExecutionScope_def
  FrontendDescribeTaskListScope_def FrontendListTaskListPartitionsScope_def
  FrontendGetTaskListsByDomainScope_def FrontendRefreshWorkflowTasksScope_def
  FrontendResetStickyTaskListScope_def FrontendListDomainsScope_def
  FrontendResetWorkflowExecutionScope_def FrontendGetSearchAttributesScope_def
  NumFrontendScopes_def

lemmas HistoryScope_defs =
  HistoryStartWorkflowExecutionScope_def HistoryRecordActivityTaskHeartbeatScope_def
  HistoryRespondDecisionTaskCompletedScope_def HistoryRespondDecisionTaskFailedScope_def
  HistoryRespondActivityTaskCompletedScope_def HistoryRespondActivityTaskFailedScope_def
  HistoryRespondActivityTaskCanceledScope_def HistoryResetQueueScope_def
  HistoryDescribeQueueScope_def HistoryDescribeMutabelStateScope_def
  HistoryGetMutableStateScope_def HistoryPollMutableStateScope_def
  HistoryResetStickyTaskListScope_def HistoryDescribeWorkflowExecutionScope_def
  HistoryRecordDecisionTaskStartedScope_def HistoryRecordActivityTaskStartedScope_def
  HistorySignalWorkflowExecutionScope_def HistorySignalWithStartWorkflowExecutionScope_def
  HistoryRemoveSignalMutableStateScope_def HistoryTerminateWorkflowExecutionScope_def
  HistoryScheduleDecisionTaskScope_def HistoryRecordChildExecutionCompletedScope_def
  HistoryRequestCancelWorkflowExecutionScope_def HistoryReplicateEventsScope_def
  HistoryReplicateRawEventsScope_def HistoryReplicateEventsV2Scope_def
  HistorySyncShardStatusScope_def HistorySyncActivityScope_def
  HistoryDescribeMutableStateScope_def HistoryGetReplicationMessagesScope_def
  HistoryGetDLQReplicationMessagesScope_def HistoryCountDLQMessagesScope_def
  HistoryReadDLQMessagesScope_def HistoryPurgeDLQMessagesScope_def
  HistoryMergeDLQMessagesScope_def HistoryShardControllerScope_def
  HistoryReapplyEventsScope_def HistoryRefreshWorkflowTasksScope_def
  HistoryNotifyFailoverMarkersScope_def HistoryGetCrossClusterTasksScope_def
  HistoryRespondCrossClusterTasksCompletedScope_def HistoryGetFailoverInfoScope_def
  TaskPriorityAssignerScope_def TransferQueueProcessorScope_def
  TransferActiveQueueProcessorScope_def TransferStandbyQueueProcessorScope_def
  TransferActiveTaskActivityScope_def TransferActiveTaskDecisionScope_def
  TransferActiveTaskCloseExecutionScope_def TransferActiveTaskCancelExecutionScope_def
  TransferActiveTaskSignalExecutionScope_def TransferActiveTaskStartChildExecutionScope_def
  TransferActiveTaskRecordWorkflowStartedScope_def TransferActiveTaskResetWorkflowScope_def
  TransferActiveTaskUpsertWorkflowSearchAttributesScope_def
  TransferActiveTaskRecordWorkflowClosedScope_def
  TransferActiveTaskRecordChildExecutionCompletedScope_def
  TransferActiveTaskApplyParentClosePolicyScope_def TransferStandbyTaskResetWorkflowScope_def
  TransferStandbyTaskActivityScope_def TransferStandbyTaskDecisionScope_def
  TransferStandbyTaskCloseExecutionScope_def TransferStandbyTaskCancelExecutionScope_def
  TransferStandbyTaskSignalExecutionScope_def TransferStandbyTaskStartChildExecutionScope_def
  TransferStandbyTaskRecordWorkflowStartedScope_def
  TransferStandbyTaskUpsertWorkflowSearchAttributesScope_def
  TransferStandbyTaskRecordWorkflowClosedScope_def
  TransferStandbyTaskRecordChildExecutionCompletedScope_def
  TransferStandbyTaskApplyParentClosePolicyScope_def TimerQueueProcessorScope_def
  TimerActiveQueueProcessorScope_def TimerStandbyQueueProcessorScope_def
  TimerActiveTaskActivityTimeoutScope_def TimerActiveTaskDecisionTimeoutScope_def
  TimerActiveTaskUserTimerScope_def TimerActiveTaskWorkflowTimeoutScope_def
  TimerActiveTaskActivityRetryTimerScope_def TimerActiveTaskWorkflowBackoffTimerScope_def
  TimerActiveTaskDeleteHistoryEventScope_def TimerStandbyTaskActivityTimeoutScope_def
  TimerStandbyTaskDecisionTimeoutScope_def TimerStandbyTaskUserTimerScope_def
  TimerStandbyTaskWorkflowTimeoutScope_def TimerStandbyTaskActivityRetryTimerScope_def
  TimerStandbyTaskDeleteHistoryEventScope_def TimerStandbyTaskWorkflowBackoffTimerScope_def
  CrossClusterQueueProcessorScope_def CrossClusterTaskProcessorScope_def
  CrossClusterTaskFetcherScope_def CrossClusterSourceTaskStartChildExecutionScope_def
  CrossClusterSourceTaskCancelExecutionScope_def
  CrossClusterSourceTaskSignalExecutionScope_def
  CrossClusterSourceTaskRecordChildWorkflowExecutionCompleteScope_def
  CrossClusterSourceTaskApplyParentClosePolicyScope_def
  CrossClusterTargetTaskStartChildExecutionScope_def
  CrossClusterTargetTaskCancelExecutionScope_def
  CrossClusterTargetTaskSignalExecutionScope_def
  CrossClusterTargetTaskRecordChildWorkflowExecutionCompleteScope_def
  CrossClusterTargetTaskApplyParentClosePolicyScope_def HistoryEventNotificationScope_def
  ReplicatorQueueProcessorScope_def ReplicatorCacheManagerScope_def
  ReplicatorTaskHistoryScope_def ReplicatorTaskSyncActivityScope_def
  ReplicateHistoryEventsScope_def ReplicationMetricEmitterScope_def ShardInfoScope_def
  WorkflowContextScope_def HistoryCacheGetAndCreateScope_def HistoryCacheGetOrCreateScope_def
  HistoryCacheGetOrCreateCurrentScope_def HistoryCacheGetCurrentExecutionScope_def
  EventsCacheGetEventScope_def EventsCachePutEventScope_def EventsCacheGetFromStoreScope_def
  ExecutionSizeStatsScope_def ExecutionCountStatsScope_def SessionSizeStatsScope_def
  SessionCountStatsScope_def HistoryResetWorkflowExecutionScope_def
  HistoryQueryWorkflowScope_def HistoryProcessDeleteHistoryEventScope_def
  WorkflowCompletionStatsScope_def ArchiverClientScope_def ReplicationTaskFetcherScope_def
  ReplicationTaskCleanupScope_def ReplicationDLQStatsScope_def FailoverMarkerScope_def
  HistoryReplicationV2TaskScope_def SyncActivityTaskScope_def NumHistoryScopes_def

lemmas MatchingScope_defs =
  MatchingPollForDecisionTaskScope_def MatchingPollForActivityTaskScope_def
  MatchingAddActivityTaskScope_def MatchingAddDecisionTaskScope_def
  MatchingTaskListMgrScope_def MatchingQueryWorkflowScope_def
  MatchingRespondQueryTaskCompletedScope_def MatchingCancelOutstandingPollScope_def
  MatchingDescribeTaskListScope_def MatchingListTaskListPartitionsScope_def
  MatchingGetTaskListsByDomainScope_def NumMatchingScopes_def

lemmas WorkerScope_defs =
  ReplicatorScope_def DomainReplicationTaskScope_def ESProcessorScope_def
  IndexProcessorScope_def ArchiverDeleteHistoryActivityScope_def
  ArchiverUploadHistoryActivityScope_def ArchiverArchiveVisibilityActivityScope_def
  ArchiverScope_def ArchiverPumpScope_def ArchiverArchivalWorkflowScope_def
  TaskListScavengerScope_def ExecutionsScannerScope_def ExecutionsFixerScope_def
  BatcherScope_def HistoryScavengerScope_def ParentClosePolicyProcessorScope_def
  ShardScannerScope_def CheckDataCorruptionWorkflowScope_def ESAnalyzerScope_def
  WatchDogScope_def NumWorkerScopes_def

lemmas CommonMetric_defs =
  CadenceRequests_def CadenceFailures_def CadenceCriticalFailures_def CadenceLatency_def
  CadenceErrBadRequestCounter_def CadenceErrDomainNotActiveCounter_def
  CadenceErrServiceBusyCounter_def CadenceErrEntityNotExistsCounter_def
  CadenceErrWorkflowExecutionAlreadyCompletedCounter_def
  CadenceErrExecutionAlreadyStartedCounter_def CadenceErrDomainAlreadyExistsCounter_def
  CadenceErrCancellationAlreadyRequestedCounter_def CadenceErrQueryFailedCounter_def
  CadenceErrLimitExceededCounter_def CadenceErrContextTimeoutCounter_def
  CadenceErrRetryTaskCounter_def CadenceErrBadBinaryCounter_def
  CadenceErrClientVersionNotSupportedCounter_def CadenceErrIncompleteHistoryCounter_def
  CadenceErrNonDeterministicCounter_def CadenceErrUnauthorizedCounter_def
  CadenceErrAuthorizeFailedCounter_def CadenceErrRemoteSyncMatchFailedCounter_def
  CadenceErrDomainNameExceededWarnLimit_def CadenceErrIdentityExceededWarnLimit_def
  CadenceErrWorkflowIDExceededWarnLimit_def CadenceErrSignalNameExceededWarnLimit_def
  CadenceErrWorkflowTypeExceededWarnLimit_def CadenceErrRequestIDExceededWarnLimit_def
  CadenceErrTaskListNameExceededWarnLimit_def CadenceErrActivityIDExceededWarnLimit_def
  CadenceErrActivityTypeExceededWarnLimit_def CadenceErrMarkerNameExceededWarnLimit_def
  CadenceErrTimerIDExceededWarnLimit_def PersistenceRequests_def PersistenceFailures_def
  PersistenceLatency_def PersistenceLatencyHistogram_def PersistenceErrShardExistsCounter_def
  PersistenceErrShardOwnershipLostCounter_def PersistenceErrConditionFailedCounter_def
  PersistenceErrCurrentWorkflowConditionFailedCounter_def PersistenceErrTimeoutCounter_def
  PersistenceErrBusyCounter_def PersistenceErrEntityNotExistsCounter_def
  PersistenceErrExecutionAlreadyStartedCounter_def
  PersistenceErrDomainAlreadyExistsCounter_def PersistenceErrBadRequestCounter_def
  PersistenceErrDBUnavailableCounter_def PersistenceSampledCounter_def
  PersistenceEmptyResponseCounter_def CadenceClientRequests_def CadenceClientFailures_def
  CadenceClientLatency_def CadenceDcRedirectionClientRequests_def
  CadenceDcRedirectionClientFailures_def CadenceDcRedirectionClientLatency_def
  CadenceAuthorizationLatency_def DomainCachePrepareCallbacksLatency_def
  DomainCacheCallbacksLatency_def DomainCacheCallbacksCount_def HistorySize_def
  HistoryCount_def EventBlobSize_def DecisionResultCount_def ArchivalConfigFailures_def
  ActiveClusterGauge_def ElasticsearchRequests_def ElasticsearchFailures_def
  ElasticsearchLatency_def ElasticsearchErrBadRequestCounter_def
  ElasticsearchErrBusyCounter_def SequentialTaskSubmitRequest_def
  SequentialTaskSubmitRequestTaskQueueExist_def
  SequentialTaskSubmitRequestTaskQueueMissing_def SequentialTaskSubmitLatency_def
  SequentialTaskQueueSize_def SequentialTaskQueueProcessingLatency_def
  SequentialTaskTaskProcessingLatency_def ParallelTaskSubmitRequest_def
  ParallelTaskSubmitLatency_def ParallelTaskTaskProcessingLatency_def
  PriorityTaskSubmitRequest_def PriorityTaskSubmitLatency_def KafkaConsumerMessageIn_def
  KafkaConsumerMessageAck_def KafkaConsumerMessageNack_def KafkaConsumerMessageNackDlqErr_def
  KafkaConsumerSessionStart_def GracefulFailoverLatency_def GracefulFailoverFailure_def
  HistoryArchiverArchiveNonRetryableErrorCount_def
  HistoryArchiverArchiveTransientErrorCount_def HistoryArchiverArchiveSuccessCount_def
  HistoryArchiverHistoryMutatedCount_def HistoryArchiverTotalUploadSize_def
  HistoryArchiverHistorySize_def HistoryArchiverDuplicateArchivalsCount_def
  HistoryArchiverBlobExistsCount_def HistoryArchiverBlobSize_def
  HistoryArchiverRunningDeterministicConstructionCheckCount_def
  HistoryArchiverDeterministicConstructionCheckFailedCount_def
  HistoryArchiverRunningBlobIntegrityCheckCount_def
  HistoryArchiverBlobIntegrityCheckFailedCount_def
  VisibilityArchiverArchiveNonRetryableErrorCount_def
  VisibilityArchiverArchiveTransientErrorCount_def VisibilityArchiveSuccessCount_def
  MatchingClientForwardedCounter_def MatchingClientInvalidTaskListName_def
  CadenceRequestsPerTaskList_def CadenceFailuresPerTaskList_def CadenceLatencyPerTaskList_def
  CadenceErrBadRequestPerTaskListCounter_def CadenceErrDomainNotActivePerTaskListCounter_def
  CadenceErrServiceBusyPerTaskListCounter_def CadenceErrEntityNotExistsPerTaskListCounter_def
  CadenceErrExecutionAlreadyStartedPerTaskListCounter_def
  CadenceErrDomainAlreadyExistsPerTaskListCounter_def
  CadenceErrCancellationAlreadyRequestedPerTaskListCounter_def
  CadenceErrQueryFailedPerTaskListCounter_def CadenceErrLimitExceededPerTaskListCounter_def
  CadenceErrContextTimeoutPerTaskListCounter_def CadenceErrRetryTaskPerTaskListCounter_def
  CadenceErrBadBinaryPerTaskListCounter_def
  CadenceErrClientVersionNotSupportedPerTaskListCounter_def
  CadenceErrIncompleteHistoryPerTaskListCounter_def
  CadenceErrNonDeterministicPerTaskListCounter_def
  CadenceErrUnauthorizedPerTaskListCounter_def CadenceErrAuthorizeFailedPerTaskListCounter_def
  CadenceErrRemoteSyncMatchFailedPerTaskListCounter_def
  CadenceErrStickyWorkerUnavailablePerTaskListCounter_def CadenceShardSuccessGauge_def
  CadenceShardFailureGauge_def DomainReplicationQueueSizeGauge_def
  DomainReplicationQueueSizeErrorCount_def ParentClosePolicyProcessorSuccess_def
  ParentClosePolicyProcessorFailures_def NumCommonMetrics_def

lemmas HistoryMetric_defs =
  TaskRequests_def TaskLatency_def TaskFailures_def TaskDiscarded_def TaskAttemptTimer_def
  TaskStandbyRetryCounter_def TaskNotActiveCounter_def TaskLimitExceededCounter_def
  TaskBatchCompleteCounter_def TaskBatchCompleteFailure_def TaskProcessingLatency_def
  TaskQueueLatency_def TaskRequestsPerDomain_def TaskLatencyPerDomain_def
  TaskFailuresPerDomain_def TaskWorkflowBusyPerDomain_def TaskDiscardedPerDomain_def
  TaskUnsupportedPerDomain_def TaskAttemptTimerPerDomain_def
  TaskStandbyRetryCounterPerDomain_def TaskPendingActiveCounterPerDomain_def
  TaskNotActiveCounterPerDomain_def TaskTargetNotActiveCounterPerDomain_def
  TaskLimitExceededCounterPerDomain_def TaskProcessingLatencyPerDomain_def
  TaskQueueLatencyPerDomain_def TransferTaskMissingEventCounterPerDomain_def
  ReplicationTasksAppliedPerDomain_def TaskRedispatchQueuePendingTasksTimer_def
  TransferTaskThrottledCounter_def TimerTaskThrottledCounter_def
  CrossClusterTaskThrottledCounter_def TransferTaskMissingEventCounter_def
  ProcessingQueueNumTimer_def ProcessingQueueMaxLevelTimer_def
  ProcessingQueuePendingTaskSplitCounter_def ProcessingQueueStuckTaskSplitCounter_def
  ProcessingQueueSelectedDomainSplitCounter_def ProcessingQueueRandomSplitCounter_def
  ProcessingQueueThrottledCounter_def QueueValidatorLostTaskCounter_def
  QueueValidatorDropTaskCounter_def QueueValidatorInvalidLoadCounter_def
  QueueValidatorValidationCounter_def QueueValidatorValidationFailure_def
  CrossClusterFetchLatency_def CrossClusterFetchRequests_def CrossClusterFetchFailures_def
  CrossClusterFetchServiceBusyFailures_def CrossClusterTaskRespondLatency_def
  CrossClusterTaskRespondRequests_def CrossClusterTaskRespondFailures_def
  CrossClusterTaskFetchedTimer_def CrossClusterTaskPendingTimer_def ActivityE2ELatency_def
  ActivityLostCounter_def AckLevelUpdateCounter_def AckLevelUpdateFailedCounter_def
  DecisionTypeScheduleActivityCounter_def
  DecisionTypeScheduleActivityDispatchSucceedCounter_def
  DecisionTypeScheduleActivityDispatchCounter_def DecisionTypeCompleteWorkflowCounter_def
  DecisionTypeFailWorkflowCounter_def DecisionTypeCancelWorkflowCounter_def
  DecisionTypeStartTimerCounter_def DecisionTypeCancelActivityCounter_def
  DecisionTypeCancelTimerCounter_def DecisionTypeRecordMarkerCounter_def
  DecisionTypeCancelExternalWorkflowCounter_def DecisionTypeChildWorkflowCounter_def
  DecisionTypeContinueAsNewCounter_def DecisionTypeSignalExternalWorkflowCounter_def
  DecisionTypeUpsertWorkflowSearchAttributesCounter_def EmptyCompletionDecisionsCounter_def
  MultipleCompletionDecisionsCounter_def FailedDecisionsCounter_def DecisionAttemptTimer_def
  DecisionRetriesExceededCounter_def StaleMutableStateCounter_def DataInconsistentCounter_def
  TimerResurrectionCounter_def ActivityResurrectionCounter_def
  AutoResetPointsLimitExceededCounter_def AutoResetPointCorruptionCounter_def
  ConcurrencyUpdateFailureCounter_def CadenceErrEventAlreadyStartedCounter_def
  CadenceErrShardOwnershipLostCounter_def HeartbeatTimeoutCounter_def
  ScheduleToStartTimeoutCounter_def StartToCloseTimeoutCounter_def
  ScheduleToCloseTimeoutCounter_def NewTimerCounter_def NewTimerNotifyCounter_def
  AcquireShardsCounter_def AcquireShardsLatency_def ShardClosedCounter_def
  ShardItemCreatedCounter_def ShardItemRemovedCounter_def ShardItemAcquisitionLatency_def
  ShardInfoReplicationPendingTasksTimer_def ShardInfoTransferActivePendingTasksTimer_def
  ShardInfoTransferStandbyPendingTasksTimer_def ShardInfoTimerActivePendingTasksTimer_def
  ShardInfoTimerStandbyPendingTasksTimer_def ShardInfoCrossClusterPendingTasksTimer_def
  ShardInfoReplicationLagTimer_def ShardInfoTransferLagTimer_def ShardInfoTimerLagTimer_def
  ShardInfoCrossClusterLagTimer_def ShardInfoTransferDiffTimer_def ShardInfoTimerDiffTimer_def
  ShardInfoTransferFailoverInProgressTimer_def ShardInfoTimerFailoverInProgressTimer_def
  ShardInfoTransferFailoverLatencyTimer_def ShardInfoTimerFailoverLatencyTimer_def
  SyncShardFromRemoteCounter_def SyncShardFromRemoteFailure_def MembershipChangedCounter_def
  NumShardsGauge_def GetEngineForShardErrorCounter_def GetEngineForShardLatency_def
  RemoveEngineForShardLatency_def CompleteDecisionWithStickyEnabledCounter_def
  CompleteDecisionWithStickyDisabledCounter_def DecisionHeartbeatTimeoutCounter_def
  HistoryEventNotificationQueueingLatency_def HistoryEventNotificationFanoutLatency_def
  HistoryEventNotificationInFlightMessageGauge_def
  HistoryEventNotificationFailDeliveryCount_def EmptyReplicationEventsCounter_def
  DuplicateReplicationEventsCounter_def StaleReplicationEventsCounter_def
  ReplicationEventsSizeTimer_def BufferReplicationTaskTimer_def
  UnbufferReplicationTaskTimer_def HistoryConflictsCounter_def CompleteTaskFailedCounter_def
  CacheSize_def CacheRequests_def CacheFailures_def CacheLatency_def CacheHitCounter_def
  CacheMissCounter_def CacheFullCounter_def AcquireLockFailedCounter_def
  WorkflowContextCleared_def MutableStateSize_def ExecutionInfoSize_def ActivityInfoSize_def
  TimerInfoSize_def ChildInfoSize_def SignalInfoSize_def BufferedEventsSize_def
  ActivityInfoCount_def TimerInfoCount_def ChildInfoCount_def SignalInfoCount_def
  RequestCancelInfoCount_def BufferedEventsCount_def TransferTasksCount_def
  TimerTasksCount_def CrossClusterTasksCount_def ReplicationTasksCount_def
  DeleteActivityInfoCount_def DeleteTimerInfoCount_def DeleteChildInfoCount_def
  DeleteSignalInfoCount_def DeleteRequestCancelInfoCount_def
  WorkflowRetryBackoffTimerCount_def WorkflowCronBackoffTimerCount_def
  WorkflowCleanupDeleteCount_def WorkflowCleanupArchiveCount_def WorkflowCleanupNopCount_def
  WorkflowCleanupDeleteHistoryInlineCount_def WorkflowSuccessCount_def WorkflowCancelCount_def
  WorkflowFailedCount_def WorkflowTimeoutCount_def WorkflowTerminateCount_def
  WorkflowContinuedAsNew_def WorkflowCompletedUnknownType_def
  ArchiverClientSendSignalCount_def ArchiverClientSendSignalFailureCount_def
  ArchiverClientHistoryRequestCount_def ArchiverClientHistoryInlineArchiveAttemptCount_def
  ArchiverClientHistoryInlineArchiveFailureCount_def
  ArchiverClientHistoryInlineArchiveThrottledCount_def
  ArchiverClientVisibilityRequestCount_def
  ArchiverClientVisibilityInlineArchiveAttemptCount_def
  ArchiverClientVisibilityInlineArchiveFailureCount_def
  ArchiverClientVisibilityInlineArchiveThrottledCount_def LastRetrievedMessageID_def
  LastProcessedMessageID_def ReplicationLatency_def ReplicationTasksApplied_def
  ReplicationTasksFailed_def ReplicationTasksLag_def ReplicationTasksFetched_def
  ReplicationTasksReturned_def ReplicationTasksReturnedDiff_def
  ReplicationTasksAppliedLatency_def ReplicationDLQFailed_def ReplicationDLQMaxLevelGauge_def
  ReplicationDLQAckLevelGauge_def ReplicationDLQProbeFailed_def ReplicationDLQSize_def
  ReplicationDLQValidationFailed_def GetReplicationMessagesForShardLatency_def
  GetDLQReplicationMessagesLatency_def EventReapplySkippedCount_def
  DirectQueryDispatchLatency_def DirectQueryDispatchStickyLatency_def
  DirectQueryDispatchNonStickyLatency_def DirectQueryDispatchStickySuccessCount_def
  DirectQueryDispatchNonStickySuccessCount_def DirectQueryDispatchClearStickinessLatency_def
  DirectQueryDispatchClearStickinessSuccessCount_def
  DirectQueryDispatchTimeoutBeforeNonStickyCount_def DecisionTaskQueryLatency_def
  ConsistentQueryTimeoutCount_def QueryBeforeFirstDecisionCount_def
  QueryBufferExceededCount_def QueryRegistryInvalidStateCount_def
  WorkerNotSupportsConsistentQueryCount_def DecisionStartToCloseTimeoutOverrideCount_def
  ReplicationTaskCleanupCount_def ReplicationTaskCleanupFailure_def ReplicationTaskLatency_def
  MutableStateChecksumMismatch_def MutableStateChecksumInvalidated_def FailoverMarkerCount_def
  FailoverMarkerReplicationLatency_def FailoverMarkerInsertFailure_def
  FailoverMarkerNotificationFailure_def FailoverMarkerUpdateShardFailure_def
  FailoverMarkerCallbackCount_def HistoryFailoverCallbackCount_def NumHistoryMetrics_def

lemmas MatchingMetric_defs =
  PollSuccessPerTaskListCounter_def PollTimeoutPerTaskListCounter_def
  PollSuccessWithSyncPerTaskListCounter_def LeaseRequestPerTaskListCounter_def
  LeaseFailurePerTaskListCounter_def ConditionFailedErrorPerTaskListCounter_def
  RespondQueryTaskFailedPerTaskListCounter_def SyncThrottlePerTaskListCounter_def
  BufferThrottlePerTaskListCounter_def SyncMatchLatencyPerTaskList_def
  AsyncMatchLatencyPerTaskList_def ExpiredTasksPerTaskListCounter_def
  ForwardedPerTaskListCounter_def ForwardTaskCallsPerTaskList_def
  ForwardTaskErrorsPerTaskList_def ForwardTaskLatencyPerTaskList_def
  ForwardQueryCallsPerTaskList_def ForwardQueryErrorsPerTaskList_def
  ForwardQueryLatencyPerTaskList_def ForwardPollCallsPerTaskList_def
  ForwardPollErrorsPerTaskList_def ForwardPollLatencyPerTaskList_def
  LocalToLocalMatchPerTaskListCounter_def LocalToRemoteMatchPerTaskListCounter_def
  RemoteToLocalMatchPerTaskListCounter_def RemoteToRemoteMatchPerTaskListCounter_def
  PollerPerTaskListCounter_def TaskListManagersGauge_def TaskLagPerTaskListGauge_def
  TaskBacklogPerTaskListGauge_def NumMatchingMetrics_def

lemmas WorkerMetric_defs =
  ReplicatorMessages_def ReplicatorFailures_def ReplicatorMessagesDropped_def
  ReplicatorLatency_def ReplicatorDLQFailures_def ESProcessorRequests_def
  ESProcessorRetries_def ESProcessorFailures_def ESProcessorCorruptedData_def
  ESProcessorProcessMsgLatency_def IndexProcessorCorruptedData_def
  IndexProcessorProcessMsgLatency_def ArchiverNonRetryableErrorCount_def
  ArchiverStartedCount_def ArchiverStoppedCount_def ArchiverCoroutineStartedCount_def
  ArchiverCoroutineStoppedCount_def ArchiverHandleHistoryRequestLatency_def
  ArchiverHandleVisibilityRequestLatency_def ArchiverUploadWithRetriesLatency_def
  ArchiverDeleteWithRetriesLatency_def ArchiverUploadFailedAllRetriesCount_def
  ArchiverUploadSuccessCount_def ArchiverDeleteFailedAllRetriesCount_def
  ArchiverDeleteSuccessCount_def ArchiverHandleVisibilityFailedAllRetiresCount_def
  ArchiverHandleVisibilitySuccessCount_def ArchiverBacklogSizeGauge_def
  ArchiverPumpTimeoutCount_def ArchiverPumpSignalThresholdCount_def
  ArchiverPumpTimeoutWithoutSignalsCount_def ArchiverPumpSignalChannelClosedCount_def
  ArchiverWorkflowStartedCount_def ArchiverNumPumpedRequestsCount_def
  ArchiverNumHandledRequestsCount_def ArchiverPumpedNotEqualHandledCount_def
  ArchiverHandleAllRequestsLatency_def ArchiverWorkflowStoppingCount_def
  TaskProcessedCount_def TaskDeletedCount_def TaskListProcessedCount_def
  TaskListDeletedCount_def TaskListOutstandingCount_def ExecutionsOutstandingCount_def
  StartedCount_def StoppedCount_def ExecutorTasksDeferredCount_def
  ExecutorTasksDroppedCount_def BatcherProcessorSuccess_def BatcherProcessorFailures_def
  HistoryScavengerSuccessCount_def HistoryScavengerErrorCount_def
  HistoryScavengerSkipCount_def DomainReplicationEnqueueDLQCount_def
  ScannerExecutionsGauge_def ScannerCorruptedGauge_def ScannerCheckFailedGauge_def
  ScannerCorruptionByTypeGauge_def ScannerCorruptedOpenExecutionGauge_def
  ScannerShardSizeMaxGauge_def ScannerShardSizeMedianGauge_def ScannerShardSizeMinGauge_def
  ScannerShardSizeNinetyGauge_def ScannerShardSizeSeventyFiveGauge_def
  ScannerShardSizeTwentyFiveGauge_def ScannerShardSizeTenGauge_def ShardScannerScan_def
  ShardScannerFix_def DataCorruptionWorkflowCount_def DataCorruptionWorkflowFailure_def
  DataCorruptionWorkflowSuccessCount_def DataCorruptionWorkflowSkipCount_def
  ESAnalyzerNumStuckWorkflowsDiscovered_def ESAnalyzerNumStuckWorkflowsRefreshed_def
  ESAnalyzerNumStuckWorkflowsFailedToRefresh_def ESAnalyzerNumLongRunningWorkflows_def
  WatchDogNumDeletedCorruptWorkflows_def WatchDogNumFailedToDeleteCorruptWorkflows_def
  WatchDogNumCorruptWorkflowProcessed_def NumWorkerMetrics_def


text \<open>
  A list of different integers, all in a range and as many as the range has, enumerates
  the range.
\<close>

lemma range_cover:
  fixes ks :: "int list"
  assumes "distinct ks" and "int (length ks) = hi - lo"
    and "\<forall>k\<in>set ks. lo \<le> k \<and> k < hi"
  shows "set ks = {lo..<hi}"
proof (rule card_subset_eq)
  show "finite {lo..<hi}" by simp
  show "set ks \<subseteq> {lo..<hi}" using assms(3) by auto
  have "card (set ks) = length ks" using assms(1) by (rule distinct_card)
  also have "\<dots> = nat (hi - lo)" using assms(2) by linarith
  also have "\<dots> = card {lo..<hi}" by simp
  finally show "card (set ks) = card {lo..<hi}" .
qed

text \<open>An entry of the list under a key of the range, found through \<open>map_of\<close>.\<close>

lemma lookup_in_range:
  assumes "set (map fst ps) = {lo..<hi}" and "lo \<le> s" and "s < (hi::int)"
  shows "\<exists>d. map_of ps s = Some d \<and> (s, d) \<in> set ps"
proof -
  from assms have "s \<in> set (map fst ps)" by simp
  then have "map_of ps s \<noteq> None" by (simp add: map_of_eq_None_iff)
  then obtain d where "map_of ps s = Some d" by blast
  then show ?thesis using map_of_SomeD by fastforce
qed

lemma distinct_keys_ScopeDefs_Common: "distinct (map fst ScopeDefs_Common)"
  unfolding ScopeDefs_Common_def list.map fst_conv
  by (simp add: CommonScope_defs)

lemma dom_ScopeDefs_Common: "set (map fst ScopeDefs_Common) = {0..<NumCommonScopes}"
proof (rule range_cover)
  show "distinct (map fst ScopeDefs_Common)" by (rule distinct_keys_ScopeDefs_Common)
  show "int (length (map fst ScopeDefs_Common)) = NumCommonScopes - 0"
    unfolding ScopeDefs_Common_def by (simp add: CommonScope_defs)
  show "\<forall>k\<in>set (map fst ScopeDefs_Common). 0 \<le> k \<and> k < NumCommonScopes"
    unfolding ScopeDefs_Common_def list.map fst_conv
    by (simp add: CommonScope_defs)
qed

lemma entries_ScopeDefs_Common:
  "list_all (\<lambda>e. operation (snd e) \<noteq> [] \<and> dom (tags (snd e)) \<subseteq> {CadenceRoleTagName}) ScopeDefs_Common"
  unfolding ScopeDefs_Common_def by simp

lemma entry_ScopeDefs_Common:
  assumes "0 \<le> s" and "s < NumCommonScopes"
  shows "\<exists>d. map_of ScopeDefs_Common s = Some d \<and> operation d \<noteq> [] \<and> dom (tags d) \<subseteq> {CadenceRoleTagName}"
proof -
  from lookup_in_range [OF dom_ScopeDefs_Common assms]
  obtain d where "map_of ScopeDefs_Common s = Some d" and "(s, d) \<in> set ScopeDefs_Common" by blast
  then show ?thesis using entries_ScopeDefs_Common by (fastforce simp: list_all_iff)
qed

lemma only_ScopeDefs_Common:
  assumes "map_of ScopeDefs_Common s = Some d"
  shows "0 \<le> s \<and> s < NumCommonScopes"
proof -
  from assms have "(s, d) \<in> set ScopeDefs_Common" by (rule map_of_SomeD)
  then have "s \<in> set (map fst ScopeDefs_Common)" by force
  then show ?thesis unfolding dom_ScopeDefs_Common by simp
qed

lemma distinct_keys_ScopeDefs_Frontend: "distinct (map fst ScopeDefs_Frontend)"
  unfolding ScopeDefs_Frontend_def list.map fst_conv
  by (simp add: NumCommonScopes_def AdminScope_defs FrontendScope_defs)

lemma dom_ScopeDefs_Frontend: "set (map fst ScopeDefs_Frontend) = {NumCommonScopes..<NumFrontendScopes}"
proof (rule range_cover)
  show "distinct (map fst ScopeDefs_Frontend)" by (rule distinct_keys_ScopeDefs_Frontend)
  show "int (length (map fst ScopeDefs_Frontend)) = NumFrontendScopes - NumCommonScopes"
    unfolding ScopeDefs_Frontend_def by (simp add: NumCommonScopes_def AdminScope_defs FrontendScope_defs)
  show "\<forall>k\<in>set (map fst ScopeDefs_Frontend). NumCommonScopes \<le> k \<and> k < NumFrontendScopes"
    unfolding ScopeDefs_Frontend_def list.map fst_conv
    by (simp add: NumCommonScopes_def AdminScope_defs FrontendScope_defs)
qed

lemma entries_ScopeDefs_Frontend:
  "list_all (\<lambda>e. operation (snd e) \<noteq> [] \<and> dom (tags (snd e)) = {}) ScopeDefs_Frontend"
  unfolding ScopeDefs_Frontend_def by simp

lemma entry_ScopeDefs_Frontend:
  assumes "NumCommonScopes \<le> s" and "s < NumFrontendScopes"
  shows "\<exists>d. map_of ScopeDefs_Frontend s = Some d \<and> operation d \<noteq> [] \<and> dom (tags d) = {}"
proof -
  from lookup_in_range [OF dom_ScopeDefs_Frontend assms]
  obtain d where "map_of ScopeDefs_Frontend s = Some d" and "(s, d) \<in> set ScopeDefs_Frontend" by blast
  then show ?thesis using entries_ScopeDefs_Frontend by (fastforce simp: list_all_iff)
qed

lemma only_ScopeDefs_Frontend:
  assumes "map_of ScopeDefs_Frontend s = Some d"
  shows "NumCommonScopes \<le> s \<and> s < NumFrontendScopes"
proof -
  from assms have "(s, d) \<in> set ScopeDefs_Frontend" by (rule map_of_SomeD)
  then have "s \<in> set (map fst ScopeDefs_Frontend)" by force
  then show ?thesis unfolding dom_ScopeDefs_Frontend by simp
qed

lemma distinct_keys_ScopeDefs_History: "distinct (map fst ScopeDefs_History)"
  unfolding ScopeDefs_History_def list.map fst_conv
  by (simp add: NumCommonScopes_def HistoryScope_defs)

lemma dom_ScopeDefs_History: "set (map fst ScopeDefs_History) = {NumCommonScopes..<NumHistoryScopes}"
proof (rule range_cover)
  show "distinct (map fst ScopeDefs_History)" by (rule distinct_keys_ScopeDefs_History)
  show "int (length (map fst ScopeDefs_History)) = NumHistoryScopes - NumCommonScopes"
    unfolding ScopeDefs_History_def by (simp add: NumCommonScopes_def HistoryScope_defs)
  show "\<forall>k\<in>set (map fst ScopeDefs_History). NumCommonScopes \<le> k \<and> k < NumHistoryScopes"
    unfolding ScopeDefs_History_def list.map fst_conv
    by (simp add: NumCommonScopes_def HistoryScope_defs)
qed

lemma entries_ScopeDefs_History:
  "list_all (\<lambda>e. operation (snd e) \<noteq> [] \<and> dom (tags (snd e)) \<subseteq> {StatsTypeTagName, CacheTypeTagName}) ScopeDefs_History"
  unfolding ScopeDefs_History_def by simp

lemma entry_ScopeDefs_History:
  assumes "NumCommonScopes \<le> s" and "s < NumHistoryScopes"
  shows "\<exists>d. map_of ScopeDefs_History s = Some d \<and> operation d \<noteq> [] \<and> dom (tags d) \<subseteq> {StatsTypeTagName, CacheTypeTagName}"
proof -
  from lookup_in_range [OF dom_ScopeDefs_History assms]
  obtain d where "map_of ScopeDefs_History s = Some d" and "(s, d) \<in> set ScopeDefs_History" by blast
  then show ?thesis using entries_ScopeDefs_History by (fastforce simp: list_all_iff)
qed

lemma only_ScopeDefs_History:
  assumes "map_of ScopeDefs_History s = Some d"
  shows "NumCommonScopes \<le> s \<and> s < NumHistoryScopes"
proof -
  from assms have "(s, d) \<in> set ScopeDefs_History" by (rule map_of_SomeD)
  then have "s \<in> set (map fst ScopeDefs_History)" by force
  then show ?thesis unfolding dom_ScopeDefs_History by simp
qed

lemma distinct_keys_ScopeDefs_Matching: "distinct (map fst ScopeDefs_Matching)"
  unfolding ScopeDefs_Matching_def list.map fst_conv
  by (simp add: NumCommonScopes_def MatchingScope_defs)

lemma dom_ScopeDefs_Matching: "set (map fst ScopeDefs_Matching) = {NumCommonScopes..<NumMatchingScopes}"
proof (rule range_cover)
  show "distinct (map fst ScopeDefs_Matching)" by (rule distinct_keys_ScopeDefs_Matching)
  show "int (length (map fst ScopeDefs_Matching)) = NumMatchingScopes - NumCommonScopes"
    unfolding ScopeDefs_Matching_def by (simp add: NumCommonScopes_def MatchingScope_defs)
  show "\<forall>k\<in>set (map fst ScopeDefs_Matching). NumCommonScopes \<le> k \<and> k < NumMatchingScopes"
    unfolding ScopeDefs_Matching_def list.map fst_conv
    by (simp add: NumCommonScopes_def MatchingScope_defs)
qed

lemma entries_ScopeDefs_Matching:
  "list_all (\<lambda>e. operation (snd e) \<noteq> [] \<and> dom (tags (snd e)) = {}) ScopeDefs_Matching"
  unfolding ScopeDefs_Matching_def by simp

lemma entry_ScopeDefs_Matching:
  assumes "NumCommonScopes \<le> s" and "s < NumMatchingScopes"
  shows "\<exists>d. map_of ScopeDefs_Matching s = Some d \<and> operation d \<noteq> [] \<and> dom (tags d) = {}"
proof -
  from lookup_in_range [OF dom_ScopeDefs_Matching assms]
  obtain d where "map_of ScopeDefs_Matching s = Some d" and "(s, d) \<in> set ScopeDefs_Matching" by blast
  then show ?thesis using entries_ScopeDefs_Matching by (fastforce simp: list_all_iff)
qed

lemma only_ScopeDefs_Matching:
  assumes "map_of ScopeDefs_Matching s = Some d"
  shows "NumCommonScopes \<le> s \<and> s < NumMatchingScopes"
proof -
  from assms have "(s, d) \<in> set ScopeDefs_Matching" by (rule map_of_SomeD)
  then have "s \<in> set (map fst ScopeDefs_Matching)" by force
  then show ?thesis unfolding dom_ScopeDefs_Matching by simp
qed

lemma distinct_keys_ScopeDefs_Worker: "distinct (map fst ScopeDefs_Worker)"
  unfolding ScopeDefs_Worker_def list.map fst_conv
  by (simp add: NumCommonScopes_def WorkerScope_defs)

lemma dom_ScopeDefs_Worker: "set (map fst ScopeDefs_Worker) = {NumCommonScopes..<NumWorkerScopes}"
proof (rule range_cover)
  show "distinct (map fst ScopeDefs_Worker)" by (rule distinct_keys_ScopeDefs_Worker)
  show "int (length (map fst ScopeDefs_Worker)) = NumWorkerScopes - NumCommonScopes"
    unfolding ScopeDefs_Worker_def by (simp add: NumCommonScopes_def WorkerScope_defs)
  show "\<forall>k\<in>set (map fst ScopeDefs_Worker). NumCommonScopes \<le> k \<and> k < NumWorkerScopes"
    unfolding ScopeDefs_Worker_def list.map fst_conv
    by (simp add: NumCommonScopes_def WorkerScope_defs)
qed

lemma entries_ScopeDefs_Worker:
  "list_all (\<lambda>e. operation (snd e) \<noteq> [] \<and> dom (tags (snd e)) = {}) ScopeDefs_Worker"
  unfolding ScopeDefs_Worker_def by simp

lemma entry_ScopeDefs_Worker:
  assumes "NumCommonScopes \<le> s" and "s < NumWorkerScopes"
  shows "\<exists>d. map_of ScopeDefs_Worker s = Some d \<and> operation d \<noteq> [] \<and> dom (tags d) = {}"
proof -
  from lookup_in_range [OF dom_ScopeDefs_Worker assms]
  obtain d where "map_of ScopeDefs_Worker s = Some d" and "(s, d) \<in> set ScopeDefs_Worker" by blast
  then show ?thesis using entries_ScopeDefs_Worker by (fastforce simp: list_all_iff)
qed

lemma only_ScopeDefs_Worker:
  assumes "map_of ScopeDefs_Worker s = Some d"
  shows "NumCommonScopes \<le> s \<and> s < NumWorkerScopes"
proof -
  from assms have "(s, d) \<in> set ScopeDefs_Worker" by (rule map_of_SomeD)
  then have "s \<in> set (map fst ScopeDefs_Worker)" by force
  then show ?thesis unfolding dom_ScopeDefs_Worker by simp
qed

lemma distinct_keys_MetricDefs_Common: "distinct (map fst MetricDefs_Common)"
  unfolding MetricDefs_Common_def list.map fst_conv
  by (simp add: CommonMetric_defs)

lemma distinct_keys_MetricDefs_History: "distinct (map fst MetricDefs_History)"
  unfolding MetricDefs_History_def list.map fst_conv
  by (simp add: NumCommonMetrics_def HistoryMetric_defs)

lemma distinct_keys_MetricDefs_Matching: "distinct (map fst MetricDefs_Matching)"
  unfolding MetricDefs_Matching_def list.map fst_conv
  by (simp add: NumCommonMetrics_def MatchingMetric_defs)

lemma distinct_keys_MetricDefs_Worker: "distinct (map fst MetricDefs_Worker)"
  unfolding MetricDefs_Worker_def list.map fst_conv
  by (simp add: NumCommonMetrics_def WorkerMetric_defs)

lemma services_distinct: "distinct [Common, Frontend, History, Matching, Worker]"
  by (simp add: Common_def Frontend_def History_def Matching_def Worker_def)

lemma ScopeDefs_services:
  "ScopeDefs Common = Some (map_of ScopeDefs_Common)"
  "ScopeDefs Frontend = Some (map_of ScopeDefs_Frontend)"
  "ScopeDefs History = Some (map_of ScopeDefs_History)"
  "ScopeDefs Matching = Some (map_of ScopeDefs_Matching)"
  "ScopeDefs Worker = Some (map_of ScopeDefs_Worker)"
  by (simp_all add: ScopeDefs_def Common_def Frontend_def History_def Matching_def Worker_def)

lemma MetricDefs_services:
  "MetricDefs Common = Some (map_of MetricDefs_Common)"
  "MetricDefs Frontend = None"
  "MetricDefs History = Some (map_of MetricDefs_History)"
  "MetricDefs Matching = Some (map_of MetricDefs_Matching)"
  "MetricDefs Worker = Some (map_of MetricDefs_Worker)"
  by (simp_all add: MetricDefs_def Common_def Frontend_def History_def Matching_def Worker_def)

lemma ScopeDefs_dom: "(ScopeDefs svc \<noteq> None) = (0 \<le> svc \<and> svc < NumServices)"
  by (auto simp: ScopeDefs_def Common_def Frontend_def History_def Matching_def Worker_def
        NumServices_def)

lemma pinned_Common:
  "map_of ScopeDefs_Common PersistenceCreateShardScope
     = Some \<lparr>operation = ''CreateShard'', tags = Map.empty\<rparr>"
  "map_of ScopeDefs_Common HistoryClientStartWorkflowExecutionScope
     = Some \<lparr>operation = ''HistoryClientStartWorkflowExecution'',
             tags = [CadenceRoleTagName \<mapsto> HistoryClientRoleTagValue]\<rparr>"
  "map_of ScopeDefs_Common BlobstoreClientUploadScope
     = Some \<lparr>operation = ''BlobstoreClientUpload'',
             tags = [CadenceRoleTagName \<mapsto> BlobstoreRoleTagValue]\<rparr>"
  "map_of ScopeDefs_Common DomainReplicationQueueScope
     = Some \<lparr>operation = ''DomainReplicationQueue'', tags = Map.empty\<rparr>"
  unfolding ScopeDefs_Common_def
  by (simp_all add: CommonScope_defs)

lemma pinned_services:
  "map_of ScopeDefs_Frontend AdminDescribeHistoryHostScope
     = Some \<lparr>operation = ''DescribeHistoryHost'', tags = Map.empty\<rparr>"
  "map_of ScopeDefs_Frontend FrontendGetSearchAttributesScope
     = Some \<lparr>operation = ''GetSearchAttributes'', tags = Map.empty\<rparr>"
  "map_of ScopeDefs_History HistoryStartWorkflowExecutionScope
     = Some \<lparr>operation = ''StartWorkflowExecution'', tags = Map.empty\<rparr>"
  "map_of ScopeDefs_History HistoryCacheGetOrCreateScope
     = Some \<lparr>operation = ''HistoryCacheGetOrCreate'',
             tags = [CacheTypeTagName \<mapsto> MutableStateCacheTypeTagValue]\<rparr>"
  "map_of ScopeDefs_History ExecutionSizeStatsScope
     = Some \<lparr>operation = ''ExecutionStats'',
             tags = [StatsTypeTagName \<mapsto> SizeStatsTypeTagValue]\<rparr>"
  "map_of ScopeDefs_History SyncActivityTaskScope
     = Some \<lparr>operation = ''SyncActivityTask'', tags = Map.empty\<rparr>"
  "map_of ScopeDefs_Matching MatchingPollForDecisionTaskScope
     = Some \<lparr>operation = ''PollForDecisionTask'', tags = Map.empty\<rparr>"
  "map_of ScopeDefs_Matching MatchingGetTaskListsByDomainScope
     = Some \<lparr>operation = ''GetTaskListsByDomain'', tags = Map.empty\<rparr>"
  "map_of ScopeDefs_Worker ReplicatorScope
     = Some \<lparr>operation = ''Replicator'', tags = Map.empty\<rparr>"
  "map_of ScopeDefs_Worker WatchDogScope
     = Some \<lparr>operation = ''WatchDog'', tags = Map.empty\<rparr>"
  unfolding ScopeDefs_Frontend_def ScopeDefs_History_def ScopeDefs_Matching_def
    ScopeDefs_Worker_def
  by (simp_all add: NumCommonScopes_def AdminScope_defs FrontendScope_defs HistoryScope_defs
        MatchingScope_defs WorkerScope_defs)

lemma invoke_vars: "snd (invoke c vars) = vars"
  by (cases c) simp_all

lemma invokeAll_vars: "invokeAll cs vars = vars"
  by (induction cs arbitrary: vars) (simp_all add: invoke_vars)

text \<open>
  Claim C7. \<^verbatim>\<open>ScopeDefs\<close> has a map for each of the five services and for no other index.
  In each service's map, every index of the service's own block of scope constants (for
  Frontend the Admin block and the Frontend block, which continues it) has an entry, and
  no other index has one. Every entry names an operation; its tags use only the tag names
  of the file (the role tag in the Common table, the stats and cache tags in the History
  table, none in the others). The first and last entry of each table, and entries with each
  kind of tag, are the ones the file writes. The tables get their value once, at package
  initialisation, and after any sequence of calls of the functions of the sources the
  package variables hold the tables unchanged.
\<close>

theorem ScopeDefs_has_every_declared_scope:
  "(0 \<le> s \<and> s < NumCommonScopes \<longrightarrow>
      (\<exists>m d. ScopeDefs Common = Some m \<and> m s = Some d \<and> operation d \<noteq> []
             \<and> dom (tags d) \<subseteq> {CadenceRoleTagName}))
 \<and> (NumCommonScopes \<le> s \<and> s < NumFrontendScopes \<longrightarrow>
      (\<exists>m d. ScopeDefs Frontend = Some m \<and> m s = Some d \<and> operation d \<noteq> []
             \<and> dom (tags d) = {}))
 \<and> (NumCommonScopes \<le> s \<and> s < NumHistoryScopes \<longrightarrow>
      (\<exists>m d. ScopeDefs History = Some m \<and> m s = Some d \<and> operation d \<noteq> []
             \<and> dom (tags d) \<subseteq> {StatsTypeTagName, CacheTypeTagName}))
 \<and> (NumCommonScopes \<le> s \<and> s < NumMatchingScopes \<longrightarrow>
      (\<exists>m d. ScopeDefs Matching = Some m \<and> m s = Some d \<and> operation d \<noteq> []
             \<and> dom (tags d) = {}))
 \<and> (NumCommonScopes \<le> s \<and> s < NumWorkerScopes \<longrightarrow>
      (\<exists>m d. ScopeDefs Worker = Some m \<and> m s = Some d \<and> operation d \<noteq> []
             \<and> dom (tags d) = {}))
 \<and> (ScopeDefs svc \<noteq> None) = (0 \<le> svc \<and> svc < NumServices)
 \<and> (Option.bind (ScopeDefs Common) (\<lambda>m. m s) \<noteq> None \<longrightarrow>
       0 \<le> s \<and> s < NumCommonScopes)
 \<and> (Option.bind (ScopeDefs Frontend) (\<lambda>m. m s) \<noteq> None \<longrightarrow>
       NumCommonScopes \<le> s \<and> s < NumFrontendScopes)
 \<and> (Option.bind (ScopeDefs History) (\<lambda>m. m s) \<noteq> None \<longrightarrow>
       NumCommonScopes \<le> s \<and> s < NumHistoryScopes)
 \<and> (Option.bind (ScopeDefs Matching) (\<lambda>m. m s) \<noteq> None \<longrightarrow>
       NumCommonScopes \<le> s \<and> s < NumMatchingScopes)
 \<and> (Option.bind (ScopeDefs Worker) (\<lambda>m. m s) \<noteq> None \<longrightarrow>
       NumCommonScopes \<le> s \<and> s < NumWorkerScopes)
 \<and> Option.bind (ScopeDefs Common) (\<lambda>m. m PersistenceCreateShardScope)
       = Some \<lparr>operation = ''CreateShard'', tags = Map.empty\<rparr>
 \<and> Option.bind (ScopeDefs Common) (\<lambda>m. m HistoryClientStartWorkflowExecutionScope)
       = Some \<lparr>operation = ''HistoryClientStartWorkflowExecution'',
               tags = [CadenceRoleTagName \<mapsto> HistoryClientRoleTagValue]\<rparr>
 \<and> Option.bind (ScopeDefs Common) (\<lambda>m. m BlobstoreClientUploadScope)
       = Some \<lparr>operation = ''BlobstoreClientUpload'',
               tags = [CadenceRoleTagName \<mapsto> BlobstoreRoleTagValue]\<rparr>
 \<and> Option.bind (ScopeDefs Common) (\<lambda>m. m DomainReplicationQueueScope)
       = Some \<lparr>operation = ''DomainReplicationQueue'', tags = Map.empty\<rparr>
 \<and> Option.bind (ScopeDefs Frontend) (\<lambda>m. m AdminDescribeHistoryHostScope)
       = Some \<lparr>operation = ''DescribeHistoryHost'', tags = Map.empty\<rparr>
 \<and> Option.bind (ScopeDefs Frontend) (\<lambda>m. m FrontendGetSearchAttributesScope)
       = Some \<lparr>operation = ''GetSearchAttributes'', tags = Map.empty\<rparr>
 \<and> Option.bind (ScopeDefs History) (\<lambda>m. m HistoryStartWorkflowExecutionScope)
       = Some \<lparr>operation = ''StartWorkflowExecution'', tags = Map.empty\<rparr>
 \<and> Option.bind (ScopeDefs History) (\<lambda>m. m HistoryCacheGetOrCreateScope)
       = Some \<lparr>operation = ''HistoryCacheGetOrCreate'',
               tags = [CacheTypeTagName \<mapsto> MutableStateCacheTypeTagValue]\<rparr>
 \<and> Option.bind (ScopeDefs History) (\<lambda>m. m ExecutionSizeStatsScope)
       = Some \<lparr>operation = ''ExecutionStats'',
               tags = [StatsTypeTagName \<mapsto> SizeStatsTypeTagValue]\<rparr>
 \<and> Option.bind (ScopeDefs History) (\<lambda>m. m SyncActivityTaskScope)
       = Some \<lparr>operation = ''SyncActivityTask'', tags = Map.empty\<rparr>
 \<and> Option.bind (ScopeDefs Matching) (\<lambda>m. m MatchingPollForDecisionTaskScope)
       = Some \<lparr>operation = ''PollForDecisionTask'', tags = Map.empty\<rparr>
 \<and> Option.bind (ScopeDefs Matching) (\<lambda>m. m MatchingGetTaskListsByDomainScope)
       = Some \<lparr>operation = ''GetTaskListsByDomain'', tags = Map.empty\<rparr>
 \<and> Option.bind (ScopeDefs Worker) (\<lambda>m. m ReplicatorScope)
       = Some \<lparr>operation = ''Replicator'', tags = Map.empty\<rparr>
 \<and> Option.bind (ScopeDefs Worker) (\<lambda>m. m WatchDogScope)
       = Some \<lparr>operation = ''WatchDog'', tags = Map.empty\<rparr>
 \<and> varScopeDefs initPackage = ScopeDefs
 \<and> varMetricDefs initPackage = MetricDefs
 \<and> invokeAll calls initPackage = initPackage
 \<and> varScopeDefs (invokeAll calls initPackage) = ScopeDefs
 \<and> varMetricDefs (invokeAll calls initPackage) = MetricDefs"
proof -
  have cover:
    "0 \<le> s \<and> s < NumCommonScopes \<longrightarrow>
      (\<exists>m d. ScopeDefs Common = Some m \<and> m s = Some d \<and> operation d \<noteq> []
             \<and> dom (tags d) \<subseteq> {CadenceRoleTagName})"
    "NumCommonScopes \<le> s \<and> s < NumFrontendScopes \<longrightarrow>
      (\<exists>m d. ScopeDefs Frontend = Some m \<and> m s = Some d \<and> operation d \<noteq> []
             \<and> dom (tags d) = {})"
    "NumCommonScopes \<le> s \<and> s < NumHistoryScopes \<longrightarrow>
      (\<exists>m d. ScopeDefs History = Some m \<and> m s = Some d \<and> operation d \<noteq> []
             \<and> dom (tags d) \<subseteq> {StatsTypeTagName, CacheTypeTagName})"
    "NumCommonScopes \<le> s \<and> s < NumMatchingScopes \<longrightarrow>
      (\<exists>m d. ScopeDefs Matching = Some m \<and> m s = Some d \<and> operation d \<noteq> []
             \<and> dom (tags d) = {})"
    "NumCommonScopes \<le> s \<and> s < NumWorkerScopes \<longrightarrow>
      (\<exists>m d. ScopeDefs Worker = Some m \<and> m s = Some d \<and> operation d \<noteq> []
             \<and> dom (tags d) = {})"
    using entry_ScopeDefs_Common [of s] entry_ScopeDefs_Frontend [of s]
      entry_ScopeDefs_History [of s] entry_ScopeDefs_Matching [of s]
      entry_ScopeDefs_Worker [of s]
    by (simp_all add: ScopeDefs_services)
  have only:
    "Option.bind (ScopeDefs Common) (\<lambda>m. m s) \<noteq> None \<longrightarrow>
       0 \<le> s \<and> s < NumCommonScopes"
    "Option.bind (ScopeDefs Frontend) (\<lambda>m. m s) \<noteq> None \<longrightarrow>
       NumCommonScopes \<le> s \<and> s < NumFrontendScopes"
    "Option.bind (ScopeDefs History) (\<lambda>m. m s) \<noteq> None \<longrightarrow>
       NumCommonScopes \<le> s \<and> s < NumHistoryScopes"
    "Option.bind (ScopeDefs Matching) (\<lambda>m. m s) \<noteq> None \<longrightarrow>
       NumCommonScopes \<le> s \<and> s < NumMatchingScopes"
    "Option.bind (ScopeDefs Worker) (\<lambda>m. m s) \<noteq> None \<longrightarrow>
       NumCommonScopes \<le> s \<and> s < NumWorkerScopes"
    using only_ScopeDefs_Common [of s] only_ScopeDefs_Frontend [of s]
      only_ScopeDefs_History [of s] only_ScopeDefs_Matching [of s]
      only_ScopeDefs_Worker [of s]
    by (auto simp: ScopeDefs_services)
  have pinned:
    "Option.bind (ScopeDefs Common) (\<lambda>m. m PersistenceCreateShardScope)
       = Some \<lparr>operation = ''CreateShard'', tags = Map.empty\<rparr>"
    "Option.bind (ScopeDefs Common) (\<lambda>m. m HistoryClientStartWorkflowExecutionScope)
       = Some \<lparr>operation = ''HistoryClientStartWorkflowExecution'',
               tags = [CadenceRoleTagName \<mapsto> HistoryClientRoleTagValue]\<rparr>"
    "Option.bind (ScopeDefs Common) (\<lambda>m. m BlobstoreClientUploadScope)
       = Some \<lparr>operation = ''BlobstoreClientUpload'',
               tags = [CadenceRoleTagName \<mapsto> BlobstoreRoleTagValue]\<rparr>"
    "Option.bind (ScopeDefs Common) (\<lambda>m. m DomainReplicationQueueScope)
       = Some \<lparr>operation = ''DomainReplicationQueue'', tags = Map.empty\<rparr>"
    "Option.bind (ScopeDefs Frontend) (\<lambda>m. m AdminDescribeHistoryHostScope)
       = Some \<lparr>operation = ''DescribeHistoryHost'', tags = Map.empty\<rparr>"
    "Option.bind (ScopeDefs Frontend) (\<lambda>m. m FrontendGetSearchAttributesScope)
       = Some \<lparr>operation = ''GetSearchAttributes'', tags = Map.empty\<rparr>"
    "Option.bind (ScopeDefs History) (\<lambda>m. m HistoryStartWorkflowExecutionScope)
       = Some \<lparr>operation = ''StartWorkflowExecution'', tags = Map.empty\<rparr>"
    "Option.bind (ScopeDefs History) (\<lambda>m. m HistoryCacheGetOrCreateScope)
       = Some \<lparr>operation = ''HistoryCacheGetOrCreate'',
               tags = [CacheTypeTagName \<mapsto> MutableStateCacheTypeTagValue]\<rparr>"
    "Option.bind (ScopeDefs History) (\<lambda>m. m ExecutionSizeStatsScope)
       = Some \<lparr>operation = ''ExecutionStats'',
               tags = [StatsTypeTagName \<mapsto> SizeStatsTypeTagValue]\<rparr>"
    "Option.bind (ScopeDefs History) (\<lambda>m. m SyncActivityTaskScope)
       = Some \<lparr>operation = ''SyncActivityTask'', tags = Map.empty\<rparr>"
    "Option.bind (ScopeDefs Matching) (\<lambda>m. m MatchingPollForDecisionTaskScope)
       = Some \<lparr>operation = ''PollForDecisionTask'', tags = Map.empty\<rparr>"
    "Option.bind (ScopeDefs Matching) (\<lambda>m. m MatchingGetTaskListsByDomainScope)
       = Some \<lparr>operation = ''GetTaskListsByDomain'', tags = Map.empty\<rparr>"
    "Option.bind (ScopeDefs Worker) (\<lambda>m. m ReplicatorScope)
       = Some \<lparr>operation = ''Replicator'', tags = Map.empty\<rparr>"
    "Option.bind (ScopeDefs Worker) (\<lambda>m. m WatchDogScope)
       = Some \<lparr>operation = ''WatchDog'', tags = Map.empty\<rparr>"
    by (simp_all only: ScopeDefs_services Option.bind.simps pinned_Common pinned_services)
  have vars:
    "varScopeDefs initPackage = ScopeDefs"
    "varMetricDefs initPackage = MetricDefs"
    "invokeAll calls initPackage = initPackage"
    "varScopeDefs (invokeAll calls initPackage) = ScopeDefs"
    "varMetricDefs (invokeAll calls initPackage) = MetricDefs"
    by (simp_all add: invokeAll_vars initPackage_def)
  show ?thesis
    by (intro conjI cover only pinned vars ScopeDefs_dom)
qed

theorem ScopeDefs_has_every_declared_scope_witness:
  "0 \<le> HistoryClientStartWorkflowExecutionScope
 \<and> HistoryClientStartWorkflowExecutionScope < NumCommonScopes
 \<and> Option.bind (ScopeDefs Common) (\<lambda>m. m HistoryClientStartWorkflowExecutionScope)
       = Some \<lparr>operation = ''HistoryClientStartWorkflowExecution'',
               tags = [CadenceRoleTagName \<mapsto> HistoryClientRoleTagValue]\<rparr>
 \<and> (\<exists>m d. ScopeDefs Common = Some m
        \<and> m HistoryClientStartWorkflowExecutionScope = Some d \<and> operation d \<noteq> []
        \<and> dom (tags d) \<subseteq> {CadenceRoleTagName})
 \<and> NumCommonScopes \<le> FrontendGetSearchAttributesScope
 \<and> FrontendGetSearchAttributesScope < NumFrontendScopes
 \<and> Option.bind (ScopeDefs Frontend) (\<lambda>m. m FrontendGetSearchAttributesScope)
       = Some \<lparr>operation = ''GetSearchAttributes'', tags = Map.empty\<rparr>
 \<and> Option.bind (ScopeDefs Frontend) (\<lambda>m. m FrontendGetSearchAttributesScope) \<noteq> None
 \<and> Option.bind (ScopeDefs Matching) (\<lambda>m. m NumMatchingScopes) = None
 \<and> ScopeDefs NumServices = None
 \<and> varScopeDefs
       (invokeAll [InvokeEmpty ''restarts'', InvokeString ''restarts'',
                   InvokeStop \<lparr>dispatcherStop = None\<rparr>
                     (\<lparr>status = DaemonStatusStarted, numShards = 4,
                        serviceName = ''cadence-history'', hostInfo = (7::nat),
                        frontendRawClient = BeanClient (1::nat),
                        frontendClient = BeanClient 1,
                        matchingRawClient = BeanClient 2,
                        matchingClient = BeanClient 2,
                        historyRawClient = BeanClient 3,
                        historyClient = BeanClient 3,
                        clientBean = \<lparr>beanFrontendClient = BeanClient 1,
                                      beanMatchingClient = Inr (BeanClient 2),
                                      beanHistoryClient = BeanClient 3\<rparr>\<rparr>, [])]
          initPackage) = ScopeDefs"
proof -
  define s1 where "s1 = HistoryClientStartWorkflowExecutionScope"
  define s2 where "s2 = FrontendGetSearchAttributesScope"
  have a: "0 \<le> s1 \<and> s1 < NumCommonScopes"
    by (simp add: s1_def HistoryClientStartWorkflowExecutionScope_def NumCommonScopes_def)
  have c: "NumCommonScopes \<le> s2 \<and> s2 < NumFrontendScopes"
    by (simp add: s2_def FrontendGetSearchAttributesScope_def NumCommonScopes_def
          NumAdminScopes_def NumFrontendScopes_def)
  note common = ScopeDefs_has_every_declared_scope [where s = s1]
  note frontend = ScopeDefs_has_every_declared_scope [where s = s2]
  note matching = ScopeDefs_has_every_declared_scope [where s = NumMatchingScopes]
  note services = ScopeDefs_has_every_declared_scope [where svc = NumServices]
  have d: "\<exists>m d. ScopeDefs Common = Some m \<and> m s1 = Some d \<and> operation d \<noteq> []
        \<and> dom (tags d) \<subseteq> {CadenceRoleTagName}"
    by (rule common [THEN conjunct1, THEN mp]) (rule a)
  note tail5 = common [THEN conjunct2, THEN conjunct2, THEN conjunct2, THEN conjunct2,
      THEN conjunct2]
  note tail11 = tail5 [THEN conjunct2, THEN conjunct2, THEN conjunct2, THEN conjunct2,
      THEN conjunct2, THEN conjunct2]
  have e: "Option.bind (ScopeDefs Common) (\<lambda>m. m HistoryClientStartWorkflowExecutionScope)
       = Some \<lparr>operation = ''HistoryClientStartWorkflowExecution'',
               tags = [CadenceRoleTagName \<mapsto> HistoryClientRoleTagValue]\<rparr>"
    by (rule tail11 [THEN conjunct2, THEN conjunct1])
  have f: "Option.bind (ScopeDefs Frontend) (\<lambda>m. m FrontendGetSearchAttributesScope)
       = Some \<lparr>operation = ''GetSearchAttributes'', tags = Map.empty\<rparr>"
    by (rule tail11 [THEN conjunct2, THEN conjunct2, THEN conjunct2, THEN conjunct2,
          THEN conjunct2, THEN conjunct1])
  then have g: "Option.bind (ScopeDefs Frontend) (\<lambda>m. m FrontendGetSearchAttributesScope)
       \<noteq> None"
    by simp
  have "\<not> (NumCommonScopes \<le> NumMatchingScopes \<and> NumMatchingScopes < NumMatchingScopes)"
    by simp
  then have h: "Option.bind (ScopeDefs Matching) (\<lambda>m. m NumMatchingScopes) = None"
    using matching [THEN conjunct2, THEN conjunct2, THEN conjunct2, THEN conjunct2,
      THEN conjunct2, THEN conjunct2, THEN conjunct2, THEN conjunct2, THEN conjunct2,
      THEN conjunct1]
    by blast
  have "\<not> (0 \<le> NumServices \<and> NumServices < NumServices)" by simp
  then have i: "ScopeDefs NumServices = None"
    using services [THEN conjunct2, THEN conjunct2, THEN conjunct2, THEN conjunct2,
      THEN conjunct2, THEN conjunct1]
    by simp
  have j: "varScopeDefs
       (invokeAll [InvokeEmpty ''restarts'', InvokeString ''restarts'',
                   InvokeStop \<lparr>dispatcherStop = None\<rparr>
                     (\<lparr>status = DaemonStatusStarted, numShards = 4,
                        serviceName = ''cadence-history'', hostInfo = (7::nat),
                        frontendRawClient = BeanClient (1::nat),
                        frontendClient = BeanClient 1,
                        matchingRawClient = BeanClient 2,
                        matchingClient = BeanClient 2,
                        historyRawClient = BeanClient 3,
                        historyClient = BeanClient 3,
                        clientBean = \<lparr>beanFrontendClient = BeanClient 1,
                                      beanMatchingClient = Inr (BeanClient 2),
                                      beanHistoryClient = BeanClient 3\<rparr>\<rparr>, [])]
          initPackage) = ScopeDefs"
    by (rule ScopeDefs_has_every_declared_scope [THEN conjunct2, THEN conjunct2,
          THEN conjunct2, THEN conjunct2, THEN conjunct2, THEN conjunct2, THEN conjunct2,
          THEN conjunct2, THEN conjunct2, THEN conjunct2, THEN conjunct2, THEN conjunct2,
          THEN conjunct2, THEN conjunct2, THEN conjunct2, THEN conjunct2, THEN conjunct2,
          THEN conjunct2, THEN conjunct2, THEN conjunct2, THEN conjunct2, THEN conjunct2,
          THEN conjunct2, THEN conjunct2, THEN conjunct2, THEN conjunct2, THEN conjunct2,
          THEN conjunct2, THEN conjunct1])
  show ?thesis
    using a c d e f g h i j unfolding s1_def s2_def
    by (intro conjI) simp_all
qed


text \<open>Single entries of the tables, looked up.\<close>

lemma cross_cluster_entries:
  "map_option operation (map_of ScopeDefs_Common PersistenceGetCrossClusterTasksScope)
     = Some ''GetCrossClusterTasks''"
  "map_option operation (map_of ScopeDefs_Common PersistenceCompleteCrossClusterTaskScope)
     = Some ''GetCrossClusterTasks''"
  "map_option operation (map_of ScopeDefs_Common PersistenceRangeCompleteCrossClusterTaskScope)
     = Some ''GetCrossClusterTasks''"
  unfolding ScopeDefs_Common_def
  by (simp_all add: CommonScope_defs)

lemma first_service_entries:
  "map_option operation (map_of ScopeDefs_Frontend NumCommonScopes)
     = Some ''DescribeHistoryHost''"
  "map_option operation (map_of ScopeDefs_History NumCommonScopes)
     = Some ''StartWorkflowExecution''"
  "map_option operation (map_of ScopeDefs_Matching NumCommonScopes)
     = Some ''PollForDecisionTask''"
  "map_option operation (map_of ScopeDefs_Worker NumCommonScopes)
     = Some ''Replicator''"
  unfolding ScopeDefs_Frontend_def ScopeDefs_History_def ScopeDefs_Matching_def
    ScopeDefs_Worker_def
  by (simp_all add: NumCommonScopes_def AdminScope_defs FrontendScope_defs HistoryScope_defs
        MatchingScope_defs WorkerScope_defs)

lemma first_service_metrics:
  "map_option metricName (map_of MetricDefs_History NumCommonMetrics)
     = Some ''task_requests''"
  "map_option metricName (map_of MetricDefs_Matching NumCommonMetrics)
     = Some ''poll_success_per_tl''"
  "map_option metricName (map_of MetricDefs_Worker NumCommonMetrics)
     = Some ''replicator_messages''"
  unfolding MetricDefs_History_def MetricDefs_Matching_def MetricDefs_Worker_def
  by (simp_all add: NumCommonMetrics_def HistoryMetric_defs MatchingMetric_defs
        WorkerMetric_defs)

text \<open>
  Claim C9. The three Common scopes for fetching, completing and range-completing
  cross-cluster tasks are three different indices, and the Common table gives all three the
  operation name \<^verbatim>\<open>GetCrossClusterTasks\<close>: the operation name does not determine the scope.
\<close>

theorem operation_name_not_injective:
  "\<exists>m. ScopeDefs Common = Some m
     \<and> distinct [PersistenceGetCrossClusterTasksScope,
                  PersistenceCompleteCrossClusterTaskScope,
                  PersistenceRangeCompleteCrossClusterTaskScope]
     \<and> map_option operation (m PersistenceGetCrossClusterTasksScope)
          = Some ''GetCrossClusterTasks''
     \<and> map_option operation (m PersistenceCompleteCrossClusterTaskScope)
          = Some ''GetCrossClusterTasks''
     \<and> map_option operation (m PersistenceRangeCompleteCrossClusterTaskScope)
          = Some ''GetCrossClusterTasks''"
proof -
  have "distinct [PersistenceGetCrossClusterTasksScope,
                  PersistenceCompleteCrossClusterTaskScope,
                  PersistenceRangeCompleteCrossClusterTaskScope]"
    by (simp add: PersistenceGetCrossClusterTasksScope_def
          PersistenceCompleteCrossClusterTaskScope_def
          PersistenceRangeCompleteCrossClusterTaskScope_def)
  then show ?thesis
    using cross_cluster_entries ScopeDefs_services(1) by blast
qed

text \<open>
  Claim C10. The Admin block starts at \<^verbatim>\<open>NumCommonScopes\<close> and the Frontend block at
  \<^verbatim>\<open>NumAdminScopes\<close>, while the History, Matching and Worker blocks each start at
  \<^verbatim>\<open>NumCommonScopes\<close> again. Inside one service's table the keys are all different, but
  the index \<^verbatim>\<open>NumCommonScopes\<close> names four different operations in the four service tables,
  and likewise the metric index \<^verbatim>\<open>NumCommonMetrics\<close> names three different metrics: an
  index identifies an entry only together with the service.
\<close>

theorem scope_index_unique_only_within_service:
  "AdminDescribeHistoryHostScope = NumCommonScopes
 \<and> FrontendRestartWorkflowExecutionScope = NumAdminScopes
 \<and> HistoryStartWorkflowExecutionScope = NumCommonScopes
 \<and> MatchingPollForDecisionTaskScope = NumCommonScopes
 \<and> ReplicatorScope = NumCommonScopes
 \<and> distinct (map fst ScopeDefs_Common)
 \<and> distinct (map fst ScopeDefs_Frontend)
 \<and> distinct (map fst ScopeDefs_History)
 \<and> distinct (map fst ScopeDefs_Matching)
 \<and> distinct (map fst ScopeDefs_Worker)
 \<and> (\<exists>mf mh mm mw.
        ScopeDefs Frontend = Some mf \<and> ScopeDefs History = Some mh
      \<and> ScopeDefs Matching = Some mm \<and> ScopeDefs Worker = Some mw
      \<and> map_option operation (mf NumCommonScopes) = Some ''DescribeHistoryHost''
      \<and> map_option operation (mh NumCommonScopes) = Some ''StartWorkflowExecution''
      \<and> map_option operation (mm NumCommonScopes) = Some ''PollForDecisionTask''
      \<and> map_option operation (mw NumCommonScopes) = Some ''Replicator'')
 \<and> TaskRequests = NumCommonMetrics
 \<and> PollSuccessPerTaskListCounter = NumCommonMetrics
 \<and> ReplicatorMessages = NumCommonMetrics
 \<and> distinct (map fst MetricDefs_Common)
 \<and> distinct (map fst MetricDefs_History)
 \<and> distinct (map fst MetricDefs_Matching)
 \<and> distinct (map fst MetricDefs_Worker)
 \<and> (\<exists>mh mm mw.
        MetricDefs History = Some mh \<and> MetricDefs Matching = Some mm
      \<and> MetricDefs Worker = Some mw
      \<and> map_option metricName (mh NumCommonMetrics) = Some ''task_requests''
      \<and> map_option metricName (mm NumCommonMetrics) = Some ''poll_success_per_tl''
      \<and> map_option metricName (mw NumCommonMetrics) = Some ''replicator_messages'')"
proof -
  have starts:
    "AdminDescribeHistoryHostScope = NumCommonScopes"
    "FrontendRestartWorkflowExecutionScope = NumAdminScopes"
    "HistoryStartWorkflowExecutionScope = NumCommonScopes"
    "MatchingPollForDecisionTaskScope = NumCommonScopes"
    "ReplicatorScope = NumCommonScopes"
    "TaskRequests = NumCommonMetrics"
    "PollSuccessPerTaskListCounter = NumCommonMetrics"
    "ReplicatorMessages = NumCommonMetrics"
    by (simp_all add: AdminDescribeHistoryHostScope_def
          FrontendRestartWorkflowExecutionScope_def HistoryStartWorkflowExecutionScope_def
          MatchingPollForDecisionTaskScope_def ReplicatorScope_def TaskRequests_def
          PollSuccessPerTaskListCounter_def ReplicatorMessages_def)
  have scopes: "\<exists>mf mh mm mw.
        ScopeDefs Frontend = Some mf \<and> ScopeDefs History = Some mh
      \<and> ScopeDefs Matching = Some mm \<and> ScopeDefs Worker = Some mw
      \<and> map_option operation (mf NumCommonScopes) = Some ''DescribeHistoryHost''
      \<and> map_option operation (mh NumCommonScopes) = Some ''StartWorkflowExecution''
      \<and> map_option operation (mm NumCommonScopes) = Some ''PollForDecisionTask''
      \<and> map_option operation (mw NumCommonScopes) = Some ''Replicator''"
    using first_service_entries ScopeDefs_services by blast
  have metrics: "\<exists>mh mm mw.
        MetricDefs History = Some mh \<and> MetricDefs Matching = Some mm
      \<and> MetricDefs Worker = Some mw
      \<and> map_option metricName (mh NumCommonMetrics) = Some ''task_requests''
      \<and> map_option metricName (mm NumCommonMetrics) = Some ''poll_success_per_tl''
      \<and> map_option metricName (mw NumCommonMetrics) = Some ''replicator_messages''"
    using first_service_metrics MetricDefs_services by blast
  show ?thesis
    using starts scopes metrics
      distinct_keys_ScopeDefs_Common distinct_keys_ScopeDefs_Frontend
      distinct_keys_ScopeDefs_History distinct_keys_ScopeDefs_Matching
      distinct_keys_ScopeDefs_Worker distinct_keys_MetricDefs_Common
      distinct_keys_MetricDefs_History distinct_keys_MetricDefs_Matching
      distinct_keys_MetricDefs_Worker
    by blast
qed

section \<open>Properties of the resource container\<close>

lemma Start_not_initialized:
  "status h \<noteq> DaemonStatusInitialized \<Longrightarrow> Start env (h, tr) = Inr (h, tr)"
  by (simp add: Start_def CompareAndSwapInt32_def)

lemma Start_initialized:
  assumes "status h = DaemonStatusInitialized" and "Start env (h, tr) = Inr (h', tr')"
  shows "h' = h\<lparr>status := DaemonStatusStarted, hostInfo := fst (whoAmI env)\<rparr>"
    and "MembershipResolverWhoAmI \<in> set tr'"
    and "snd (whoAmI env) = None
         \<or> (fatalReturns env
            \<and> LoggerFatal ''fail to get host info from membership monitor'' \<in> set tr')"
  using assms
  by (auto simp: Start_def CompareAndSwapInt32_def fatalIf_def Let_def
           split: option.splits sum.splits if_splits)

lemma Start_initialized_status:
  assumes "status h = DaemonStatusInitialized" and "Start env (h, tr) = Inr (h', tr')"
  shows "status h' = DaemonStatusStarted"
proof -
  have "h' = h\<lparr>status := DaemonStatusStarted, hostInfo := fst (whoAmI env)\<rparr>"
    using assms by (rule Start_initialized(1))
  then show ?thesis by simp
qed

lemma Start_whoAmI_fails:
  assumes "status h = DaemonStatusInitialized" and "snd (whoAmI env) = Some err"
    and "\<not> fatalReturns env"
  shows "\<exists>t. Start env (h, tr) = Inl t"
  using assms
  by (auto simp: Start_def CompareAndSwapInt32_def fatalIf_def Let_def
           split: option.splits sum.splits)

lemma Stop_not_started:
  "status h \<noteq> DaemonStatusStarted \<Longrightarrow> Stop env (h, tr) = (h, tr)"
  by (simp add: Stop_def CompareAndSwapInt32_def)

lemma Stop_started:
  "status h = DaemonStatusStarted \<Longrightarrow>
     fst (Stop env (h, tr)) = h\<lparr>status := DaemonStatusStopped\<rparr>"
  by (simp add: Stop_def CompareAndSwapInt32_def)

lemma Stop_hostInfo: "hostInfo (fst (Stop env w)) = hostInfo (fst w)"
  by (cases w) (simp add: Stop_def CompareAndSwapInt32_def)

lemma status_consts_distinct:
  "DaemonStatusInitialized \<noteq> DaemonStatusStarted"
  "DaemonStatusStarted \<noteq> DaemonStatusStopped"
  "DaemonStatusInitialized \<noteq> DaemonStatusStopped"
  by (simp_all add: DaemonStatusInitialized_def DaemonStatusStarted_def
        DaemonStatusStopped_def)

lemma New_status: "New p n e = Inr h \<Longrightarrow> status h = DaemonStatusInitialized"
  by (auto simp: New_def Let_def split: sum.splits option.splits)

lemma New_hostInfo: "New p n e = Inr h \<Longrightarrow> hostInfo h = 0"
  by (auto simp: New_def Let_def split: sum.splits option.splits)

text \<open>One call either changes nothing or makes one of the two forward moves.\<close>

lemma step_cases:
  assumes "run [c] (h, tr) = Inr (h', tr')"
  shows "(h' = h \<and> tr' = tr)
       \<or> ((\<exists>env. c = CallStart env) \<and> status h = DaemonStatusInitialized
            \<and> status h' = DaemonStatusStarted)
       \<or> ((\<exists>env. c = CallStop env) \<and> status h = DaemonStatusStarted
            \<and> status h' = DaemonStatusStopped)"
proof (cases c)
  case (CallStart env)
  with assms have st: "Start env (h, tr) = Inr (h', tr')"
    by (simp split: sum.splits)
  show ?thesis
  proof (cases "status h = DaemonStatusInitialized")
    case True
    then have "status h' = DaemonStatusStarted" using st by (rule Start_initialized_status)
    with True CallStart show ?thesis by blast
  next
    case False
    then have "Start env (h, tr) = Inr (h, tr)" by (rule Start_not_initialized)
    with st show ?thesis by simp
  qed
next
  case (CallStop env)
  with assms have st: "Stop env (h, tr) = (h', tr')" by simp
  show ?thesis
  proof (cases "status h = DaemonStatusStarted")
    case True
    then have "fst (Stop env (h, tr)) = h\<lparr>status := DaemonStatusStopped\<rparr>"
      by (rule Stop_started)
    with st have "h' = h\<lparr>status := DaemonStatusStopped\<rparr>" by simp
    then have "status h' = DaemonStatusStopped" by simp
    with True CallStop show ?thesis by blast
  next
    case False
    then have "Stop env (h, tr) = (h, tr)" by (rule Stop_not_started)
    with st show ?thesis by simp
  qed
qed

lemma run_append: "run (cs @ ds) w = (case run cs w of Inl t \<Rightarrow> Inl t | Inr w' \<Rightarrow> run ds w')"
proof (induction cs arbitrary: w)
  case Nil
  show ?case by simp
next
  case (Cons c cs)
  show ?case
  proof (cases c)
    case (CallStart env)
    then show ?thesis using Cons.IH by (simp split: sum.splits)
  next
    case (CallStop env)
    then show ?thesis using Cons.IH by simp
  qed
qed

lemma run_status_in_lifecycle:
  assumes "run cs (h, tr) = Inr (h', tr')"
    and "status h \<in> {DaemonStatusInitialized, DaemonStatusStarted, DaemonStatusStopped}"
  shows "status h' \<in> {DaemonStatusInitialized, DaemonStatusStarted, DaemonStatusStopped}"
  using assms
proof (induction cs arbitrary: h tr)
  case Nil
  then show ?case by simp
next
  case (Cons c cs)
  have "\<exists>h1 tr1. run [c] (h, tr) = Inr (h1, tr1) \<and> run cs (h1, tr1) = Inr (h', tr')"
  proof (cases c)
    case (CallStart env)
    with Cons.prems(1) obtain w1 where "Start env (h, tr) = Inr w1" "run cs w1 = Inr (h', tr')"
      by (auto split: sum.splits)
    with CallStart show ?thesis by (cases w1) simp
  next
    case (CallStop env)
    obtain h1 tr1 where "Stop env (h, tr) = (h1, tr1)" by (cases "Stop env (h, tr)")
    with CallStop Cons.prems(1) show ?thesis by simp
  qed
  then obtain h1 tr1 where
    one: "run [c] (h, tr) = Inr (h1, tr1)" and rest: "run cs (h1, tr1) = Inr (h', tr')"
    by blast
  from step_cases [OF one] Cons.prems(2)
  have "status h1 \<in> {DaemonStatusInitialized, DaemonStatusStarted, DaemonStatusStopped}"
    by auto
  with rest show ?case by (rule Cons.IH)
qed

lemma run_stopped:
  "status h = DaemonStatusStopped \<Longrightarrow> run cs (h, tr) = Inr (h, tr)"
proof (induction cs)
  case Nil
  show ?case by simp
next
  case (Cons c cs)
  have ni: "status h \<noteq> DaemonStatusInitialized" and ns: "status h \<noteq> DaemonStatusStarted"
    using Cons.prems status_consts_distinct by auto
  show ?case
  proof (cases c)
    case (CallStart env)
    then show ?thesis using Cons Start_not_initialized [OF ni] by simp
  next
    case (CallStop env)
    then show ?thesis using Cons Stop_not_started [OF ns] by simp
  qed
qed

lemma Start_twice:
  "run [CallStart e1, CallStart e2] w = run [CallStart e1] w"
proof (cases w)
  case (Pair h tr)
  show ?thesis
  proof (cases "Start e1 (h, tr)")
    case (Inl t)
    with Pair show ?thesis by simp
  next
    case (Inr w')
    obtain h' tr' where w': "w' = (h', tr')" by (cases w')
    have "status h' \<noteq> DaemonStatusInitialized"
    proof (cases "status h = DaemonStatusInitialized")
      case True
      then have "status h' = DaemonStatusStarted"
        using Inr w' Start_initialized_status by blast
      then show ?thesis using status_consts_distinct by simp
    next
      case False
      then have "Start e1 (h, tr) = Inr (h, tr)" by (rule Start_not_initialized)
      with Inr w' False show ?thesis by simp
    qed
    then have "Start e2 (h', tr') = Inr (h', tr')" by (rule Start_not_initialized)
    with Pair Inr w' show ?thesis by simp
  qed
qed

lemma Stop_twice: "Stop e2 (Stop e1 w) = Stop e1 w"
proof (cases w)
  case (Pair h tr)
  obtain h' tr' where s: "Stop e1 (h, tr) = (h', tr')" by (cases "Stop e1 (h, tr)")
  have "status h' \<noteq> DaemonStatusStarted"
  proof (cases "status h = DaemonStatusStarted")
    case True
    then have "fst (Stop e1 (h, tr)) = h\<lparr>status := DaemonStatusStopped\<rparr>"
      by (rule Stop_started)
    with s have "h' = h\<lparr>status := DaemonStatusStopped\<rparr>" by simp
    then have "status h' = DaemonStatusStopped" by simp
    then show ?thesis using status_consts_distinct by simp
  next
    case False
    then have "Stop e1 (h, tr) = (h, tr)" by (rule Stop_not_started)
    with s False show ?thesis by simp
  qed
  then have "Stop e2 (h', tr') = (h', tr')" by (rule Stop_not_started)
  with Pair s show ?thesis by simp
qed

lemma run_Stops_only:
  "status h \<noteq> DaemonStatusStarted \<Longrightarrow> run (map CallStop es) (h, tr) = Inr (h, tr)"
proof (induction es)
  case Nil
  show ?case by simp
next
  case (Cons e es)
  then show ?case using Stop_not_started [of h e tr] by simp
qed

text \<open>
  Claim C5. The status only takes the three lifecycle values, and the only moves are
  Initialized to Started, by a \<^verbatim>\<open>Start\<close>, and Started to Stopped, by a \<^verbatim>\<open>Stop\<close>. A
  \<^verbatim>\<open>Start\<close> in any state but Initialized and a \<^verbatim>\<open>Stop\<close> in any state but Started return
  the container and the trace of effects as they were; calling either twice is calling it
  once; a Stopped container stays as it is under every further sequence of calls.
\<close>

theorem lifecycle_one_way:
  fixes h hnew :: "('c, 'h::zero) Impl"
  shows
  "(status h \<noteq> DaemonStatusInitialized \<longrightarrow> Start env (h, tr) = Inr (h, tr))
 \<and> (status h \<noteq> DaemonStatusStarted \<longrightarrow> Stop senv (h, tr) = (h, tr))
 \<and> (run [c] (h, tr) = Inr (h', tr') \<longrightarrow>
        (h' = h \<and> tr' = tr)
      \<or> ((\<exists>env. c = CallStart env) \<and> status h = DaemonStatusInitialized
            \<and> status h' = DaemonStatusStarted)
      \<or> ((\<exists>env. c = CallStop env) \<and> status h = DaemonStatusStarted
            \<and> status h' = DaemonStatusStopped))
 \<and> (New p n e = Inr hnew \<and> run cs (hnew, []) = Inr (h', tr') \<longrightarrow>
        status h' \<in> {DaemonStatusInitialized, DaemonStatusStarted, DaemonStatusStopped})
 \<and> run [CallStart env, CallStart env'] (h, tr) = run [CallStart env] (h, tr)
 \<and> Stop senv' (Stop senv (h, tr)) = Stop senv (h, tr)
 \<and> (status h = DaemonStatusStopped \<longrightarrow> run cs (h, tr) = Inr (h, tr))"
proof (intro conjI impI)
  assume "status h \<noteq> DaemonStatusInitialized"
  then show "Start env (h, tr) = Inr (h, tr)" by (rule Start_not_initialized)
next
  assume "status h \<noteq> DaemonStatusStarted"
  then show "Stop senv (h, tr) = (h, tr)" by (rule Stop_not_started)
next
  assume "run [c] (h, tr) = Inr (h', tr')"
  then show "(h' = h \<and> tr' = tr)
      \<or> ((\<exists>env. c = CallStart env) \<and> status h = DaemonStatusInitialized
            \<and> status h' = DaemonStatusStarted)
      \<or> ((\<exists>env. c = CallStop env) \<and> status h = DaemonStatusStarted
            \<and> status h' = DaemonStatusStopped)"
    by (rule step_cases)
next
  assume a: "New p n e = Inr hnew \<and> run cs (hnew, []) = Inr (h', tr')"
  then have "status hnew = DaemonStatusInitialized" using New_status by blast
  then have "status hnew \<in> {DaemonStatusInitialized, DaemonStatusStarted, DaemonStatusStopped}"
    by simp
  with a show "status h' \<in> {DaemonStatusInitialized, DaemonStatusStarted, DaemonStatusStopped}"
    using run_status_in_lifecycle by blast
next
  show "run [CallStart env, CallStart env'] (h, tr) = run [CallStart env] (h, tr)"
    by (rule Start_twice)
next
  show "Stop senv' (Stop senv (h, tr)) = Stop senv (h, tr)" by (rule Stop_twice)
next
  assume "status h = DaemonStatusStopped"
  then show "run cs (h, tr) = Inr (h, tr)" by (rule run_stopped)
qed

theorem lifecycle_one_way_witness:
  "(let p = \<lparr>Name = ''cadence-history'', NumHistoryShards = 4\<rparr>;
        bean = \<lparr>beanFrontendClient = BeanClient (1::nat),
                beanMatchingClient = Inr (BeanClient 2),
                beanHistoryClient = BeanClient 3\<rparr>;
        e = \<lparr>newClientBean = Inr bean, newBeanFromFactory = None,
             registerBootstrapContainer = None\<rparr>;
        env = \<lparr>pprofInitializerStart = None, dispatcherStart = None,
               whoAmI = (7::nat, None), fatalReturns = False\<rparr>;
        senv = \<lparr>dispatcherStop = None\<rparr>;
        h0 = \<lparr>status = DaemonStatusInitialized, numShards = 4,
              serviceName = ''cadence-history'', hostInfo = 0,
              frontendRawClient = BeanClient 1,
              frontendClient = NewRetryableClient (BeanClient 1)
                 CreateFrontendServiceRetryPolicy IsServiceTransientError,
              matchingRawClient = BeanClient 2,
              matchingClient = NewRetryableClient (BeanClient 2)
                 CreateMatchingServiceRetryPolicy IsServiceTransientError,
              historyRawClient = BeanClient 3,
              historyClient = NewRetryableClient (BeanClient 3)
                 CreateHistoryServiceRetryPolicy IsServiceTransientError,
              clientBean = bean\<rparr>;
        h = h0\<lparr>status := DaemonStatusStopped, hostInfo := 7\<rparr>;
        tr = [CounterInc RestartCount 1, RuntimeMetricsReporterStart, PProfInitializerStart,
              DispatcherStart, MembershipResolverStart, DomainCacheStart,
              DomainMetricsScopeCacheStart, MembershipResolverWhoAmI,
              LoggerInfo ''service started'', RandSeed,
              DomainCacheStop, DomainMetricsScopeCacheStop, MembershipResolverStop,
              DispatcherStop, RuntimeMetricsReporterStop, PersistenceBeanClose]
    in New p ''history'' e = Inr h0
     \<and> run [CallStart env, CallStop senv] (h0, []) = Inr (h, tr)
     \<and> status h = DaemonStatusStopped
     \<and> status h \<noteq> DaemonStatusInitialized \<and> status h \<noteq> DaemonStatusStarted
     \<and> run [CallStart env] (h, tr) = Inr (h, tr)
     \<and> Start env (h, tr) = Inr (h, tr)
     \<and> Stop senv (h, tr) = (h, tr)
     \<and> run [CallStop senv, CallStart env, CallStart env, CallStop senv] (h, tr) = Inr (h, tr))"
proof -
  define bean :: "nat ClientBean" where
    "bean = \<lparr>beanFrontendClient = BeanClient (1::nat),
             beanMatchingClient = Inr (BeanClient 2),
             beanHistoryClient = BeanClient 3\<rparr>"
  define p where "p = \<lparr>Name = ''cadence-history'', NumHistoryShards = 4\<rparr>"
  define e where "e = \<lparr>newClientBean = Inr bean, newBeanFromFactory = None,
             registerBootstrapContainer = None\<rparr>"
  define env :: "nat StartEnv" where
    "env = \<lparr>pprofInitializerStart = None, dispatcherStart = None,
            whoAmI = (7::nat, None), fatalReturns = False\<rparr>"
  define senv where "senv = \<lparr>dispatcherStop = None\<rparr>"
  define h0 :: "(nat, nat) Impl" where
    "h0 = \<lparr>status = DaemonStatusInitialized, numShards = 4,
              serviceName = ''cadence-history'', hostInfo = 0,
              frontendRawClient = BeanClient 1,
              frontendClient = NewRetryableClient (BeanClient 1)
                 CreateFrontendServiceRetryPolicy IsServiceTransientError,
              matchingRawClient = BeanClient 2,
              matchingClient = NewRetryableClient (BeanClient 2)
                 CreateMatchingServiceRetryPolicy IsServiceTransientError,
              historyRawClient = BeanClient 3,
              historyClient = NewRetryableClient (BeanClient 3)
                 CreateHistoryServiceRetryPolicy IsServiceTransientError,
              clientBean = bean\<rparr>"
  define h where "h = h0\<lparr>status := DaemonStatusStopped, hostInfo := 7\<rparr>"
  define tr where
    "tr = [CounterInc RestartCount 1, RuntimeMetricsReporterStart, PProfInitializerStart,
              DispatcherStart, MembershipResolverStart, DomainCacheStart,
              DomainMetricsScopeCacheStart, MembershipResolverWhoAmI,
              LoggerInfo ''service started'', RandSeed,
              DomainCacheStop, DomainMetricsScopeCacheStop, MembershipResolverStop,
              DispatcherStop, RuntimeMetricsReporterStop, PersistenceBeanClose]"
  have new: "New p ''history'' e = Inr h0"
    by (simp add: New_def Let_def p_def e_def bean_def h0_def)
  have go: "run [CallStart env, CallStop senv] (h0, []) = Inr (h, tr)"
    by (simp add: Start_def Stop_def CompareAndSwapInt32_def fatalIf_def env_def senv_def
          h0_def h_def tr_def DaemonStatusInitialized_def DaemonStatusStarted_def
          DaemonStatusStopped_def)
  have st: "status h = DaemonStatusStopped" by (simp add: h_def)
  have ni: "status h \<noteq> DaemonStatusInitialized" and ns: "status h \<noteq> DaemonStatusStarted"
    by (simp_all add: h_def
          DaemonStatusInitialized_def DaemonStatusStarted_def DaemonStatusStopped_def)
  note inst = lifecycle_one_way [where h = h and tr = tr and env = env and senv = senv
      and c = "CallStart env" and h' = h and tr' = tr and p = p and n = "''history''"
      and e = e and hnew = h0 and cs = "[CallStart env, CallStop senv]"]
  from inst ni have a: "Start env (h, tr) = Inr (h, tr)" by blast
  from inst ns have b: "Stop senv (h, tr) = (h, tr)" by blast
  from a have c: "run [CallStart env] (h, tr) = Inr (h, tr)" by simp
  from a b have d:
    "run [CallStop senv, CallStart env, CallStart env, CallStop senv] (h, tr) = Inr (h, tr)"
    by simp
  from new go st ni ns a b c d show ?thesis
    unfolding Let_def bean_def p_def e_def env_def senv_def h0_def h_def tr_def
    by blast
qed

text \<open>
  Claim C6. In a container built by \<^verbatim>\<open>New\<close>, each of \<^verbatim>\<open>GetFrontendClient\<close>,
  \<^verbatim>\<open>GetMatchingClient\<close> and \<^verbatim>\<open>GetHistoryClient\<close> returns the retry decorator around the very
  client the matching Raw getter returns, built with that service's own retry policy and with
  \<^verbatim>\<open>IsServiceTransientError\<close>; each Raw getter returns the client as the client bean handed
  it out, with no decorator added.
\<close>

theorem New_clients_retry_wrapped:
  "New p n e = Inr h \<longrightarrow>
     GetFrontendClient h = NewRetryableClient (GetFrontendRawClient h)
                             CreateFrontendServiceRetryPolicy IsServiceTransientError
   \<and> GetMatchingClient h = NewRetryableClient (GetMatchingRawClient h)
                             CreateMatchingServiceRetryPolicy IsServiceTransientError
   \<and> GetHistoryClient h = NewRetryableClient (GetHistoryRawClient h)
                             CreateHistoryServiceRetryPolicy IsServiceTransientError
   \<and> newClientBean e = Inr (GetClientBean h)
   \<and> GetFrontendRawClient h = beanFrontendClient (GetClientBean h)
   \<and> Inr (GetMatchingRawClient h) = beanMatchingClient (GetClientBean h)
   \<and> GetHistoryRawClient h = beanHistoryClient (GetClientBean h)"
  by (auto simp: New_def Let_def GetFrontendClient_def GetFrontendRawClient_def
        GetMatchingClient_def GetMatchingRawClient_def GetHistoryClient_def
        GetHistoryRawClient_def GetClientBean_def
      split: sum.splits option.splits)

theorem New_clients_retry_wrapped_witness:
  "(let p = \<lparr>Name = ''cadence-frontend'', NumHistoryShards = 16\<rparr>;
        bean = \<lparr>beanFrontendClient = BeanClient ''frontend'',
                beanMatchingClient = Inr (BeanClient ''matching''),
                beanHistoryClient = BeanClient ''history''\<rparr>;
        e = \<lparr>newClientBean = Inr bean, newBeanFromFactory = None,
             registerBootstrapContainer = None\<rparr>;
        h = \<lparr>status = DaemonStatusInitialized, numShards = 16,
              serviceName = ''cadence-frontend'', hostInfo = (0::int),
              frontendRawClient = BeanClient ''frontend'',
              frontendClient = NewRetryableClient (BeanClient ''frontend'')
                 CreateFrontendServiceRetryPolicy IsServiceTransientError,
              matchingRawClient = BeanClient ''matching'',
              matchingClient = NewRetryableClient (BeanClient ''matching'')
                 CreateMatchingServiceRetryPolicy IsServiceTransientError,
              historyRawClient = BeanClient ''history'',
              historyClient = NewRetryableClient (BeanClient ''history'')
                 CreateHistoryServiceRetryPolicy IsServiceTransientError,
              clientBean = bean\<rparr>
    in New p ''frontend'' e = Inr h
     \<and> GetFrontendRawClient h = BeanClient ''frontend''
     \<and> GetFrontendClient h = NewRetryableClient (BeanClient ''frontend'')
                             CreateFrontendServiceRetryPolicy IsServiceTransientError
     \<and> GetMatchingClient h = NewRetryableClient (GetMatchingRawClient h)
                             CreateMatchingServiceRetryPolicy IsServiceTransientError
     \<and> GetHistoryClient h = NewRetryableClient (GetHistoryRawClient h)
                             CreateHistoryServiceRetryPolicy IsServiceTransientError)"
proof -
  define bean :: "string ClientBean" where
    "bean = \<lparr>beanFrontendClient = BeanClient ''frontend'',
                beanMatchingClient = Inr (BeanClient ''matching''),
                beanHistoryClient = BeanClient ''history''\<rparr>"
  define p where "p = \<lparr>Name = ''cadence-frontend'', NumHistoryShards = 16\<rparr>"
  define e where "e = \<lparr>newClientBean = Inr bean, newBeanFromFactory = None,
             registerBootstrapContainer = None\<rparr>"
  define h :: "(string, int) Impl" where
    "h = \<lparr>status = DaemonStatusInitialized, numShards = 16,
              serviceName = ''cadence-frontend'', hostInfo = (0::int),
              frontendRawClient = BeanClient ''frontend'',
              frontendClient = NewRetryableClient (BeanClient ''frontend'')
                 CreateFrontendServiceRetryPolicy IsServiceTransientError,
              matchingRawClient = BeanClient ''matching'',
              matchingClient = NewRetryableClient (BeanClient ''matching'')
                 CreateMatchingServiceRetryPolicy IsServiceTransientError,
              historyRawClient = BeanClient ''history'',
              historyClient = NewRetryableClient (BeanClient ''history'')
                 CreateHistoryServiceRetryPolicy IsServiceTransientError,
              clientBean = bean\<rparr>"
  have new: "New p ''frontend'' e = Inr h"
    by (simp add: New_def Let_def p_def e_def bean_def h_def)
  have raw: "GetFrontendRawClient h = BeanClient ''frontend''"
    by (simp add: GetFrontendRawClient_def h_def)
  from New_clients_retry_wrapped [of p "''frontend''" e h] new
  have "GetFrontendClient h = NewRetryableClient (GetFrontendRawClient h)
                             CreateFrontendServiceRetryPolicy IsServiceTransientError
   \<and> GetMatchingClient h = NewRetryableClient (GetMatchingRawClient h)
                             CreateMatchingServiceRetryPolicy IsServiceTransientError
   \<and> GetHistoryClient h = NewRetryableClient (GetHistoryRawClient h)
                             CreateHistoryServiceRetryPolicy IsServiceTransientError"
    by blast
  with new raw show ?thesis
    unfolding Let_def bean_def p_def e_def h_def by simp
qed

text \<open>
  Against claim C8 as stated: a container fresh from \<^verbatim>\<open>New\<close>, a \<^verbatim>\<open>WhoAmI\<close> that returns
  host info 42 together with an error, and a logger whose \<^verbatim>\<open>Fatal\<close> returns. \<^verbatim>\<open>Start\<close>
  logs the failure, stores 42 and returns a Started container: the host info is assigned
  although \<^verbatim>\<open>WhoAmI\<close> did not succeed.
\<close>

theorem hostInfo_set_after_failed_WhoAmI:
  "New \<lparr>Name = ''cadence-matching'', NumHistoryShards = 8\<rparr> ''matching''
       \<lparr>newClientBean = Inr \<lparr>beanFrontendClient = BeanClient (1::nat),
                                  beanMatchingClient = Inr (BeanClient 2),
                                  beanHistoryClient = BeanClient 3\<rparr>,
        newBeanFromFactory = None, registerBootstrapContainer = None\<rparr>
     = Inr \<lparr>status = DaemonStatusInitialized, numShards = 8,
            serviceName = ''cadence-matching'', hostInfo = (0::int),
            frontendRawClient = BeanClient 1,
            frontendClient = NewRetryableClient (BeanClient 1)
               CreateFrontendServiceRetryPolicy IsServiceTransientError,
            matchingRawClient = BeanClient 2,
            matchingClient = NewRetryableClient (BeanClient 2)
               CreateMatchingServiceRetryPolicy IsServiceTransientError,
            historyRawClient = BeanClient 3,
            historyClient = NewRetryableClient (BeanClient 3)
               CreateHistoryServiceRetryPolicy IsServiceTransientError,
            clientBean = \<lparr>beanFrontendClient = BeanClient 1,
                          beanMatchingClient = Inr (BeanClient 2),
                          beanHistoryClient = BeanClient 3\<rparr>\<rparr>
 \<and> Start \<lparr>pprofInitializerStart = None, dispatcherStart = None,
           whoAmI = (42, Some ''no ring''), fatalReturns = True\<rparr>
       (\<lparr>status = DaemonStatusInitialized, numShards = 8,
          serviceName = ''cadence-matching'', hostInfo = (0::int),
          frontendRawClient = BeanClient (1::nat),
          frontendClient = NewRetryableClient (BeanClient 1)
             CreateFrontendServiceRetryPolicy IsServiceTransientError,
          matchingRawClient = BeanClient 2,
          matchingClient = NewRetryableClient (BeanClient 2)
             CreateMatchingServiceRetryPolicy IsServiceTransientError,
          historyRawClient = BeanClient 3,
          historyClient = NewRetryableClient (BeanClient 3)
             CreateHistoryServiceRetryPolicy IsServiceTransientError,
          clientBean = \<lparr>beanFrontendClient = BeanClient 1,
                        beanMatchingClient = Inr (BeanClient 2),
                        beanHistoryClient = BeanClient 3\<rparr>\<rparr>, [])
     = Inr (\<lparr>status = DaemonStatusStarted, numShards = 8,
             serviceName = ''cadence-matching'', hostInfo = 42,
             frontendRawClient = BeanClient 1,
             frontendClient = NewRetryableClient (BeanClient 1)
                CreateFrontendServiceRetryPolicy IsServiceTransientError,
             matchingRawClient = BeanClient 2,
             matchingClient = NewRetryableClient (BeanClient 2)
                CreateMatchingServiceRetryPolicy IsServiceTransientError,
             historyRawClient = BeanClient 3,
             historyClient = NewRetryableClient (BeanClient 3)
                CreateHistoryServiceRetryPolicy IsServiceTransientError,
             clientBean = \<lparr>beanFrontendClient = BeanClient 1,
                           beanMatchingClient = Inr (BeanClient 2),
                           beanHistoryClient = BeanClient 3\<rparr>\<rparr>,
            [CounterInc RestartCount 1, RuntimeMetricsReporterStart, PProfInitializerStart,
             DispatcherStart, MembershipResolverStart, DomainCacheStart,
             DomainMetricsScopeCacheStart, MembershipResolverWhoAmI,
             LoggerFatal ''fail to get host info from membership monitor'',
             LoggerInfo ''service started'', RandSeed])"
  by (simp add: New_def Let_def Start_def CompareAndSwapInt32_def fatalIf_def)

text \<open>
  Claim C8, amended. A container returned by \<^verbatim>\<open>New\<close> has the zero host info, and still has
  it after any number of \<^verbatim>\<open>Stop\<close> calls made before \<^verbatim>\<open>Start\<close>. \<^verbatim>\<open>Stop\<close> never changes
  the host info. A \<^verbatim>\<open>Start\<close> that returns with a changed host info found the container
  Initialized, made the \<^verbatim>\<open>WhoAmI\<close> call, and stored the host info that call returned. When
  a \<^verbatim>\<open>Start\<close> of an Initialized container returns, either \<^verbatim>\<open>WhoAmI\<close> returned no error,
  or the logger's \<^verbatim>\<open>Fatal\<close> was called for it and returned; with a logger whose \<^verbatim>\<open>Fatal\<close>
  ends the process, a \<^verbatim>\<open>Start\<close> whose \<^verbatim>\<open>WhoAmI\<close> fails does not return.
\<close>

theorem hostInfo_zero_until_Start:
  fixes h ha :: "('c, 'h::zero) Impl"
  shows
  "(New p n e = Inr h \<longrightarrow> GetHostInfo h = 0)
 \<and> (New p n e = Inr h \<longrightarrow> run (map CallStop senvs) (h, []) = Inr (h, []))
 \<and> GetHostInfo (fst (Stop senv (ha, tra))) = GetHostInfo ha
 \<and> (Start env (ha, tra) = Inr (hb, trb) \<and> GetHostInfo hb \<noteq> GetHostInfo ha \<longrightarrow>
       status ha = DaemonStatusInitialized \<and> GetHostInfo hb = fst (whoAmI env)
       \<and> MembershipResolverWhoAmI \<in> set trb)
 \<and> (status ha = DaemonStatusInitialized \<and> Start env (ha, tra) = Inr (hb, trb) \<longrightarrow>
       GetHostInfo hb = fst (whoAmI env)
       \<and> (snd (whoAmI env) = None
            \<or> (fatalReturns env
               \<and> LoggerFatal ''fail to get host info from membership monitor'' \<in> set trb)))
 \<and> (status ha = DaemonStatusInitialized \<and> snd (whoAmI env) = Some err
      \<and> \<not> fatalReturns env \<longrightarrow>
       (\<exists>t. Start env (ha, tra) = Inl t))"
proof (intro conjI impI)
  assume "New p n e = Inr h"
  then show "GetHostInfo h = 0" unfolding GetHostInfo_def by (rule New_hostInfo)
next
  assume "New p n e = Inr h"
  then have "status h = DaemonStatusInitialized" by (rule New_status)
  then have "status h \<noteq> DaemonStatusStarted" using status_consts_distinct by simp
  then show "run (map CallStop senvs) (h, []) = Inr (h, [])" by (rule run_Stops_only)
next
  show "GetHostInfo (fst (Stop senv (ha, tra))) = GetHostInfo ha"
    unfolding GetHostInfo_def using Stop_hostInfo [of senv "(ha, tra)"] by simp
next
  assume a: "Start env (ha, tra) = Inr (hb, trb) \<and> GetHostInfo hb \<noteq> GetHostInfo ha"
  have init: "status ha = DaemonStatusInitialized"
  proof (rule ccontr)
    assume "status ha \<noteq> DaemonStatusInitialized"
    then have "Start env (ha, tra) = Inr (ha, tra)" by (rule Start_not_initialized)
    with a have "hb = ha" by simp
    with a show False by simp
  qed
  from a have s: "Start env (ha, tra) = Inr (hb, trb)" by simp
  have "hb = ha\<lparr>status := DaemonStatusStarted, hostInfo := fst (whoAmI env)\<rparr>"
    using init s by (rule Start_initialized(1))
  then have "hostInfo hb = fst (whoAmI env)" by simp
  moreover have "MembershipResolverWhoAmI \<in> set trb"
    using init s by (rule Start_initialized(2))
  ultimately show "status ha = DaemonStatusInitialized"
    and "GetHostInfo hb = fst (whoAmI env)" and "MembershipResolverWhoAmI \<in> set trb"
    using init by (simp_all add: GetHostInfo_def)
next
  assume a: "status ha = DaemonStatusInitialized \<and> Start env (ha, tra) = Inr (hb, trb)"
  then have init: "status ha = DaemonStatusInitialized"
    and s: "Start env (ha, tra) = Inr (hb, trb)" by simp_all
  have "hb = ha\<lparr>status := DaemonStatusStarted, hostInfo := fst (whoAmI env)\<rparr>"
    using init s by (rule Start_initialized(1))
  then have "hostInfo hb = fst (whoAmI env)" by simp
  then show "GetHostInfo hb = fst (whoAmI env)" by (simp add: GetHostInfo_def)
  show "snd (whoAmI env) = None
        \<or> (fatalReturns env
           \<and> LoggerFatal ''fail to get host info from membership monitor'' \<in> set trb)"
    using init s by (rule Start_initialized(3))
next
  assume "status ha = DaemonStatusInitialized \<and> snd (whoAmI env) = Some err
      \<and> \<not> fatalReturns env"
  then have "status ha = DaemonStatusInitialized" and "snd (whoAmI env) = Some err"
    and "\<not> fatalReturns env" by simp_all
  then show "\<exists>t. Start env (ha, tra) = Inl t" by (rule Start_whoAmI_fails)
qed

theorem hostInfo_zero_until_Start_witness:
  "(let p = \<lparr>Name = ''cadence-matching'', NumHistoryShards = 8\<rparr>;
        bean = \<lparr>beanFrontendClient = BeanClient (1::nat),
                beanMatchingClient = Inr (BeanClient 2),
                beanHistoryClient = BeanClient 3\<rparr>;
        e = \<lparr>newClientBean = Inr bean, newBeanFromFactory = None,
             registerBootstrapContainer = None\<rparr>;
        env = \<lparr>pprofInitializerStart = None, dispatcherStart = None,
               whoAmI = (42::int, None), fatalReturns = False\<rparr>;
        senv = \<lparr>dispatcherStop = None\<rparr>;
        h = \<lparr>status = DaemonStatusInitialized, numShards = 8,
              serviceName = ''cadence-matching'', hostInfo = 0,
              frontendRawClient = BeanClient 1,
              frontendClient = NewRetryableClient (BeanClient 1)
                 CreateFrontendServiceRetryPolicy IsServiceTransientError,
              matchingRawClient = BeanClient 2,
              matchingClient = NewRetryableClient (BeanClient 2)
                 CreateMatchingServiceRetryPolicy IsServiceTransientError,
              historyRawClient = BeanClient 3,
              historyClient = NewRetryableClient (BeanClient 3)
                 CreateHistoryServiceRetryPolicy IsServiceTransientError,
              clientBean = bean\<rparr>;
        tr = [CounterInc RestartCount 1, RuntimeMetricsReporterStart, PProfInitializerStart,
              DispatcherStart, MembershipResolverStart, DomainCacheStart,
              DomainMetricsScopeCacheStart, MembershipResolverWhoAmI,
              LoggerInfo ''service started'', RandSeed]
    in New p ''matching'' e = Inr h
     \<and> GetHostInfo h = 0
     \<and> run (map CallStop [senv, senv]) (h, []) = Inr (h, [])
     \<and> Start env (h, []) = Inr (h\<lparr>status := DaemonStatusStarted, hostInfo := 42\<rparr>, tr)
     \<and> GetHostInfo (h\<lparr>status := DaemonStatusStarted, hostInfo := 42\<rparr>) \<noteq> GetHostInfo h
     \<and> GetHostInfo (h\<lparr>status := DaemonStatusStarted, hostInfo := 42\<rparr>) = fst (whoAmI env)
     \<and> snd (whoAmI env) = None
     \<and> (\<exists>t. Start (env\<lparr>whoAmI := (0, Some ''no ring'')\<rparr>) (h, []) = Inl t))"
proof -
  define bean :: "nat ClientBean" where
    "bean = \<lparr>beanFrontendClient = BeanClient (1::nat),
             beanMatchingClient = Inr (BeanClient 2),
             beanHistoryClient = BeanClient 3\<rparr>"
  define p where "p = \<lparr>Name = ''cadence-matching'', NumHistoryShards = 8\<rparr>"
  define e where "e = \<lparr>newClientBean = Inr bean, newBeanFromFactory = None,
             registerBootstrapContainer = None\<rparr>"
  define env :: "int StartEnv" where
    "env = \<lparr>pprofInitializerStart = None, dispatcherStart = None,
            whoAmI = (42::int, None), fatalReturns = False\<rparr>"
  define senv where "senv = \<lparr>dispatcherStop = None\<rparr>"
  define h :: "(nat, int) Impl" where
    "h = \<lparr>status = DaemonStatusInitialized, numShards = 8,
              serviceName = ''cadence-matching'', hostInfo = 0,
              frontendRawClient = BeanClient 1,
              frontendClient = NewRetryableClient (BeanClient 1)
                 CreateFrontendServiceRetryPolicy IsServiceTransientError,
              matchingRawClient = BeanClient 2,
              matchingClient = NewRetryableClient (BeanClient 2)
                 CreateMatchingServiceRetryPolicy IsServiceTransientError,
              historyRawClient = BeanClient 3,
              historyClient = NewRetryableClient (BeanClient 3)
                 CreateHistoryServiceRetryPolicy IsServiceTransientError,
              clientBean = bean\<rparr>"
  define tr where
    "tr = [CounterInc RestartCount 1, RuntimeMetricsReporterStart, PProfInitializerStart,
              DispatcherStart, MembershipResolverStart, DomainCacheStart,
              DomainMetricsScopeCacheStart, MembershipResolverWhoAmI,
              LoggerInfo ''service started'', RandSeed]"
  define hs where "hs = h\<lparr>status := DaemonStatusStarted, hostInfo := 42\<rparr>"
  define envf where "envf = env\<lparr>whoAmI := (0, Some ''no ring'')\<rparr>"
  have new: "New p ''matching'' e = Inr h"
    by (simp add: New_def Let_def p_def e_def bean_def h_def)
  have init: "status h = DaemonStatusInitialized" by (simp add: h_def)
  have start: "Start env (h, []) = Inr (hs, tr)"
    by (simp add: Start_def CompareAndSwapInt32_def fatalIf_def env_def h_def hs_def tr_def)
  have changed: "GetHostInfo hs \<noteq> GetHostInfo h"
    by (simp add: GetHostInfo_def hs_def h_def)
  have ok: "snd (whoAmI env) = None" by (simp add: env_def)
  have fails: "snd (whoAmI envf) = Some ''no ring''" and exits: "\<not> fatalReturns envf"
    by (simp_all add: envf_def env_def)
  note good = hostInfo_zero_until_Start [where p = p and n = "''matching''" and e = e
      and h = h and senvs = "[senv, senv]" and env = env and ha = h and tra = "[]"
      and hb = hs and trb = tr]
  note bad = hostInfo_zero_until_Start [where p = p and n = "''matching''" and e = e
      and h = h and env = envf and ha = h and tra = "[]" and err = "''no ring''"]
  have z: "GetHostInfo h = 0"
    by (rule good [THEN conjunct1, THEN mp]) (rule new)
  have stops: "run (map CallStop [senv, senv]) (h, []) = Inr (h, [])"
    by (rule good [THEN conjunct2, THEN conjunct1, THEN mp]) (rule new)
  note rest = good [THEN conjunct2, THEN conjunct2, THEN conjunct2]
  have who: "GetHostInfo hs = fst (whoAmI env)"
    using rest [THEN conjunct1, THEN mp, OF conjI [OF start changed]] by simp
  have ex: "\<exists>t. Start envf (h, []) = Inl t"
    by (rule bad [THEN conjunct2, THEN conjunct2, THEN conjunct2, THEN conjunct2,
                  THEN conjunct2, THEN mp])
       (simp add: init fails exits)
  show ?thesis
    unfolding Let_def
    using new z stops start changed who ok ex
    unfolding bean_def p_def e_def env_def senv_def h_def tr_def hs_def envf_def
    by (intro conjI)
qed

section \<open>Properties of the task-processing core\<close>

subsection \<open>Ack level\<close>

lemma fold_max_ge: "(a::int) \<le> fold max xs a"
proof (induction xs arbitrary: a)
  case Nil
  show ?case by simp
next
  case (Cons x xs)
  have "a \<le> max x a" by simp
  also have "\<dots> \<le> fold max xs (max x a)" by (rule Cons.IH)
  finally show ?case by simp
qed

lemma fold_max_mem: "x \<in> set xs \<Longrightarrow> (x::int) \<le> fold max xs a"
proof (induction xs arbitrary: a)
  case Nil
  then show ?case by simp
next
  case (Cons y ys)
  show ?case
  proof (cases "x = y")
    case True
    have "x \<le> max y a" using True by simp
    also have "\<dots> \<le> fold max ys (max y a)" by (rule fold_max_ge)
    finally show ?thesis by simp
  next
    case False
    with Cons.prems have "x \<in> set ys" by simp
    then have "x \<le> fold max ys (max y a)" by (rule Cons.IH)
    then show ?thesis by simp
  qed
qed

lemma fold_max_cases: "fold max xs (a::int) = a \<or> fold max xs a \<in> set xs"
proof (induction xs arbitrary: a)
  case Nil
  show ?case by simp
next
  case (Cons y ys)
  from Cons.IH [of "max y a"]
  show ?case by (auto simp: max_def split: if_splits)
qed

lemma fold_max_less:
  "(a::int) < b \<Longrightarrow> \<forall>x \<in> set xs. x < b \<Longrightarrow> fold max xs a < b"
  using fold_max_cases [of xs a] by auto

lemma markCompleted_ids: "fst ` set (markCompleted tid ts) = fst ` set ts"
  by (force simp: markCompleted_def)

lemma markCompleted_keeps:
  "(t, False) \<in> set ts \<Longrightarrow> t \<noteq> tid \<Longrightarrow> (t, False) \<in> set (markCompleted tid ts)"
  by (force simp: markCompleted_def)

lemma nextAckLevel_ge: "level \<le> nextAckLevel level ts"
  unfolding nextAckLevel_def by (rule fold_max_ge)

lemma nextAckLevel_cases:
  "nextAckLevel level ts = level
   \<or> (nextAckLevel level ts \<in> fst ` set ts \<and> completedUpTo ts (nextAckLevel level ts))"
  unfolding nextAckLevel_def
  using fold_max_cases [of "filter (completedUpTo ts) (map fst ts)" level] by auto

lemma nextAckLevel_highest:
  assumes "T \<in> fst ` set ts" and "completedUpTo ts T"
  shows "T \<le> nextAckLevel level ts"
proof -
  from assms have "T \<in> set (filter (completedUpTo ts) (map fst ts))" by simp
  then show ?thesis unfolding nextAckLevel_def by (rule fold_max_mem)
qed

lemma nextAckLevel_below_open:
  assumes "(t, False) \<in> set ts" and "level < t"
  shows "nextAckLevel level ts < t"
proof -
  have "\<forall>x \<in> set (filter (completedUpTo ts) (map fst ts)). x < t"
  proof
    fix x assume "x \<in> set (filter (completedUpTo ts) (map fst ts))"
    then have c: "completedUpTo ts x" by simp
    show "x < t"
    proof (rule ccontr)
      assume "\<not> x < t"
      then have "t \<le> x" by simp
      with c assms(1) show False
        by (auto simp: completedUpTo_def list_all_iff)
    qed
  qed
  with assms(2) show ?thesis unfolding nextAckLevel_def by (rule fold_max_less)
qed

lemma UpdateAckLevel_level:
  "ackLevel (queueState (UpdateAckLevel tid q))
     = nextAckLevel (ackLevel (queueState q)) (markCompleted tid (outstanding q))"
  by (simp add: UpdateAckLevel_def Let_def)

lemma UpdateAckLevel_outstanding:
  "outstanding (UpdateAckLevel tid q)
     = filter (\<lambda>e. ackLevel (queueState (UpdateAckLevel tid q)) < fst e)
         (markCompleted tid (outstanding q))"
  by (simp add: UpdateAckLevel_def Let_def)

lemma UpdateAckLevel_mono:
  "ackLevel (queueState q) \<le> ackLevel (queueState (UpdateAckLevel tid q))"
  unfolding UpdateAckLevel_level by (rule nextAckLevel_ge)

lemma UpdateAckLevel_state:
  "maxLevel (queueState (UpdateAckLevel tid q)) = maxLevel (queueState q)"
  "domainFilter (queueState (UpdateAckLevel tid q)) = domainFilter (queueState q)"
  by (simp_all add: UpdateAckLevel_def Let_def)

lemma UpdateAckLevel_tracked:
  assumes "e \<in> set (outstanding (UpdateAckLevel tid q))"
  shows "\<exists>d \<in> set (outstanding q). e = (fst d, snd d \<or> fst d = tid)"
    and "ackLevel (queueState (UpdateAckLevel tid q)) < fst e"
  using assms unfolding UpdateAckLevel_outstanding by (auto simp: markCompleted_def)

lemma UpdateAckLevel_keeps:
  assumes "d \<in> set (outstanding q)"
    and "ackLevel (queueState (UpdateAckLevel tid q)) < fst d"
  shows "(fst d, snd d \<or> fst d = tid) \<in> set (outstanding (UpdateAckLevel tid q))"
  using assms unfolding UpdateAckLevel_outstanding by (force simp: markCompleted_def)

lemma UpdateAckLevel_below_open:
  assumes "(t, False) \<in> set (outstanding q)" and "t \<noteq> tid"
    and "ackLevel (queueState q) < t"
  shows "ackLevel (queueState (UpdateAckLevel tid q)) < t"
    and "(t, False) \<in> set (outstanding (UpdateAckLevel tid q))"
proof -
  have m: "(t, False) \<in> set (markCompleted tid (outstanding q))"
    using assms(1,2) by (rule markCompleted_keeps)
  from m assms(3) show l: "ackLevel (queueState (UpdateAckLevel tid q)) < t"
    unfolding UpdateAckLevel_level by (rule nextAckLevel_below_open)
  show "(t, False) \<in> set (outstanding (UpdateAckLevel tid q))"
    unfolding UpdateAckLevel_outstanding using m l by simp
qed

lemma UpdateAckLevel_cases:
  "ackLevel (queueState (UpdateAckLevel tid q)) = ackLevel (queueState q)
   \<or> ackLevel (queueState (UpdateAckLevel tid q)) \<in> fst ` set (outstanding q)"
  unfolding UpdateAckLevel_level
  using nextAckLevel_cases [of "ackLevel (queueState q)" "markCompleted tid (outstanding q)"]
  by (auto simp: markCompleted_ids)

lemma AddTasks_state: "queueState (AddTasks ts q) = queueState q"
  by (simp add: AddTasks_def)

lemma AddTasks_keeps: "e \<in> set (outstanding q) \<Longrightarrow> e \<in> set (outstanding (AddTasks ts q))"
  by (simp add: AddTasks_def)

lemma AddTasks_new:
  assumes "e \<in> set (outstanding (AddTasks ts q))" and "e \<notin> set (outstanding q)"
  shows "\<exists>t \<in> set ts. e = (taskID t, False)
           \<and> domainID t \<in> domains (domainFilter (queueState q))
           \<and> ackLevel (queueState q) < taskID t \<and> taskID t \<le> maxLevel (queueState q)
           \<and> taskID t \<notin> fst ` set (outstanding q)"
  using assms by (auto simp: AddTasks_def)

lemma AddTasks_tracks_new:
  assumes "t \<in> set ts" and "domainID t \<in> domains (domainFilter (queueState q))"
    and "ackLevel (queueState q) < taskID t" and "taskID t \<le> maxLevel (queueState q)"
    and "taskID t \<notin> fst ` set (outstanding q)"
  shows "(taskID t, False) \<in> set (outstanding (AddTasks ts q))"
  using assms by (auto simp: AddTasks_def)

lemma AddTasks_tracks:
  assumes "t \<in> set ts" and "domainID t \<in> domains (domainFilter (queueState q))"
    and "ackLevel (queueState q) < taskID t" and "taskID t \<le> maxLevel (queueState q)"
  shows "taskID t \<in> fst ` set (outstanding (AddTasks ts q))"
proof (cases "taskID t \<in> fst ` set (outstanding q)")
  case True
  then obtain e where "e \<in> set (outstanding q)" and f: "fst e = taskID t" by auto
  then have "e \<in> set (outstanding (AddTasks ts q))" by (simp add: AddTasks_keeps)
  with f show ?thesis by force
next
  case False
  with assms have "(taskID t, False) \<in> set (outstanding (AddTasks ts q))"
    by (rule AddTasks_tracks_new)
  then show ?thesis by force
qed

lemma GetTasks_in:
  assumes "t \<in> set (GetTasks n stored q)"
  shows "t \<in> set stored" and "domainID t \<in> domains (domainFilter (queueState q))"
    and "ackLevel (queueState q) < taskID t" and "taskID t \<le> maxLevel (queueState q)"
proof -
  from assms have "t \<in> set (sort_key taskID
          (filter (\<lambda>t. domainID t \<in> domains (domainFilter (queueState q))
                        \<and> ackLevel (queueState q) < taskID t
                        \<and> taskID t \<le> maxLevel (queueState q)) stored))"
    unfolding GetTasks_def by (rule in_set_takeD)
  then show "t \<in> set stored" and "domainID t \<in> domains (domainFilter (queueState q))"
    and "ackLevel (queueState q) < taskID t" and "taskID t \<le> maxLevel (queueState q)"
    by simp_all
qed

lemma GetTasks_all:
  assumes "length stored \<le> n"
  shows "set (GetTasks n stored q)
           = {t \<in> set stored. domainID t \<in> domains (domainFilter (queueState q))
                \<and> ackLevel (queueState q) < taskID t
                \<and> taskID t \<le> maxLevel (queueState q)}"
proof -
  let ?ys = "filter (\<lambda>t. domainID t \<in> domains (domainFilter (queueState q))
                        \<and> ackLevel (queueState q) < taskID t
                        \<and> taskID t \<le> maxLevel (queueState q)) stored"
  have "length (sort_key taskID ?ys) = length ?ys" by simp
  also have "\<dots> \<le> length stored" by (rule length_filter_le)
  also note assms
  finally have "length (sort_key taskID ?ys) \<le> n" .
  then have "take n (sort_key taskID ?ys) = sort_key taskID ?ys" by (rule take_all)
  then show ?thesis unfolding GetTasks_def by auto
qed

text \<open>In a list sorted by a key, what comes before a member of a prefix is in the prefix.\<close>

lemma take_sorted_prefix:
  fixes f :: "'a \<Rightarrow> int"
  assumes "sorted (map f xs)" and "x \<in> set (take n xs)" and "t \<in> set xs" and "f t < f x"
  shows "t \<in> set (take n xs)"
proof (rule ccontr)
  assume out: "t \<notin> set (take n xs)"
  have "set xs = set (take n xs) \<union> set (drop n xs)"
    using set_append [of "take n xs" "drop n xs"] by simp
  with assms(3) out have t: "t \<in> set (drop n xs)" by simp
  have "sorted (map f (take n xs) @ map f (drop n xs))"
    using assms(1) by (simp flip: map_append)
  then have "\<forall>a \<in> set (map f (take n xs)). \<forall>b \<in> set (map f (drop n xs)). a \<le> b"
    by (simp add: sorted_append)
  with assms(2) t have "f x \<le> f t" by simp
  with assms(4) show False by simp
qed

lemma GetTasks_prefix:
  assumes "x \<in> set (GetTasks n stored q)" and "t \<in> set stored"
    and "domainID t \<in> domains (domainFilter (queueState q))"
    and "ackLevel (queueState q) < taskID t" and "taskID t < taskID x"
  shows "t \<in> set (GetTasks n stored q)"
proof -
  let ?ys = "filter (\<lambda>t. domainID t \<in> domains (domainFilter (queueState q))
                        \<and> ackLevel (queueState q) < taskID t
                        \<and> taskID t \<le> maxLevel (queueState q)) stored"
  have "taskID x \<le> maxLevel (queueState q)" using assms(1) by (rule GetTasks_in(4))
  with assms have t: "t \<in> set (sort_key taskID ?ys)" by simp
  have s: "sorted (map taskID (sort_key taskID ?ys))" by (rule sorted_sort_key)
  have x: "x \<in> set (take n (sort_key taskID ?ys))"
    using assms(1) by (simp add: GetTasks_def)
  from s x t assms(5) have "t \<in> set (take n (sort_key taskID ?ys))"
    by (rule take_sorted_prefix)
  then show ?thesis by (simp add: GetTasks_def)
qed

subsection \<open>The bookkeeping of the queue processor\<close>

lemma consistentI:
  assumes "ackLevel (queueState (procQueue s)) \<le> maxLevel (queueState (procQueue s))"
    and "\<And>e. e \<in> set (outstanding (procQueue s)) \<Longrightarrow>
            ackLevel (queueState (procQueue s)) < fst e
            \<and> fst e \<le> maxLevel (queueState (procQueue s))
            \<and> (snd e \<longrightarrow> fst e \<in> set (completions s))"
    and "\<And>t. t \<in> set (persisted s) \<Longrightarrow>
            domainID t \<in> domains (domainFilter (queueState (procQueue s))) \<Longrightarrow>
            taskID t \<notin> set (completions s) \<Longrightarrow>
            ackLevel (queueState (procQueue s)) < taskID t
            \<and> ((\<exists>e \<in> set (outstanding (procQueue s)). taskID t \<le> fst e)
                 \<longrightarrow> taskID t \<in> fst ` set (outstanding (procQueue s)))"
    and "\<And>c. c \<in> set (completions s) \<Longrightarrow>
            c \<le> ackLevel (queueState (procQueue s))
            \<or> c \<in> fst ` set (outstanding (procQueue s))"
  shows "consistent s"
  unfolding consistent_def using assms by blast

lemma consistentD:
  assumes "consistent s"
  shows "ackLevel (queueState (procQueue s)) \<le> maxLevel (queueState (procQueue s))"
    and "\<And>e. e \<in> set (outstanding (procQueue s)) \<Longrightarrow>
            ackLevel (queueState (procQueue s)) < fst e
            \<and> fst e \<le> maxLevel (queueState (procQueue s))
            \<and> (snd e \<longrightarrow> fst e \<in> set (completions s))"
    and "\<And>t. t \<in> set (persisted s) \<Longrightarrow>
            domainID t \<in> domains (domainFilter (queueState (procQueue s))) \<Longrightarrow>
            taskID t \<notin> set (completions s) \<Longrightarrow>
            ackLevel (queueState (procQueue s)) < taskID t
            \<and> ((\<exists>e \<in> set (outstanding (procQueue s)). taskID t \<le> fst e)
                 \<longrightarrow> taskID t \<in> fst ` set (outstanding (procQueue s)))"
    and "\<And>c. c \<in> set (completions s) \<Longrightarrow>
            c \<le> ackLevel (queueState (procQueue s))
            \<or> c \<in> fst ` set (outstanding (procQueue s))"
  using assms unfolding consistent_def by blast+

lemma consistent_noGaps: "consistent s \<Longrightarrow> noGaps s"
  unfolding consistent_def noGaps_def by blast

text \<open>An uncompleted task of the filter that is tracked is tracked as open.\<close>

lemma tracked_open:
  assumes "consistent s" and "taskID t \<notin> set (completions s)"
    and "taskID t \<in> fst ` set (outstanding (procQueue s))"
  shows "(taskID t, False) \<in> set (outstanding (procQueue s))"
proof -
  from assms(3) obtain e where e: "e \<in> set (outstanding (procQueue s))"
    and f: "fst e = taskID t" by auto
  from consistentD(2) [OF assms(1) e] f assms(2) have "\<not> snd e" by auto
  with f have "e = (taskID t, False)" by (cases e) simp
  with e show ?thesis by simp
qed

lemma consistent_fresh:
  assumes "ackLevel st \<le> maxLevel st"
    and "\<forall>t \<in> set ts. domainID t \<in> domains (domainFilter st) \<longrightarrow> ackLevel st < taskID t"
  shows "consistent \<lparr>persisted = ts, procQueue = newQueue st, completions = []\<rparr>"
  using assms by (simp add: consistent_def newQueue_def)

lemma consistent_Created:
  assumes "consistent s"
  shows "consistent (processorStep (Created v) s)"
proof (cases "list_all (\<lambda>u. taskID u < taskID v) (persisted s)
              \<and> maxLevel (queueState (procQueue s)) < taskID v")
  case False
  with assms show ?thesis by auto
next
  case True
  then have beyond: "maxLevel (queueState (procQueue s)) < taskID v" by simp
  let ?s = "s\<lparr>persisted := persisted s @ [v]\<rparr>"
  have "consistent ?s"
  proof (rule consistentI)
    show "ackLevel (queueState (procQueue ?s)) \<le> maxLevel (queueState (procQueue ?s))"
      using consistentD(1) [OF assms] by simp
  next
    fix e assume "e \<in> set (outstanding (procQueue ?s))"
    then show "ackLevel (queueState (procQueue ?s)) < fst e
            \<and> fst e \<le> maxLevel (queueState (procQueue ?s))
            \<and> (snd e \<longrightarrow> fst e \<in> set (completions ?s))"
      using consistentD(2) [OF assms, of e] by simp
  next
    fix c assume "c \<in> set (completions ?s)"
    then show "c \<le> ackLevel (queueState (procQueue ?s))
            \<or> c \<in> fst ` set (outstanding (procQueue ?s))"
      using consistentD(4) [OF assms, of c] by simp
  next
    fix t
    assume t: "t \<in> set (persisted ?s)"
      and f: "domainID t \<in> domains (domainFilter (queueState (procQueue ?s)))"
      and c: "taskID t \<notin> set (completions ?s)"
    show "ackLevel (queueState (procQueue ?s)) < taskID t
            \<and> ((\<exists>e \<in> set (outstanding (procQueue ?s)). taskID t \<le> fst e)
                 \<longrightarrow> taskID t \<in> fst ` set (outstanding (procQueue ?s)))"
    proof (cases "t \<in> set (persisted s)")
      case True
      then show ?thesis using consistentD(3) [OF assms, of t] f c by simp
    next
      case False
      with t have tv: "t = v" by simp
      have below: "\<forall>e \<in> set (outstanding (procQueue s)). fst e < taskID v"
      proof
        fix e assume "e \<in> set (outstanding (procQueue s))"
        then have "fst e \<le> maxLevel (queueState (procQueue s))"
          using consistentD(2) [OF assms, of e] by simp
        with beyond show "fst e < taskID v" by simp
      qed
      have "ackLevel (queueState (procQueue s)) < taskID v"
        using consistentD(1) [OF assms] beyond by simp
      with below tv show ?thesis by fastforce
    qed
  qed
  with True show ?thesis by simp
qed

lemma consistent_Observed:
  assumes "consistent s"
  shows "consistent (processorStep (Observed level) s)"
proof (rule consistentI)
  show "ackLevel (queueState (procQueue (processorStep (Observed level) s)))
          \<le> maxLevel (queueState (procQueue (processorStep (Observed level) s)))"
    using consistentD(1) [OF assms] by (auto simp: max_def)
next
  fix e assume "e \<in> set (outstanding (procQueue (processorStep (Observed level) s)))"
  then show "ackLevel (queueState (procQueue (processorStep (Observed level) s))) < fst e
            \<and> fst e \<le> maxLevel (queueState (procQueue (processorStep (Observed level) s)))
            \<and> (snd e \<longrightarrow> fst e \<in> set (completions (processorStep (Observed level) s)))"
    using consistentD(2) [OF assms, of e] by (auto simp: max_def)
next
  fix c assume "c \<in> set (completions (processorStep (Observed level) s))"
  then show "c \<le> ackLevel (queueState (procQueue (processorStep (Observed level) s)))
            \<or> c \<in> fst ` set (outstanding (procQueue (processorStep (Observed level) s)))"
    using consistentD(4) [OF assms, of c] by simp
next
  fix t
  assume "t \<in> set (persisted (processorStep (Observed level) s))"
    and "domainID t
           \<in> domains (domainFilter (queueState (procQueue (processorStep (Observed level) s))))"
    and "taskID t \<notin> set (completions (processorStep (Observed level) s))"
  then show "ackLevel (queueState (procQueue (processorStep (Observed level) s))) < taskID t
            \<and> ((\<exists>e \<in> set (outstanding (procQueue (processorStep (Observed level) s))).
                    taskID t \<le> fst e)
                 \<longrightarrow> taskID t
                       \<in> fst ` set (outstanding (procQueue (processorStep (Observed level) s))))"
    using consistentD(3) [OF assms, of t] by simp
qed

lemma consistent_Fetch:
  assumes "consistent s"
  shows "consistent (processorStep (Fetch n) s)"
proof -
  let ?q = "procQueue s"
  let ?G = "GetTasks n (persisted s) ?q"
  let ?s = "processorStep (Fetch n) s"
  have q': "procQueue ?s = AddTasks ?G ?q" by simp
  have st: "queueState (procQueue ?s) = queueState ?q" by (simp add: AddTasks_state)
  have pe: "persisted ?s = persisted s" by simp
  have co: "completions ?s = completions s" by simp
  show ?thesis
  proof (rule consistentI)
    show "ackLevel (queueState (procQueue ?s)) \<le> maxLevel (queueState (procQueue ?s))"
      unfolding st by (rule consistentD(1) [OF assms])
  next
    fix e assume e: "e \<in> set (outstanding (procQueue ?s))"
    show "ackLevel (queueState (procQueue ?s)) < fst e
            \<and> fst e \<le> maxLevel (queueState (procQueue ?s))
            \<and> (snd e \<longrightarrow> fst e \<in> set (completions ?s))"
    proof (cases "e \<in> set (outstanding ?q)")
      case True
      then show ?thesis unfolding st co using consistentD(2) [OF assms, of e] by simp
    next
      case False
      with e have "e \<in> set (outstanding (AddTasks ?G ?q))" and "e \<notin> set (outstanding ?q)"
        by (simp_all only: q' not_False_eq_True)
      then have "\<exists>t \<in> set ?G. e = (taskID t, False)
           \<and> domainID t \<in> domains (domainFilter (queueState ?q))
           \<and> ackLevel (queueState ?q) < taskID t \<and> taskID t \<le> maxLevel (queueState ?q)
           \<and> taskID t \<notin> fst ` set (outstanding ?q)"
        by (rule AddTasks_new)
      then show ?thesis unfolding st co by auto
    qed
  next
    fix c assume "c \<in> set (completions ?s)"
    then have "c \<in> set (completions s)" by simp
    then have "c \<le> ackLevel (queueState ?q) \<or> c \<in> fst ` set (outstanding ?q)"
      by (rule consistentD(4) [OF assms])
    then show "c \<le> ackLevel (queueState (procQueue ?s))
            \<or> c \<in> fst ` set (outstanding (procQueue ?s))"
    proof
      assume "c \<le> ackLevel (queueState ?q)"
      then show ?thesis unfolding st by simp
    next
      assume "c \<in> fst ` set (outstanding ?q)"
      then obtain d where d: "d \<in> set (outstanding ?q)" and f: "fst d = c" by auto
      from d have "d \<in> set (outstanding (AddTasks ?G ?q))" by (rule AddTasks_keeps)
      with f have "c \<in> fst ` set (outstanding (AddTasks ?G ?q))" by force
      then show ?thesis unfolding q' by simp
    qed
  next
    fix t
    assume t: "t \<in> set (persisted ?s)"
      and f: "domainID t \<in> domains (domainFilter (queueState (procQueue ?s)))"
      and c: "taskID t \<notin> set (completions ?s)"
    from t have tp: "t \<in> set (persisted s)" by simp
    from f have fq: "domainID t \<in> domains (domainFilter (queueState ?q))"
      unfolding st .
    from c have cq: "taskID t \<notin> set (completions s)" by simp
    note old = consistentD(3) [OF assms tp fq cq]
    then have above: "ackLevel (queueState ?q) < taskID t" by simp
    have "(\<exists>e \<in> set (outstanding (AddTasks ?G ?q)). taskID t \<le> fst e)
                 \<longrightarrow> taskID t \<in> fst ` set (outstanding (AddTasks ?G ?q))"
    proof
      assume "\<exists>e \<in> set (outstanding (AddTasks ?G ?q)). taskID t \<le> fst e"
      then obtain e where e: "e \<in> set (outstanding (AddTasks ?G ?q))"
        and le: "taskID t \<le> fst e" by blast
      show "taskID t \<in> fst ` set (outstanding (AddTasks ?G ?q))"
      proof (cases "e \<in> set (outstanding ?q)")
        case True
        with le old have "taskID t \<in> fst ` set (outstanding ?q)" by blast
        then obtain d where d: "d \<in> set (outstanding ?q)" and fd: "fst d = taskID t"
          by auto
        from d have "d \<in> set (outstanding (AddTasks ?G ?q))" by (rule AddTasks_keeps)
        with fd show ?thesis by force
      next
        case False
        with e have "\<exists>x \<in> set ?G. e = (taskID x, False)
           \<and> domainID x \<in> domains (domainFilter (queueState ?q))
           \<and> ackLevel (queueState ?q) < taskID x \<and> taskID x \<le> maxLevel (queueState ?q)
           \<and> taskID x \<notin> fst ` set (outstanding ?q)"
          by (rule AddTasks_new)
        then obtain x where x: "x \<in> set ?G" and ex: "e = (taskID x, False)"
          and xm: "taskID x \<le> maxLevel (queueState ?q)" by blast
        from le ex have lex: "taskID t \<le> taskID x" by simp
        show ?thesis
        proof (cases "taskID t = taskID x")
          case True
          with e ex show ?thesis by force
        next
          case False
          with lex have "taskID t < taskID x" by simp
          with x tp fq above have "t \<in> set ?G" by (rule GetTasks_prefix)
          moreover have "taskID t \<le> maxLevel (queueState ?q)" using lex xm by simp
          ultimately show ?thesis using fq above by (intro AddTasks_tracks)
        qed
      qed
    qed
    with above show "ackLevel (queueState (procQueue ?s)) < taskID t
            \<and> ((\<exists>e \<in> set (outstanding (procQueue ?s)). taskID t \<le> fst e)
                 \<longrightarrow> taskID t \<in> fst ` set (outstanding (procQueue ?s)))"
      by (simp add: AddTasks_state)
  qed
qed

lemma consistent_TaskCompleted:
  assumes "consistent s"
  shows "consistent (processorStep (TaskCompleted tid) s)"
proof (cases "tid \<in> fst ` set (outstanding (procQueue s))")
  case False
  with assms show ?thesis by simp
next
  case True
  let ?q = "procQueue s"
  let ?u = "UpdateAckLevel tid ?q"
  let ?s = "s\<lparr>procQueue := ?u, completions := tid # completions s\<rparr>"
  have up: "ackLevel (queueState ?q) \<le> ackLevel (queueState ?u)"
    by (rule UpdateAckLevel_mono)
  have "consistent ?s"
  proof (rule consistentI)
    have "ackLevel (queueState ?u) \<le> maxLevel (queueState ?q)"
      using UpdateAckLevel_cases [of tid ?q]
    proof
      assume "ackLevel (queueState ?u) = ackLevel (queueState ?q)"
      then show ?thesis using consistentD(1) [OF assms] by simp
    next
      assume "ackLevel (queueState ?u) \<in> fst ` set (outstanding ?q)"
      then obtain d where d: "d \<in> set (outstanding ?q)"
        and f: "fst d = ackLevel (queueState ?u)" by auto
      from consistentD(2) [OF assms d] f show ?thesis by simp
    qed
    then show "ackLevel (queueState (procQueue ?s)) \<le> maxLevel (queueState (procQueue ?s))"
      by (simp add: UpdateAckLevel_state)
  next
    fix e assume "e \<in> set (outstanding (procQueue ?s))"
    then have e: "e \<in> set (outstanding ?u)" by simp
    from UpdateAckLevel_tracked(1) [OF e] obtain d where d: "d \<in> set (outstanding ?q)"
      and ed: "e = (fst d, snd d \<or> fst d = tid)" by blast
    from UpdateAckLevel_tracked(2) [OF e] have a: "ackLevel (queueState ?u) < fst e" .
    from consistentD(2) [OF assms d] ed
    have "fst e \<le> maxLevel (queueState ?q)"
      and "snd e \<longrightarrow> fst e \<in> set (tid # completions s)" by auto
    with a show "ackLevel (queueState (procQueue ?s)) < fst e
            \<and> fst e \<le> maxLevel (queueState (procQueue ?s))
            \<and> (snd e \<longrightarrow> fst e \<in> set (completions ?s))"
      by (simp add: UpdateAckLevel_state)
  next
    fix c assume "c \<in> set (completions ?s)"
    then have "c = tid \<or> c \<in> set (completions s)" by simp
    then have "c \<le> ackLevel (queueState ?q) \<or> c \<in> fst ` set (outstanding ?q)"
      using True consistentD(4) [OF assms, of c] by blast
    then have "c \<le> ackLevel (queueState ?u) \<or> c \<in> fst ` set (outstanding ?u)"
    proof
      assume "c \<le> ackLevel (queueState ?q)"
      with up show ?thesis by simp
    next
      assume "c \<in> fst ` set (outstanding ?q)"
      then obtain d where d: "d \<in> set (outstanding ?q)" and f: "fst d = c" by auto
      show ?thesis
      proof (cases "ackLevel (queueState ?u) < c")
        case False
        then show ?thesis by simp
      next
        case True
        with f have "ackLevel (queueState ?u) < fst d" by simp
        with d have "(fst d, snd d \<or> fst d = tid) \<in> set (outstanding ?u)"
          by (rule UpdateAckLevel_keeps)
        then have "fst (fst d, snd d \<or> fst d = tid) \<in> fst ` set (outstanding ?u)"
          by (rule imageI)
        with f have "c \<in> fst ` set (outstanding ?u)" by simp
        then show ?thesis by simp
      qed
    qed
    then show "c \<le> ackLevel (queueState (procQueue ?s))
            \<or> c \<in> fst ` set (outstanding (procQueue ?s))" by simp
  next
    fix t
    assume t: "t \<in> set (persisted ?s)"
      and f: "domainID t \<in> domains (domainFilter (queueState (procQueue ?s)))"
      and c: "taskID t \<notin> set (completions ?s)"
    from t have tp: "t \<in> set (persisted s)" by simp
    from f have fq: "domainID t \<in> domains (domainFilter (queueState ?q))"
      by (simp add: UpdateAckLevel_state)
    from c have ne: "taskID t \<noteq> tid" and cq: "taskID t \<notin> set (completions s)" by simp_all
    note old = consistentD(3) [OF assms tp fq cq]
    then have above: "ackLevel (queueState ?q) < taskID t" by simp
    have open_kept: "ackLevel (queueState ?u) < taskID t
                     \<and> (taskID t, False) \<in> set (outstanding ?u)"
      if tr: "taskID t \<in> fst ` set (outstanding ?q)"
    proof -
      from assms cq tr have "(taskID t, False) \<in> set (outstanding ?q)" by (rule tracked_open)
      then show ?thesis using ne above
        by (intro conjI UpdateAckLevel_below_open)
    qed
    have lvl: "ackLevel (queueState ?u) < taskID t"
    proof (cases "taskID t \<in> fst ` set (outstanding ?q)")
      case True
      then show ?thesis using open_kept by simp
    next
      case False
      with old have small: "\<forall>d \<in> set (outstanding ?q). fst d < taskID t" by force
      from UpdateAckLevel_cases [of tid ?q] show ?thesis
      proof
        assume "ackLevel (queueState ?u) = ackLevel (queueState ?q)"
        with above show ?thesis by simp
      next
        assume "ackLevel (queueState ?u) \<in> fst ` set (outstanding ?q)"
        with small show ?thesis by auto
      qed
    qed
    have "(\<exists>e \<in> set (outstanding ?u). taskID t \<le> fst e)
                 \<longrightarrow> taskID t \<in> fst ` set (outstanding ?u)"
    proof
      assume "\<exists>e \<in> set (outstanding ?u). taskID t \<le> fst e"
      then obtain e where e: "e \<in> set (outstanding ?u)" and le: "taskID t \<le> fst e"
        by blast
      from UpdateAckLevel_tracked(1) [OF e] obtain d where d: "d \<in> set (outstanding ?q)"
        and ed: "e = (fst d, snd d \<or> fst d = tid)" by blast
      from le ed have "taskID t \<le> fst d" by simp
      with d old have "taskID t \<in> fst ` set (outstanding ?q)" by blast
      then have "(taskID t, False) \<in> set (outstanding ?u)" using open_kept by simp
      then show "taskID t \<in> fst ` set (outstanding ?u)" by force
    qed
    with lvl show "ackLevel (queueState (procQueue ?s)) < taskID t
            \<and> ((\<exists>e \<in> set (outstanding (procQueue ?s)). taskID t \<le> fst e)
                 \<longrightarrow> taskID t \<in> fst ` set (outstanding (procQueue ?s)))"
      by simp
  qed
  with True show ?thesis by simp
qed

lemma consistent_step: "consistent s \<Longrightarrow> consistent (processorStep st s)"
  by (cases st)
     (simp_all only: consistent_Created consistent_Observed consistent_Fetch
        consistent_TaskCompleted)

lemma step_mono:
  "ackLevel (queueState (procQueue s))
     \<le> ackLevel (queueState (procQueue (processorStep st s)))"
  by (cases st) (simp_all add: AddTasks_state UpdateAckLevel_mono)

lemma step_filter:
  "domainFilter (queueState (procQueue (processorStep st s)))
     = domainFilter (queueState (procQueue s))"
  by (cases st) (simp_all add: AddTasks_state UpdateAckLevel_state)

lemma step_persisted: "t \<in> set (persisted s) \<Longrightarrow> t \<in> set (persisted (processorStep st s))"
  by (cases st) simp_all

lemma step_completions:
  "c \<in> set (completions (processorStep st s)) \<Longrightarrow> c \<in> set (completions s) \<or> st = TaskCompleted c"
  by (cases st) (auto split: if_splits)

lemma process_append: "process (xs @ ys) s = process ys (process xs s)"
  by (induction xs arbitrary: s) simp_all

lemma process_mono:
  "ackLevel (queueState (procQueue s))
     \<le> ackLevel (queueState (procQueue (process steps s)))"
proof (induction steps arbitrary: s)
  case Nil
  show ?case by simp
next
  case (Cons st steps)
  have "ackLevel (queueState (procQueue s))
          \<le> ackLevel (queueState (procQueue (processorStep st s)))" by (rule step_mono)
  also have "\<dots> \<le> ackLevel (queueState (procQueue (process steps (processorStep st s))))"
    by (rule Cons.IH)
  finally show ?case by simp
qed

lemma process_consistent: "consistent s \<Longrightarrow> consistent (process steps s)"
proof (induction steps arbitrary: s)
  case Nil
  then show ?case by simp
next
  case (Cons st steps)
  from Cons.prems have "consistent (processorStep st s)" by (rule consistent_step)
  then have "consistent (process steps (processorStep st s))" by (rule Cons.IH)
  then show ?case by simp
qed

lemma process_filter:
  "domainFilter (queueState (procQueue (process steps s)))
     = domainFilter (queueState (procQueue s))"
  by (induction steps arbitrary: s) (simp_all add: step_filter)

lemma process_persisted: "t \<in> set (persisted s) \<Longrightarrow> t \<in> set (persisted (process steps s))"
  by (induction steps arbitrary: s) (simp_all add: step_persisted)

lemma process_completions:
  "c \<in> set (completions (process steps s))
     \<Longrightarrow> c \<in> set (completions s) \<or> TaskCompleted c \<in> set steps"
proof (induction steps arbitrary: s)
  case Nil
  then show ?case by simp
next
  case (Cons st steps)
  from Cons.prems have "c \<in> set (completions (process steps (processorStep st s)))" by simp
  then have "c \<in> set (completions (processorStep st s)) \<or> TaskCompleted c \<in> set steps"
    by (rule Cons.IH)
  then show ?case using step_completions [of c st s] by auto
qed

text \<open>
  While a task of the filter is in persistence and its completion has not been reported,
  the ack level stays below its ID, whatever else happens.
\<close>

lemma process_until:
  assumes "consistent s" and "t \<in> set (persisted s)"
    and "domainID t \<in> domains (domainFilter (queueState (procQueue s)))"
    and "taskID t \<notin> set (completions s)" and "TaskCompleted (taskID t) \<notin> set steps"
  shows "ackLevel (queueState (procQueue (process steps s))) < taskID t"
proof -
  have c: "consistent (process steps s)" using assms(1) by (rule process_consistent)
  have p: "t \<in> set (persisted (process steps s))" using assms(2) by (rule process_persisted)
  have f: "domainID t \<in> domains (domainFilter (queueState (procQueue (process steps s))))"
    using assms(3) by (simp add: process_filter)
  have n: "taskID t \<notin> set (completions (process steps s))"
    using process_completions [of "taskID t" steps s] assms(4,5) by blast
  from consistentD(3) [OF c p f n] show ?thesis by simp
qed

text \<open>A fetch tracks what \<^verbatim>\<open>GetTasks\<close> returns, as open when it was not tracked before.\<close>

lemma Fetch_tracks:
  assumes "t \<in> set (GetTasks n (persisted s) (procQueue s))"
  shows "taskID t \<in> fst ` set (outstanding (procQueue (processorStep (Fetch n) s)))"
    and "taskID t \<notin> fst ` set (outstanding (procQueue s))
         \<Longrightarrow> (taskID t, False) \<in> set (outstanding (procQueue (processorStep (Fetch n) s)))"
proof -
  note g = GetTasks_in [OF assms]
  from assms g(2,3,4)
  have "taskID t \<in> fst ` set (outstanding (AddTasks (GetTasks n (persisted s) (procQueue s))
                                              (procQueue s)))"
    by (rule AddTasks_tracks)
  then show "taskID t \<in> fst ` set (outstanding (procQueue (processorStep (Fetch n) s)))"
    by simp
  assume "taskID t \<notin> fst ` set (outstanding (procQueue s))"
  with assms g(2,3,4)
  have "(taskID t, False) \<in> set (outstanding (AddTasks (GetTasks n (persisted s) (procQueue s))
                                              (procQueue s)))"
    by (rule AddTasks_tracks_new)
  then show "(taskID t, False) \<in> set (outstanding (procQueue (processorStep (Fetch n) s)))"
    by simp
qed

subsection \<open>The scenario of the two tasks\<close>

text \<open>
  With 5 tracked as open, 6 tracked as completed and every other tracked task up to 6
  completed, a step other than the completion of 5 keeps it so.
\<close>

lemma held_back_step:
  assumes "consistent s" and "(5, False) \<in> set (outstanding (procQueue s))"
    and "(6, True) \<in> set (outstanding (procQueue s))"
    and "\<forall>e \<in> set (outstanding (procQueue s)). fst e \<le> 6 \<and> fst e \<noteq> 5 \<longrightarrow> snd e"
    and "st \<noteq> TaskCompleted 5"
  shows "(5, False) \<in> set (outstanding (procQueue (processorStep st s)))
       \<and> (6, True) \<in> set (outstanding (procQueue (processorStep st s)))
       \<and> (\<forall>e \<in> set (outstanding (procQueue (processorStep st s))).
             fst e \<le> 6 \<and> fst e \<noteq> 5 \<longrightarrow> snd e)"
proof (cases st)
  case (Created v)
  with assms show ?thesis by auto
next
  case (Observed level)
  with assms show ?thesis by simp
next
  case (Fetch n)
  let ?q = "procQueue s"
  let ?G = "GetTasks n (persisted s) ?q"
  have five: "(5, False) \<in> set (outstanding (AddTasks ?G ?q))"
    using assms(2) by (rule AddTasks_keeps)
  have six: "(6, True) \<in> set (outstanding (AddTasks ?G ?q))"
    using assms(3) by (rule AddTasks_keeps)
  have rest: "\<forall>e \<in> set (outstanding (AddTasks ?G ?q)). fst e \<le> 6 \<and> fst e \<noteq> 5 \<longrightarrow> snd e"
  proof (intro ballI impI)
    fix e assume e: "e \<in> set (outstanding (AddTasks ?G ?q))"
      and le: "fst e \<le> 6 \<and> fst e \<noteq> 5"
    show "snd e"
    proof (cases "e \<in> set (outstanding ?q)")
      case True
      with assms(4) le show ?thesis by simp
    next
      case False
      with e have "\<exists>x \<in> set ?G. e = (taskID x, False)
           \<and> domainID x \<in> domains (domainFilter (queueState ?q))
           \<and> ackLevel (queueState ?q) < taskID x \<and> taskID x \<le> maxLevel (queueState ?q)
           \<and> taskID x \<notin> fst ` set (outstanding ?q)"
        by (rule AddTasks_new)
      then obtain x where x: "x \<in> set ?G" and ex: "e = (taskID x, False)"
        and fx: "domainID x \<in> domains (domainFilter (queueState ?q))"
        and ax: "ackLevel (queueState ?q) < taskID x"
        and nx: "taskID x \<notin> fst ` set (outstanding ?q)" by blast
      from x have px: "x \<in> set (persisted s)" by (rule GetTasks_in(1))
      from le ex have x6: "taskID x \<le> 6" by simp
      have False
      proof (cases "taskID x \<in> set (completions s)")
        case True
        from consistentD(4) [OF assms(1) True] ax nx show False by simp
      next
        case False
        from consistentD(3) [OF assms(1) px fx False] assms(3) x6 nx
        show False by force
      qed
      then show ?thesis ..
    qed
  qed
  from five six rest show ?thesis using Fetch by simp
next
  case (TaskCompleted tid)
  with assms(5) have ne: "5 \<noteq> tid" by auto
  show ?thesis
  proof (cases "tid \<in> fst ` set (outstanding (procQueue s))")
    case False
    with assms TaskCompleted show ?thesis by simp
  next
    case True
    let ?q = "procQueue s"
    let ?u = "UpdateAckLevel tid ?q"
    have a5: "ackLevel (queueState ?q) < 5"
      using consistentD(2) [OF assms(1) assms(2)] by simp
    have l5: "ackLevel (queueState ?u) < 5"
      using assms(2) ne a5 by (rule UpdateAckLevel_below_open(1))
    have five: "(5, False) \<in> set (outstanding ?u)"
      using assms(2) ne a5 by (rule UpdateAckLevel_below_open(2))
    have "(fst (6::int, True), snd (6::int, True) \<or> fst (6::int, True) = tid)
            \<in> set (outstanding ?u)"
      using assms(3) l5 by (intro UpdateAckLevel_keeps) simp_all
    then have six: "(6, True) \<in> set (outstanding ?u)" by simp
    have rest: "\<forall>e \<in> set (outstanding ?u). fst e \<le> 6 \<and> fst e \<noteq> 5 \<longrightarrow> snd e"
    proof (intro ballI impI)
      fix e assume e: "e \<in> set (outstanding ?u)" and le: "fst e \<le> 6 \<and> fst e \<noteq> 5"
      from UpdateAckLevel_tracked(1) [OF e] obtain d where d: "d \<in> set (outstanding ?q)"
        and ed: "e = (fst d, snd d \<or> fst d = tid)" by blast
      from le ed have "fst d \<le> 6 \<and> fst d \<noteq> 5" by simp
      with assms(4) d have "snd d" by simp
      with ed show "snd e" by simp
    qed
    from five six rest show ?thesis using TaskCompleted True by simp
  qed
qed

lemma held_back_steps:
  assumes "consistent s" and "(5, False) \<in> set (outstanding (procQueue s))"
    and "(6, True) \<in> set (outstanding (procQueue s))"
    and "\<forall>e \<in> set (outstanding (procQueue s)). fst e \<le> 6 \<and> fst e \<noteq> 5 \<longrightarrow> snd e"
    and "TaskCompleted 5 \<notin> set steps"
  shows "(5, False) \<in> set (outstanding (procQueue (process steps s)))
       \<and> (6, True) \<in> set (outstanding (procQueue (process steps s)))
       \<and> (\<forall>e \<in> set (outstanding (procQueue (process steps s))).
             fst e \<le> 6 \<and> fst e \<noteq> 5 \<longrightarrow> snd e)"
  using assms
proof (induction steps arbitrary: s)
  case Nil
  then show ?case by simp
next
  case (Cons st steps)
  from Cons.prems(5) have ne: "st \<noteq> TaskCompleted 5"
    and later: "TaskCompleted 5 \<notin> set steps" by auto
  have c: "consistent (processorStep st s)" using Cons.prems(1) by (rule consistent_step)
  note h = held_back_step [OF Cons.prems(1,2,3,4) ne]
  from h have h1: "(5, False) \<in> set (outstanding (procQueue (processorStep st s)))"
    by (rule conjunct1)
  from h have h2: "(6, True) \<in> set (outstanding (procQueue (processorStep st s)))"
    by (rule conjunct2 [THEN conjunct1])
  from h have h3: "\<forall>e \<in> set (outstanding (procQueue (processorStep st s))).
             fst e \<le> 6 \<and> fst e \<noteq> 5 \<longrightarrow> snd e"
    by (rule conjunct2 [THEN conjunct2])
  from Cons.IH [OF c h1 h2 h3 later] show ?case by simp
qed

text \<open>
  The completion of 6 while 5 is open: the level stays below 5, and the bookkeeping is as
  the two lemmas above need it.
\<close>

lemma six_first:
  assumes "consistent s" and "(5, False) \<in> set (outstanding (procQueue s))"
    and "(6, False) \<in> set (outstanding (procQueue s))"
    and "\<forall>e \<in> set (outstanding (procQueue s)). fst e < 6 \<and> fst e \<noteq> 5 \<longrightarrow> snd e"
  shows "(5, False) \<in> set (outstanding (procQueue (processorStep (TaskCompleted 6) s)))
       \<and> (6, True) \<in> set (outstanding (procQueue (processorStep (TaskCompleted 6) s)))
       \<and> (\<forall>e \<in> set (outstanding (procQueue (processorStep (TaskCompleted 6) s))).
             fst e \<le> 6 \<and> fst e \<noteq> 5 \<longrightarrow> snd e)"
proof -
  let ?q = "procQueue s"
  let ?u = "UpdateAckLevel 6 ?q"
  from assms(3) have tr: "6 \<in> fst ` set (outstanding ?q)" by force
  have a5: "ackLevel (queueState ?q) < 5"
    using consistentD(2) [OF assms(1) assms(2)] by simp
  have l5: "ackLevel (queueState ?u) < 5"
    using assms(2) _ a5 by (rule UpdateAckLevel_below_open(1)) simp
  have five: "(5, False) \<in> set (outstanding ?u)"
    using assms(2) _ a5 by (rule UpdateAckLevel_below_open(2)) simp
  have "(fst (6::int, False), snd (6::int, False) \<or> fst (6::int, False) = 6)
            \<in> set (outstanding ?u)"
    using assms(3) l5 by (intro UpdateAckLevel_keeps) simp_all
  then have six: "(6, True) \<in> set (outstanding ?u)" by simp
  have rest: "\<forall>e \<in> set (outstanding ?u). fst e \<le> 6 \<and> fst e \<noteq> 5 \<longrightarrow> snd e"
  proof (intro ballI impI)
    fix e assume e: "e \<in> set (outstanding ?u)" and le: "fst e \<le> 6 \<and> fst e \<noteq> 5"
    from UpdateAckLevel_tracked(1) [OF e] obtain d where d: "d \<in> set (outstanding ?q)"
      and ed: "e = (fst d, snd d \<or> fst d = 6)" by blast
    show "snd e"
    proof (cases "fst d = 6")
      case True
      with ed show ?thesis by simp
    next
      case False
      with le ed have "fst d < 6 \<and> fst d \<noteq> 5" by simp
      with assms(4) d have "snd d" by simp
      with ed show ?thesis by simp
    qed
  qed
  from five six rest show ?thesis using tr by simp
qed

text \<open>The completion of 5 once 6 and everything else up to 6 has completed.\<close>

lemma five_then:
  assumes "(5, False) \<in> set (outstanding (procQueue s))"
    and "(6, True) \<in> set (outstanding (procQueue s))"
    and "\<forall>e \<in> set (outstanding (procQueue s)). fst e \<le> 6 \<and> fst e \<noteq> 5 \<longrightarrow> snd e"
  shows "6 \<le> ackLevel (queueState (procQueue (processorStep (TaskCompleted 5) s)))"
proof -
  let ?q = "procQueue s"
  let ?ts = "markCompleted 5 (outstanding ?q)"
  from assms(1) have tr: "5 \<in> fst ` set (outstanding ?q)" by force
  from assms(2) have "6 \<in> fst ` set (outstanding ?q)" by force
  then have mem: "6 \<in> fst ` set ?ts" by (simp add: markCompleted_ids)
  have "completedUpTo ?ts 6"
    unfolding completedUpTo_def list_all_iff
  proof (intro ballI impI)
    fix e assume e: "e \<in> set ?ts" and le: "fst e \<le> 6"
    from e obtain d where d: "d \<in> set (outstanding ?q)"
      and ed: "e = (fst d, snd d \<or> fst d = 5)"
      by (auto simp: markCompleted_def)
    show "snd e"
    proof (cases "fst d = 5")
      case True
      with ed show ?thesis by simp
    next
      case False
      with le ed have "fst d \<le> 6 \<and> fst d \<noteq> 5" by simp
      with assms(3) d have "snd d" by simp
      with ed show ?thesis by simp
    qed
  qed
  with mem have "6 \<le> nextAckLevel (ackLevel (queueState ?q)) ?ts"
    by (rule nextAckLevel_highest)
  then have "6 \<le> ackLevel (queueState (UpdateAckLevel 5 ?q))"
    by (simp only: UpdateAckLevel_level)
  with tr show ?thesis by simp
qed

lemma five_and_six:
  assumes "consistent s" and "t \<in> set (persisted s)" and "taskID t = 5"
    and "domainID t \<in> domains (domainFilter (queueState (procQueue s)))"
    and "5 \<notin> set (completions s)"
    and "(6, False) \<in> set (outstanding (procQueue s))"
    and "\<forall>e \<in> set (outstanding (procQueue s)). fst e < 6 \<and> fst e \<noteq> 5 \<longrightarrow> snd e"
    and "TaskCompleted 5 \<notin> set steps"
  shows "ackLevel (queueState (procQueue (process (TaskCompleted 6 # steps) s))) \<le> 4"
    and "6 \<le> ackLevel (queueState (procQueue
                 (process (TaskCompleted 6 # steps @ [TaskCompleted 5]) s)))"
proof -
  from assms(3,5) have nc: "taskID t \<notin> set (completions s)" by simp
  from assms(8) have "TaskCompleted (taskID t) \<notin> set (TaskCompleted 6 # steps)"
    using assms(3) by simp
  with assms(1,2,4) nc
  have "ackLevel (queueState (procQueue (process (TaskCompleted 6 # steps) s))) < taskID t"
    by (intro process_until)
  with assms(3) show "ackLevel (queueState (procQueue (process (TaskCompleted 6 # steps) s))) \<le> 4"
    by simp
  have "taskID t \<le> fst (6::int, False)" using assms(3) by simp
  with assms(6) have "\<exists>e \<in> set (outstanding (procQueue s)). taskID t \<le> fst e" by blast
  with consistentD(3) [OF assms(1,2,4) nc]
  have "taskID t \<in> fst ` set (outstanding (procQueue s))" by simp
  with assms(1) nc have "(taskID t, False) \<in> set (outstanding (procQueue s))"
    by (rule tracked_open)
  with assms(3) have five: "(5, False) \<in> set (outstanding (procQueue s))" by simp
  let ?s1 = "processorStep (TaskCompleted 6) s"
  have c1: "consistent ?s1" using assms(1) by (rule consistent_step)
  note a = six_first [OF assms(1) five assms(6,7)]
  from a have a1: "(5, False) \<in> set (outstanding (procQueue ?s1))" by (rule conjunct1)
  from a have a2: "(6, True) \<in> set (outstanding (procQueue ?s1))"
    by (rule conjunct2 [THEN conjunct1])
  from a have a3: "\<forall>e \<in> set (outstanding (procQueue ?s1)). fst e \<le> 6 \<and> fst e \<noteq> 5 \<longrightarrow> snd e"
    by (rule conjunct2 [THEN conjunct2])
  let ?s2 = "process steps ?s1"
  note b = held_back_steps [OF c1 a1 a2 a3 assms(8)]
  from b have b1: "(5, False) \<in> set (outstanding (procQueue ?s2))" by (rule conjunct1)
  from b have b2: "(6, True) \<in> set (outstanding (procQueue ?s2))"
    by (rule conjunct2 [THEN conjunct1])
  from b have b3: "\<forall>e \<in> set (outstanding (procQueue ?s2)). fst e \<le> 6 \<and> fst e \<noteq> 5 \<longrightarrow> snd e"
    by (rule conjunct2 [THEN conjunct2])
  from b1 b2 b3
  have "6 \<le> ackLevel (queueState (procQueue (processorStep (TaskCompleted 5) ?s2)))"
    by (rule five_then)
  then show "6 \<le> ackLevel (queueState (procQueue
                 (process (TaskCompleted 6 # steps @ [TaskCompleted 5]) s)))"
    by (simp add: process_append)
qed

text \<open>
  Claim C1. The ack level of a processing queue never decreases, over any sequence of task
  creations, observed levels, fetches and completions. A freshly loaded queue processor
  whose tasks of the filter lie above the ack level has consistent bookkeeping, every step
  keeps it consistent, and then the ack level is below the ID of every task in persistence
  that is in the queue's filter and has not completed (no gaps). A fetch tracks every task
  \<^verbatim>\<open>GetTasks\<close> returns, as open when it was not tracked before, and with a batch size of
  at least the number of tasks in persistence \<^verbatim>\<open>GetTasks\<close> returns every task of the filter
  between the two levels. While a task of the filter has not completed, the level stays
  below its ID whatever else happens. The completion of a tracked task moves the level to
  the highest tracked ID up to which every tracked task has completed, or leaves it. With
  task 5 of the filter in persistence and not completed, task 6 fetched and nothing else
  open below 6: once 6 completes the level stays at or below 4 for as long as 5 does not
  complete, and when 5 then completes the level is at 6 or beyond.
\<close>

theorem ackLevel_monotone_no_gaps:
  "ackLevel (queueState (procQueue s)) \<le> ackLevel (queueState (procQueue (process steps s)))
 \<and> (ackLevel st \<le> maxLevel st
      \<and> (\<forall>u \<in> set ts. domainID u \<in> domains (domainFilter st) \<longrightarrow> ackLevel st < taskID u)
      \<longrightarrow> consistent \<lparr>persisted = ts, procQueue = newQueue st, completions = []\<rparr>)
 \<and> (consistent s \<longrightarrow> consistent (process steps s) \<and> noGaps (process steps s))
 \<and> (x \<in> set (GetTasks n (persisted s) (procQueue s)) \<longrightarrow>
       taskID x \<in> fst ` set (outstanding (procQueue (processorStep (Fetch n) s)))
       \<and> (taskID x \<notin> fst ` set (outstanding (procQueue s)) \<longrightarrow>
            (taskID x, False) \<in> set (outstanding (procQueue (processorStep (Fetch n) s)))))
 \<and> (length (persisted s) \<le> n \<longrightarrow>
       set (GetTasks n (persisted s) (procQueue s))
         = {u \<in> set (persisted s).
              domainID u \<in> domains (domainFilter (queueState (procQueue s)))
              \<and> ackLevel (queueState (procQueue s)) < taskID u
              \<and> taskID u \<le> maxLevel (queueState (procQueue s))})
 \<and> (consistent s \<and> t \<in> set (persisted s)
      \<and> domainID t \<in> domains (domainFilter (queueState (procQueue s)))
      \<and> taskID t \<notin> set (completions s) \<and> TaskCompleted (taskID t) \<notin> set steps \<longrightarrow>
       ackLevel (queueState (procQueue (process steps s))) < taskID t)
 \<and> (tid \<in> fst ` set (outstanding (procQueue s)) \<longrightarrow>
       ackLevel (queueState (procQueue (processorStep (TaskCompleted tid) s)))
         = nextAckLevel (ackLevel (queueState (procQueue s)))
             (markCompleted tid (outstanding (procQueue s))))
 \<and> (nextAckLevel level es = level
      \<or> (nextAckLevel level es \<in> fst ` set es \<and> completedUpTo es (nextAckLevel level es)))
 \<and> (T \<in> fst ` set es \<and> completedUpTo es T \<longrightarrow> T \<le> nextAckLevel level es)
 \<and> (consistent s \<and> v \<in> set (persisted s) \<and> taskID v = 5
      \<and> domainID v \<in> domains (domainFilter (queueState (procQueue s)))
      \<and> 5 \<notin> set (completions s)
      \<and> (6, False) \<in> set (outstanding (procQueue s))
      \<and> (\<forall>e \<in> set (outstanding (procQueue s)). fst e < 6 \<and> fst e \<noteq> 5 \<longrightarrow> snd e)
      \<and> TaskCompleted 5 \<notin> set steps \<longrightarrow>
       ackLevel (queueState (procQueue (process (TaskCompleted 6 # steps) s))) \<le> 4
       \<and> 6 \<le> ackLevel (queueState (procQueue
                  (process (TaskCompleted 6 # steps @ [TaskCompleted 5]) s))))"
proof (intro conjI impI)
  show "ackLevel (queueState (procQueue s))
          \<le> ackLevel (queueState (procQueue (process steps s)))"
    by (rule process_mono)
next
  assume "ackLevel st \<le> maxLevel st
      \<and> (\<forall>u \<in> set ts. domainID u \<in> domains (domainFilter st) \<longrightarrow> ackLevel st < taskID u)"
  then have "ackLevel st \<le> maxLevel st"
    and "\<forall>u \<in> set ts. domainID u \<in> domains (domainFilter st) \<longrightarrow> ackLevel st < taskID u"
    by simp_all
  then show "consistent \<lparr>persisted = ts, procQueue = newQueue st, completions = []\<rparr>"
    by (rule consistent_fresh)
next
  assume "consistent s"
  then show "consistent (process steps s)" by (rule process_consistent)
next
  assume "consistent s"
  then have "consistent (process steps s)" by (rule process_consistent)
  then show "noGaps (process steps s)" by (rule consistent_noGaps)
next
  assume "x \<in> set (GetTasks n (persisted s) (procQueue s))"
  then show "taskID x \<in> fst ` set (outstanding (procQueue (processorStep (Fetch n) s)))"
    by (rule Fetch_tracks(1))
next
  assume "x \<in> set (GetTasks n (persisted s) (procQueue s))"
    and "taskID x \<notin> fst ` set (outstanding (procQueue s))"
  then show "(taskID x, False) \<in> set (outstanding (procQueue (processorStep (Fetch n) s)))"
    by (rule Fetch_tracks(2))
next
  assume "length (persisted s) \<le> n"
  then show "set (GetTasks n (persisted s) (procQueue s))
         = {u \<in> set (persisted s).
              domainID u \<in> domains (domainFilter (queueState (procQueue s)))
              \<and> ackLevel (queueState (procQueue s)) < taskID u
              \<and> taskID u \<le> maxLevel (queueState (procQueue s))}"
    by (rule GetTasks_all)
next
  assume "consistent s \<and> t \<in> set (persisted s)
      \<and> domainID t \<in> domains (domainFilter (queueState (procQueue s)))
      \<and> taskID t \<notin> set (completions s) \<and> TaskCompleted (taskID t) \<notin> set steps"
  then have "consistent s" and "t \<in> set (persisted s)"
    and "domainID t \<in> domains (domainFilter (queueState (procQueue s)))"
    and "taskID t \<notin> set (completions s)" and "TaskCompleted (taskID t) \<notin> set steps"
    by simp_all
  then show "ackLevel (queueState (procQueue (process steps s))) < taskID t"
    by (rule process_until)
next
  assume "tid \<in> fst ` set (outstanding (procQueue s))"
  then show "ackLevel (queueState (procQueue (processorStep (TaskCompleted tid) s)))
         = nextAckLevel (ackLevel (queueState (procQueue s)))
             (markCompleted tid (outstanding (procQueue s)))"
    by (simp add: UpdateAckLevel_level)
next
  show "nextAckLevel level es = level
      \<or> (nextAckLevel level es \<in> fst ` set es \<and> completedUpTo es (nextAckLevel level es))"
    by (rule nextAckLevel_cases)
next
  assume "T \<in> fst ` set es \<and> completedUpTo es T"
  then have "T \<in> fst ` set es" and "completedUpTo es T" by simp_all
  then show "T \<le> nextAckLevel level es" by (rule nextAckLevel_highest)
next
  assume a: "consistent s \<and> v \<in> set (persisted s) \<and> taskID v = 5
      \<and> domainID v \<in> domains (domainFilter (queueState (procQueue s)))
      \<and> 5 \<notin> set (completions s)
      \<and> (6, False) \<in> set (outstanding (procQueue s))
      \<and> (\<forall>e \<in> set (outstanding (procQueue s)). fst e < 6 \<and> fst e \<noteq> 5 \<longrightarrow> snd e)
      \<and> TaskCompleted 5 \<notin> set steps"
  then have h: "consistent s" "v \<in> set (persisted s)" "taskID v = 5"
    "domainID v \<in> domains (domainFilter (queueState (procQueue s)))"
    "5 \<notin> set (completions s)"
    "(6, False) \<in> set (outstanding (procQueue s))"
    "\<forall>e \<in> set (outstanding (procQueue s)). fst e < 6 \<and> fst e \<noteq> 5 \<longrightarrow> snd e"
    "TaskCompleted 5 \<notin> set steps"
    by simp_all
  from h show "ackLevel (queueState (procQueue (process (TaskCompleted 6 # steps) s))) \<le> 4"
    by (rule five_and_six(1))
  from h show "6 \<le> ackLevel (queueState (procQueue
                  (process (TaskCompleted 6 # steps @ [TaskCompleted 5]) s)))"
    by (rule five_and_six(2))
qed

theorem ackLevel_monotone_no_gaps_witness:
  "(let five = \<lparr>category = TransferTask, domainID = ''d1'', taskID = 5, attempt = 0\<rparr>;
        six = \<lparr>category = TransferTask, domainID = ''d1'', taskID = 6, attempt = 0\<rparr>;
        st = \<lparr>ackLevel = 4, maxLevel = 100, domainFilter = Include {''d1''}\<rparr>;
        loaded = \<lparr>persisted = [six, five], procQueue = newQueue st, completions = []\<rparr>;
        fetched = processorStep (Fetch 10) loaded
    in consistent loaded
     \<and> fetched = \<lparr>persisted = [six, five],
                   procQueue = \<lparr>queueState = st, outstanding = [(5, False), (6, False)]\<rparr>,
                   completions = []\<rparr>
     \<and> consistent fetched \<and> noGaps fetched
     \<and> five \<in> set (GetTasks 10 (persisted loaded) (procQueue loaded))
     \<and> (5, False) \<in> set (outstanding (procQueue fetched))
     \<and> set (GetTasks 10 (persisted loaded) (procQueue loaded)) = {six, five}
     \<and> TaskCompleted 5 \<notin> set [TaskCompleted 6, Observed 200]
     \<and> ackLevel (queueState (procQueue (process [TaskCompleted 6, Observed 200] fetched))) < 5
     \<and> 6 \<in> fst ` set (outstanding (procQueue fetched))
     \<and> ackLevel (queueState (procQueue (processorStep (TaskCompleted 6) fetched)))
         = nextAckLevel 4 [(5, False), (6, True)]
     \<and> nextAckLevel 4 [(5, False), (6, True)] = 4
     \<and> 6 \<in> fst ` set [(5::int, True), (6, True)] \<and> completedUpTo [(5, True), (6, True)] 6
     \<and> 6 \<le> nextAckLevel 4 [(5, True), (6, True)]
     \<and> ackLevel (queueState (procQueue (process [TaskCompleted 6, Observed 200] fetched))) \<le> 4
     \<and> 6 \<le> ackLevel (queueState (procQueue
               (process [TaskCompleted 6, Observed 200, TaskCompleted 5] fetched))))"
proof -
  define five where "five = \<lparr>category = TransferTask, domainID = ''d1'', taskID = 5, attempt = 0\<rparr>"
  define six where "six = \<lparr>category = TransferTask, domainID = ''d1'', taskID = 6, attempt = 0\<rparr>"
  define st where "st = \<lparr>ackLevel = 4, maxLevel = 100, domainFilter = Include {''d1''}\<rparr>"
  define loaded where
    "loaded = \<lparr>persisted = [six, five], procQueue = newQueue st, completions = []\<rparr>"
  define fetched where "fetched = processorStep (Fetch 10) loaded"
  have g: "GetTasks 10 (persisted loaded) (procQueue loaded) = [five, six]"
    by (simp add: loaded_def newQueue_def GetTasks_def st_def five_def six_def)
  have f: "fetched = \<lparr>persisted = [six, five],
                   procQueue = \<lparr>queueState = st, outstanding = [(5, False), (6, False)]\<rparr>,
                   completions = []\<rparr>"
    unfolding fetched_def
    by (simp add: g) (simp add: loaded_def newQueue_def AddTasks_def st_def five_def six_def)
  have out: "outstanding (procQueue fetched) = [(5, False), (6, False)]"
    and lvl: "ackLevel (queueState (procQueue fetched)) = 4"
    and per: "persisted fetched = [six, five]"
    and com: "completions fetched = []"
    and fil: "domainFilter (queueState (procQueue fetched)) = Include {''d1''}"
    by (simp_all add: f st_def)
  have c0: "consistent loaded"
    unfolding loaded_def
    by (rule ackLevel_monotone_no_gaps [THEN conjunct2, THEN conjunct1, THEN mp])
       (simp add: st_def five_def six_def)
  have "consistent (process [Fetch 10] loaded) \<and> noGaps (process [Fetch 10] loaded)"
    using c0
    by (rule ackLevel_monotone_no_gaps [where s = loaded and steps = "[Fetch 10]",
          THEN conjunct2, THEN conjunct2, THEN conjunct1, THEN mp])
  then have c1: "consistent fetched" and n1: "noGaps fetched"
    by (simp_all add: fetched_def)
  have m5: "five \<in> set (GetTasks 10 (persisted loaded) (procQueue loaded))"
    by (simp add: g)
  note rest3 = ackLevel_monotone_no_gaps [THEN conjunct2, THEN conjunct2, THEN conjunct2]
  have "taskID five \<in> fst ` set (outstanding (procQueue (processorStep (Fetch 10) loaded)))
       \<and> (taskID five \<notin> fst ` set (outstanding (procQueue loaded)) \<longrightarrow>
            (taskID five, False)
              \<in> set (outstanding (procQueue (processorStep (Fetch 10) loaded))))"
    using m5 by (rule rest3 [THEN conjunct1, THEN mp])
  note tr = this
  have nt: "taskID five \<notin> fst ` set (outstanding (procQueue loaded))"
    by (simp add: loaded_def newQueue_def)
  from tr [THEN conjunct2, THEN mp, OF nt]
  have "(taskID five, False) \<in> set (outstanding (procQueue fetched))"
    unfolding fetched_def .
  then have t5: "(5, False) \<in> set (outstanding (procQueue fetched))"
    by (simp add: five_def)
  note rest4 = rest3 [THEN conjunct2]
  have "set (GetTasks 10 (persisted loaded) (procQueue loaded))
         = {u \<in> set (persisted loaded).
              domainID u \<in> domains (domainFilter (queueState (procQueue loaded)))
              \<and> ackLevel (queueState (procQueue loaded)) < taskID u
              \<and> taskID u \<le> maxLevel (queueState (procQueue loaded))}"
    by (rule rest4 [THEN conjunct1, THEN mp]) (simp add: loaded_def)
  also have "\<dots> = {six, five}"
    by (auto simp: loaded_def newQueue_def st_def five_def six_def)
  finally have all: "set (GetTasks 10 (persisted loaded) (procQueue loaded)) = {six, five}" .
  note rest5 = rest4 [THEN conjunct2]
  have h4: "TaskCompleted 5 \<notin> set [TaskCompleted 6, Observed 200]" by simp
  have "ackLevel (queueState (procQueue (process [TaskCompleted 6, Observed 200] fetched)))
          < taskID five"
    by (rule rest5 [THEN conjunct1, THEN mp])
       (simp add: c1 per com fil, simp add: five_def)
  then have u: "ackLevel (queueState (procQueue
                   (process [TaskCompleted 6, Observed 200] fetched))) < 5"
    by (simp add: five_def)
  note rest6 = rest5 [THEN conjunct2]
  have tr6: "6 \<in> fst ` set (outstanding (procQueue fetched))" by (simp add: out)
  have "ackLevel (queueState (procQueue (processorStep (TaskCompleted 6) fetched)))
         = nextAckLevel (ackLevel (queueState (procQueue fetched)))
             (markCompleted 6 (outstanding (procQueue fetched)))"
    using tr6 by (rule rest6 [THEN conjunct1, THEN mp])
  then have l6: "ackLevel (queueState (procQueue (processorStep (TaskCompleted 6) fetched)))
         = nextAckLevel 4 [(5, False), (6, True)]"
    by (simp add: out lvl markCompleted_def)
  note rest7 = rest6 [THEN conjunct2]
  have stay: "nextAckLevel 4 [(5, False), (6, True)] = 4"
    using rest7 [THEN conjunct1, of 4 "[(5, False), (6, True)]"]
    by (auto simp: completedUpTo_def)
  note rest8 = rest7 [THEN conjunct2]
  have h6: "6 \<in> fst ` set [(5::int, True), (6, True)]" by simp
  have h7: "completedUpTo [(5, True), (6, True)] 6" by (simp add: completedUpTo_def)
  have r2: "6 \<le> nextAckLevel 4 [(5, True), (6, True)]"
    by (rule rest8 [THEN conjunct1, THEN mp]) (simp add: h6 h7)
  have r3: "ackLevel (queueState (procQueue
               (process (TaskCompleted 6 # [Observed 200]) fetched))) \<le> 4
       \<and> 6 \<le> ackLevel (queueState (procQueue
               (process (TaskCompleted 6 # [Observed 200] @ [TaskCompleted 5]) fetched)))"
    by (rule ackLevel_monotone_no_gaps [where v = five, THEN conjunct2, THEN conjunct2,
          THEN conjunct2, THEN conjunct2, THEN conjunct2, THEN conjunct2, THEN conjunct2,
          THEN conjunct2, THEN conjunct2, THEN mp])
       (simp add: c1 per com fil out, simp add: five_def)
  then have r4: "ackLevel (queueState (procQueue
               (process [TaskCompleted 6, Observed 200] fetched))) \<le> 4"
    and r5: "6 \<le> ackLevel (queueState (procQueue
               (process [TaskCompleted 6, Observed 200, TaskCompleted 5] fetched)))"
    by simp_all
  have goal: "consistent loaded
     \<and> fetched = \<lparr>persisted = [six, five],
                   procQueue = \<lparr>queueState = st, outstanding = [(5, False), (6, False)]\<rparr>,
                   completions = []\<rparr>
     \<and> consistent fetched \<and> noGaps fetched
     \<and> five \<in> set (GetTasks 10 (persisted loaded) (procQueue loaded))
     \<and> (5, False) \<in> set (outstanding (procQueue fetched))
     \<and> set (GetTasks 10 (persisted loaded) (procQueue loaded)) = {six, five}
     \<and> TaskCompleted 5 \<notin> set [TaskCompleted 6, Observed 200]
     \<and> ackLevel (queueState (procQueue (process [TaskCompleted 6, Observed 200] fetched))) < 5
     \<and> 6 \<in> fst ` set (outstanding (procQueue fetched))
     \<and> ackLevel (queueState (procQueue (processorStep (TaskCompleted 6) fetched)))
         = nextAckLevel 4 [(5, False), (6, True)]
     \<and> nextAckLevel 4 [(5, False), (6, True)] = 4
     \<and> 6 \<in> fst ` set [(5::int, True), (6, True)] \<and> completedUpTo [(5, True), (6, True)] 6
     \<and> 6 \<le> nextAckLevel 4 [(5, True), (6, True)]
     \<and> ackLevel (queueState (procQueue (process [TaskCompleted 6, Observed 200] fetched))) \<le> 4
     \<and> 6 \<le> ackLevel (queueState (procQueue
               (process [TaskCompleted 6, Observed 200, TaskCompleted 5] fetched)))"
    by (intro conjI c0 f c1 n1 m5 t5 all h4 u tr6 l6 stay h6 h7 r2 r4 r5)
  show ?thesis
    unfolding Let_def
    using goal unfolding fetched_def loaded_def st_def five_def six_def .
qed

subsection \<open>Retry and the DLQ\<close>

lemma executeWithRetry_stops:
  "exec n = NonRetryableError \<Longrightarrow> executeWithRetry cfg exec js n = (Failed, [])"
  "exec n = Succeeded \<Longrightarrow> executeWithRetry cfg exec js n = (Completed, [])"
  "exec n = RetryableError \<Longrightarrow> maxAttempts cfg < n + 1
     \<Longrightarrow> executeWithRetry cfg exec js n = (Failed, [])"
  using executeWithRetry.simps [of cfg exec js n] by simp_all

lemma executeWithRetry_again:
  assumes "exec n = RetryableError" and "\<not> maxAttempts cfg < n + 1"
  shows "executeWithRetry cfg exec js n
           = (fst (executeWithRetry cfg exec js (n + 1)),
              (n + 1, backoffDelay cfg js n) # snd (executeWithRetry cfg exec js (n + 1)))"
  using executeWithRetry.simps [of cfg exec js n] assms by simp

text \<open>
  As long as the executions fail retryably and the ceiling is not reached, each of them is
  followed by a re-submission.
\<close>

lemma retry_prefix:
  "k - n = d \<Longrightarrow> n \<le> k \<Longrightarrow> k \<le> maxAttempts cfg
     \<Longrightarrow> \<forall>a. n \<le> a \<and> a < k \<longrightarrow> exec a = RetryableError
     \<Longrightarrow> executeWithRetry cfg exec js n
           = (fst (executeWithRetry cfg exec js k),
              map (\<lambda>a. (a + 1, backoffDelay cfg js a)) [n..<k]
                @ snd (executeWithRetry cfg exec js k))"
proof (induction d arbitrary: n)
  case 0
  then have "n = k" by simp
  then show ?case by simp
next
  case (Suc d)
  then have lt: "n < k" by simp
  with Suc.prems have r: "exec n = RetryableError" by simp
  from lt Suc.prems have c: "\<not> maxAttempts cfg < n + 1" by simp
  have "k - (n + 1) = d" and "n + 1 \<le> k" using Suc.prems lt by simp_all
  moreover note \<open>k \<le> maxAttempts cfg\<close>
  moreover have "\<forall>a. n + 1 \<le> a \<and> a < k \<longrightarrow> exec a = RetryableError"
    using Suc.prems by simp
  ultimately have IH: "executeWithRetry cfg exec js (n + 1)
           = (fst (executeWithRetry cfg exec js k),
              map (\<lambda>a. (a + 1, backoffDelay cfg js a)) [n + 1..<k]
                @ snd (executeWithRetry cfg exec js k))"
    by (rule Suc.IH)
  have u: "[n..<k] = n # [n + 1..<k]" using lt by (simp add: upt_conv_Cons)
  show ?case
    unfolding executeWithRetry_again [where exec = exec and n = n, OF r c] u
    using IH by simp
qed

lemma retry_until_ceiling:
  "executeWithRetry cfg alwaysRetryable js 0
     = (Failed, map (\<lambda>a. (a + 1, backoffDelay cfg js a)) [0..<maxAttempts cfg])"
proof -
  have "executeWithRetry cfg alwaysRetryable js (maxAttempts cfg) = (Failed, [])"
    by (rule executeWithRetry_stops(3)) (simp_all add: alwaysRetryable_def)
  moreover have "executeWithRetry cfg alwaysRetryable js 0
           = (fst (executeWithRetry cfg alwaysRetryable js (maxAttempts cfg)),
              map (\<lambda>a. (a + 1, backoffDelay cfg js a)) [0..<maxAttempts cfg]
                @ snd (executeWithRetry cfg alwaysRetryable js (maxAttempts cfg)))"
    by (rule retry_prefix [of "maxAttempts cfg" 0 "maxAttempts cfg"])
       (simp_all add: alwaysRetryable_def)
  ultimately show ?thesis by simp
qed

lemma Submit_always_retryable:
  assumes "attempt t = 0"
  shows "Submit cfg alwaysRetryable js t
           = (Failed, map (\<lambda>a. (a + 1, backoffDelay cfg js a)) [0..<maxAttempts cfg])"
  unfolding Submit_def assms by (rule retry_until_ceiling)

lemma Submit_retry_then:
  assumes "attempt t = 0" and "k \<le> maxAttempts cfg"
    and "\<forall>a<k. exec a = RetryableError"
  shows "Submit cfg exec js t
           = (fst (executeWithRetry cfg exec js k),
              map (\<lambda>a. (a + 1, backoffDelay cfg js a)) [0..<k]
                @ snd (executeWithRetry cfg exec js k))"
  unfolding Submit_def assms(1)
  using assms(2,3) by (intro retry_prefix [of k 0 k]) simp_all

lemma Submit_non_retryable:
  assumes "attempt t = 0" and "k \<le> maxAttempts cfg"
    and "\<forall>a<k. exec a = RetryableError" and "exec k = NonRetryableError"
  shows "Submit cfg exec js t
           = (Failed, map (\<lambda>a. (a + 1, backoffDelay cfg js a)) [0..<k])"
  unfolding Submit_retry_then [OF assms(1,2,3)]
  by (simp add: executeWithRetry_stops(1) [where exec = exec and n = k, OF assms(4)])

lemma Submit_succeeds:
  assumes "attempt t = 0" and "k \<le> maxAttempts cfg"
    and "\<forall>a<k. exec a = RetryableError" and "exec k = Succeeded"
  shows "Submit cfg exec js t
           = (Completed, map (\<lambda>a. (a + 1, backoffDelay cfg js a)) [0..<k])"
  unfolding Submit_retry_then [OF assms(1,2,3)]
  by (simp add: executeWithRetry_stops(2) [where exec = exec and n = k, OF assms(4)])

lemma backoffBase_mono: "m \<le> n \<Longrightarrow> backoffBase cfg m \<le> backoffBase cfg n"
proof -
  assume "m \<le> n"
  then have "(2::nat) ^ m \<le> 2 ^ n" by (simp add: power_increasing)
  then have "baseDelay cfg * 2 ^ m \<le> baseDelay cfg * 2 ^ n" by simp
  then show ?thesis unfolding backoffBase_def by (simp add: min.coboundedI1)
qed

lemma backoffDelay_le_cap: "backoffDelay cfg js n \<le> maxDelay cfg"
  unfolding backoffDelay_def by simp

lemma backoffBase_le_delay: "backoffBase cfg n \<le> backoffDelay cfg js n"
  unfolding backoffDelay_def backoffBase_def by (simp add: min.coboundedI1)

lemma backoffDelay_le_next: "backoffDelay cfg js n \<le> backoffBase cfg (n + 1)"
proof -
  have "baseDelay cfg * 2 ^ n + min (jitterAt js n) (baseDelay cfg * 2 ^ n)
          \<le> baseDelay cfg * 2 ^ n + baseDelay cfg * 2 ^ n"
    by simp
  also have "\<dots> = baseDelay cfg * 2 ^ (n + 1)" by simp
  finally show ?thesis unfolding backoffDelay_def backoffBase_def
    by (simp add: min.coboundedI1)
qed

lemma backoffDelay_mono:
  assumes "m \<le> n"
  shows "backoffDelay cfg js m \<le> backoffDelay cfg js n"
proof (cases "m = n")
  case True
  then show ?thesis by simp
next
  case False
  with assms have "m + 1 \<le> n" by simp
  have "backoffDelay cfg js m \<le> backoffBase cfg (m + 1)" by (rule backoffDelay_le_next)
  also have "\<dots> \<le> backoffBase cfg n" using \<open>m + 1 \<le> n\<close> by (rule backoffBase_mono)
  also have "\<dots> \<le> backoffDelay cfg js n" by (rule backoffBase_le_delay)
  finally show ?thesis .
qed

lemma backoffDelay_adds_jitter:
  assumes "jitterAt js n \<le> baseDelay cfg * 2 ^ n"
    and "baseDelay cfg * 2 ^ n + jitterAt js n \<le> maxDelay cfg"
  shows "backoffDelay cfg js n = baseDelay cfg * 2 ^ n + jitterAt js n"
  unfolding backoffDelay_def using assms by (simp add: min_def)

lemma sorted_map_upt:
  fixes f :: "nat \<Rightarrow> nat"
  assumes "\<And>m n. m \<le> n \<Longrightarrow> n < N \<Longrightarrow> f m \<le> f n"
  shows "sorted (map f [0..<N])"
  unfolding sorted_iff_nth_mono using assms by simp

lemma backoffDelay_sorted: "sorted (map (backoffDelay cfg js) [0..<N])"
  by (rule sorted_map_upt) (rule backoffDelay_mono)

lemma dedup_count:
  "length (filter (\<lambda>e. taskID (dlqTask e) = k) (dedupByTaskID es))
     = (if \<exists>e \<in> set es. taskID (dlqTask e) = k then 1 else 0)"
proof (induction es rule: dedupByTaskID.induct)
  case 1
  show ?case by simp
next
  case (2 e es)
  show ?case
  proof (cases "taskID (dlqTask e) = k")
    case True
    then have "\<not> (\<exists>x \<in> set (filter (\<lambda>x. taskID (dlqTask x) \<noteq> taskID (dlqTask e)) es).
                 taskID (dlqTask x) = k)"
      by simp
    with "2.IH" True show ?thesis by simp
  next
    case False
    then have "(\<exists>x \<in> set (filter (\<lambda>x. taskID (dlqTask x) \<noteq> taskID (dlqTask e)) es).
                 taskID (dlqTask x) = k)
             = (\<exists>x \<in> set es. taskID (dlqTask x) = k)"
      by auto
    with "2.IH" False show ?thesis by simp
  qed
qed

lemma find_filter_other:
  assumes "\<And>x. P x \<Longrightarrow> Q x"
  shows "List.find P (filter Q xs) = List.find P xs"
  using assms by (induction xs) auto

lemma find_append_first:
  "List.find P xs = None \<Longrightarrow> P y \<Longrightarrow> List.find P (xs @ y # ys) = Some y"
  by (induction xs) (auto split: if_splits)

text \<open>Of the entries of one task ID, the deduplication keeps the first.\<close>

lemma dedup_first:
  "filter (\<lambda>e. taskID (dlqTask e) = k) (dedupByTaskID es)
     = (case List.find (\<lambda>e. taskID (dlqTask e) = k) es of None \<Rightarrow> [] | Some e \<Rightarrow> [e])"
proof (induction es rule: dedupByTaskID.induct)
  case 1
  show ?case by simp
next
  case (2 e es)
  let ?rest = "filter (\<lambda>x. taskID (dlqTask x) \<noteq> taskID (dlqTask e)) es"
  show ?case
  proof (cases "taskID (dlqTask e) = k")
    case True
    then have "List.find (\<lambda>x. taskID (dlqTask x) = k) ?rest = None"
      by (simp add: find_None_iff)
    with "2.IH" True show ?thesis by simp
  next
    case False
    then have "List.find (\<lambda>x. taskID (dlqTask x) = k) ?rest
                 = List.find (\<lambda>x. taskID (dlqTask x) = k) es"
      by (intro find_filter_other) auto
    with "2.IH" False show ?thesis by simp
  qed
qed

lemma routeToDLQ_has: "\<exists>e \<in> set (routeToDLQ t reason now again dlq). dlqTask e = t"
proof (induction again arbitrary: now dlq)
  case 0
  show ?case by (simp add: Enqueue_def)
next
  case (Suc again)
  from Suc.IH [of "now + 1" "Enqueue t reason now dlq"] show ?case by simp
qed

lemma routeToDLQ_length:
  "length (routeToDLQ t reason now again dlq) = length dlq + again + 1"
  by (induction again arbitrary: now dlq) (simp_all add: Enqueue_def)

lemma routeToDLQ_first:
  "\<exists>later. routeToDLQ t reason now again dlq
              = dlq @ \<lparr>dlqTask = t, failureReason = reason, firstFailedAt = now\<rparr> # later"
proof (induction again arbitrary: now dlq)
  case 0
  show ?case by (simp add: Enqueue_def)
next
  case (Suc again)
  from Suc.IH [of "now + 1" "Enqueue t reason now dlq"]
  obtain later where "routeToDLQ t reason (now + 1) again (Enqueue t reason now dlq)
      = Enqueue t reason now dlq
          @ \<lparr>dlqTask = t, failureReason = reason, firstFailedAt = now + 1\<rparr> # later"
    by blast
  then have "routeToDLQ t reason now (Suc again) dlq
      = dlq @ \<lparr>dlqTask = t, failureReason = reason, firstFailedAt = now\<rparr>
            # (\<lparr>dlqTask = t, failureReason = reason, firstFailedAt = now + 1\<rparr> # later)"
    by (simp add: Enqueue_def)
  then show ?case by blast
qed

lemma Read_routed:
  "length (filter (\<lambda>e. taskID (dlqTask e) = taskID t)
             (Read (category t) (routeToDLQ t reason now again dlq))) = 1"
proof -
  from routeToDLQ_has [of t reason now again dlq]
  obtain e where "e \<in> set (routeToDLQ t reason now again dlq)" and "dlqTask e = t" by blast
  then have "\<exists>e \<in> set (filter (\<lambda>e. category (dlqTask e) = category t)
                        (routeToDLQ t reason now again dlq)).
               taskID (dlqTask e) = taskID t"
    by auto
  then show ?thesis unfolding Read_def dedup_count by simp
qed

lemma Read_routed_entry:
  assumes "\<forall>e \<in> set dlq. taskID (dlqTask e) \<noteq> taskID t"
  shows "filter (\<lambda>e. taskID (dlqTask e) = taskID t)
           (Read (category t) (routeToDLQ t reason now again dlq))
         = [\<lparr>dlqTask = t, failureReason = reason, firstFailedAt = now\<rparr>]"
proof -
  let ?E = "\<lparr>dlqTask = t, failureReason = reason, firstFailedAt = now\<rparr>"
  from routeToDLQ_first [of t reason now again dlq]
  obtain later where r: "routeToDLQ t reason now again dlq = dlq @ ?E # later" by blast
  let ?c = "\<lambda>e. category (dlqTask e) = category t"
  have "List.find (\<lambda>e. taskID (dlqTask e) = taskID t) (filter ?c dlq) = None"
    using assms by (simp add: find_None_iff)
  then have "List.find (\<lambda>e. taskID (dlqTask e) = taskID t)
               (filter ?c dlq @ ?E # filter ?c later) = Some ?E"
    by (rule find_append_first) simp
  then show ?thesis unfolding Read_def r dedup_first by simp
qed

lemma processTask_failed:
  assumes "fst (Submit cfg exec js t) = Failed"
  shows "length (filter (\<lambda>e. taskID (dlqTask e) = taskID t)
                   (Read (category t) (processTask cfg exec js again t dlq))) = 1"
    and "length (processTask cfg exec js again t dlq) = length dlq + again + 1"
    and "\<forall>e \<in> set dlq. taskID (dlqTask e) \<noteq> taskID t \<Longrightarrow>
           filter (\<lambda>e. taskID (dlqTask e) = taskID t)
             (Read (category t) (processTask cfg exec js again t dlq))
           = [\<lparr>dlqTask = t, failureReason = ''reported failed'', firstFailedAt = 0\<rparr>]"
  unfolding processTask_def assms
  by (simp_all add: Read_routed routeToDLQ_length Read_routed_entry)

lemma processTask_completed:
  assumes "fst (Submit cfg exec js t) = Completed"
  shows "processTask cfg exec js again t dlq = dlq"
  unfolding processTask_def assms by simp

text \<open>
  Claim C2. A task submitted with attempt 0 whose every execution fails retryably is
  re-submitted exactly \<open>maxAttempts\<close> times, with attempts 1 to \<open>maxAttempts\<close>, each time
  after the backoff delay of the attempt that failed, and is then reported failed; its
  delays are nondecreasing. For every draw of the jitter the delay is nondecreasing in the
  attempt, at least the capped exponential and at most the cap, and it is the exponential
  plus the jitter drawn when the jitter is at most the exponential and the sum is within the
  cap. A task whose executions fail retryably \<open>k\<close> times and then fail with a
  non-retryable error is re-submitted \<open>k\<close> times and reported failed (with \<open>k = 0\<close>, without
  any re-submission); one whose execution then succeeds is reported completed. A task
  reported failed is routed to the DLQ: however often it is enqueued there, a read of its
  category shows one entry with its task ID, and that entry is the task as first enqueued
  when the DLQ held no entry with its ID before. A completed task leaves the DLQ as it was.
\<close>

theorem retry_then_DLQ_once:
  "(attempt t = 0 \<longrightarrow>
      Submit cfg alwaysRetryable js t
        = (Failed, map (\<lambda>a. (a + 1, backoffDelay cfg js a)) [0..<maxAttempts cfg])
    \<and> length (snd (Submit cfg alwaysRetryable js t)) = maxAttempts cfg
    \<and> map fst (snd (Submit cfg alwaysRetryable js t)) = map Suc [0..<maxAttempts cfg]
    \<and> sorted (map snd (snd (Submit cfg alwaysRetryable js t)))
    \<and> length (filter (\<lambda>e. taskID (dlqTask e) = taskID t)
                 (Read (category t) (processTask cfg alwaysRetryable js again t dlq))) = 1)
 \<and> (m \<le> n \<longrightarrow> backoffDelay cfg js m \<le> backoffDelay cfg js n)
 \<and> backoffBase cfg n \<le> backoffDelay cfg js n
 \<and> backoffDelay cfg js n \<le> maxDelay cfg
 \<and> (jitterAt js n \<le> baseDelay cfg * 2 ^ n
      \<and> baseDelay cfg * 2 ^ n + jitterAt js n \<le> maxDelay cfg \<longrightarrow>
      backoffDelay cfg js n = baseDelay cfg * 2 ^ n + jitterAt js n)
 \<and> (attempt t = 0 \<and> k \<le> maxAttempts cfg \<and> (\<forall>a<k. exec a = RetryableError)
      \<and> exec k = NonRetryableError \<longrightarrow>
      Submit cfg exec js t
        = (Failed, map (\<lambda>a. (a + 1, backoffDelay cfg js a)) [0..<k]))
 \<and> (attempt t = 0 \<and> k \<le> maxAttempts cfg \<and> (\<forall>a<k. exec a = RetryableError)
      \<and> exec k = Succeeded \<longrightarrow>
      Submit cfg exec js t
        = (Completed, map (\<lambda>a. (a + 1, backoffDelay cfg js a)) [0..<k]))
 \<and> (fst (Submit cfg exec js t) = Failed \<longrightarrow>
      length (filter (\<lambda>e. taskID (dlqTask e) = taskID t)
                (Read (category t) (processTask cfg exec js again t dlq))) = 1
    \<and> length (processTask cfg exec js again t dlq) = length dlq + again + 1
    \<and> ((\<forall>e \<in> set dlq. taskID (dlqTask e) \<noteq> taskID t) \<longrightarrow>
         filter (\<lambda>e. taskID (dlqTask e) = taskID t)
           (Read (category t) (processTask cfg exec js again t dlq))
         = [\<lparr>dlqTask = t, failureReason = ''reported failed'', firstFailedAt = 0\<rparr>]))
 \<and> (fst (Submit cfg exec js t) = Completed \<longrightarrow>
      processTask cfg exec js again t dlq = dlq)"
proof (intro conjI impI)
  assume z: "attempt t = 0"
  then show s: "Submit cfg alwaysRetryable js t
        = (Failed, map (\<lambda>a. (a + 1, backoffDelay cfg js a)) [0..<maxAttempts cfg])"
    by (rule Submit_always_retryable)
  show "length (snd (Submit cfg alwaysRetryable js t)) = maxAttempts cfg"
    unfolding s by simp
  show "map fst (snd (Submit cfg alwaysRetryable js t)) = map Suc [0..<maxAttempts cfg]"
    unfolding s by simp
  have "map snd (map (\<lambda>a. (a + 1, backoffDelay cfg js a)) [0..<maxAttempts cfg])
          = map (backoffDelay cfg js) [0..<maxAttempts cfg]"
    by simp
  moreover have "sorted (map (backoffDelay cfg js) [0..<maxAttempts cfg])"
    by (rule backoffDelay_sorted)
  ultimately show "sorted (map snd (snd (Submit cfg alwaysRetryable js t)))"
    unfolding s by (simp add: comp_def)
  have "fst (Submit cfg alwaysRetryable js t) = Failed" unfolding s by simp
  then show "length (filter (\<lambda>e. taskID (dlqTask e) = taskID t)
                 (Read (category t) (processTask cfg alwaysRetryable js again t dlq))) = 1"
    by (rule processTask_failed(1))
next
  assume "m \<le> n"
  then show "backoffDelay cfg js m \<le> backoffDelay cfg js n" by (rule backoffDelay_mono)
next
  show "backoffBase cfg n \<le> backoffDelay cfg js n" by (rule backoffBase_le_delay)
next
  show "backoffDelay cfg js n \<le> maxDelay cfg" by (rule backoffDelay_le_cap)
next
  assume "jitterAt js n \<le> baseDelay cfg * 2 ^ n
      \<and> baseDelay cfg * 2 ^ n + jitterAt js n \<le> maxDelay cfg"
  then have "jitterAt js n \<le> baseDelay cfg * 2 ^ n"
    and "baseDelay cfg * 2 ^ n + jitterAt js n \<le> maxDelay cfg" by simp_all
  then show "backoffDelay cfg js n = baseDelay cfg * 2 ^ n + jitterAt js n"
    by (rule backoffDelay_adds_jitter)
next
  assume "attempt t = 0 \<and> k \<le> maxAttempts cfg \<and> (\<forall>a<k. exec a = RetryableError)
      \<and> exec k = NonRetryableError"
  then have "attempt t = 0" and "k \<le> maxAttempts cfg"
    and "\<forall>a<k. exec a = RetryableError" and "exec k = NonRetryableError" by simp_all
  then show "Submit cfg exec js t
        = (Failed, map (\<lambda>a. (a + 1, backoffDelay cfg js a)) [0..<k])"
    by (rule Submit_non_retryable)
next
  assume "attempt t = 0 \<and> k \<le> maxAttempts cfg \<and> (\<forall>a<k. exec a = RetryableError)
      \<and> exec k = Succeeded"
  then have "attempt t = 0" and "k \<le> maxAttempts cfg"
    and "\<forall>a<k. exec a = RetryableError" and "exec k = Succeeded" by simp_all
  then show "Submit cfg exec js t
        = (Completed, map (\<lambda>a. (a + 1, backoffDelay cfg js a)) [0..<k])"
    by (rule Submit_succeeds)
next
  assume f: "fst (Submit cfg exec js t) = Failed"
  then show "length (filter (\<lambda>e. taskID (dlqTask e) = taskID t)
                (Read (category t) (processTask cfg exec js again t dlq))) = 1"
    by (rule processTask_failed(1))
  from f show "length (processTask cfg exec js again t dlq) = length dlq + again + 1"
    by (rule processTask_failed(2))
  assume "\<forall>e \<in> set dlq. taskID (dlqTask e) \<noteq> taskID t"
  with f show "filter (\<lambda>e. taskID (dlqTask e) = taskID t)
           (Read (category t) (processTask cfg exec js again t dlq))
         = [\<lparr>dlqTask = t, failureReason = ''reported failed'', firstFailedAt = 0\<rparr>]"
    by (rule processTask_failed(3))
next
  assume "fst (Submit cfg exec js t) = Completed"
  then show "processTask cfg exec js again t dlq = dlq" by (rule processTask_completed)
qed

theorem retry_then_DLQ_once_witness:
  "(let cfg = \<lparr>baseDelay = 1, maxDelay = 8, maxAttempts = 3\<rparr>;
        t = \<lparr>category = TimerTask, domainID = ''d1'', taskID = 42, attempt = 0\<rparr>;
        once = (\<lambda>a. if a < 1 then RetryableError else NonRetryableError);
        twice = (\<lambda>a. if a < 2 then RetryableError else Succeeded)
    in attempt t = 0
     \<and> Submit cfg alwaysRetryable [1, 0, 5] t = (Failed, [(1, 2), (2, 2), (3, 8)])
     \<and> length (snd (Submit cfg alwaysRetryable [1, 0, 5] t)) = 3
     \<and> sorted (map snd (snd (Submit cfg alwaysRetryable [1, 0, 5] t)))
     \<and> length (filter (\<lambda>e. taskID (dlqTask e) = 42)
                  (Read TimerTask (processTask cfg alwaysRetryable [1, 0, 5] 2 t []))) = 1
     \<and> backoffDelay cfg [1, 0, 5] 0 \<le> backoffDelay cfg [1, 0, 5] 1
     \<and> backoffDelay cfg [1, 0, 5] 1 = 2 + jitterAt [1, 0, 5] 1
     \<and> once 1 = NonRetryableError
     \<and> Submit cfg once [1, 0, 5] t = (Failed, [(1, 2)])
     \<and> twice 2 = Succeeded
     \<and> Submit cfg twice [1, 0, 5] t = (Completed, [(1, 2), (2, 2)])
     \<and> length (processTask cfg once [1, 0, 5] 2 t []) = 3
     \<and> filter (\<lambda>e. taskID (dlqTask e) = 42)
         (Read TimerTask (processTask cfg once [1, 0, 5] 2 t []))
       = [\<lparr>dlqTask = t, failureReason = ''reported failed'', firstFailedAt = 0\<rparr>]
     \<and> processTask cfg twice [1, 0, 5] 2 t [] = [])"
proof -
  define cfg where "cfg = \<lparr>baseDelay = 1, maxDelay = 8, maxAttempts = 3\<rparr>"
  define t where
    "t = \<lparr>category = TimerTask, domainID = ''d1'', taskID = 42, attempt = 0\<rparr>"
  define js :: "nat list" where "js = [1, 0, 5]"
  define once where "once = (\<lambda>a::nat. if a < 1 then RetryableError else NonRetryableError)"
  define twice where "twice = (\<lambda>a::nat. if a < 2 then RetryableError else Succeeded)"
  have h1: "attempt t = 0" by (simp add: t_def)
  have d0: "backoffDelay cfg js 0 = 2" and d1: "backoffDelay cfg js (Suc 0) = 2"
    and d2: "backoffDelay cfg js (Suc (Suc 0)) = 8"
    by (simp_all add: cfg_def js_def backoffDelay_def jitterAt_def)
  have j1: "jitterAt js (Suc 0) = 0" by (simp add: js_def jitterAt_def)
  have ma: "maxAttempts cfg = 3" by (simp add: cfg_def)
  note always = retry_then_DLQ_once [where t = t and cfg = cfg and js = js and again = 2
      and dlq = "[]", THEN conjunct1, THEN mp, OF h1]
  have "Submit cfg alwaysRetryable js t
        = (Failed, map (\<lambda>a. (a + 1, backoffDelay cfg js a)) [0..<maxAttempts cfg])"
    by (rule always [THEN conjunct1])
  then have r1: "Submit cfg alwaysRetryable js t = (Failed, [(1, 2), (2, 2), (3, 8)])"
    by (simp add: ma numeral_3_eq_3 d0 d1 d2)
  have "length (snd (Submit cfg alwaysRetryable js t)) = maxAttempts cfg"
    by (rule always [THEN conjunct2, THEN conjunct1])
  then have r2: "length (snd (Submit cfg alwaysRetryable js t)) = 3"
    by (simp add: cfg_def)
  have r3: "sorted (map snd (snd (Submit cfg alwaysRetryable js t)))"
    by (rule always [THEN conjunct2, THEN conjunct2, THEN conjunct2, THEN conjunct1])
  have "length (filter (\<lambda>e. taskID (dlqTask e) = taskID t)
                 (Read (category t) (processTask cfg alwaysRetryable js 2 t []))) = 1"
    by (rule always [THEN conjunct2, THEN conjunct2, THEN conjunct2, THEN conjunct2])
  then have r4: "length (filter (\<lambda>e. taskID (dlqTask e) = 42)
                  (Read TimerTask (processTask cfg alwaysRetryable js 2 t []))) = 1"
    by (simp add: t_def)
  note delays = retry_then_DLQ_once [where cfg = cfg and js = js and m = 0 and n = 1,
      THEN conjunct2]
  have r5: "backoffDelay cfg js 0 \<le> backoffDelay cfg js 1"
    by (rule delays [THEN conjunct1, THEN mp]) simp
  have "backoffDelay cfg js 1 = baseDelay cfg * 2 ^ 1 + jitterAt js 1"
    by (rule delays [THEN conjunct2, THEN conjunct2, THEN conjunct2, THEN conjunct1,
          THEN mp])
       (simp add: cfg_def j1)
  then have r6: "backoffDelay cfg js 1 = 2 + jitterAt js 1" by (simp add: cfg_def)
  note stops = retry_then_DLQ_once [where t = t and cfg = cfg and js = js and again = 2
      and dlq = "[]" and exec = once and k = 1, THEN conjunct2, THEN conjunct2,
      THEN conjunct2, THEN conjunct2, THEN conjunct2]
  have o1: "once 1 = NonRetryableError" by (simp add: once_def)
  have "Submit cfg once js t
        = (Failed, map (\<lambda>a. (a + 1, backoffDelay cfg js a)) [0..<1])"
    by (rule stops [THEN conjunct1, THEN mp]) (simp add: t_def cfg_def once_def)
  then have r7: "Submit cfg once js t = (Failed, [(1, 2)])" by (simp add: d0)
  then have f7: "fst (Submit cfg once js t) = Failed" by simp
  note routed = stops [THEN conjunct2, THEN conjunct2, THEN conjunct1, THEN mp, OF f7]
  have r8: "length (processTask cfg once js 2 t []) = 3"
    using routed [THEN conjunct2, THEN conjunct1] by simp
  have "filter (\<lambda>e. taskID (dlqTask e) = taskID t)
           (Read (category t) (processTask cfg once js 2 t []))
         = [\<lparr>dlqTask = t, failureReason = ''reported failed'', firstFailedAt = 0\<rparr>]"
    by (rule routed [THEN conjunct2, THEN conjunct2, THEN mp]) simp
  then have r9: "filter (\<lambda>e. taskID (dlqTask e) = 42)
         (Read TimerTask (processTask cfg once js 2 t []))
       = [\<lparr>dlqTask = t, failureReason = ''reported failed'', firstFailedAt = 0\<rparr>]"
    by (simp add: t_def)
  note ends = retry_then_DLQ_once [where t = t and cfg = cfg and js = js and again = 2
      and dlq = "[]" and exec = twice and k = 2, THEN conjunct2, THEN conjunct2,
      THEN conjunct2, THEN conjunct2, THEN conjunct2, THEN conjunct2]
  have o2: "twice 2 = Succeeded" by (simp add: twice_def)
  have "Submit cfg twice js t
        = (Completed, map (\<lambda>a. (a + 1, backoffDelay cfg js a)) [0..<2])"
    by (rule ends [THEN conjunct1, THEN mp]) (simp add: t_def cfg_def twice_def)
  then have r10: "Submit cfg twice js t = (Completed, [(1, 2), (2, 2)])"
    by (simp add: numeral_2_eq_2 d0 d1)
  then have f10: "fst (Submit cfg twice js t) = Completed" by simp
  have r11: "processTask cfg twice js 2 t [] = []"
    using f10 by (rule ends [THEN conjunct2, THEN conjunct2, THEN mp])
  have goal: "attempt t = 0
     \<and> Submit cfg alwaysRetryable js t = (Failed, [(1, 2), (2, 2), (3, 8)])
     \<and> length (snd (Submit cfg alwaysRetryable js t)) = 3
     \<and> sorted (map snd (snd (Submit cfg alwaysRetryable js t)))
     \<and> length (filter (\<lambda>e. taskID (dlqTask e) = 42)
                  (Read TimerTask (processTask cfg alwaysRetryable js 2 t []))) = 1
     \<and> backoffDelay cfg js 0 \<le> backoffDelay cfg js 1
     \<and> backoffDelay cfg js 1 = 2 + jitterAt js 1
     \<and> once 1 = NonRetryableError
     \<and> Submit cfg once js t = (Failed, [(1, 2)])
     \<and> twice 2 = Succeeded
     \<and> Submit cfg twice js t = (Completed, [(1, 2), (2, 2)])
     \<and> length (processTask cfg once js 2 t []) = 3
     \<and> filter (\<lambda>e. taskID (dlqTask e) = 42)
         (Read TimerTask (processTask cfg once js 2 t []))
       = [\<lparr>dlqTask = t, failureReason = ''reported failed'', firstFailedAt = 0\<rparr>]
     \<and> processTask cfg twice js 2 t [] = []"
    by (intro conjI h1 r1 r2 r3 r4 r5 r6 o1 r7 o2 r10 r8 r9 r11)
  show ?thesis
    unfolding Let_def
    using goal unfolding cfg_def t_def js_def once_def twice_def .
qed

subsection \<open>Split and merge\<close>

lemma splitFilter_domains:
  "domains (fst (splitFilter F D)) = domains F \<inter> D"
  "domains (snd (splitFilter F D)) = domains F - D"
  by (cases F; auto)+

lemma unionFilter_domains: "domains (unionFilter A B) = domains A \<union> domains B"
  by (cases A; cases B; auto)

lemma unionFilter_splitFilter:
  "unionFilter (fst (splitFilter F D)) (snd (splitFilter F D)) = F"
  by (cases F; auto)

lemma covered_Nil: "covered [] = {}"
  by (simp add: covered_def)

lemma covered_Cons: "covered (q # qs) = domains (domainFilter q) \<union> covered qs"
  by (simp add: covered_def)

lemma covered_append: "covered (xs @ ys) = covered xs \<union> covered ys"
  by (induction xs) (auto simp: covered_Nil covered_Cons)

lemma covered_member: "q \<in> set qs \<Longrightarrow> domains (domainFilter q) \<subseteq> covered qs"
  by (auto simp: covered_def)

lemma disjointFilters_append:
  "disjointFilters (xs @ ys) =
     (disjointFilters xs \<and> disjointFilters ys
      \<and> (\<forall>x \<in> set xs. \<forall>y \<in> set ys.
            domains (domainFilter x) \<inter> domains (domainFilter y) = {}))"
  by (induction xs) auto

lemma Split_partition:
  "covered (Split q D) = domains (domainFilter q)"
  "disjointFilters (Split q D)"
  by (auto simp: Split_def covered_Cons covered_Nil splitFilter_domains)

lemma SplitMany_covered: "covered (SplitMany q Ds) = domains (domainFilter q)"
proof (induction Ds arbitrary: q)
  case Nil
  show ?case by (simp add: covered_Cons covered_Nil)
next
  case (Cons D Ds)
  show ?case
    by (auto simp: covered_Cons Cons.IH splitFilter_domains)
qed

lemma SplitMany_disjoint: "disjointFilters (SplitMany q Ds)"
proof (induction Ds arbitrary: q)
  case Nil
  show ?case by simp
next
  case (Cons D Ds)
  let ?rest = "q\<lparr>domainFilter := snd (splitFilter (domainFilter q) D)\<rparr>"
  have "\<forall>r \<in> set (SplitMany ?rest Ds).
          domains (fst (splitFilter (domainFilter q) D)) \<inter> domains (domainFilter r) = {}"
  proof
    fix r assume "r \<in> set (SplitMany ?rest Ds)"
    then have "domains (domainFilter r) \<subseteq> covered (SplitMany ?rest Ds)"
      by (rule covered_member)
    then have "domains (domainFilter r) \<subseteq> domains (domainFilter q) - D"
      by (simp add: SplitMany_covered splitFilter_domains)
    then show "domains (fst (splitFilter (domainFilter q) D)) \<inter> domains (domainFilter r) = {}"
      by (auto simp: splitFilter_domains)
  qed
  then show ?case using Cons.IH [of ?rest] by simp
qed

lemma SplitMany_length: "length (SplitMany q Ds) = length Ds + 1"
  by (induction Ds arbitrary: q) simp_all

lemma SplitMany_levels:
  "r \<in> set (SplitMany q Ds) \<Longrightarrow> ackLevel r = ackLevel q \<and> maxLevel r = maxLevel q"
proof (induction Ds arbitrary: q)
  case Nil
  then show ?case by simp
next
  case (Cons D Ds)
  then show ?case by fastforce
qed

lemma Merge_Split:
  assumes "Split q D = [a, b]"
  shows "Merge a b = Some q"
proof -
  from assms have a: "a = q\<lparr>domainFilter := fst (splitFilter (domainFilter q) D)\<rparr>"
    and b: "b = q\<lparr>domainFilter := snd (splitFilter (domainFilter q) D)\<rparr>"
    by (simp_all add: Split_def)
  show ?thesis unfolding a b by (simp add: Merge_def unionFilter_splitFilter)
qed

lemma Merge_defined: "(Merge a b \<noteq> None) = (ackLevel a = ackLevel b)"
  by (simp add: Merge_def)

lemma Merge_domains:
  assumes "Merge a b = Some m"
  shows "domains (domainFilter m) = domains (domainFilter a) \<union> domains (domainFilter b)"
    and "ackLevel m = ackLevel a" and "ackLevel m = ackLevel b"
  using assms by (auto simp: Merge_def unionFilter_domains split: if_splits)

lemma two_positions:
  assumes "i < j" and "j < length qs"
  shows "qs = take i qs @ qs ! i # take (j - Suc i) (drop (Suc i) qs) @ qs ! j # drop (Suc j) qs"
proof -
  have i: "i < length qs" using assms by simp
  have j: "j - Suc i < length (drop (Suc i) qs)" using assms by simp
  have "drop (Suc i) qs
        = take (j - Suc i) (drop (Suc i) qs) @ drop (Suc i) qs ! (j - Suc i)
          # drop (Suc (j - Suc i)) (drop (Suc i) qs)"
    using j by (rule id_take_nth_drop)
  moreover have "drop (Suc i) qs ! (j - Suc i) = qs ! j" using assms by simp
  moreover have "drop (Suc (j - Suc i)) (drop (Suc i) qs) = drop (Suc j) qs"
    using assms by simp
  ultimately have "drop (Suc i) qs
        = take (j - Suc i) (drop (Suc i) qs) @ qs ! j # drop (Suc j) qs"
    by simp
  with id_take_nth_drop [OF i] show ?thesis by simp
qed

lemma merge_in_place:
  assumes "domains (domainFilter m) = domains (domainFilter a) \<union> domains (domainFilter b)"
  shows "covered (xs @ m # ys @ zs) = covered (xs @ a # ys @ b # zs)"
    and "disjointFilters (xs @ a # ys @ b # zs) \<Longrightarrow> disjointFilters (xs @ m # ys @ zs)"
proof -
  show "covered (xs @ m # ys @ zs) = covered (xs @ a # ys @ b # zs)"
    using assms by (auto simp: covered_append covered_Cons)
  assume d: "disjointFilters (xs @ a # ys @ b # zs)"
  then have "disjointFilters xs" and "disjointFilters ys" and "disjointFilters zs"
    and "\<forall>y \<in> set ys. \<forall>z \<in> set zs. domains (domainFilter y) \<inter> domains (domainFilter z) = {}"
    and xa: "\<forall>x \<in> set xs. domains (domainFilter x) \<inter> domains (domainFilter a) = {}"
    and xb: "\<forall>x \<in> set xs. domains (domainFilter x) \<inter> domains (domainFilter b) = {}"
    and "\<forall>x \<in> set xs. \<forall>y \<in> set ys. domains (domainFilter x) \<inter> domains (domainFilter y) = {}"
    and "\<forall>x \<in> set xs. \<forall>z \<in> set zs. domains (domainFilter x) \<inter> domains (domainFilter z) = {}"
    and ay: "\<forall>y \<in> set ys. domains (domainFilter a) \<inter> domains (domainFilter y) = {}"
    and az: "\<forall>z \<in> set zs. domains (domainFilter a) \<inter> domains (domainFilter z) = {}"
    and yb: "\<forall>y \<in> set ys. domains (domainFilter y) \<inter> domains (domainFilter b) = {}"
    and bz: "\<forall>z \<in> set zs. domains (domainFilter b) \<inter> domains (domainFilter z) = {}"
    by (auto simp: disjointFilters_append)
  moreover have "\<forall>x \<in> set xs. domains (domainFilter x) \<inter> domains (domainFilter m) = {}"
    using xa xb assms by auto
  moreover have "\<forall>y \<in> set ys. domains (domainFilter m) \<inter> domains (domainFilter y) = {}"
    using ay yb assms by auto
  moreover have "\<forall>z \<in> set zs. domains (domainFilter m) \<inter> domains (domainFilter z) = {}"
    using az bz assms by auto
  ultimately show "disjointFilters (xs @ m # ys @ zs)"
    by (simp add: disjointFilters_append ball_Un)
qed

lemma split_in_place:
  shows "covered (xs @ Split q D @ zs) = covered (xs @ q # zs)"
    and "disjointFilters (xs @ q # zs) \<Longrightarrow> disjointFilters (xs @ Split q D @ zs)"
proof -
  show "covered (xs @ Split q D @ zs) = covered (xs @ q # zs)"
    by (simp add: covered_append covered_Cons Split_partition)
  assume d: "disjointFilters (xs @ q # zs)"
  then have "disjointFilters xs" and "disjointFilters zs"
    and "\<forall>x \<in> set xs. \<forall>z \<in> set zs. domains (domainFilter x) \<inter> domains (domainFilter z) = {}"
    and xq: "\<forall>x \<in> set xs. domains (domainFilter x) \<inter> domains (domainFilter q) = {}"
    and qz: "\<forall>z \<in> set zs. domains (domainFilter q) \<inter> domains (domainFilter z) = {}"
    by (auto simp: disjointFilters_append)
  moreover have "\<forall>x \<in> set xs. \<forall>p \<in> set (Split q D).
      domains (domainFilter x) \<inter> domains (domainFilter p) = {}"
    using xq by (auto simp: Split_def splitFilter_domains)
  moreover have "\<forall>p \<in> set (Split q D). \<forall>z \<in> set zs.
      domains (domainFilter p) \<inter> domains (domainFilter z) = {}"
    using qz by (auto simp: Split_def splitFilter_domains)
  ultimately show "disjointFilters (xs @ Split q D @ zs)"
    by (simp add: disjointFilters_append ball_Un Split_partition)
qed

lemma resize_partition:
  "covered (resize r qs) = covered qs"
  "disjointFilters qs \<Longrightarrow> disjointFilters (resize r qs)"
proof -
  have "covered (resize r qs) = covered qs
      \<and> (disjointFilters qs \<longrightarrow> disjointFilters (resize r qs))"
  proof (cases r)
    case (SplitAt i D)
    show ?thesis
    proof (cases "i < length qs")
      case True
      then have qs: "qs = take i qs @ qs ! i # drop (Suc i) qs" by (rule id_take_nth_drop)
      have r: "resize r qs = take i qs @ Split (qs ! i) D @ drop (Suc i) qs"
        using SplitAt True by simp
      have "covered (resize r qs) = covered (take i qs @ qs ! i # drop (Suc i) qs)"
        unfolding r by (rule split_in_place(1))
      moreover have "disjointFilters (take i qs @ qs ! i # drop (Suc i) qs)
                     \<longrightarrow> disjointFilters (resize r qs)"
        unfolding r using split_in_place(2) by blast
      ultimately show ?thesis using qs by simp
    next
      case False
      with SplitAt show ?thesis by simp
    qed
  next
    case (MergeAt i j)
    show ?thesis
    proof (cases "i < j \<and> j < length qs")
      case True
      show ?thesis
      proof (cases "Merge (qs ! i) (qs ! j)")
        case None
        with MergeAt True show ?thesis by simp
      next
        case (Some m)
        let ?xs = "take i qs" and ?ys = "take (j - Suc i) (drop (Suc i) qs)"
          and ?zs = "drop (Suc j) qs"
        have qs: "qs = ?xs @ qs ! i # ?ys @ qs ! j # ?zs"
          using True by (intro two_positions) simp_all
        have r: "resize r qs = ?xs @ m # ?ys @ ?zs"
          using MergeAt True Some by simp
        have dm: "domains (domainFilter m)
                    = domains (domainFilter (qs ! i)) \<union> domains (domainFilter (qs ! j))"
          using Some by (rule Merge_domains(1))
        have "covered (resize r qs) = covered (?xs @ qs ! i # ?ys @ qs ! j # ?zs)"
          unfolding r using dm by (rule merge_in_place(1))
        moreover have "disjointFilters (?xs @ qs ! i # ?ys @ qs ! j # ?zs)
                       \<longrightarrow> disjointFilters (resize r qs)"
          unfolding r using merge_in_place(2) [OF dm] by blast
        ultimately show ?thesis using qs by simp
      qed
    next
      case False
      with MergeAt show ?thesis by auto
    qed
  qed
  then show "covered (resize r qs) = covered qs"
    and "disjointFilters qs \<Longrightarrow> disjointFilters (resize r qs)"
    by simp_all
qed

lemma resizes_partition:
  "covered (resizes rs qs) = covered qs"
  "disjointFilters qs \<Longrightarrow> disjointFilters (resizes rs qs)"
proof -
  show "covered (resizes rs qs) = covered qs"
    by (induction rs arbitrary: qs) (simp_all add: resize_partition(1))
  show "disjointFilters qs \<Longrightarrow> disjointFilters (resizes rs qs)"
    by (induction rs arbitrary: qs) (simp_all add: resize_partition(2))
qed

text \<open>
  Claim C3. The queues a split produces, two or more, have pairwise disjoint filters whose
  union is the filter of the queue split. Starting from one queue with the universal
  filter, after any sequence of splits and merges the filters of the live queues are
  pairwise disjoint and cover every domain. Merging the two queues of a split gives back
  the queue that was split; two queues merge exactly when their ack levels are equal, and
  the merged queue holds the domains of both at that level.
\<close>

theorem split_merge_partition:
  "covered (Split q D) = domains (domainFilter q) \<and> disjointFilters (Split q D)
 \<and> covered (SplitMany q Ds) = domains (domainFilter q) \<and> disjointFilters (SplitMany q Ds)
 \<and> length (SplitMany q Ds) = length Ds + 1
 \<and> (domains (domainFilter u) = UNIV \<longrightarrow>
       covered (resizes rs [u]) = UNIV \<and> disjointFilters (resizes rs [u]))
 \<and> (Split q D = [a, b] \<longrightarrow> Merge a b = Some q)
 \<and> (Merge c d \<noteq> None) = (ackLevel c = ackLevel d)
 \<and> (Merge c d = Some m \<longrightarrow>
       domains (domainFilter m) = domains (domainFilter c) \<union> domains (domainFilter d)
       \<and> ackLevel m = ackLevel c)"
proof (intro conjI impI)
  show "covered (Split q D) = domains (domainFilter q)" by (rule Split_partition(1))
  show "disjointFilters (Split q D)" by (rule Split_partition(2))
  show "covered (SplitMany q Ds) = domains (domainFilter q)" by (rule SplitMany_covered)
  show "disjointFilters (SplitMany q Ds)" by (rule SplitMany_disjoint)
  show "length (SplitMany q Ds) = length Ds + 1" by (rule SplitMany_length)
  show "(Merge c d \<noteq> None) = (ackLevel c = ackLevel d)" by (rule Merge_defined)
next
  assume u: "domains (domainFilter u) = UNIV"
  have "covered (resizes rs [u]) = covered [u]" by (rule resizes_partition(1))
  then show "covered (resizes rs [u]) = UNIV" using u by (simp add: covered_Cons)
  have "disjointFilters [u]" by simp
  then show "disjointFilters (resizes rs [u])" by (rule resizes_partition(2))
next
  assume "Split q D = [a, b]"
  then show "Merge a b = Some q" by (rule Merge_Split)
next
  assume m: "Merge c d = Some m"
  then show "domains (domainFilter m) = domains (domainFilter c) \<union> domains (domainFilter d)"
    by (rule Merge_domains(1))
  from m show "ackLevel m = ackLevel c" by (rule Merge_domains(2))
qed

theorem split_merge_partition_witness:
  "(let u = \<lparr>ackLevel = 10, maxLevel = 20, domainFilter = Exclude {}\<rparr>;
        a = \<lparr>ackLevel = 10, maxLevel = 20, domainFilter = Include {''busy''}\<rparr>;
        b = \<lparr>ackLevel = 10, maxLevel = 20, domainFilter = Exclude {''busy''}\<rparr>;
        rs = [SplitAt 0 {''busy''}, MergeAt 0 1, SplitAt 0 {''busy''}]
    in domains (domainFilter u) = UNIV
     \<and> Split u {''busy''} = [a, b]
     \<and> Merge a b = Some u
     \<and> resizes rs [u] = [a, b]
     \<and> covered (resizes rs [u]) = UNIV \<and> disjointFilters (resizes rs [u])
     \<and> domains (domainFilter u) = domains (domainFilter a) \<union> domains (domainFilter b)
     \<and> Merge a (b\<lparr>ackLevel := 11\<rparr>) = None)"
proof -
  define u where "u = \<lparr>ackLevel = 10, maxLevel = 20, domainFilter = Exclude {}\<rparr>"
  define a where "a = \<lparr>ackLevel = 10, maxLevel = 20, domainFilter = Include {''busy''}\<rparr>"
  define b where "b = \<lparr>ackLevel = 10, maxLevel = 20, domainFilter = Exclude {''busy''}\<rparr>"
  define rs where "rs = [SplitAt 0 {''busy''}, MergeAt 0 1, SplitAt 0 {''busy''}]"
  have h1: "domains (domainFilter u) = UNIV" by (simp add: u_def)
  have h2: "Split u {''busy''} = [a, b]" by (simp add: Split_def u_def a_def b_def)
  note inst = split_merge_partition [where q = u and D = "{''busy''}" and u = u
      and rs = rs and a = a and b = b and c = a and d = b and m = u]
  note rest = inst [THEN conjunct2, THEN conjunct2, THEN conjunct2, THEN conjunct2,
      THEN conjunct2]
  have r1: "covered (resizes rs [u]) = UNIV \<and> disjointFilters (resizes rs [u])"
    by (rule rest [THEN conjunct1, THEN mp]) (rule h1)
  have r2: "Merge a b = Some u"
    by (rule rest [THEN conjunct2, THEN conjunct1, THEN mp]) (rule h2)
  have r3: "domains (domainFilter u) = domains (domainFilter a) \<union> domains (domainFilter b)
       \<and> ackLevel u = ackLevel a"
    by (rule rest [THEN conjunct2, THEN conjunct2, THEN conjunct2, THEN mp]) (rule r2)
  have r4: "resizes rs [u] = [a, b]"
    using h2 r2 by (simp add: rs_def)
  have r5: "Merge a (b\<lparr>ackLevel := 11\<rparr>) = None"
    by (simp add: Merge_def a_def b_def)
  show ?thesis
    unfolding Let_def
    using h1 h2 r2 r4 r1 r3 r5
    unfolding u_def a_def b_def rs_def
    by (intro conjI) simp_all
qed

subsection \<open>Fencing\<close>

lemma acquire_stale_token:
  assumes "st sid = Some cur" and "token \<noteq> rangeID cur"
  shows "acquireWithToken st host sid token = Inl ShardOwnershipLost"
  using assms by (simp add: acquireWithToken_def UpdateShardInfo_def)

lemma acquire_success:
  assumes "acquireWithToken st host sid token = Inr st'"
  shows "\<exists>cur. st sid = Some cur \<and> rangeID cur = token
           \<and> st' = st(sid \<mapsto> \<lparr>shardID = sid, owner = host, rangeID = token + 1\<rparr>)"
  using assms
  by (auto simp: acquireWithToken_def UpdateShardInfo_def split: option.splits if_splits)

lemma write_after_acquire_rejected:
  assumes "acquireWithToken st host sid token = Inr st'" and "shardID info = sid"
  shows "UpdateShardInfo st' info token = Inl ShardOwnershipLost"
proof -
  from acquire_success [OF assms(1)]
  have "st' sid = Some \<lparr>shardID = sid, owner = host, rangeID = token + 1\<rparr>" by auto
  with assms(2) show ?thesis by (simp add: UpdateShardInfo_def)
qed

text \<open>
  What holds of a contest at every moment: each grant's \<^verbatim>\<open>rangeID\<close> is at most the stored
  one, and the grants, newest first, have strictly decreasing \<^verbatim>\<open>rangeID\<close>s.
\<close>

lemma acquireStep_grants:
  assumes "\<forall>g \<in> set (grants c). \<exists>cur. store c (shard c) = Some cur \<and> snd g \<le> rangeID cur"
    and "sorted_wrt (>) (map snd (grants c))"
  shows "(\<forall>g \<in> set (grants (acquireStep s c)).
            \<exists>cur. store (acquireStep s c) (shard (acquireStep s c)) = Some cur
                  \<and> snd g \<le> rangeID cur)
       \<and> sorted_wrt (>) (map snd (grants (acquireStep s c)))
       \<and> shard (acquireStep s c) = shard c"
proof (cases s)
  case (ReadToken host)
  with assms show ?thesis by (auto split: sum.splits)
next
  case (WriteBack host)
  show ?thesis
  proof (cases "tokens c host")
    case None
    with WriteBack assms show ?thesis by simp
  next
    case (Some token)
    show ?thesis
    proof (cases "acquireWithToken (store c) host (shard c) token")
      case (Inl err)
      with WriteBack Some assms show ?thesis by simp
    next
      case (Inr st')
      from acquire_success [OF Inr] obtain cur where
        cur: "store c (shard c) = Some cur" "rangeID cur = token"
        and st': "st' = (store c)(shard c \<mapsto>
                    \<lparr>shardID = shard c, owner = host, rangeID = token + 1\<rparr>)"
        by blast
      have old: "\<forall>g \<in> set (grants c). snd g \<le> token"
        using assms(1) cur by fastforce
      have step: "acquireStep s c =
                   c\<lparr>store := st', tokens := (tokens c)(host := None),
                     grants := (host, token + 1) # grants c\<rparr>"
        using WriteBack Some Inr by simp
      have "\<forall>g \<in> set ((host, token + 1) # grants c). snd g \<le> token + 1"
        using old by fastforce
      moreover have "sorted_wrt (>) (map snd ((host, token + 1) # grants c))"
        using old assms(2) by fastforce
      ultimately show ?thesis
        unfolding step using st' by simp
    qed
  qed
qed

lemma contest_grants:
  assumes "\<forall>g \<in> set (grants c). \<exists>cur. store c (shard c) = Some cur \<and> snd g \<le> rangeID cur"
    and "sorted_wrt (>) (map snd (grants c))"
  shows "sorted_wrt (>) (map snd (grants (contest ss c)))"
  using assms
proof (induction ss arbitrary: c)
  case Nil
  then show ?case by simp
next
  case (Cons s ss)
  from acquireStep_grants [OF Cons.prems, of s]
  have "\<forall>g \<in> set (grants (acquireStep s c)).
            \<exists>cur. store (acquireStep s c) (shard (acquireStep s c)) = Some cur
                  \<and> snd g \<le> rangeID cur"
    and "sorted_wrt (>) (map snd (grants (acquireStep s c)))"
    by blast+
  then have "sorted_wrt (>) (map snd (grants (contest ss (acquireStep s c))))"
    by (rule Cons.IH)
  then show ?case by simp
qed

lemma decreasing_distinct:
  fixes xs :: "int list"
  shows "sorted_wrt (>) xs \<Longrightarrow> distinct xs"
  by (induction xs) auto

lemma one_owner_per_rangeID:
  assumes "distinct (map snd gs)" and "(a, r) \<in> set gs" and "(b, r) \<in> set gs"
  shows "a = b"
proof -
  from assms(1) have "inj_on snd (set gs)" by (simp add: distinct_map)
  from inj_onD [OF this _ assms(2) assms(3)] show ?thesis by simp
qed

lemma two_hosts:
  assumes "store c (shard c) = Some cur" and "a \<noteq> b"
  shows "grants (contest [ReadToken a, ReadToken b, WriteBack a, WriteBack b] c)
           = (a, rangeID cur + 1) # grants c"
    and "grants (contest [ReadToken a, ReadToken b, WriteBack b, WriteBack a] c)
           = (b, rangeID cur + 1) # grants c"
  using assms
  by (simp_all add: GetShardInfo_def acquireWithToken_def UpdateShardInfo_def)

lemma AcquireShard_latest:
  assumes "st sid = Some cur"
  shows "AcquireShard st host sid
           = Inr (st(sid \<mapsto> \<lparr>shardID = sid, owner = host, rangeID = rangeID cur + 1\<rparr>))"
  using assms
  by (simp add: AcquireShard_def GetShardInfo_def acquireWithToken_def UpdateShardInfo_def)

text \<open>
  Claim C4. An acquire with a token other than the stored \<^verbatim>\<open>rangeID\<close> fails with a fencing
  error, and an acquire that reads the latest token succeeds and raises the \<^verbatim>\<open>rangeID\<close> by
  one. After a successful acquire every conditional write for the shard that expects the
  old token is rejected. However the reads and writes of any hosts interleave, no two grants
  carry the same \<^verbatim>\<open>rangeID\<close>, so a \<^verbatim>\<open>rangeID\<close> has at most one owner; when two hosts read the
  same token, the first to write back is granted the shard and the other is not.
\<close>

theorem fencing_one_owner_per_rangeID:
  "(st sid = Some cur \<and> stale \<noteq> rangeID cur \<longrightarrow>
      acquireWithToken st host sid stale = Inl ShardOwnershipLost)
 \<and> (st sid = Some cur \<longrightarrow>
      AcquireShard st host sid
        = Inr (st(sid \<mapsto> \<lparr>shardID = sid, owner = host, rangeID = rangeID cur + 1\<rparr>)))
 \<and> (acquireWithToken st host sid latest = Inr st' \<and> shardID info = sid \<longrightarrow>
      UpdateShardInfo st' info latest = Inl ShardOwnershipLost)
 \<and> (grants c = [] \<longrightarrow> distinct (map snd (grants (contest ss c))))
 \<and> (grants c = [] \<and> (a, r) \<in> set (grants (contest ss c))
      \<and> (b, r) \<in> set (grants (contest ss c)) \<longrightarrow> a = b)
 \<and> (store c (shard c) = Some held \<and> a \<noteq> b \<longrightarrow>
      grants (contest [ReadToken a, ReadToken b, WriteBack a, WriteBack b] c)
        = (a, rangeID held + 1) # grants c)"
proof (intro conjI impI)
  assume "st sid = Some cur \<and> stale \<noteq> rangeID cur"
  then have "st sid = Some cur" and "stale \<noteq> rangeID cur" by simp_all
  then show "acquireWithToken st host sid stale = Inl ShardOwnershipLost"
    by (rule acquire_stale_token)
next
  assume "st sid = Some cur"
  then show "AcquireShard st host sid
        = Inr (st(sid \<mapsto> \<lparr>shardID = sid, owner = host, rangeID = rangeID cur + 1\<rparr>))"
    by (rule AcquireShard_latest)
next
  assume "acquireWithToken st host sid latest = Inr st' \<and> shardID info = sid"
  then have "acquireWithToken st host sid latest = Inr st'" and "shardID info = sid"
    by simp_all
  then show "UpdateShardInfo st' info latest = Inl ShardOwnershipLost"
    by (rule write_after_acquire_rejected)
next
  assume e: "grants c = []"
  have "sorted_wrt (>) (map snd (grants (contest ss c)))"
  proof (rule contest_grants)
    show "\<forall>g \<in> set (grants c). \<exists>cur. store c (shard c) = Some cur \<and> snd g \<le> rangeID cur"
      using e by simp
    show "sorted_wrt (>) (map snd (grants c))" using e by simp
  qed
  then show "distinct (map snd (grants (contest ss c)))" by (rule decreasing_distinct)
next
  assume a: "grants c = [] \<and> (a, r) \<in> set (grants (contest ss c))
      \<and> (b, r) \<in> set (grants (contest ss c))"
  then have e: "grants c = []" by simp
  have "sorted_wrt (>) (map snd (grants (contest ss c)))"
  proof (rule contest_grants)
    show "\<forall>g \<in> set (grants c). \<exists>cur. store c (shard c) = Some cur \<and> snd g \<le> rangeID cur"
      using e by simp
    show "sorted_wrt (>) (map snd (grants c))" using e by simp
  qed
  then have d: "distinct (map snd (grants (contest ss c)))" by (rule decreasing_distinct)
  from a have "(a, r) \<in> set (grants (contest ss c))"
    and "(b, r) \<in> set (grants (contest ss c))" by simp_all
  with d show "a = b" by (rule one_owner_per_rangeID)
next
  assume "store c (shard c) = Some held \<and> a \<noteq> b"
  then have "store c (shard c) = Some held" and "a \<noteq> b" by simp_all
  then show "grants (contest [ReadToken a, ReadToken b, WriteBack a, WriteBack b] c)
        = (a, rangeID held + 1) # grants c"
    by (rule two_hosts(1))
qed

theorem fencing_one_owner_per_rangeID_witness:
  "(let info = \<lparr>shardID = 7, owner = ''host-a'', rangeID = 10\<rparr>;
        st = [7 \<mapsto> info];
        st' = [7 \<mapsto> \<lparr>shardID = 7, owner = ''host-b'', rangeID = 11\<rparr>];
        c = \<lparr>store = st, shard = 7, tokens = Map.empty, grants = []\<rparr>;
        ss = [ReadToken ''host-b'', ReadToken ''host-c'', WriteBack ''host-b'',
              WriteBack ''host-c'']
    in st 7 = Some info \<and> 9 \<noteq> rangeID info
     \<and> acquireWithToken st ''host-b'' 7 9 = Inl ShardOwnershipLost
     \<and> AcquireShard st ''host-b'' 7 = Inr st'
     \<and> acquireWithToken st ''host-b'' 7 10 = Inr st'
     \<and> UpdateShardInfo st' (info\<lparr>rangeID := 11\<rparr>) 10 = Inl ShardOwnershipLost
     \<and> grants (contest ss c) = [(''host-b'', 11)]
     \<and> distinct (map snd (grants (contest ss c))))"
proof -
  define info where "info = \<lparr>shardID = 7, owner = ''host-a'', rangeID = 10\<rparr>"
  define st where "st = [(7::int) \<mapsto> info]"
  define st' where "st' = [(7::int) \<mapsto> \<lparr>shardID = 7, owner = ''host-b'', rangeID = 11\<rparr>]"
  define c where "c = \<lparr>store = st, shard = 7, tokens = Map.empty, grants = []\<rparr>"
  define ss where "ss = [ReadToken ''host-b'', ReadToken ''host-c'', WriteBack ''host-b'',
              WriteBack ''host-c'']"
  have h1: "st 7 = Some info" and h2: "9 \<noteq> rangeID info"
    by (simp_all add: st_def info_def)
  have h3: "acquireWithToken st ''host-b'' 7 10 = Inr st'"
    by (simp add: acquireWithToken_def UpdateShardInfo_def st_def st'_def info_def)
  have h4: "shardID (info\<lparr>rangeID := 11\<rparr>) = 7" by (simp add: info_def)
  have h5: "grants c = []" and h6: "store c (shard c) = Some info"
    by (simp_all add: c_def st_def)
  have h7: "''host-b'' \<noteq> ''host-c''" by simp
  note inst = fencing_one_owner_per_rangeID [where st = st and sid = 7 and cur = info
      and stale = 9 and host = "''host-b''" and latest = 10 and st' = st'
      and info = "info\<lparr>rangeID := 11\<rparr>" and c = c and ss = ss and held = info
      and a = "''host-b''" and b = "''host-c''"]
  have r1: "acquireWithToken st ''host-b'' 7 9 = Inl ShardOwnershipLost"
    by (rule inst [THEN conjunct1, THEN mp]) (simp add: h1 h2)
  have "AcquireShard st ''host-b'' 7
        = Inr (st(7 \<mapsto> \<lparr>shardID = 7, owner = ''host-b'', rangeID = rangeID info + 1\<rparr>))"
    by (rule inst [THEN conjunct2, THEN conjunct1, THEN mp]) (rule h1)
  then have r2: "AcquireShard st ''host-b'' 7 = Inr st'"
    by (simp add: st_def st'_def info_def)
  have r3: "UpdateShardInfo st' (info\<lparr>rangeID := 11\<rparr>) 10 = Inl ShardOwnershipLost"
    by (rule inst [THEN conjunct2, THEN conjunct2, THEN conjunct1, THEN mp])
       (simp add: h3 h4)
  have r4: "distinct (map snd (grants (contest ss c)))"
    by (rule inst [THEN conjunct2, THEN conjunct2, THEN conjunct2, THEN conjunct1, THEN mp])
       (rule h5)
  have "grants (contest [ReadToken ''host-b'', ReadToken ''host-c'', WriteBack ''host-b'',
              WriteBack ''host-c''] c) = (''host-b'', rangeID info + 1) # grants c"
    by (rule inst [THEN conjunct2, THEN conjunct2, THEN conjunct2, THEN conjunct2,
                   THEN conjunct2, THEN mp])
       (simp add: h6)
  then have r5: "grants (contest ss c) = [(''host-b'', 11)]"
    using h5 by (simp add: info_def ss_def)
  show ?thesis
    unfolding Let_def
    using h1 h2 r1 r2 h3 r3 r5 r4
    unfolding info_def st_def st'_def c_def ss_def
    by (intro conjI)
qed


end
